(* ===== verification/Prelude.thy ===== *)
theory Prelude
  imports Main "HOL-Library.Word"
begin

text \<open>
  What every theory of the development shares: the machine integers of the C
  code, the outcome type that makes undefined behaviour and blocking a value,
  little-endian byte images of words, and reads and writes of a byte array at an
  offset.  The lemma collections \<open>field_at\<close> (where a field of a message structure
  lies) and \<open>wf_intros\<close> (preservation of the components' invariants) are filled
  by the component theories.
\<close>

unbundle bit_operations_syntax

named_theorems field_at "offset and size of a field of a message structure"
named_theorems wf_intros "operations preserve the invariants of their component"

section \<open>Machine integers\<close>

type_synonym u8 = "8 word"
type_synonym u16 = "16 word"
type_synonym u32 = "32 word"
type_synonym u64 = "64 word"

text \<open>\<open>size_t\<close> on the 64-bit targets the agent is built for.\<close>

type_synonym size_t = "64 word"

lemma unat_less_bound [simp]:
  "unat (w :: u8) < 256" "unat (w' :: u16) < 65536" "unat (w'' :: u32) < 4294967296"
  using unsigned_less [of w] unsigned_less [of w'] unsigned_less [of w''] by simp_all

lemma unat_ucast_u32_u64 [simp]: "unat (ucast (w :: u32) :: u64) = unat w"
  using unat_less_bound(3) [of w] by (simp add: unsigned_ucast_eq take_bit_nat_eq_self del: unat_less_bound)

section \<open>Outcomes\<close>

text \<open>
  A C function either returns (\<open>Inr\<close>, with its result and the state it leaves) or
  gets stuck: it reads or writes outside an object, follows a null, dangling or
  uninitialised pointer, frees something that is not a heap block, overflows a
  signed integer, or waits for ever.
\<close>

datatype stuck =
    Out_Of_Bounds
  | Null_Deref
  | Dangling_Pointer
  | Wild_Pointer
  | Bad_Free
  | Signed_Overflow
  | Blocked

type_synonym 'a outcome = "stuck + 'a"

definition bind_o :: "'a outcome \<Rightarrow> ('a \<Rightarrow> 'b outcome) \<Rightarrow> 'b outcome" where
  "bind_o m k = (case m of Inl f \<Rightarrow> Inl f | Inr x \<Rightarrow> k x)"

lemma bind_o_simps [simp]:
  "bind_o (Inl f) k = Inl f"
  "bind_o (Inr x) k = k x"
  by (simp_all add: bind_o_def)

lemma bind_o_eq_Inr:
  "bind_o m k = Inr y \<longleftrightarrow> (\<exists>x. m = Inr x \<and> k x = Inr y)"
  by (cases m) simp_all

lemma bind_o_eq_Inl:
  "bind_o m k = Inl f \<longleftrightarrow> m = Inl f \<or> (\<exists>x. m = Inr x \<and> k x = Inl f)"
  by (cases m) simp_all

lemma bind_o_InrE [elim!]:
  assumes "bind_o m k = Inr y"
  obtains x where "m = Inr x" "k x = Inr y"
  using assms by (auto simp: bind_o_eq_Inr)

lemma bind_o_assoc: "bind_o (bind_o m k) l = bind_o m (\<lambda>x. bind_o (k x) l)"
  by (cases m) simp_all

text \<open>\<open>returns m\<close>: the computation does not get stuck.\<close>

definition returns :: "'a outcome \<Rightarrow> bool" where
  "returns m = (case m of Inl f \<Rightarrow> False | Inr x \<Rightarrow> True)"

lemma returns_simps [simp]: "returns (Inr x)" "\<not> returns (Inl f)"
  by (simp_all add: returns_def)

lemma returns_iff: "returns m \<longleftrightarrow> (\<exists>x. m = Inr x)"
  by (cases m) simp_all

lemma returns_bind_o:
  "returns (bind_o m k) \<longleftrightarrow> (\<exists>x. m = Inr x \<and> returns (k x))"
  by (cases m) simp_all

section \<open>Byte images of words\<close>

text \<open>
  The agent is built with the kernel's \<open>linux/byteorder/little_endian.h\<close>, so its
  byte order conversions are the identity and a word in memory is the list of its
  bytes, least significant first.
\<close>

fun le_bytes :: "nat \<Rightarrow> 'a::len word \<Rightarrow> u8 list" where
  "le_bytes 0 w = []"
| "le_bytes (Suc n) w = ucast w # le_bytes n (drop_bit 8 w)"

fun le_val :: "u8 list \<Rightarrow> 'a::len word" where
  "le_val [] = 0"
| "le_val (b # bs) = ucast b OR push_bit 8 (le_val bs)"

lemma length_le_bytes [simp]: "length (le_bytes n w) = n"
  by (induction n arbitrary: w) simp_all

lemma le_val_le_bytes: "le_val (le_bytes n w) = take_bit (8 * n) w"
proof (induction n arbitrary: w)
  case (Suc n)
  show ?case by (rule bit_eqI) (auto simp: Suc bit_simps)
qed simp

lemma le_val_le_bytes_id [simp]:
  "le_val (le_bytes 2 (w :: u16)) = w"
  "le_val (le_bytes 4 (w' :: u32)) = w'"
  "le_val (le_bytes 8 (w'' :: u64)) = w''"
  by (simp_all add: le_val_le_bytes take_bit_word_eq_self)

lemma ucast_low_byte:
  assumes "8 \<le> LENGTH('a::len)"
  shows "ucast (ucast (b :: u8) OR push_bit 8 (w :: 'a word)) = b"
  by (rule bit_word_eqI) (use assms in \<open>auto simp: bit_simps\<close>)

lemma drop_bit_low_byte:
  assumes "length bs + 8 \<le> LENGTH('a::len)" "\<And>i. bit (w :: 'a word) i \<Longrightarrow> i + 8 < LENGTH('a)"
  shows "drop_bit 8 (ucast (b :: u8) OR push_bit 8 w) = w"
proof (rule bit_word_eqI)
  fix i
  assume "i < LENGTH('a)"
  have "\<not> bit b (i + 8)"
    using bit_imp_le_length [of b "i + 8"] by auto
  then show "bit (drop_bit 8 (ucast b OR push_bit 8 w)) i = bit w i"
    using assms(2) [of i] by (auto simp: bit_simps add.commute)
qed

lemma bit_le_val_less:
  assumes "bit (le_val bs :: 'a::len word) i"
  shows "i < 8 * length bs"
  using assms
proof (induction bs arbitrary: i)
  case (Cons b bs)
  then consider "bit b i" | "8 \<le> i" "bit (le_val bs :: 'a word) (i - 8)"
    by (auto simp: bit_simps)
  then show ?case
  proof cases
    case 1
    then have "i < 8" using bit_imp_le_length [of b i] by simp
    then show ?thesis by simp
  next
    case 2
    with Cons.IH [of "i - 8"] show ?thesis by simp
  qed
qed simp

lemma le_bytes_le_val:
  assumes "length bs = n" "8 * n \<le> LENGTH('a::len)"
  shows "le_bytes n (le_val bs :: 'a word) = bs"
  using assms
proof (induction bs arbitrary: n)
  case (Cons b bs)
  then obtain m where n: "n = Suc m" and m: "length bs = m" by auto
  have bound: "i + 8 < LENGTH('a)" if "bit (le_val bs :: 'a word) i" for i
    using bit_le_val_less [OF that] Cons.prems by (simp add: n)
  have "drop_bit 8 (ucast b OR push_bit 8 (le_val bs :: 'a word)) = le_val bs"
    by (rule drop_bit_low_byte [where bs = "[]"]) (use Cons.prems bound in auto)
  moreover have "le_bytes m (le_val bs :: 'a word) = bs"
    by (rule Cons.IH [OF m]) (use Cons.prems in \<open>simp add: n\<close>)
  ultimately show ?case
    using Cons.prems by (simp add: n ucast_low_byte)
qed simp

section \<open>Byte arrays\<close>

text \<open>\<open>slice off n xs\<close>: the \<open>n\<close> bytes at \<open>off\<close>; \<open>patch off ys xs\<close>: \<open>xs\<close> with \<open>ys\<close> stored at \<open>off\<close>.\<close>

definition slice :: "nat \<Rightarrow> nat \<Rightarrow> 'a list \<Rightarrow> 'a list" where
  "slice off n xs = take n (drop off xs)"

definition patch :: "nat \<Rightarrow> 'a list \<Rightarrow> 'a list \<Rightarrow> 'a list" where
  "patch off ys xs = take off xs @ ys @ drop (off + length ys) xs"

lemma length_slice [simp]: "off + n \<le> length xs \<Longrightarrow> length (slice off n xs) = n"
  by (simp add: slice_def)

lemma length_patch [simp]: "off + length ys \<le> length xs \<Longrightarrow> length (patch off ys xs) = length xs"
  by (simp add: patch_def)

lemma patch_Nil [simp]: "patch off [] xs = xs"
  by (simp add: patch_def)

lemma slice_patch_same:
  "off + length ys \<le> length xs \<Longrightarrow> n = length ys \<Longrightarrow> slice off n (patch off ys xs) = ys"
  by (simp add: slice_def patch_def)

lemma slice_patch_before:
  "n + m \<le> off \<Longrightarrow> off \<le> length xs \<Longrightarrow> slice n m (patch off ys xs) = slice n m xs"
  by (auto simp: slice_def patch_def drop_take min_def)

lemma slice_patch_after:
  "off + length ys \<le> n \<Longrightarrow> off + length ys \<le> length xs \<Longrightarrow>
   slice n m (patch off ys xs) = slice n m xs"
  by (simp add: slice_def patch_def)

lemma patch_patch_adjacent:
  assumes "off + length ys + length zs \<le> length xs"
  shows "patch (off + length ys) zs (patch off ys xs) = patch off (ys @ zs) xs"
  using assms by (simp add: patch_def ac_simps)

lemma take_patch_end:
  "off \<le> length xs \<Longrightarrow> n = off + length ys \<Longrightarrow> take n (patch off ys xs) = take off xs @ ys"
  by (simp add: patch_def)

lemma patch_0: "patch 0 ys xs = ys @ drop (length ys) xs"
  by (simp add: patch_def)

lemma patch_append: "length xs \<le> off \<Longrightarrow> patch off ys (xs @ zs) = xs @ patch (off - length xs) ys zs"
  by (simp add: patch_def)

lemma slice_append_take:
  "n \<le> length xs \<Longrightarrow> take n xs @ slice n m xs = take (n + m) xs"
  by (simp add: slice_def take_add)

text \<open>Reading an \<open>n\<close>-byte integer at an offset of an object.\<close>

definition rd :: "nat \<Rightarrow> nat \<Rightarrow> u8 list \<Rightarrow> 'a::len word outcome" where
  "rd off n bs = (if off + n \<le> length bs then Inr (le_val (slice off n bs)) else Inl Out_Of_Bounds)"

lemma rd_in_bounds [simp]: "off + n \<le> length bs \<Longrightarrow> rd off n bs = Inr (le_val (slice off n bs))"
  by (simp add: rd_def)

section \<open>Return codes (\<open>saiagent.h\<close>)\<close>

text \<open>
  \<open>saiagent_rc_t\<close> is an unsigned 32-bit enumeration.  The registration functions \<open>|=\<close>
  codes together, starting from a local that was never assigned, so the type holds any word.
\<close>

type_synonym saiagent_rc_t = u32

abbreviation (input) RC_STATUS_OK :: saiagent_rc_t where "RC_STATUS_OK \<equiv> 0"
abbreviation (input) RC_STATUS_ERR :: saiagent_rc_t where "RC_STATUS_ERR \<equiv> 1"
abbreviation (input) RC_STATUS_NOT_SUPP :: saiagent_rc_t where "RC_STATUS_NOT_SUPP \<equiv> 2"

end
