(* ===== verification/Saiagent_Msg.thy ===== *)
theory Saiagent_Msg
  imports Prelude
begin

text \<open>
  The message buffer of \<open>saiagent_msg.h\<close> and \<open>saiagent_msg.c\<close>: a byte buffer that is
  written at its end (\<open>payload_size\<close>) and read from a cursor (\<open>tail\<close>), in steps of 32-bit
  words.  The operations are proved total and exact for sizes that are a multiple of
  four, a first-in first-out channel of 32-bit words (locale \<open>word_channel\<close>), and out of
  bounds for every other size.
\<close>

section \<open>The buffer and its operations\<close>

text \<open>
  \<open>buff = None\<close> is a null pointer; \<open>tail\<close> is the offset of the read cursor in \<open>buff\<close>,
  \<open>None\<close> for a null pointer.
\<close>

record saiagent_msg =
  buff :: "u8 list option"
  msg_size :: size_t
  payload_size :: size_t
  tail :: "size_t option"

abbreviation (input) SAIAGENT_MSG_MAX_SIZE :: nat where "SAIAGENT_MSG_MAX_SIZE \<equiv> 1500"

text \<open>
  The mask \<open>~(SAIAGENT_MSG_ALIGNTO - 1)\<close> is computed on \<open>unsigned int\<close>, 32 bits wide,
  and extended with zeros to the width of the size.
\<close>

definition SAIAGENT_MSG_PADSIZE :: "size_t \<Rightarrow> size_t" where
  "SAIAGENT_MSG_PADSIZE n = (n + 4 - 1) AND ucast (NOT (4 - 1 :: u32))"

text \<open>The two copy loops: word accesses at an offset of an object, counting the size down by 4.\<close>

function saiagent_buf_copy32 :: "u8 list \<Rightarrow> nat \<Rightarrow> u8 list \<Rightarrow> nat \<Rightarrow> size_t \<Rightarrow> u8 list outcome" where
  "saiagent_buf_copy32 dst d src s n =
     (if n = 0 then Inr dst
      else if s + 4 \<le> length src \<and> d + 4 \<le> length dst
      then saiagent_buf_copy32 (patch d (slice s 4 src) dst) (d + 4) src (s + 4) (n - 4)
      else Inl Out_Of_Bounds)"
  by pat_completeness auto
termination
  by (relation "measure (\<lambda>(dst, d, src, s, n). length src - s)") auto

function saiagent_buf_clear32 :: "u8 list \<Rightarrow> nat \<Rightarrow> size_t \<Rightarrow> u8 list outcome" where
  "saiagent_buf_clear32 dst d n =
     (if n = 0 then Inr dst
      else if d + 4 \<le> length dst
      then saiagent_buf_clear32 (patch d [0, 0, 0, 0] dst) (d + 4) (n - 4)
      else Inl Out_Of_Bounds)"
  by pat_completeness auto
termination
  by (relation "measure (\<lambda>(dst, d, n). length dst - d)") auto

declare saiagent_buf_copy32.simps [simp del] saiagent_buf_clear32.simps [simp del]

definition saiagent_msg_put_data :: "saiagent_msg \<Rightarrow> u8 list \<Rightarrow> size_t \<Rightarrow> (saiagent_rc_t \<times> saiagent_msg) outcome" where
  "saiagent_msg_put_data msg data n =
     (let total_size = SAIAGENT_MSG_PADSIZE n; pad_size = total_size - n in
      case buff msg of
        None \<Rightarrow> Inr (RC_STATUS_ERR, msg)
      | Some b \<Rightarrow>
          if total_size > msg_size msg - payload_size msg then Inr (RC_STATUS_ERR, msg)
          else
            bind_o (saiagent_buf_copy32 b (unat (payload_size msg)) data 0 n) (\<lambda>b.
            bind_o (saiagent_buf_clear32 b (unat (payload_size msg) + unat n) pad_size) (\<lambda>b.
              Inr (RC_STATUS_OK,
                   msg\<lparr>buff := Some b, payload_size := payload_size msg + total_size\<rparr>))))"

text \<open>\<open>data\<close> is the object the result goes to; it is returned with its new content.\<close>

definition saiagent_msg_get_data :: "saiagent_msg \<Rightarrow> u8 list \<Rightarrow> size_t \<Rightarrow> (saiagent_rc_t \<times> u8 list \<times> saiagent_msg) outcome" where
  "saiagent_msg_get_data msg data n =
     (let total_size = SAIAGENT_MSG_PADSIZE n in
      if payload_size msg = 0 then Inr (RC_STATUS_ERR, data, msg)
      else
        let src = (case tail msg of Some t \<Rightarrow> t | None \<Rightarrow> 0) in
        if payload_size msg < src + total_size then Inr (RC_STATUS_ERR, data, msg)
        else
          case buff msg of
            None \<Rightarrow> Inl Null_Deref
          | Some b \<Rightarrow>
              bind_o (saiagent_buf_copy32 data 0 b (unat src) n) (\<lambda>data.
                Inr (RC_STATUS_OK, data, msg\<lparr>tail := Some (src + total_size)\<rparr>)))"

definition saiagent_msg_type_set :: "saiagent_msg \<Rightarrow> u32 \<Rightarrow> (saiagent_rc_t \<times> saiagent_msg) outcome" where
  "saiagent_msg_type_set msg type = saiagent_msg_put_data msg (le_bytes 4 type) 4"

definition saiagent_msg_put_u8 :: "saiagent_msg \<Rightarrow> u8 \<Rightarrow> (saiagent_rc_t \<times> saiagent_msg) outcome" where
  "saiagent_msg_put_u8 msg val = saiagent_msg_put_data msg [val] 1"

definition saiagent_msg_put_u16 :: "saiagent_msg \<Rightarrow> u16 \<Rightarrow> (saiagent_rc_t \<times> saiagent_msg) outcome" where
  "saiagent_msg_put_u16 msg val = saiagent_msg_put_data msg (le_bytes 2 val) 2"

definition saiagent_msg_put_u32 :: "saiagent_msg \<Rightarrow> u32 \<Rightarrow> (saiagent_rc_t \<times> saiagent_msg) outcome" where
  "saiagent_msg_put_u32 msg val = saiagent_msg_put_data msg (le_bytes 4 val) 4"

text \<open>The readers get the old value of the variable they fill and return its new one.\<close>

definition get_word :: "nat \<Rightarrow> size_t \<Rightarrow> saiagent_msg \<Rightarrow> 'a::len word \<Rightarrow> (saiagent_rc_t \<times> 'a word \<times> saiagent_msg) outcome" where
  "get_word k n msg old =
     bind_o (saiagent_msg_get_data msg (le_bytes k old) n)
       (\<lambda>(rc, data, msg). Inr (rc, le_val data, msg))"

definition saiagent_msg_type_get :: "saiagent_msg \<Rightarrow> u32 \<Rightarrow> (saiagent_rc_t \<times> u32 \<times> saiagent_msg) outcome" where
  "saiagent_msg_type_get = get_word 4 4"

definition saiagent_msg_get_u8 :: "saiagent_msg \<Rightarrow> u8 \<Rightarrow> (saiagent_rc_t \<times> u8 \<times> saiagent_msg) outcome" where
  "saiagent_msg_get_u8 = get_word 1 1"

definition saiagent_msg_get_u16 :: "saiagent_msg \<Rightarrow> u16 \<Rightarrow> (saiagent_rc_t \<times> u16 \<times> saiagent_msg) outcome" where
  "saiagent_msg_get_u16 = get_word 2 2"

definition saiagent_msg_get_u32 :: "saiagent_msg \<Rightarrow> u32 \<Rightarrow> (saiagent_rc_t \<times> u32 \<times> saiagent_msg) outcome" where
  "saiagent_msg_get_u32 = get_word 4 4"

definition saiagent_msg_put_event :: "saiagent_msg \<Rightarrow> u32 \<Rightarrow> u32 \<Rightarrow> (saiagent_rc_t \<times> saiagent_msg) outcome" where
  "saiagent_msg_put_event msg type evt_id =
     bind_o (saiagent_msg_put_u32 msg type) (\<lambda>(err, msg).
       if err \<noteq> 0 then Inr (err, msg) else saiagent_msg_put_u32 msg evt_id)"

definition saiagent_msg_clear :: "saiagent_msg \<Rightarrow> saiagent_msg" where
  "saiagent_msg_clear msg = msg\<lparr>payload_size := 0, tail := None\<rparr>"

text \<open>
  \<open>struct_ok\<close>: the first \<open>malloc\<close> succeeds; \<open>mem\<close>: what the second one returns, a block
  with arbitrary content or null.
\<close>

definition saiagent_msg_create :: "bool \<Rightarrow> u8 list option \<Rightarrow> u32 \<Rightarrow> saiagent_msg option outcome" where
  "saiagent_msg_create struct_ok mem type =
     (if \<not> struct_ok then Inr None
      else case mem of
        None \<Rightarrow> Inr None
      | Some b \<Rightarrow>
          bind_o (saiagent_msg_type_set
                    \<lparr>buff = Some b, msg_size = of_nat SAIAGENT_MSG_MAX_SIZE, payload_size = 0, tail = None\<rparr>
                    type)
            (\<lambda>(rc, msg). Inr (Some msg)))"

definition saiagent_msg_free :: "saiagent_msg option \<Rightarrow> saiagent_msg option outcome" where
  "saiagent_msg_free p = (case p of None \<Rightarrow> Inl Null_Deref | Some msg \<Rightarrow> Inr None)"

section \<open>The copy loops\<close>

lemma dvd_4_uint: "4 dvd unat (n :: size_t) \<longleftrightarrow> 4 dvd uint n"
proof -
  have "uint n = int (unat n)" by simp
  then show ?thesis by presburger
qed

lemma dvd_4_minus: "4 dvd unat (n - 4 :: size_t) \<longleftrightarrow> 4 dvd unat n"
proof -
  have "uint (n - 4) = (uint n - 4) mod 2 ^ 64"
    by (simp add: uint_word_ariths)
  moreover have "4 dvd (uint n - 4) mod 2 ^ 64 \<longleftrightarrow> 4 dvd uint n - 4"
    by (rule dvd_mod_iff) simp
  moreover have "4 dvd uint n - 4 \<longleftrightarrow> 4 dvd uint n"
    by presburger
  ultimately show ?thesis by (simp add: dvd_4_uint)
qed

lemma unat_minus_4:
  assumes "unat (n :: size_t) = Suc k * 4"
  shows "unat (n - 4) = k * 4"
proof -
  have "4 \<le> n" using assms by (simp add: word_le_nat_alt)
  then have "unat (n - 4) = unat n - 4" by (simp add: unat_sub)
  with assms show ?thesis by simp
qed

lemma copy32_aligned:
  assumes "4 dvd unat n" "s + unat n \<le> length src" "d + unat n \<le> length dst"
  shows "saiagent_buf_copy32 dst d src s n = Inr (patch d (slice s (unat n) src) dst)"
proof -
  from assms(1) obtain k where "unat n = k * 4" by (auto simp: dvd_def mult.commute)
  with assms(2,3) show ?thesis
  proof (induction k arbitrary: dst d s n)
    case 0
    then have "n = 0" by (simp add: unat_eq_zero)
    then show ?case
      by (subst saiagent_buf_copy32.simps) (simp add: slice_def)
  next
    case (Suc k)
    have n: "n \<noteq> 0" "unat (n - 4) = k * 4"
      using Suc.prems(3) unat_minus_4 [OF Suc.prems(3)] by auto
    have len: "length (slice s 4 src) = 4" using Suc.prems by simp
    have "saiagent_buf_copy32 dst d src s n =
        saiagent_buf_copy32 (patch d (slice s 4 src) dst) (d + 4) src (s + 4) (n - 4)"
      using Suc.prems n by (subst saiagent_buf_copy32.simps) simp
    also have "\<dots> = Inr (patch (d + 4) (slice (s + 4) (k * 4) src) (patch d (slice s 4 src) dst))"
      using Suc.IH [of "s + 4" "n - 4" "d + 4" "patch d (slice s 4 src) dst"] Suc.prems n len
      by (simp add: length_patch)
    also have "patch (d + 4) (slice (s + 4) (k * 4) src) (patch d (slice s 4 src) dst) =
        patch d (slice s 4 src @ slice (s + 4) (k * 4) src) dst"
      using patch_patch_adjacent [of d "slice s 4 src" "slice (s + 4) (k * 4) src" dst] Suc.prems len
      by simp
    also have "slice s 4 src @ slice (s + 4) (k * 4) src = slice s (unat n) src"
      using Suc.prems by (simp add: slice_def take_add drop_drop add.commute)
    finally show ?case .
  qed
qed

lemma copy32_unaligned:
  assumes "\<not> 4 dvd unat n"
  shows "saiagent_buf_copy32 dst d src s n = Inl Out_Of_Bounds"
  using assms
proof (induction dst d src s n rule: saiagent_buf_copy32.induct)
  case (1 dst d src s n)
  from 1(2) have n: "n \<noteq> 0" by auto
  from 1(2) have "\<not> 4 dvd unat (n - 4)" by (simp add: dvd_4_minus)
  with 1(1) n show ?case by (subst saiagent_buf_copy32.simps) simp
qed

lemma clear32_0 [simp]: "saiagent_buf_clear32 dst d 0 = Inr dst"
  by (subst saiagent_buf_clear32.simps) simp

section \<open>Padding\<close>

lemma padsize_bits: "SAIAGENT_MSG_PADSIZE n = push_bit 2 (drop_bit 2 (take_bit 32 (n + 3)))"
proof -
  have "NOT (4 - 1 :: u32) = NOT (mask 2)" by (simp add: mask_eq_exp_minus_1)
  then have "SAIAGENT_MSG_PADSIZE n = (n + 3) AND ucast (NOT (mask 2) :: u32)"
    by (simp add: SAIAGENT_MSG_PADSIZE_def add.commute [of 3 n])
  also have "\<dots> = push_bit 2 (drop_bit 2 (take_bit 32 (n + 3)))"
  proof (rule bit_word_eqI)
    fix i
    have "2 \<le> i \<Longrightarrow> Suc (Suc (i - 2)) = i" by simp
    then show "bit ((n + 3) AND ucast (NOT (mask 2) :: u32)) i =
        bit (push_bit 2 (drop_bit 2 (take_bit 32 (n + 3)))) i" if "i < LENGTH(64)"
      using that by (auto simp: bit_simps)
  qed
  finally show ?thesis .
qed

lemma unat_padsize:
  assumes "unat n + 3 < 2 ^ 32"
  shows "unat (SAIAGENT_MSG_PADSIZE n) = (unat n + 3) div 4 * 4"
proof -
  have x: "unat (n + 3) = unat n + 3"
    using assms by (simp add: unat_word_ariths)
  then have t: "take_bit 32 (n + 3) = n + 3"
    using assms by (intro word_unat_eq_iff [THEN iffD2]) (simp add: unsigned_take_bit_eq take_bit_nat_eq_self)
  have "take_bit 64 (unat n + 3) = unat n + 3"
    using assms by (simp add: take_bit_nat_eq_self)
  then have "unat (push_bit 2 (drop_bit 2 (n + 3))) = take_bit 64 (push_bit 2 (drop_bit 2 (unat n + 3)))"
    by (simp add: unsigned_push_bit_eq unsigned_drop_bit_eq x)
  also have "\<dots> = (unat n + 3) div 4 * 4"
    using assms by (simp add: push_bit_eq_mult drop_bit_eq_div take_bit_nat_eq_self)
  finally show ?thesis by (simp add: padsize_bits t)
qed

lemma padsize_aligned:
  assumes "4 dvd unat n" "unat n + 3 < 2 ^ 32"
  shows "SAIAGENT_MSG_PADSIZE n = n"
proof -
  from assms(1) obtain k where "unat n = 4 * k" ..
  then have "(unat n + 3) div 4 * 4 = unat n" by simp
  with unat_padsize [OF assms(2)] show ?thesis by (simp add: word_unat_eq_iff)
qed

section \<open>The invariant and the content of a message\<close>

text \<open>
  The invariant of the buffers the agent writes: the buffer is as large as the message
  says, and payload and cursor are whole words inside it.
\<close>

definition msg_ok :: "saiagent_msg \<Rightarrow> bool" where
  "msg_ok m \<longleftrightarrow>
     (\<exists>b. buff m = Some b \<and> unat (msg_size m) \<le> length b) \<and>
     unat (msg_size m) < 2 ^ 31 \<and>
     payload_size m \<le> msg_size m \<and> 4 dvd unat (payload_size m) \<and>
     (\<forall>t. tail m = Some t \<longrightarrow> t \<le> payload_size m \<and> 4 dvd unat t)"

definition written :: "saiagent_msg \<Rightarrow> u8 list" where
  "written m = (case buff m of None \<Rightarrow> [] | Some b \<Rightarrow> take (unat (payload_size m)) b)"

definition cursor :: "saiagent_msg \<Rightarrow> nat" where
  "cursor m = (case tail m of None \<Rightarrow> 0 | Some t \<Rightarrow> unat t)"

definition free_bytes :: "saiagent_msg \<Rightarrow> nat" where
  "free_bytes m = unat (msg_size m) - unat (payload_size m)"

lemma length_written: "msg_ok m \<Longrightarrow> length (written m) = unat (payload_size m)"
  by (auto simp: msg_ok_def written_def word_le_nat_alt)

lemma msg_ok_clear [wf_intros]: "msg_ok m \<Longrightarrow> msg_ok (saiagent_msg_clear m)"
  by (auto simp: msg_ok_def saiagent_msg_clear_def)

lemma written_clear [simp]: "written (saiagent_msg_clear m) = []"
  by (simp add: written_def saiagent_msg_clear_def split: option.splits)

lemma clear_sel [simp]:
  "msg_size (saiagent_msg_clear m) = msg_size m"
  "payload_size (saiagent_msg_clear m) = 0"
  "buff (saiagent_msg_clear m) = buff m"
  "tail (saiagent_msg_clear m) = None"
  by (simp_all add: saiagent_msg_clear_def)

text \<open>
  Writing a whole number of words: it succeeds exactly when they fit, appends them to
  the written part, and touches nothing else.
\<close>

lemma put_data_fits:
  assumes ok: "msg_ok m" and n: "4 dvd unat n" "unat n = length data" "length data \<le> free_bytes m"
  shows "\<exists>m'. saiagent_msg_put_data m data n = Inr (RC_STATUS_OK, m') \<and> msg_ok m' \<and>
      written m' = written m @ data \<and>
      payload_size m' = payload_size m + n \<and> msg_size m' = msg_size m \<and> tail m' = tail m \<and>
      buff m' = map_option (patch (unat (payload_size m)) data) (buff m)"
proof -
  from ok obtain b where b: "buff m = Some b" "unat (msg_size m) \<le> length b"
    and sz: "unat (msg_size m) < 2 ^ 31" "payload_size m \<le> msg_size m" "4 dvd unat (payload_size m)"
    and tl: "\<forall>t. tail m = Some t \<longrightarrow> t \<le> payload_size m \<and> 4 dvd unat t"
    by (auto simp: msg_ok_def)
  have fit: "unat (payload_size m) + unat n \<le> unat (msg_size m)"
    using n sz(2) by (simp add: free_bytes_def word_le_nat_alt)
  have sum: "unat (payload_size m + n) = unat (payload_size m) + unat n"
    using fit sz(1) by (simp add: unat_word_ariths)
  have pad: "SAIAGENT_MSG_PADSIZE n = n"
    using n fit sz(1) by (intro padsize_aligned) simp_all
  have room: "\<not> n > msg_size m - payload_size m"
    using n sz(2) by (simp add: word_less_nat_alt unat_sub free_bytes_def)
  let ?b = "patch (unat (payload_size m)) data b"
  have copy: "saiagent_buf_copy32 b (unat (payload_size m)) data 0 n = Inr ?b"
    using copy32_aligned [of n 0 data "unat (payload_size m)" b] n fit b(2)
    by (simp add: slice_def)
  let ?m = "m\<lparr>buff := Some ?b, payload_size := payload_size m + n\<rparr>"
  have "saiagent_msg_put_data m data n = Inr (RC_STATUS_OK, ?m)"
    using room by (simp add: saiagent_msg_put_data_def Let_def b pad copy)
  moreover have "msg_ok ?m"
    using fit b(2) sz tl n by (auto simp: msg_ok_def sum word_le_nat_alt)
  moreover have "written ?m = written m @ data"
    using fit b n(2) by (simp add: written_def sum take_patch_end)
  ultimately show ?thesis using b(1) by auto
qed

lemma put_data_full:
  assumes ok: "msg_ok m" and n: "4 dvd unat n" "unat n + 3 < 2 ^ 32" "free_bytes m < unat n"
  shows "saiagent_msg_put_data m data n = Inr (RC_STATUS_ERR, m)"
proof -
  have "n > msg_size m - payload_size m"
    using ok n(3) by (simp add: msg_ok_def word_less_nat_alt unat_sub free_bytes_def)
  moreover have "SAIAGENT_MSG_PADSIZE n = n" using n by (intro padsize_aligned)
  ultimately show ?thesis by (auto simp: saiagent_msg_put_data_def Let_def split: option.splits)
qed

text \<open>A size that is not a multiple of four runs the copy loop out of the objects.\<close>

lemma put_data_unaligned:
  assumes ok: "msg_ok m" and n: "\<not> 4 dvd unat n" "unat n + 3 < 2 ^ 32"
    and room: "(unat n + 3) div 4 * 4 \<le> free_bytes m"
  shows "saiagent_msg_put_data m data n = Inl Out_Of_Bounds"
proof -
  from ok obtain b where b: "buff m = Some b" by (auto simp: msg_ok_def)
  have "\<not> SAIAGENT_MSG_PADSIZE n > msg_size m - payload_size m"
    using ok room by (simp add: msg_ok_def word_less_nat_alt unat_sub unat_padsize [OF n(2)] free_bytes_def)
  with n(1) show ?thesis by (simp add: saiagent_msg_put_data_def Let_def b copy32_unaligned)
qed

text \<open>Reading a whole number of words.\<close>

lemma get_data_fits:
  assumes ok: "msg_ok m" and n: "4 dvd unat n" "0 < n" "unat n = length data"
    and avail: "cursor m + unat n \<le> unat (payload_size m)"
  shows "\<exists>m'. saiagent_msg_get_data m data n =
        Inr (RC_STATUS_OK, slice (cursor m) (unat n) (written m), m') \<and> msg_ok m' \<and>
      buff m' = buff m \<and> msg_size m' = msg_size m \<and> payload_size m' = payload_size m \<and>
      cursor m' = cursor m + unat n"
proof -
  from ok obtain b where b: "buff m = Some b" "unat (msg_size m) \<le> length b"
    and sz: "unat (msg_size m) < 2 ^ 31" "payload_size m \<le> msg_size m" "4 dvd unat (payload_size m)"
    and tl: "\<forall>t. tail m = Some t \<longrightarrow> t \<le> payload_size m \<and> 4 dvd unat t"
    by (auto simp: msg_ok_def)
  define t where "t = (case tail m of Some t \<Rightarrow> t | None \<Rightarrow> 0)"
  have t: "unat t = cursor m" "4 dvd unat t"
    using tl by (auto simp: t_def cursor_def split: option.splits)
  have psz: "unat (payload_size m) \<le> unat (msg_size m)" using sz(2) by (simp add: word_le_nat_alt)
  have pad: "SAIAGENT_MSG_PADSIZE n = n"
    using n avail psz sz(1) by (intro padsize_aligned) simp_all
  have sum: "unat (t + n) = unat t + unat n"
    using avail psz sz(1) t(1) by (simp add: unat_word_ariths)
  have pos: "payload_size m \<noteq> 0"
    using avail n(2) by (metis add_is_0 le_zero_eq unat_0 unat_eq_zero word_not_simps(1))
  have room: "\<not> payload_size m < t + n"
    using avail by (simp add: word_less_nat_alt sum t(1))
  have bounds: "unat t + unat n \<le> length b" using avail psz b(2) t(1) by simp
  have copy: "saiagent_buf_copy32 data 0 b (unat t) n = Inr (slice (unat t) (unat n) b)"
    using copy32_aligned [of n "unat t" b 0 data] n bounds by (simp add: patch_0)
  have sl: "slice (unat t) (unat n) b = slice (cursor m) (unat n) (written m)"
    using avail by (simp add: slice_def written_def b t(1) take_drop min_def)
  let ?m = "m\<lparr>tail := Some (t + n)\<rparr>"
  have "saiagent_msg_get_data m data n = Inr (RC_STATUS_OK, slice (cursor m) (unat n) (written m), ?m)"
    using pos room by (simp add: saiagent_msg_get_data_def Let_def b pad copy sl flip: t_def)
  moreover have "msg_ok ?m"
    using b sz n(1) t avail by (auto simp: msg_ok_def word_le_nat_alt sum)
  moreover have "cursor ?m = unat (t + n)" by (simp add: cursor_def)
  ultimately show ?thesis by (auto simp: sum t(1))
qed

lemma get_data_empty:
  assumes ok: "msg_ok m" and n: "4 dvd unat n" "unat n < 2 ^ 31"
    and avail: "unat (payload_size m) < cursor m + unat n"
  shows "saiagent_msg_get_data m data n = Inr (RC_STATUS_ERR, data, m)"
proof -
  define t where "t = (case tail m of Some t \<Rightarrow> t | None \<Rightarrow> 0)"
  have t: "unat t = cursor m" by (auto simp: t_def cursor_def split: option.splits)
  have "unat t \<le> unat (msg_size m)"
    using ok by (auto simp: t_def msg_ok_def word_le_nat_alt split: option.splits intro: order.trans)
  then have "unat (t + n) = unat t + unat n"
    using ok n(2) by (simp add: unat_word_ariths msg_ok_def)
  then have "payload_size m < t + n" using avail by (simp add: word_less_nat_alt t)
  moreover have "SAIAGENT_MSG_PADSIZE n = n" using n by (intro padsize_aligned) simp_all
  ultimately show ?thesis by (simp add: saiagent_msg_get_data_def Let_def flip: t_def)
qed

section \<open>The interface: a channel of 32-bit words\<close>

text \<open>Writing a list of words, stopping at the first error, and reading a number of words.\<close>

fun put_words :: "('m \<Rightarrow> u32 \<Rightarrow> (saiagent_rc_t \<times> 'm) outcome) \<Rightarrow> 'm \<Rightarrow> u32 list \<Rightarrow> (saiagent_rc_t \<times> 'm) outcome" where
  "put_words put m [] = Inr (RC_STATUS_OK, m)"
| "put_words put m (v # vs) =
     bind_o (put m v) (\<lambda>(rc, m). if rc \<noteq> RC_STATUS_OK then Inr (rc, m) else put_words put m vs)"

fun get_words :: "('m \<Rightarrow> u32 \<Rightarrow> (saiagent_rc_t \<times> u32 \<times> 'm) outcome) \<Rightarrow> 'm \<Rightarrow> nat \<Rightarrow> (saiagent_rc_t \<times> u32 list \<times> 'm) outcome" where
  "get_words get m 0 = Inr (RC_STATUS_OK, [], m)"
| "get_words get m (Suc k) =
     bind_o (get m 0) (\<lambda>(rc, v, m).
       if rc \<noteq> RC_STATUS_OK then Inr (rc, [], m)
       else bind_o (get_words get m k) (\<lambda>(rc, vs, m). Inr (rc, v # vs, m)))"

locale word_channel =
  fixes put :: "'m \<Rightarrow> u32 \<Rightarrow> (saiagent_rc_t \<times> 'm) outcome"
    and get :: "'m \<Rightarrow> u32 \<Rightarrow> (saiagent_rc_t \<times> u32 \<times> 'm) outcome"
    and inv :: "'m \<Rightarrow> bool"
    and queue :: "'m \<Rightarrow> u32 list"
    and room :: "'m \<Rightarrow> nat"
  assumes put_room: "inv m \<Longrightarrow> 0 < room m \<Longrightarrow>
      \<exists>m'. put m v = Inr (RC_STATUS_OK, m') \<and> inv m' \<and> queue m' = queue m @ [v] \<and> Suc (room m') = room m"
    and put_no_room: "inv m \<Longrightarrow> room m = 0 \<Longrightarrow> put m v = Inr (RC_STATUS_ERR, m)"
    and get_queue: "inv m \<Longrightarrow> queue m = v # q \<Longrightarrow>
      \<exists>m'. get m old = Inr (RC_STATUS_OK, v, m') \<and> inv m' \<and> queue m' = q \<and> room m' = room m"
    and get_no_queue: "inv m \<Longrightarrow> queue m = [] \<Longrightarrow> get m old = Inr (RC_STATUS_ERR, old, m)"
begin

lemma put_words_room:
  assumes "inv m" "length vs \<le> room m"
  shows "\<exists>m'. put_words put m vs = Inr (RC_STATUS_OK, m') \<and> inv m' \<and> queue m' = queue m @ vs \<and>
      room m' + length vs = room m"
  using assms
proof (induction vs arbitrary: m)
  case (Cons v vs)
  then obtain m1 where m1: "put m v = Inr (RC_STATUS_OK, m1)" "inv m1" "queue m1 = queue m @ [v]"
      "Suc (room m1) = room m"
    using put_room [of m v] by auto
  with Cons.IH [of m1] Cons.prems show ?case by fastforce
qed simp

lemma put_words_overflow:
  assumes "inv m" "room m < length vs"
  shows "\<exists>m'. put_words put m vs = Inr (RC_STATUS_ERR, m') \<and> inv m' \<and>
      queue m' = queue m @ take (room m) vs \<and> room m' = 0"
  using assms
proof (induction vs arbitrary: m)
  case (Cons v vs)
  show ?case
  proof (cases "room m")
    case 0
    with Cons.prems put_no_room [of m v] show ?thesis by simp
  next
    case (Suc r)
    with Cons.prems obtain m1 where m1: "put m v = Inr (RC_STATUS_OK, m1)" "inv m1"
        "queue m1 = queue m @ [v]" "room m1 = r"
      using put_room [of m v] by auto
    with Cons.IH [of m1] Cons.prems Suc show ?thesis by fastforce
  qed
qed simp

lemma get_words_queue:
  assumes "inv m" "queue m = vs @ q"
  shows "\<exists>m'. get_words get m (length vs) = Inr (RC_STATUS_OK, vs, m') \<and> inv m' \<and> queue m' = q"
  using assms
proof (induction vs arbitrary: m)
  case (Cons v vs)
  then obtain m1 where "get m 0 = Inr (RC_STATUS_OK, v, m1)" "inv m1" "queue m1 = vs @ q"
    using get_queue [of m v "vs @ q" 0] by auto
  with Cons.IH [of m1] show ?case by fastforce
qed simp

lemma words_roundtrip:
  assumes "inv m" "queue m = []" "length vs \<le> room m"
  shows "\<exists>m1 m2. put_words put m vs = Inr (RC_STATUS_OK, m1) \<and>
      get_words get m1 (length vs) = Inr (RC_STATUS_OK, vs, m2) \<and>
      get m2 old = Inr (RC_STATUS_ERR, old, m2)"
proof -
  obtain m1 where m1: "put_words put m vs = Inr (RC_STATUS_OK, m1)" "inv m1" "queue m1 = vs @ []"
    using put_words_room [OF assms(1,3)] assms(2) by auto
  obtain m2 where "get_words get m1 (length vs) = Inr (RC_STATUS_OK, vs, m2)" "inv m2" "queue m2 = []"
    using get_words_queue [OF m1(2,3)] by auto
  with m1(1) get_no_queue [of m2 old] show ?thesis by blast
qed

end

section \<open>The message buffer is such a channel\<close>

fun words_of :: "u8 list \<Rightarrow> u32 list" where
  "words_of (a # b # c # d # bs) = le_val [a, b, c, d] # words_of bs"
| "words_of bs = []"

definition msg_queue :: "saiagent_msg \<Rightarrow> u32 list" where
  "msg_queue m = words_of (drop (cursor m) (written m))"

definition msg_room :: "saiagent_msg \<Rightarrow> nat" where
  "msg_room m = free_bytes m div 4"

lemma dvd_4_Suc:
  "4 dvd Suc (Suc (Suc (Suc n))) \<longleftrightarrow> 4 dvd n"
  "\<not> 4 dvd Suc 0" "\<not> 4 dvd Suc (Suc 0)" "\<not> 4 dvd Suc (Suc (Suc 0))"
  by presburger+

lemma words_of_append:
  "4 dvd length xs \<Longrightarrow> words_of (xs @ ys) = words_of xs @ words_of ys"
  by (induction xs rule: words_of.induct) (simp_all add: dvd_4_Suc)

lemma words_of_le_bytes [simp]: "words_of (le_bytes 4 v @ bs) = v # words_of bs"
proof -
  have "le_bytes 4 v = [ucast v, ucast (drop_bit 8 v), ucast (drop_bit 8 (drop_bit 8 v)),
      ucast (drop_bit 8 (drop_bit 8 (drop_bit 8 v)))]"
    by (simp add: numeral_eq_Suc)
  moreover have "le_val (le_bytes 4 v) = v" by simp
  ultimately show ?thesis by (metis append_Cons append_Nil words_of.simps(1))
qed

lemma words_of_Cons:
  assumes "words_of bs = v # q" 
  shows "4 \<le> length bs \<and> le_val (take 4 bs) = v \<and> words_of (drop 4 bs) = q"
  using assms by (cases bs rule: words_of.cases) auto

lemma words_of_Nil: "words_of bs = [] \<Longrightarrow> length bs < 4"
  by (cases bs rule: words_of.cases) auto

lemma cursor_le: "msg_ok m \<Longrightarrow> cursor m \<le> unat (payload_size m) \<and> 4 dvd cursor m"
  by (auto simp: msg_ok_def cursor_def word_le_nat_alt split: option.splits)

interpretation chan: word_channel saiagent_msg_put_u32 saiagent_msg_get_u32 msg_ok msg_queue msg_room
proof unfold_locales
  fix m :: saiagent_msg and v :: u32
  assume ok: "msg_ok m" and room: "0 < msg_room m"
  then have "4 \<le> free_bytes m" by (simp add: msg_room_def div_greater_zero_iff)
  obtain m' where m': "saiagent_msg_put_data m (le_bytes 4 v) 4 = Inr (RC_STATUS_OK, m')" "msg_ok m'"
      "written m' = written m @ le_bytes 4 v" "payload_size m' = payload_size m + 4"
      "msg_size m' = msg_size m" "tail m' = tail m"
    using put_data_fits [OF ok, of 4 "le_bytes 4 v"] \<open>4 \<le> free_bytes m\<close> by auto
  have len: "unat (payload_size m') = unat (payload_size m) + 4"
    using length_written [OF m'(2)] length_written [OF ok] by (simp add: m'(3))
  have cur: "cursor m' = cursor m" by (simp add: cursor_def m'(6))
  have "4 dvd length (drop (cursor m) (written m))"
    using cursor_le [OF ok] ok by (simp add: length_written msg_ok_def)
  then have "msg_queue m' = msg_queue m @ [v]"
    using cursor_le [OF ok] words_of_le_bytes [of v "[]"]
    by (simp add: msg_queue_def m'(3) cur length_written [OF ok] words_of_append)
  moreover have "Suc (msg_room m') = msg_room m"
    using \<open>4 \<le> free_bytes m\<close> by (simp add: msg_room_def free_bytes_def m'(5) len)
  ultimately show "\<exists>m'. saiagent_msg_put_u32 m v = Inr (RC_STATUS_OK, m') \<and> msg_ok m' \<and>
      msg_queue m' = msg_queue m @ [v] \<and> Suc (msg_room m') = msg_room m"
    using m'(1,2) by (auto simp: saiagent_msg_put_u32_def)
next
  fix m :: saiagent_msg and v :: u32
  assume "msg_ok m" "msg_room m = 0"
  then show "saiagent_msg_put_u32 m v = Inr (RC_STATUS_ERR, m)"
    by (simp add: saiagent_msg_put_u32_def put_data_full msg_room_def)
next
  fix m :: saiagent_msg and v old :: u32 and q
  assume ok: "msg_ok m" and q: "msg_queue m = v # q"
  from words_of_Cons [OF q [unfolded msg_queue_def]]
  have w: "cursor m + 4 \<le> unat (payload_size m)" "le_val (take 4 (drop (cursor m) (written m))) = v"
      "words_of (drop 4 (drop (cursor m) (written m))) = q"
    using length_written [OF ok] by auto
  obtain m' where m': "saiagent_msg_get_data m (le_bytes 4 old) 4 =
        Inr (RC_STATUS_OK, slice (cursor m) 4 (written m), m')" "msg_ok m'" "buff m' = buff m"
      "msg_size m' = msg_size m" "payload_size m' = payload_size m" "cursor m' = cursor m + 4"
    using get_data_fits [OF ok, of 4 "le_bytes 4 old"] w(1) by auto
  have "written m' = written m" by (simp add: written_def m' cong: option.case_cong)
  then have "msg_queue m' = q" using w(3) by (simp add: msg_queue_def m'(6) add.commute)
  moreover have "saiagent_msg_get_u32 m old = Inr (RC_STATUS_OK, v, m')"
    using m'(1) w(2) by (simp add: saiagent_msg_get_u32_def get_word_def slice_def)
  moreover have "msg_room m' = msg_room m" by (simp add: msg_room_def free_bytes_def m')
  ultimately show "\<exists>m'. saiagent_msg_get_u32 m old = Inr (RC_STATUS_OK, v, m') \<and> msg_ok m' \<and>
      msg_queue m' = q \<and> msg_room m' = msg_room m"
    using m'(2) by auto
next
  fix m :: saiagent_msg and old :: u32
  assume ok: "msg_ok m" and q: "msg_queue m = []"
  from words_of_Nil [OF q [unfolded msg_queue_def]]
  have "unat (payload_size m) < cursor m + 4" using length_written [OF ok] by auto
  then show "saiagent_msg_get_u32 m old = Inr (RC_STATUS_ERR, old, m)"
    using get_data_empty [OF ok, of 4 "le_bytes 4 old"]
    by (simp add: saiagent_msg_get_u32_def get_word_def)
qed

section \<open>Properties\<close>

text \<open>
  C17. Writing \<open>n\<close> bytes, \<open>n\<close> a multiple of four, into a well-formed message succeeds exactly
  when they fit: the bytes are appended to the payload, everything else of the buffer is
  unchanged and the message stays well-formed; if they do not fit the call returns the
  error code and leaves the message as it was.
\<close>

theorem put_data_spec:
  assumes "msg_ok m" "4 dvd unat n" "unat n = length data" "length data < 2 ^ 31"
  shows "if length data \<le> free_bytes m
    then \<exists>b m'. buff m = Some b \<and> saiagent_msg_put_data m data n = Inr (RC_STATUS_OK, m') \<and>
        msg_ok m' \<and> written m' = written m @ data \<and> tail m' = tail m \<and>
        buff m' = Some (patch (unat (payload_size m)) data b)
    else saiagent_msg_put_data m data n = Inr (RC_STATUS_ERR, m)"
proof (cases "length data \<le> free_bytes m")
  case True
  moreover obtain b where "buff m = Some b" using assms(1) by (auto simp: msg_ok_def)
  ultimately show ?thesis using put_data_fits [OF assms(1-3)] by auto
next
  case False
  then show ?thesis using put_data_full [OF assms(1,2), of data] assms(3,4) by simp
qed

definition empty_msg :: "nat \<Rightarrow> saiagent_msg" where
  "empty_msg k = \<lparr>buff = Some (replicate k 0), msg_size = of_nat k, payload_size = 0, tail = None\<rparr>"

lemma msg_ok_empty_msg: "k < 2 ^ 31 \<Longrightarrow> msg_ok (empty_msg k)"
  by (simp add: msg_ok_def empty_msg_def unat_of_nat)

lemma free_bytes_empty_msg: "k < 2 ^ 31 \<Longrightarrow> free_bytes (empty_msg k) = k"
  by (simp add: free_bytes_def empty_msg_def unat_of_nat)

theorem put_data_spec_witness:
  "(\<exists>m'. saiagent_msg_put_data (empty_msg 8) [1, 2, 3, 4] 4 = Inr (RC_STATUS_OK, m') \<and>
      written m' = [1, 2, 3, 4]) \<and>
   saiagent_msg_put_data (empty_msg 2) [1, 2, 3, 4] 4 = Inr (RC_STATUS_ERR, empty_msg 2)"
  using put_data_spec [of "empty_msg 8" 4 "[1, 2, 3, 4]"] put_data_spec [of "empty_msg 2" 4 "[1, 2, 3, 4]"]
  by (auto simp: msg_ok_empty_msg free_bytes_empty_msg) (simp add: written_def empty_msg_def)

text \<open>
  C18. A message is a first-in first-out channel: words written with
  \<open>saiagent_msg_put_u32\<close> into a message with nothing unread come back from
  \<open>saiagent_msg_get_u32\<close> in the same order, and one more read returns the error code and
  changes neither the variable nor the message.
\<close>

theorem msg_words_roundtrip:
  assumes "msg_ok m" "msg_queue m = []" "length vs \<le> msg_room m"
  shows "\<exists>m1 m2. put_words saiagent_msg_put_u32 m vs = Inr (RC_STATUS_OK, m1) \<and>
      get_words saiagent_msg_get_u32 m1 (length vs) = Inr (RC_STATUS_OK, vs, m2) \<and>
      saiagent_msg_get_u32 m2 old = Inr (RC_STATUS_ERR, old, m2)"
  by (rule chan.words_roundtrip [OF assms])

theorem msg_words_roundtrip_witness:
  "\<exists>m1 m2. put_words saiagent_msg_put_u32 (empty_msg 8) [7, 9] = Inr (RC_STATUS_OK, m1) \<and>
      get_words saiagent_msg_get_u32 m1 2 = Inr (RC_STATUS_OK, [7, 9], m2) \<and>
      saiagent_msg_get_u32 m2 5 = Inr (RC_STATUS_ERR, 5, m2)"
proof -
  have "msg_ok (empty_msg 8)" "msg_queue (empty_msg 8) = []" "length [7, 9 :: u32] \<le> msg_room (empty_msg 8)"
    by (simp_all add: msg_ok_empty_msg msg_room_def free_bytes_empty_msg)
      (simp add: msg_queue_def written_def empty_msg_def)
  note msg_words_roundtrip [OF this, of 5]
  moreover have "length [7, 9 :: u32] = 2" by simp
  ultimately show ?thesis by (simp only:)
qed

text \<open>
  C40. The 8-bit and 16-bit accessors never return on a message with room (or with a word to
  read): \<open>size\<close> is not a multiple of four, so the copy loop, which counts it down by four
  until it is zero, steps over zero and leaves the objects it copies between.
\<close>

theorem narrow_accessors_out_of_bounds:
  assumes "msg_ok m" "4 \<le> free_bytes m" "msg_ok r" "cursor r + 4 \<le> unat (payload_size r)"
  shows "saiagent_msg_put_u8 m a = Inl Out_Of_Bounds \<and> saiagent_msg_put_u16 m b = Inl Out_Of_Bounds \<and>
      saiagent_msg_get_u8 r c = Inl Out_Of_Bounds \<and> saiagent_msg_get_u16 r d = Inl Out_Of_Bounds"
proof -
  have get: "saiagent_msg_get_data r data n = Inl Out_Of_Bounds"
    if n: "unat n \<in> {1, 2}" for n data
  proof -
    obtain b where b: "buff r = Some b" using assms(3) by (auto simp: msg_ok_def)
    define t where "t = (case tail r of Some t \<Rightarrow> t | None \<Rightarrow> 0)"
    have t: "unat t = cursor r" by (auto simp: t_def cursor_def split: option.splits)
    have pad: "unat (SAIAGENT_MSG_PADSIZE n) = 4" using n by (subst unat_padsize) auto
    have "unat (payload_size r) < 2 ^ 31"
      using assms(3) by (auto simp: msg_ok_def word_le_nat_alt)
    then have "unat (t + SAIAGENT_MSG_PADSIZE n) = unat t + 4"
      using assms(4) by (simp add: unat_word_ariths pad t)
    then have "\<not> payload_size r < t + SAIAGENT_MSG_PADSIZE n"
      using assms(4) by (simp add: word_less_nat_alt t)
    moreover have "payload_size r \<noteq> 0" using assms(4) by (auto simp flip: unat_eq_zero)
    moreover have "\<not> 4 dvd unat n" using n by auto
    ultimately show ?thesis
      by (simp add: saiagent_msg_get_data_def Let_def b copy32_unaligned flip: t_def)
  qed
  show ?thesis
    using put_data_unaligned [OF assms(1), of 1] put_data_unaligned [OF assms(1), of 2] assms(2) get [of 1] get [of 2]
    by (simp add: saiagent_msg_put_u8_def saiagent_msg_put_u16_def saiagent_msg_get_u8_def
        saiagent_msg_get_u16_def get_word_def)
qed

definition one_word_msg :: saiagent_msg where
  "one_word_msg = (empty_msg 8)\<lparr>payload_size := 4\<rparr>"

theorem narrow_accessors_out_of_bounds_witness:
  "saiagent_msg_put_u8 one_word_msg 1 = Inl Out_Of_Bounds \<and> saiagent_msg_put_u16 one_word_msg 2 = Inl Out_Of_Bounds \<and>
   saiagent_msg_get_u8 one_word_msg 0 = Inl Out_Of_Bounds \<and> saiagent_msg_get_u16 one_word_msg 0 = Inl Out_Of_Bounds"
  by (rule narrow_accessors_out_of_bounds)
    (simp_all add: one_word_msg_def empty_msg_def msg_ok_def free_bytes_def cursor_def)

text \<open>
  \<open>saiagent_msg_create\<close> on a fresh block of the maximal size gives a well-formed message
  whose content is the type word, which \<open>saiagent_msg_type_get\<close> reads back, and
  \<open>saiagent_msg_put_event\<close> then appends the event's type and identifier; when an
  allocation fails there is no message.
\<close>

theorem msg_create_spec:
  assumes "length mem = SAIAGENT_MSG_MAX_SIZE"
  shows "\<exists>m m1 m2. saiagent_msg_create True (Some mem) type = Inr (Some m) \<and> msg_ok m \<and>
      msg_queue m = [type] \<and>
      saiagent_msg_type_get m old = Inr (RC_STATUS_OK, type, m1) \<and>
      saiagent_msg_put_event m t i = Inr (RC_STATUS_OK, m2) \<and> msg_queue m2 = [type, t, i] \<and>
      saiagent_msg_create True None type = Inr None \<and>
      saiagent_msg_create False (Some mem) type = Inr None"
proof -
  let ?m = "\<lparr>buff = Some mem, msg_size = of_nat SAIAGENT_MSG_MAX_SIZE, payload_size = 0, tail = None\<rparr>"
  have ok: "msg_ok ?m" "msg_queue ?m = []" "msg_room ?m = 375"
    using assms by (simp_all add: msg_ok_def msg_queue_def written_def cursor_def msg_room_def free_bytes_def)
  obtain m where m: "saiagent_msg_put_u32 ?m type = Inr (RC_STATUS_OK, m)" "msg_ok m" "msg_queue m = [type]"
      "msg_room m = 374"
    using chan.put_room [OF ok(1), of type] ok(2,3) by auto
  obtain m1 where "saiagent_msg_get_u32 m old = Inr (RC_STATUS_OK, type, m1)"
    using chan.get_queue [OF m(2,3)] by blast
  moreover obtain m2 where m2: "saiagent_msg_put_u32 m t = Inr (RC_STATUS_OK, m2)" "msg_ok m2"
      "msg_queue m2 = [type, t]" "msg_room m2 = 373"
    using chan.put_room [OF m(2), of t] m(3,4) by auto
  moreover obtain m3 where "saiagent_msg_put_u32 m2 i = Inr (RC_STATUS_OK, m3)" "msg_queue m3 = [type, t, i]"
    using chan.put_room [OF m2(2), of i] m2(3,4) by auto
  ultimately show ?thesis
    using m by (simp add: saiagent_msg_create_def saiagent_msg_type_set_def saiagent_msg_put_u32_def
        saiagent_msg_type_get_def saiagent_msg_get_u32_def saiagent_msg_put_event_def)
qed

theorem msg_create_spec_witness:
  "\<exists>m m1 m2. saiagent_msg_create True (Some (replicate 1500 255)) 7 = Inr (Some m) \<and> msg_ok m \<and>
      msg_queue m = [7] \<and> saiagent_msg_type_get m 0 = Inr (RC_STATUS_OK, 7, m1) \<and>
      saiagent_msg_put_event m 1 2 = Inr (RC_STATUS_OK, m2) \<and> msg_queue m2 = [7, 1, 2]"
  using msg_create_spec [of "replicate 1500 255" 7 0 1 2] by (simp only: length_replicate) blast

end
