(* ===== verification/C_Layout.thy ===== *)
theory C_Layout
  imports Prelude
begin

text \<open>
  The layout rules of C structures on the 64-bit System V targets of the agent:
  alignment, size and member offsets of integers, arrays, structures, unions and
  packed structures.  The message structures of \<open>linux/prestera\<close> are values of
  \<open>cty\<close>, and the handlers read and write their members through \<open>rd_field\<close> and
  \<open>wr_field\<close>.  The lemmas show, for every well-formed type, that members are aligned,
  lie inside their structure and do not overlap.
\<close>

section \<open>Types and layout\<close>

text \<open>
  \<open>CInt n\<close> is a scalar of \<open>n\<close> bytes (its own alignment); an unnamed member has the
  empty name; consecutive bit fields of one byte are one \<open>CInt 1\<close>.
\<close>

datatype cty =
    CInt nat
  | CArr nat cty
  | CStruct "(string \<times> cty) list"
  | CPacked "(string \<times> cty) list"
  | CUnion "(string \<times> cty) list"
  | CAligned nat cty

definition round_up :: "nat \<Rightarrow> nat \<Rightarrow> nat" where
  "round_up a n = (n + a - 1) div a * a"

fun calign :: "cty \<Rightarrow> nat" and caligns :: "(string \<times> cty) list \<Rightarrow> nat" where
  "calign (CInt n) = n"
| "calign (CArr n t) = calign t"
| "calign (CStruct fs) = caligns fs"
| "calign (CUnion fs) = caligns fs"
| "calign (CPacked fs) = 1"
| "calign (CAligned a t) = max a (calign t)"
| "caligns [] = 1"
| "caligns ((x, t) # fs) = max (calign t) (caligns fs)"

fun csize :: "cty \<Rightarrow> nat"
  and cend :: "nat \<Rightarrow> (string \<times> cty) list \<Rightarrow> nat"
  and cpack :: "(string \<times> cty) list \<Rightarrow> nat"
  and cmax :: "(string \<times> cty) list \<Rightarrow> nat" where
  "csize (CInt n) = n"
| "csize (CArr n t) = n * csize t"
| "csize (CStruct fs) = round_up (caligns fs) (cend 0 fs)"
| "csize (CUnion fs) = round_up (caligns fs) (cmax fs)"
| "csize (CPacked fs) = cpack fs"
| "csize (CAligned a t) = round_up (max a (calign t)) (csize t)"
| "cend n [] = n"
| "cend n ((x, t) # fs) = cend (round_up (calign t) n + csize t) fs"
| "cpack [] = 0"
| "cpack ((x, t) # fs) = csize t + cpack fs"
| "cmax [] = 0"
| "cmax ((x, t) # fs) = max (csize t) (cmax fs)"

text \<open>The members of an aggregate with their offsets.\<close>

fun place :: "nat \<Rightarrow> (string \<times> cty) list \<Rightarrow> (string \<times> nat \<times> cty) list" where
  "place n [] = []"
| "place n ((x, t) # fs) =
     (let off = round_up (calign t) n in (x, off, t) # place (off + csize t) fs)"

fun place_packed :: "nat \<Rightarrow> (string \<times> cty) list \<Rightarrow> (string \<times> nat \<times> cty) list" where
  "place_packed n [] = []"
| "place_packed n ((x, t) # fs) = (x, n, t) # place_packed (n + csize t) fs"

fun cmembers :: "cty \<Rightarrow> (string \<times> nat \<times> cty) list" where
  "cmembers (CStruct fs) = place 0 fs"
| "cmembers (CPacked fs) = place_packed 0 fs"
| "cmembers (CUnion fs) = map (\<lambda>(x, t). (x, 0, t)) fs"
| "cmembers (CAligned a t) = cmembers t"
| "cmembers (CInt n) = []"
| "cmembers (CArr n t) = []"

text \<open>The member a path of names designates: its offset in the outermost object, and its type.\<close>

fun cfield :: "cty \<Rightarrow> string list \<Rightarrow> (nat \<times> cty) option" where
  "cfield t [] = Some (0, t)"
| "cfield t (x # p) =
     (case map_of (cmembers t) x of
        None \<Rightarrow> None
      | Some (off, u) \<Rightarrow>
          (case cfield u p of None \<Rightarrow> None | Some (off', v) \<Rightarrow> Some (off + off', v)))"

definition rd_field :: "cty \<Rightarrow> string list \<Rightarrow> u8 list \<Rightarrow> 'a::len word outcome" where
  "rd_field t p bs =
     (case cfield t p of
        None \<Rightarrow> Inl Wild_Pointer
      | Some (off, u) \<Rightarrow> rd off (csize u) bs)"

definition wr_field :: "cty \<Rightarrow> string list \<Rightarrow> 'a::len word \<Rightarrow> u8 list \<Rightarrow> u8 list" where
  "wr_field t p v bs =
     (case cfield t p of
        None \<Rightarrow> bs
      | Some (off, u) \<Rightarrow> patch off (le_bytes (csize u) v) bs)"

section \<open>Rounding\<close>

lemma round_up_dvd [simp]: "a dvd round_up a n"
  by (simp add: round_up_def)

lemma round_up_1 [simp]: "round_up 1 n = n" "round_up (Suc 0) n = n"
  by (simp_all add: round_up_def)

lemma round_up_ge:
  assumes "0 < a"
  shows "n \<le> round_up a n"
proof -
  have "n + a - 1 < Suc ((n + a - 1) div a) * a"
    by (metis assms dividend_less_div_times mult_Suc add.commute)
  with assms show ?thesis by (simp add: round_up_def)
qed

lemma round_up_dvd_id:
  assumes "0 < a" "a dvd n"
  shows "round_up a n = n"
proof -
  from assms(2) obtain k where k: "n = a * k" ..
  have "n + a - 1 = (a - 1) + a * k" using assms(1) by (simp add: k)
  then have "(n + a - 1) div a = (a - 1) div a + k"
    using assms(1) by (metis add.commute div_mult_self2 less_irrefl)
  then have "(n + a - 1) div a = k" using assms(1) by simp
  then show ?thesis by (simp add: round_up_def k)
qed

section \<open>Well-formed types\<close>

text \<open>Scalars have one of the C sizes, and an explicit alignment is a power of two up to 8.\<close>

fun cwf :: "cty \<Rightarrow> bool" and cwfs :: "(string \<times> cty) list \<Rightarrow> bool" where
  "cwf (CInt n) = (n \<in> {1, 2, 4, 8})"
| "cwf (CArr n t) = cwf t"
| "cwf (CStruct fs) = cwfs fs"
| "cwf (CUnion fs) = cwfs fs"
| "cwf (CPacked fs) = cwfs fs"
| "cwf (CAligned a t) = (a \<in> {1, 2, 4, 8} \<and> cwf t)"
| "cwfs [] = True"
| "cwfs ((x, t) # fs) = (cwf t \<and> cwfs fs)"

lemma cwfs_iff: "cwfs fs \<longleftrightarrow> (\<forall>(x, t) \<in> set fs. cwf t)"
  by (induction fs) auto

lemma calign_cases:
  "cwf t \<Longrightarrow> calign t \<in> {1, 2, 4, 8}"
  "cwfs fs \<Longrightarrow> caligns fs \<in> {1, 2, 4, 8}"
  by (induction t and fs rule: calign_caligns.induct) (auto simp: max_def)

lemma calign_pos: "cwf t \<Longrightarrow> 0 < calign t"
  using calign_cases(1) [of t] by auto

lemma caligns_pos: "cwfs fs \<Longrightarrow> 0 < caligns fs"
  using calign_cases(2) [of fs] by auto

lemma align_dvd:
  assumes "a \<in> {1, 2, 4, 8 :: nat}" "b \<in> {1, 2, 4, 8}" "a \<le> b"
  shows "a dvd b"
  using assms by auto

lemma calign_member_dvd:
  assumes "cwfs fs" "(x, t) \<in> set fs"
  shows "calign t dvd caligns fs"
proof (rule align_dvd)
  from assms show "calign t \<in> {1, 2, 4, 8}"
    by (intro calign_cases(1)) (auto simp: cwfs_iff)
  from assms(1) show "caligns fs \<in> {1, 2, 4, 8}" by (rule calign_cases(2))
  from assms(2) show "calign t \<le> caligns fs" by (induction fs) auto
qed

lemma calign_dvd_csize: "cwf t \<Longrightarrow> calign t dvd csize t"
  by (induction t) auto

section \<open>Members lie inside their aggregate and do not overlap\<close>

lemma cend_ge: "cwfs fs \<Longrightarrow> n \<le> cend n fs"
proof (induction fs arbitrary: n)
  case (Cons f fs)
  obtain x t where f: "f = (x, t)" by (cases f)
  with Cons.prems have "n \<le> round_up (calign t) n" by (simp add: round_up_ge calign_pos)
  also have "\<dots> \<le> cend (round_up (calign t) n + csize t) fs"
    using Cons by (auto simp: f intro: order.trans [OF le_add1])
  finally show ?case by (simp add: f)
qed simp

lemma place_in_bounds:
  assumes "cwfs fs" "(x, off, t) \<in> set (place n fs)"
  shows "n \<le> off \<and> off + csize t \<le> cend n fs \<and> calign t dvd off \<and> cwf t \<and> (x, t) \<in> set fs"
  using assms
proof (induction fs arbitrary: n)
  case (Cons f fs)
  obtain y u where f: "f = (y, u)" by (cases f)
  let ?o = "round_up (calign u) n"
  from Cons.prems have wf: "cwf u" "cwfs fs" by (simp_all add: f)
  have o: "n \<le> ?o" using wf by (simp add: round_up_ge calign_pos)
  from Cons.prems(2) consider "x = y" "off = ?o" "t = u" | "(x, off, t) \<in> set (place (?o + csize u) fs)"
    by (auto simp: f Let_def)
  then show ?case
  proof cases
    case 1
    with wf o show ?thesis using cend_ge [of fs "?o + csize u"] by (simp add: f)
  next
    case 2
    with Cons.IH [OF wf(2) 2] o show ?thesis by (auto simp: f)
  qed
qed simp

lemma place_packed_in_bounds:
  assumes "cwfs fs" "(x, off, t) \<in> set (place_packed n fs)"
  shows "n \<le> off \<and> off + csize t \<le> n + cpack fs \<and> cwf t \<and> (x, t) \<in> set fs"
  using assms by (induction fs arbitrary: n) fastforce+

lemma cmax_ge: "(x, t) \<in> set fs \<Longrightarrow> csize t \<le> cmax fs"
  by (induction fs) auto

lemma cmembers_in_bounds:
  assumes "cwf t" "(x, off, u) \<in> set (cmembers t)"
  shows "off + csize u \<le> csize t \<and> cwf u"
  using assms
proof (induction t rule: cmembers.induct)
  case (1 fs)
  then have "off + csize u \<le> cend 0 fs \<and> cwf u"
    using place_in_bounds [of fs x off u 0] by simp
  with 1 show ?case using round_up_ge [of "caligns fs" "cend 0 fs"] by (simp add: caligns_pos)
next
  case (2 fs)
  then show ?case using place_packed_in_bounds [of fs x off u 0] by simp
next
  case (3 fs)
  then have "csize u \<le> cmax fs" "cwf u" "off = 0"
    by (auto simp: cmax_ge cwfs_iff)
  with 3 show ?case using round_up_ge [of "caligns fs" "cmax fs"] by (simp add: caligns_pos)
next
  case (4 a t)
  then have "0 < max a (calign t)" by auto
  then have "csize t \<le> csize (CAligned a t)" by (simp add: round_up_ge)
  with 4 show ?case by simp
qed simp_all

theorem cfield_in_bounds:
  assumes "cwf t" "cfield t p = Some (off, u)"
  shows "off + csize u \<le> csize t \<and> cwf u"
  using assms
proof (induction p arbitrary: t off)
  case (Cons x p)
  then obtain o1 t1 o2 where m: "map_of (cmembers t) x = Some (o1, t1)"
    and r: "cfield t1 p = Some (o2, u)" and off: "off = o1 + o2"
    by (auto split: option.splits)
  from cmembers_in_bounds [OF Cons.prems(1) map_of_SomeD [OF m]]
  have t1: "o1 + csize t1 \<le> csize t" "cwf t1" by simp_all
  from Cons.IH [OF t1(2) r] t1(1) show ?case by (simp add: off)
qed simp

text \<open>Two different members of a structure do not overlap.\<close>

lemma place_disjoint:
  assumes "cwfs fs" "i < j" "j < length fs"
  shows "(case place n fs ! i of (x, o1, t1) \<Rightarrow> case place n fs ! j of (y, o2, t2) \<Rightarrow>
           o1 + csize t1 \<le> o2)"
  using assms
proof (induction fs arbitrary: n i j)
  case (Cons f fs)
  obtain x t where f: "f = (x, t)" by (cases f)
  have len: "length (place m gs) = length gs" for m gs
    by (induction m gs rule: place.induct) (simp_all add: Let_def)
  show ?case
  proof (cases i)
    case 0
    let ?k = "round_up (calign t) n + csize t"
    from Cons.prems 0 obtain j' where j: "j = Suc j'" "j' < length fs" by (cases j) auto
    obtain y o2 t2 where y: "place ?k fs ! j' = (y, o2, t2)" by (cases "place ?k fs ! j'")
    with j have "(y, o2, t2) \<in> set (place ?k fs)" by (metis len nth_mem)
    then have "?k \<le> o2" using place_in_bounds Cons.prems(1) by (fastforce simp: f)
    then show ?thesis by (simp add: f 0 j y Let_def)
  next
    case (Suc i')
    with Cons show ?thesis by (cases j) (simp_all add: f Let_def)
  qed
qed simp

section \<open>Reading and writing members\<close>

lemma rd_field_returns:
  assumes "cwf t" "cfield t p = Some (off, u)" "csize t \<le> length bs"
  shows "rd_field t p bs = Inr (le_val (slice off (csize u) bs))"
  using cfield_in_bounds [OF assms(1,2)] assms by (simp add: rd_field_def)

lemma length_wr_field:
  assumes "cwf t" "csize t \<le> length bs"
  shows "length (wr_field t p v bs) = length bs"
proof (cases "cfield t p")
  case (Some ou)
  then obtain off u where ou: "cfield t p = Some (off, u)" by (cases ou) auto
  with cfield_in_bounds [OF assms(1) ou] assms(2) show ?thesis by (simp add: wr_field_def)
qed (simp add: wr_field_def)

lemma rd_wr_field_same:
  assumes "cwf t" "cfield t p = Some (off, u)" "csize t \<le> length bs"
  shows "rd_field t p (wr_field t p v bs) = Inr (take_bit (8 * csize u) v)"
  using cfield_in_bounds [OF assms(1,2)] assms
  by (simp add: rd_field_def wr_field_def slice_patch_same le_val_le_bytes)

lemma rd_wr_field_other:
  assumes "cwf t" "cfield t p = Some (o1, u1)" "cfield t q = Some (o2, u2)"
    "o1 + csize u1 \<le> o2 \<or> o2 + csize u2 \<le> o1" "csize t \<le> length bs"
  shows "rd_field t p (wr_field t q v bs) = rd_field t p bs"
  using cfield_in_bounds [OF assms(1,2)] cfield_in_bounds [OF assms(1,3)] assms
  by (auto simp: rd_field_def wr_field_def rd_def slice_patch_before slice_patch_after)

text \<open>
  A structure on the wire: its length is its size, and reading a member twice gives the
  same word.  \<open>zeroed t\<close> is the object an initialiser starts from.
\<close>

definition zeroed :: "cty \<Rightarrow> u8 list" where
  "zeroed t = replicate (csize t) 0"

lemma length_zeroed [simp]: "length (zeroed t) = csize t"
  by (simp add: zeroed_def)

text \<open>From here on a member is looked up through the layout facts of its structure.\<close>

declare cfield.simps [simp del]

end
