(* ===== verification/Prestera_Hw_Cmd.thy ===== *)
theory Prestera_Hw_Cmd
  imports C_Layout
begin

text \<open>
  The driver interface of \<open>linux/prestera\<close>: the enumerations and the message structures
  of \<open>prestera_hw_cmd.h\<close> and \<open>prestera_event.h\<close>, in the order of the headers, and the
  size checks of \<open>tests/check_saiagent.c\<close>.  An enumeration is the list of its
  enumerators with the values C gives them; a structure is a \<open>cty\<close>.  The lemmas show
  that the layouts have the sizes the test asserts, where the members the agent uses
  lie, and that every structure the agent puts on the wire is a whole number of
  32-bit words.
\<close>

section \<open>Types of \<open>prestera_types.h\<close> and \<open>linux/types.h\<close>\<close>

abbreviation (input) cu8 :: cty where "cu8 \<equiv> CInt 1"
abbreviation (input) cu16 :: cty where "cu16 \<equiv> CInt 2"
abbreviation (input) cu32 :: cty where "cu32 \<equiv> CInt 4"
abbreviation (input) cu64 :: cty where "cu64 \<equiv> CInt 8"
abbreviation (input) le16 :: cty where "le16 \<equiv> CInt 2"
abbreviation (input) le32 :: cty where "le32 \<equiv> CInt 4"
abbreviation (input) le64 :: cty where "le64 \<equiv> CInt 8"
abbreviation (input) be16 :: cty where "be16 \<equiv> CInt 2"
abbreviation (input) be32 :: cty where "be32 \<equiv> CInt 4"
abbreviation (input) cenum :: cty where "cenum \<equiv> CInt 4"
abbreviation (input) cbool :: cty where "cbool \<equiv> CInt 1"
abbreviation (input) cptr :: cty where "cptr \<equiv> CInt 8"

abbreviation (input) ETH_ALEN :: nat where "ETH_ALEN \<equiv> 6"

section \<open>Enumerations\<close>

text \<open>An enumerator without a value is one more than the enumerator before it.\<close>

fun c_enum :: "int \<Rightarrow> (string \<times> int option) list \<Rightarrow> (string \<times> int) list" where
  "c_enum n [] = []"
| "c_enum n ((x, v) # es) =
     (let k = (case v of None \<Rightarrow> n | Some i \<Rightarrow> i) in (x, k) # c_enum (k + 1) es)"

definition prestera_cmd_type_t :: "(string \<times> int) list" where
  "prestera_cmd_type_t = c_enum 0
     [(''PRESTERA_CMD_TYPE_SWITCH_INIT'', Some 0x1),
      (''PRESTERA_CMD_TYPE_SWITCH_ATTR_SET'', Some 0x2),
      (''PRESTERA_CMD_TYPE_KEEPALIVE_INIT'', Some 0x3),
      (''PRESTERA_CMD_TYPE_SWITCH_RESET'', Some 0x4),
      (''PRESTERA_CMD_TYPE_SWITCH_SCT_RATELIMIT_SET'', Some 0x5),
      (''PRESTERA_CMD_TYPE_SWITCH_SCT_RATELIMIT_GET'', Some 0x6),
      (''PRESTERA_CMD_TYPE_IPG_GET'', Some 0xfe),
      (''PRESTERA_CMD_TYPE_IPG_SET'', Some 0xff),
      (''PRESTERA_CMD_TYPE_PORT_ATTR_SET'', Some 0x100),
      (''PRESTERA_CMD_TYPE_PORT_ATTR_GET'', Some 0x101),
      (''PRESTERA_CMD_TYPE_PORT_INFO_GET'', Some 0x110),
      (''PRESTERA_CMD_TYPE_PORT_RATE_LIMIT_MODE_SET'', Some 0x111),
      (''PRESTERA_CMD_TYPE_VLAN_CREATE'', Some 0x200),
      (''PRESTERA_CMD_TYPE_VLAN_DELETE'', Some 0x201),
      (''PRESTERA_CMD_TYPE_VLAN_PORT_SET'', Some 0x202),
      (''PRESTERA_CMD_TYPE_VLAN_PVID_SET'', Some 0x203),
      (''PRESTERA_CMD_TYPE_VLAN_FLOOD_DOMAIN_SET'', Some 0x204),
      (''PRESTERA_CMD_TYPE_FDB_ADD'', Some 0x300),
      (''PRESTERA_CMD_TYPE_FDB_DELETE'', Some 0x301),
      (''PRESTERA_CMD_TYPE_FDB_FLUSH_PORT'', Some 0x310),
      (''PRESTERA_CMD_TYPE_FDB_FLUSH_VLAN'', Some 0x311),
      (''PRESTERA_CMD_TYPE_FDB_FLUSH_PORT_VLAN'', Some 0x312),
      (''PRESTERA_CMD_TYPE_FDB_MACVLAN_ADD'', Some 0x320),
      (''PRESTERA_CMD_TYPE_FDB_MACVLAN_DEL'', Some 0x321),
      (''PRESTERA_CMD_TYPE_FDB_ROUTED_ADD'', Some 0x322),
      (''PRESTERA_CMD_TYPE_FDB_ROUTED_DEL'', Some 0x323),
      (''PRESTERA_CMD_TYPE_LOG_LEVEL_SET'', Some 0x3ff),
      (''PRESTERA_CMD_TYPE_BRIDGE_CREATE'', Some 0x400),
      (''PRESTERA_CMD_TYPE_BRIDGE_DELETE'', Some 0x401),
      (''PRESTERA_CMD_TYPE_BRIDGE_PORT_ADD'', Some 0x402),
      (''PRESTERA_CMD_TYPE_BRIDGE_PORT_DELETE'', Some 0x403),
      (''PRESTERA_CMD_TYPE_BRIDGE_TEP_ADD'', Some 0x404),
      (''PRESTERA_CMD_TYPE_BRIDGE_TEP_DELETE'', Some 0x405),
      (''PRESTERA_CMD_TYPE_COUNTER_GET'', Some 0x510),
      (''PRESTERA_CMD_TYPE_COUNTER_ABORT'', Some 0x511),
      (''PRESTERA_CMD_TYPE_COUNTER_TRIGGER'', Some 0x512),
      (''PRESTERA_CMD_TYPE_COUNTER_BLOCK_GET'', Some 0x513),
      (''PRESTERA_CMD_TYPE_COUNTER_BLOCK_RELEASE'', Some 0x514),
      (''PRESTERA_CMD_TYPE_COUNTER_CLEAR'', Some 0x515),
      (''PRESTERA_CMD_TYPE_VTCAM_CREATE'', Some 0x540),
      (''PRESTERA_CMD_TYPE_VTCAM_DESTROY'', Some 0x541),
      (''PRESTERA_CMD_TYPE_VTCAM_RULE_ADD'', Some 0x550),
      (''PRESTERA_CMD_TYPE_VTCAM_RULE_DELETE'', Some 0x551),
      (''PRESTERA_CMD_TYPE_VTCAM_IFACE_BIND'', Some 0x560),
      (''PRESTERA_CMD_TYPE_VTCAM_IFACE_UNBIND'', Some 0x561),
      (''PRESTERA_CMD_TYPE_ROUTER_RIF_CREATE'', Some 0x600),
      (''PRESTERA_CMD_TYPE_ROUTER_RIF_DELETE'', Some 0x601),
      (''PRESTERA_CMD_TYPE_ROUTER_RIF_SET'', Some 0x602),
      (''PRESTERA_CMD_TYPE_ROUTER_LPM_ADD'', Some 0x610),
      (''PRESTERA_CMD_TYPE_ROUTER_LPM_DELETE'', Some 0x611),
      (''PRESTERA_CMD_TYPE_ROUTER_NH_GRP_SET'', Some 0x622),
      (''PRESTERA_CMD_TYPE_ROUTER_NH_GRP_GET'', Some 0x644),
      (''PRESTERA_CMD_TYPE_ROUTER_NH_GRP_BLK_GET'', Some 0x645),
      (''PRESTERA_CMD_TYPE_ROUTER_NH_GRP_ADD'', Some 0x623),
      (''PRESTERA_CMD_TYPE_ROUTER_NH_GRP_DELETE'', Some 0x624),
      (''PRESTERA_CMD_TYPE_ROUTER_VR_CREATE'', Some 0x630),
      (''PRESTERA_CMD_TYPE_ROUTER_VR_DELETE'', Some 0x631),
      (''PRESTERA_CMD_TYPE_ROUTER_VR_ABORT'', Some 0x632),
      (''PRESTERA_CMD_TYPE_ROUTER_MP_HASH_SET'', Some 0x650),
      (''PRESTERA_CMD_TYPE_FLOOD_DOMAIN_CREATE'', Some 0x700),
      (''PRESTERA_CMD_TYPE_FLOOD_DOMAIN_DESTROY'', Some 0x701),
      (''PRESTERA_CMD_TYPE_FLOOD_DOMAIN_PORTS_SET'', Some 0x702),
      (''PRESTERA_CMD_TYPE_FLOOD_DOMAIN_PORTS_RESET'', Some 0x703),
      (''PRESTERA_CMD_TYPE_MDB_CREATE'', Some 0x704),
      (''PRESTERA_CMD_TYPE_MDB_DESTROY'', Some 0x705),
      (''PRESTERA_CMD_TYPE_RXTX_INIT'', Some 0x800),
      (''PRESTERA_CMD_TYPE_LAG_ADD'', Some 0x900),
      (''PRESTERA_CMD_TYPE_LAG_DELETE'', Some 0x901),
      (''PRESTERA_CMD_TYPE_LAG_ENABLE'', Some 0x902),
      (''PRESTERA_CMD_TYPE_LAG_DISABLE'', Some 0x903),
      (''PRESTERA_CMD_TYPE_LAG_ROUTER_LEAVE'', Some 0x904),
      (''PRESTERA_CMD_TYPE_STP_PORT_SET'', Some 0x1000),
      (''PRESTERA_CMD_TYPE_SPAN_GET'', Some 0x1100),
      (''PRESTERA_CMD_TYPE_SPAN_INGRESS_BIND'', Some 0x1101),
      (''PRESTERA_CMD_TYPE_SPAN_INGRESS_UNBIND'', Some 0x1102),
      (''PRESTERA_CMD_TYPE_SPAN_RELEASE'', Some 0x1103),
      (''PRESTERA_CMD_TYPE_SPAN_EGRESS_BIND'', Some 0x1104),
      (''PRESTERA_CMD_TYPE_SPAN_EGRESS_UNBIND'', Some 0x1105),
      (''PRESTERA_CMD_TYPE_L2TUN_ADD'', Some 0x1180),
      (''PRESTERA_CMD_TYPE_L2TUN_TEP_ADD'', Some 0x1183),
      (''PRESTERA_CMD_TYPE_L2TUN_TEP_DEL'', Some 0x1184),
      (''PRESTERA_CMD_TYPE_L2TUN_TEP_SET'', Some 0x1185),
      (''PRESTERA_CMD_TYPE_L2TUN_TT_ADD'', Some 0x1186),
      (''PRESTERA_CMD_TYPE_L2TUN_TT_DEL'', Some 0x1187),
      (''PRESTERA_CMD_TYPE_NAT_PORT_NEIGH_UPDATE'', Some 0x1200),
      (''PRESTERA_CMD_TYPE_NAT_NH_MANGLE_ADD'', Some 0x1211),
      (''PRESTERA_CMD_TYPE_NAT_NH_MANGLE_SET'', Some 0x1212),
      (''PRESTERA_CMD_TYPE_NAT_NH_MANGLE_DEL'', Some 0x1213),
      (''PRESTERA_CMD_TYPE_NAT_NH_MANGLE_GET'', Some 0x1214),
      (''PRESTERA_CMD_TYPE_QOS_DSCP_PRIO_MAP_UPDATE'', Some 0x1301),
      (''PRESTERA_CMD_TYPE_QOS_TRUST_MODE_SET'', Some 0x1302),
      (''PRESTERA_CMD_TYPE_QOS_DEFAULT_PRIO_SET'', Some 0x1303),
      (''PRESTERA_CMD_TYPE_SCHED_CREATE'', Some 0x1401),
      (''PRESTERA_CMD_TYPE_SCHED_RELEASE'', Some 0x1402),
      (''PRESTERA_CMD_TYPE_SCHED_SET'', Some 0x1403),
      (''PRESTERA_CMD_TYPE_SCHED_PORT_SET'', Some 0x1404),
      (''PRESTERA_CMD_TYPE_SCHED_PORT_GET'', Some 0x1405),
      (''PRESTERA_CMD_TYPE_SHAPER_PORT_QUEUE_CONFIGURE'', Some 0x1411),
      (''PRESTERA_CMD_TYPE_SHAPER_PORT_QUEUE_DISABLE'', Some 0x1412),
      (''PRESTERA_CMD_TYPE_PORT_QUEUE_STATS_GET'', Some 0x1421),
      (''PRESTERA_CMD_TYPE_WRED_PORT_QUEUE_ENABLE'', Some 0x1431),
      (''PRESTERA_CMD_TYPE_WRED_PORT_QUEUE_DISABLE'', Some 0x1432),
      (''PRESTERA_CMD_TYPE_POLICER_CREATE'', Some 0x1500),
      (''PRESTERA_CMD_TYPE_POLICER_RELEASE'', Some 0x1501),
      (''PRESTERA_CMD_TYPE_POLICER_SET'', Some 0x1502),
      (''PRESTERA_CMD_TYPE_CPU_CODE_COUNTERS_GET'', Some 0x2000),
      (''PRESTERA_CMD_TYPE_ACK'', Some 0x10000),
      (''PRESTERA_CMD_TYPE_MAX'', None)]"

definition prestera_cmd_port_attr :: "(string \<times> int) list" where
  "prestera_cmd_port_attr = c_enum 0
     [(''PRESTERA_CMD_PORT_ATTR_MTU'', Some 3),
      (''PRESTERA_CMD_PORT_ATTR_MAC'', Some 4),
      (''PRESTERA_CMD_PORT_ATTR_ACCEPT_FRAME_TYPE'', Some 6),
      (''PRESTERA_CMD_PORT_ATTR_LEARNING'', Some 7),
      (''PRESTERA_CMD_PORT_ATTR_FLOOD'', Some 8),
      (''PRESTERA_CMD_PORT_ATTR_CAPABILITY'', Some 9),
      (''PRESTERA_CMD_PORT_ATTR_LOCKED'', Some 10),
      (''PRESTERA_CMD_PORT_ATTR_PHY_MODE'', Some 12),
      (''PRESTERA_CMD_PORT_ATTR_STATS'', Some 17),
      (''PRESTERA_CMD_PORT_ATTR_MAC_AUTONEG_RESTART'', Some 18),
      (''PRESTERA_CMD_PORT_ATTR_PHY_AUTONEG_RESTART'', Some 19),
      (''PRESTERA_CMD_PORT_ATTR_SOURCE_ID_DEFAULT'', Some 20),
      (''PRESTERA_CMD_PORT_ATTR_SOURCE_ID_FILTER'', Some 21),
      (''PRESTERA_CMD_PORT_ATTR_MAC_MODE'', Some 22),
      (''PRESTERA_CMD_PORT_ATTR_MAX'', None)]"

definition prestera_cmd_switch_attr :: "(string \<times> int) list" where
  "prestera_cmd_switch_attr = c_enum 0
     [(''PRESTERA_CMD_SWITCH_ATTR_MAC'', Some 1),
      (''PRESTERA_CMD_SWITCH_ATTR_AGEING'', Some 2),
      (''PRESTERA_CMD_SWITCH_ATTR_TRAP_POLICER'', Some 3)]"

definition prestera_cmd_ack :: "(string \<times> int) list" where
  "prestera_cmd_ack = c_enum 0
     [(''PRESTERA_CMD_ACK_OK'', None),
      (''PRESTERA_CMD_ACK_FAILED'', None),
      (''PRESTERA_CMD_ACK_MAX'', None)]"

definition prestera_port_cnt :: "(string \<times> int) list" where
  "prestera_port_cnt = c_enum 0
     [(''PRESTERA_PORT_GOOD_OCTETS_RCV_CNT'', None),
      (''PRESTERA_PORT_BAD_OCTETS_RCV_CNT'', None),
      (''PRESTERA_PORT_MAC_TRANSMIT_ERR_CNT'', None),
      (''PRESTERA_PORT_BRDC_PKTS_RCV_CNT'', None),
      (''PRESTERA_PORT_MC_PKTS_RCV_CNT'', None),
      (''PRESTERA_PORT_PKTS_64_OCTETS_CNT'', None),
      (''PRESTERA_PORT_PKTS_65TO127_OCTETS_CNT'', None),
      (''PRESTERA_PORT_PKTS_128TO255_OCTETS_CNT'', None),
      (''PRESTERA_PORT_PKTS_256TO511_OCTETS_CNT'', None),
      (''PRESTERA_PORT_PKTS_512TO1023_OCTETS_CNT'', None),
      (''PRESTERA_PORT_PKTS_1024TOMAX_OCTETS_CNT'', None),
      (''PRESTERA_PORT_EXCESSIVE_COLLISIONS_CNT'', None),
      (''PRESTERA_PORT_MC_PKTS_SENT_CNT'', None),
      (''PRESTERA_PORT_BRDC_PKTS_SENT_CNT'', None),
      (''PRESTERA_PORT_FC_SENT_CNT'', None),
      (''PRESTERA_PORT_GOOD_FC_RCV_CNT'', None),
      (''PRESTERA_PORT_DROP_EVENTS_CNT'', None),
      (''PRESTERA_PORT_UNDERSIZE_PKTS_CNT'', None),
      (''PRESTERA_PORT_FRAGMENTS_PKTS_CNT'', None),
      (''PRESTERA_PORT_OVERSIZE_PKTS_CNT'', None),
      (''PRESTERA_PORT_JABBER_PKTS_CNT'', None),
      (''PRESTERA_PORT_MAC_RCV_ERROR_CNT'', None),
      (''PRESTERA_PORT_BAD_CRC_CNT'', None),
      (''PRESTERA_PORT_COLLISIONS_CNT'', None),
      (''PRESTERA_PORT_LATE_COLLISIONS_CNT'', None),
      (''PRESTERA_PORT_GOOD_UC_PKTS_RCV_CNT'', None),
      (''PRESTERA_PORT_GOOD_UC_PKTS_SENT_CNT'', None),
      (''PRESTERA_PORT_MULTIPLE_PKTS_SENT_CNT'', None),
      (''PRESTERA_PORT_DEFERRED_PKTS_SENT_CNT'', None),
      (''PRESTERA_PORT_GOOD_OCTETS_SENT_CNT'', None),
      (''PRESTERA_PORT_CNT_MAX'', None)]"

definition prestera_fc :: "(string \<times> int) list" where
  "prestera_fc = c_enum 0
     [(''PRESTERA_FC_NONE'', None),
      (''PRESTERA_FC_SYMMETRIC'', None),
      (''PRESTERA_FC_ASYMMETRIC'', None),
      (''PRESTERA_FC_SYMM_ASYMM'', None)]"

definition prestera_port_tp :: "(string \<times> int) list" where
  "prestera_port_tp = c_enum 0
     [(''PRESTERA_PORT_TP_NA'', None),
      (''PRESTERA_PORT_TP_MDI'', None),
      (''PRESTERA_PORT_TP_MDIX'', None),
      (''PRESTERA_PORT_TP_AUTO'', None)]"

definition prestera_hw_fdb_entry_type :: "(string \<times> int) list" where
  "prestera_hw_fdb_entry_type = c_enum 0
     [(''PRESTERA_HW_FDB_ENTRY_TYPE_REG_PORT'', Some 0),
      (''PRESTERA_HW_FDB_ENTRY_TYPE_LAG'', Some 1),
      (''PRESTERA_HW_FDB_ENTRY_TYPE_BRIDGE'', Some 2),
      (''PRESTERA_HW_FDB_ENTRY_TYPE_TEP'', Some 3),
      (''PRESTERA_HW_FDB_ENTRY_TYPE_MAX'', Some 4)]"

definition prestera_port_flood_type :: "(string \<times> int) list" where
  "prestera_port_flood_type = c_enum 0
     [(''PRESTERA_PORT_FLOOD_TYPE_UC'', Some 0),
      (''PRESTERA_PORT_FLOOD_TYPE_MC'', Some 1),
      (''PRESTERA_PORT_FLOOD_TYPE_BC'', Some 2)]"

definition prestera_acl_rule_match_type :: "(string \<times> int) list" where
  "prestera_acl_rule_match_type = c_enum 0
     [(''PRESTERA_ACL_RULE_MATCH_TYPE_PCL_ID'', None),
      (''PRESTERA_ACL_RULE_MATCH_TYPE_ETH_TYPE'', None),
      (''PRESTERA_ACL_RULE_MATCH_TYPE_ETH_DMAC_0'', None),
      (''PRESTERA_ACL_RULE_MATCH_TYPE_ETH_DMAC_1'', None),
      (''PRESTERA_ACL_RULE_MATCH_TYPE_ETH_SMAC_0'', None),
      (''PRESTERA_ACL_RULE_MATCH_TYPE_ETH_SMAC_1'', None),
      (''PRESTERA_ACL_RULE_MATCH_TYPE_IP_PROTO'', None),
      (''PRESTERA_ACL_RULE_MATCH_TYPE_SYS_PORT'', None),
      (''PRESTERA_ACL_RULE_MATCH_TYPE_SYS_DEV'', None),
      (''PRESTERA_ACL_RULE_MATCH_TYPE_IP_SRC'', None),
      (''PRESTERA_ACL_RULE_MATCH_TYPE_IP_DST'', None),
      (''PRESTERA_ACL_RULE_MATCH_TYPE_L4_PORT_SRC'', None),
      (''PRESTERA_ACL_RULE_MATCH_TYPE_L4_PORT_DST'', None),
      (''PRESTERA_ACL_RULE_MATCH_TYPE_L4_PORT_RANGE_SRC'', None),
      (''PRESTERA_ACL_RULE_MATCH_TYPE_L4_PORT_RANGE_DST'', None),
      (''PRESTERA_ACL_RULE_MATCH_TYPE_VLAN_ID'', None),
      (''PRESTERA_ACL_RULE_MATCH_TYPE_VLAN_TPID'', None),
      (''PRESTERA_ACL_RULE_MATCH_TYPE_ICMP_TYPE'', None),
      (''PRESTERA_ACL_RULE_MATCH_TYPE_ICMP_CODE'', None),
      (''PRESTERA_ACL_RULE_MATCH_TYPE_QOS_PROFILE'', None),
      (''PRESTERA_ACL_RULE_MATCH_TYPE_IPV6_SRC_0'', None),
      (''PRESTERA_ACL_RULE_MATCH_TYPE_IPV6_SRC_1'', None),
      (''PRESTERA_ACL_RULE_MATCH_TYPE_IPV6_SRC_2'', None),
      (''PRESTERA_ACL_RULE_MATCH_TYPE_IPV6_SRC_3'', None),
      (''PRESTERA_ACL_RULE_MATCH_TYPE_IPV6_DST_0'', None),
      (''PRESTERA_ACL_RULE_MATCH_TYPE_IPV6_DST_1'', None),
      (''PRESTERA_ACL_RULE_MATCH_TYPE_IPV6_DST_2'', None),
      (''PRESTERA_ACL_RULE_MATCH_TYPE_IPV6_DST_3'', None),
      (''__PRESTERA_ACL_RULE_MATCH_TYPE_MAX'', None)]"

definition prestera_hw_flood_domain_port_type :: "(string \<times> int) list" where
  "prestera_hw_flood_domain_port_type = c_enum 0
     [(''PRESTERA_HW_FLOOD_DOMAIN_PORT_TYPE_REG_PORT'', Some 0),
      (''PRESTERA_HW_FLOOD_DOMAIN_PORT_TYPE_LAG'', Some 1),
      (''PRESTERA_HW_FLOOD_DOMAIN_PORT_TYPE_TEP'', Some 2),
      (''PRESTERA_HW_FLOOD_DOMAIN_PORT_TYPE_VLAN_GRP'', Some 3),
      (''PRESTERA_HW_FLOOD_DOMAIN_PORT_TYPE_MAX'', Some 4)]"

definition prestera_hw_sched :: "(string \<times> int) list" where
  "prestera_hw_sched = c_enum 0
     [(''PRESTERA_HW_SCHED_SP'', None),
      (''PRESTERA_HW_SCHED_SDWRR'', None)]"

definition prestera_policer_mode :: "(string \<times> int) list" where
  "prestera_policer_mode = c_enum 0
     [(''PRESTERA_POLICER_MODE_SR_TCM'', None)]"

definition prestera_msg_ip_addr_v :: "(string \<times> int) list" where
  "prestera_msg_ip_addr_v = c_enum 0
     [(''PRESTERA_MSG_IPV4'', Some 0),
      (''PRESTERA_MSG_IPV6'', None)]"

text \<open>The enumerations of \<open>prestera_event.h\<close>.\<close>

definition prestera_event_type :: "(string \<times> int) list" where
  "prestera_event_type = c_enum 0
     [(''PRESTERA_EVENT_TYPE_UNSPEC'', None),
      (''PRESTERA_EVENT_TYPE_PORT'', None),
      (''PRESTERA_EVENT_TYPE_FDB'', None),
      (''PRESTERA_EVENT_TYPE_RXTX'', None),
      (''PRESTERA_EVENT_TYPE_FW_LOG'', None),
      (''PRESTERA_EVENT_TYPE_PULSE'', None),
      (''PRESTERA_EVENT_TYPE_MAX'', None)]"

definition prestera_rxtx_event_id :: "(string \<times> int) list" where
  "prestera_rxtx_event_id = c_enum 0
     [(''PRESTERA_RXTX_EVENT_UNSPEC'', None),
      (''PRESTERA_RXTX_EVENT_RCV_PKT'', None),
      (''PRESTERA_RXTX_EVENT_MAX'', None)]"

definition prestera_port_event_id :: "(string \<times> int) list" where
  "prestera_port_event_id = c_enum 0
     [(''PRESTERA_PORT_EVENT_UNSPEC'', None),
      (''PRESTERA_PORT_EVENT_MAC_STATE_CHANGED'', None),
      (''PRESTERA_PORT_EVENT_MAX'', None)]"

definition prestera_fdb_event_id :: "(string \<times> int) list" where
  "prestera_fdb_event_id = c_enum 0
     [(''PRESTERA_FDB_EVENT_UNSPEC'', None),
      (''PRESTERA_FDB_EVENT_LEARNED'', None),
      (''PRESTERA_FDB_EVENT_AGED'', None),
      (''PRESTERA_FDB_EVENT_MAX'', None)]"

definition prestera_fdb_entry_type :: "(string \<times> int) list" where
  "prestera_fdb_entry_type = c_enum 0
     [(''PRESTERA_FDB_ENTRY_TYPE_REG_PORT'', None),
      (''PRESTERA_FDB_ENTRY_TYPE_LAG'', None),
      (''PRESTERA_FDB_ENTRY_TYPE_TEP'', None),
      (''PRESTERA_FDB_ENTRY_TYPE_MAX'', None)]"

section \<open>Constants\<close>

abbreviation (input) PRESTERA_MSG_CHUNK_SIZE :: nat where "PRESTERA_MSG_CHUNK_SIZE \<equiv> 1024"
abbreviation (input) PRESTERA_AP_PORT_MAX :: nat where "PRESTERA_AP_PORT_MAX \<equiv> 10"
abbreviation (input) PRESTERA_NHGR_SIZE_MAX :: nat where "PRESTERA_NHGR_SIZE_MAX \<equiv> 4"
abbreviation (input) PRESTERA_PORT_CNT_MAX :: nat where "PRESTERA_PORT_CNT_MAX \<equiv> 30"
abbreviation (input) PRESTERA_ACL_RULE_MATCH_TYPE_MAX :: nat where "PRESTERA_ACL_RULE_MATCH_TYPE_MAX \<equiv> 28"

text \<open>The enumerators the agent uses, at the width it compares them with.\<close>

abbreviation (input) PRESTERA_CMD_TYPE_SWITCH_INIT :: u32 where "PRESTERA_CMD_TYPE_SWITCH_INIT \<equiv> 0x1"
abbreviation (input) PRESTERA_CMD_TYPE_SWITCH_ATTR_SET :: u32 where "PRESTERA_CMD_TYPE_SWITCH_ATTR_SET \<equiv> 0x2"
abbreviation (input) PRESTERA_CMD_TYPE_KEEPALIVE_INIT :: u32 where "PRESTERA_CMD_TYPE_KEEPALIVE_INIT \<equiv> 0x3"
abbreviation (input) PRESTERA_CMD_TYPE_SWITCH_RESET :: u32 where "PRESTERA_CMD_TYPE_SWITCH_RESET \<equiv> 0x4"
abbreviation (input) PRESTERA_CMD_TYPE_PORT_ATTR_SET :: u32 where "PRESTERA_CMD_TYPE_PORT_ATTR_SET \<equiv> 0x100"
abbreviation (input) PRESTERA_CMD_TYPE_PORT_ATTR_GET :: u32 where "PRESTERA_CMD_TYPE_PORT_ATTR_GET \<equiv> 0x101"
abbreviation (input) PRESTERA_CMD_TYPE_PORT_INFO_GET :: u32 where "PRESTERA_CMD_TYPE_PORT_INFO_GET \<equiv> 0x110"
abbreviation (input) PRESTERA_CMD_TYPE_VLAN_CREATE :: u32 where "PRESTERA_CMD_TYPE_VLAN_CREATE \<equiv> 0x200"
abbreviation (input) PRESTERA_CMD_TYPE_VLAN_DELETE :: u32 where "PRESTERA_CMD_TYPE_VLAN_DELETE \<equiv> 0x201"
abbreviation (input) PRESTERA_CMD_TYPE_VLAN_PORT_SET :: u32 where "PRESTERA_CMD_TYPE_VLAN_PORT_SET \<equiv> 0x202"
abbreviation (input) PRESTERA_CMD_TYPE_VLAN_PVID_SET :: u32 where "PRESTERA_CMD_TYPE_VLAN_PVID_SET \<equiv> 0x203"
abbreviation (input) PRESTERA_CMD_TYPE_FDB_FLUSH_PORT :: u32 where "PRESTERA_CMD_TYPE_FDB_FLUSH_PORT \<equiv> 0x310"
abbreviation (input) PRESTERA_CMD_TYPE_ROUTER_LPM_ADD :: u32 where "PRESTERA_CMD_TYPE_ROUTER_LPM_ADD \<equiv> 0x610"
abbreviation (input) PRESTERA_CMD_TYPE_ROUTER_LPM_DELETE :: u32 where "PRESTERA_CMD_TYPE_ROUTER_LPM_DELETE \<equiv> 0x611"
abbreviation (input) PRESTERA_CMD_TYPE_ROUTER_VR_CREATE :: u32 where "PRESTERA_CMD_TYPE_ROUTER_VR_CREATE \<equiv> 0x630"
abbreviation (input) PRESTERA_CMD_TYPE_ROUTER_VR_DELETE :: u32 where "PRESTERA_CMD_TYPE_ROUTER_VR_DELETE \<equiv> 0x631"
abbreviation (input) PRESTERA_CMD_TYPE_ROUTER_MP_HASH_SET :: u32 where "PRESTERA_CMD_TYPE_ROUTER_MP_HASH_SET \<equiv> 0x650"
abbreviation (input) PRESTERA_CMD_TYPE_STP_PORT_SET :: u32 where "PRESTERA_CMD_TYPE_STP_PORT_SET \<equiv> 0x1000"
abbreviation (input) PRESTERA_CMD_TYPE_ACK :: u32 where "PRESTERA_CMD_TYPE_ACK \<equiv> 0x10000"
abbreviation (input) PRESTERA_CMD_TYPE_MAX :: u32 where "PRESTERA_CMD_TYPE_MAX \<equiv> 0x10001"
abbreviation (input) PRESTERA_CMD_PORT_ATTR_MTU :: u32 where "PRESTERA_CMD_PORT_ATTR_MTU \<equiv> 3"
abbreviation (input) PRESTERA_CMD_PORT_ATTR_MAC :: u32 where "PRESTERA_CMD_PORT_ATTR_MAC \<equiv> 4"
abbreviation (input) PRESTERA_CMD_PORT_ATTR_FLOOD :: u32 where "PRESTERA_CMD_PORT_ATTR_FLOOD \<equiv> 8"
abbreviation (input) PRESTERA_CMD_PORT_ATTR_CAPABILITY :: u32 where "PRESTERA_CMD_PORT_ATTR_CAPABILITY \<equiv> 9"
abbreviation (input) PRESTERA_CMD_PORT_ATTR_PHY_MODE :: u32 where "PRESTERA_CMD_PORT_ATTR_PHY_MODE \<equiv> 12"
abbreviation (input) PRESTERA_CMD_PORT_ATTR_STATS :: u32 where "PRESTERA_CMD_PORT_ATTR_STATS \<equiv> 17"
abbreviation (input) PRESTERA_CMD_PORT_ATTR_MAC_MODE :: u32 where "PRESTERA_CMD_PORT_ATTR_MAC_MODE \<equiv> 22"
abbreviation (input) PRESTERA_CMD_SWITCH_ATTR_MAC :: u32 where "PRESTERA_CMD_SWITCH_ATTR_MAC \<equiv> 1"
abbreviation (input) PRESTERA_CMD_SWITCH_ATTR_AGEING :: u32 where "PRESTERA_CMD_SWITCH_ATTR_AGEING \<equiv> 2"
abbreviation (input) PRESTERA_CMD_SWITCH_ATTR_TRAP_POLICER :: u32 where "PRESTERA_CMD_SWITCH_ATTR_TRAP_POLICER \<equiv> 3"
abbreviation (input) PRESTERA_CMD_ACK_OK :: u32 where "PRESTERA_CMD_ACK_OK \<equiv> 0"
abbreviation (input) PRESTERA_CMD_ACK_FAILED :: u32 where "PRESTERA_CMD_ACK_FAILED \<equiv> 1"
abbreviation (input) PRESTERA_PORT_PKTS_64_OCTETS_CNT :: nat where "PRESTERA_PORT_PKTS_64_OCTETS_CNT \<equiv> 5"
abbreviation (input) PRESTERA_EVENT_TYPE_PORT :: u16 where "PRESTERA_EVENT_TYPE_PORT \<equiv> 1"
abbreviation (input) PRESTERA_EVENT_TYPE_PULSE :: u16 where "PRESTERA_EVENT_TYPE_PULSE \<equiv> 5"
abbreviation (input) PRESTERA_PORT_EVENT_MAC_STATE_CHANGED :: u16 where "PRESTERA_PORT_EVENT_MAC_STATE_CHANGED \<equiv> 1"

lemmas enum_defs =
  prestera_cmd_type_t_def
  prestera_cmd_port_attr_def
  prestera_cmd_switch_attr_def
  prestera_cmd_ack_def
  prestera_port_cnt_def
  prestera_fc_def
  prestera_port_tp_def
  prestera_hw_fdb_entry_type_def
  prestera_port_flood_type_def
  prestera_acl_rule_match_type_def
  prestera_hw_flood_domain_port_type_def
  prestera_hw_sched_def
  prestera_policer_mode_def
  prestera_msg_ip_addr_v_def
  prestera_event_type_def
  prestera_rxtx_event_id_def
  prestera_port_event_id_def
  prestera_fdb_event_id_def
  prestera_fdb_entry_type_def

section \<open>Message structures\<close>

definition prestera_msg_cmd :: cty where
  "prestera_msg_cmd =
     CStruct [(''type'', le32)]"

definition prestera_msg_ret :: cty where
  "prestera_msg_ret =
     CStruct [(''cmd'', prestera_msg_cmd), (''status'', le32)]"

definition prestera_msg_common_req :: cty where
  "prestera_msg_common_req =
     CStruct [(''cmd'', prestera_msg_cmd)]"

definition prestera_msg_common_resp :: cty where
  "prestera_msg_common_resp =
     CStruct [(''ret'', prestera_msg_ret)]"

definition prestera_msg_switch_attr_req :: cty where
  "prestera_msg_switch_attr_req =
     CStruct
     [(''cmd'', prestera_msg_cmd),
      (''attr'', le32),
      (''param'', CUnion
          [(''ageing_timeout_ms'', le32),
           (''trap_policer_profile'', le32),
           ('''', CStruct [(''mac'', CArr ETH_ALEN cu8), (''__pad'', CArr 2 cu8)])])]"

definition prestera_msg_switch_init_resp :: cty where
  "prestera_msg_switch_init_resp =
     CStruct
     [(''ret'', prestera_msg_ret),
      (''port_count'', le32),
      (''mtu_max'', le32),
      (''size_tbl_router_nexthop'', le32),
      (''switch_id'', cu8),
      (''lag_max'', cu8),
      (''lag_member_max'', cu8)]"

definition prestera_msg_event_port_param :: cty where
  "prestera_msg_event_port_param =
     CStruct
     [('''', CUnion
          [(''mac'', CPacked
              [(''mode'', le32),
               (''speed'', le32),
               (''oper'', cu8),
               (''duplex'', cu8),
               (''fc'', cu8),
               (''fec'', cu8)]),
           (''phy'', CPacked
              [(''lmode_bmap'', le64),
               (''mdix'', cu8),
               (''fc'', cu8),
               (''__pad'', CArr 2 cu8)])])]"

definition prestera_msg_port_cap_param :: cty where
  "prestera_msg_port_cap_param =
     CStruct
     [(''link_mode'', le64),
      (''type'', cu8),
      (''fec'', cu8),
      (''fc'', cu8),
      (''transceiver'', cu8)]"

definition prestera_msg_port_flood_param :: cty where
  "prestera_msg_port_flood_param =
     CStruct
     [(''type'', cu8),
      (''enable'', cu8),
      (''__pad'', CArr 2 cu8)]"

definition prestera_msg_port_param :: cty where
  "prestera_msg_port_param =
     CUnion
     [(''source_id_default'', le32),
      (''source_id_filter'', le32),
      (''mtu'', le32),
      (''oper_state'', cu8),
      (''mac'', CArr ETH_ALEN cu8),
      (''accept_frm_type'', cu8),
      (''learning'', cu8),
      (''type'', cu8),
      (''br_locked'', cu8),
      (''link'', CUnion
          [(''mac'', CStruct
              [(''admin'', cu8),
               (''fc'', cu8),
               (''ap_enable'', cu8),
               (''__reserved'', CArr 5 cu8),
               ('''', CUnion
                  [(''reg_mode'', CStruct
                      [(''mode'', le32),
                       (''speed'', le32),
                       (''inband'', cu8),
                       (''duplex'', cu8),
                       (''fec'', cu8),
                       (''fec_supp'', cu8)]),
                   (''ap_modes'', CArr PRESTERA_AP_PORT_MAX (CStruct
                      [(''mode'', le32),
                       (''speed'', le32),
                       (''fec'', cu8),
                       (''fec_supp'', cu8),
                       (''__pad'', CArr 2 cu8)]))])]),
           (''phy'', CStruct
              [(''modes'', le64),
               (''mode'', le32),
               (''admin'', cu8),
               (''adv_enable'', cu8),
               (''mdix'', cu8),
               (''__pad'', cu8)])]),
      (''cap'', prestera_msg_port_cap_param),
      (''flood_ext'', prestera_msg_port_flood_param),
      (''link_evt'', prestera_msg_event_port_param)]"

definition prestera_msg_port_attr_req :: cty where
  "prestera_msg_port_attr_req =
     CStruct
     [(''cmd'', prestera_msg_cmd),
      (''attr'', le32),
      (''port'', le32),
      (''dev'', le32),
      (''param'', prestera_msg_port_param)]"

definition prestera_msg_port_attr_resp :: cty where
  "prestera_msg_port_attr_resp =
     CStruct
     [(''ret'', prestera_msg_ret),
      (''param'', prestera_msg_port_param)]"

definition prestera_msg_port_stats_resp :: cty where
  "prestera_msg_port_stats_resp =
     CStruct
     [(''ret'', prestera_msg_ret),
      (''stats'', CArr PRESTERA_PORT_CNT_MAX le64)]"

definition prestera_msg_port_info_req :: cty where
  "prestera_msg_port_info_req =
     CStruct [(''cmd'', prestera_msg_cmd), (''port'', le32)]"

definition prestera_msg_port_info_resp :: cty where
  "prestera_msg_port_info_resp =
     CStruct
     [(''ret'', prestera_msg_ret),
      (''hw_id'', le32),
      (''dev_id'', le32),
      (''fp_id'', le16),
      (''pad'', CArr 2 cu8)]"

definition prestera_msg_port_storm_control_cfg_set_req :: cty where
  "prestera_msg_port_storm_control_cfg_set_req =
     CStruct
     [(''cmd'', prestera_msg_cmd),
      (''port'', le32),
      (''dev'', le32),
      (''storm_type'', le32),
      (''kbyte_per_sec_rate'', le32)]"

definition prestera_msg_vlan_req :: cty where
  "prestera_msg_vlan_req =
     CStruct
     [(''cmd'', prestera_msg_cmd),
      (''port'', le32),
      (''dev'', le32),
      (''vid'', le16),
      (''is_member'', cu8),
      (''is_tagged'', cu8)]"

definition prestera_msg_vlan_attr_req :: cty where
  "prestera_msg_vlan_attr_req =
     CStruct
     [(''cmd'', prestera_msg_cmd),
      (''vid'', le16),
      (''__reserved'', le16),
      (''flood_domain_idx'', le32)]"

definition prestera_msg_fdb_req :: cty where
  "prestera_msg_fdb_req =
     CStruct
     [(''cmd'', prestera_msg_cmd),
      (''flush_mode'', le32),
      (''dest'', CUnion
          [('''', CStruct [(''port'', le32), (''dev'', le32)]),
           (''lag_id'', le16)]),
      (''vid'', le16),
      (''dest_type'', cu8),
      (''dynamic'', cu8),
      (''mac'', CArr ETH_ALEN cu8),
      (''__pad'', CArr 2 cu8)]"

definition prestera_msg_log_lvl_set_req :: cty where
  "prestera_msg_log_lvl_set_req =
     CStruct
     [(''cmd'', prestera_msg_cmd),
      (''lib'', le32),
      (''type'', le32)]"

definition prestera_msg_iface :: cty where
  "prestera_msg_iface =
     CStruct
     [('''', CUnion
          [('''', CStruct [(''dev'', le32), (''port'', le32)]),
           (''lag_id'', le16)]),
      (''vr_id'', le16),
      (''vid'', le16),
      (''type'', cu8),
      (''pad'', CArr 3 cu8)]"

definition prestera_msg_ip_addr :: cty where
  "prestera_msg_ip_addr =
     CStruct
     [(''u'', CUnion [(''ipv6'', CArr 4 be32), (''ipv4'', be32)]),
      (''v'', cu8),
      (''pad'', CArr 3 cu8)]"

definition prestera_msg_nh :: cty where
  "prestera_msg_nh =
     CStruct
     [(''oif'', prestera_msg_iface),
      (''hw_id'', le32),
      (''mac'', CArr ETH_ALEN cu8),
      (''is_active'', cu8),
      (''pad'', cu8)]"

definition prestera_msg_nh_mangle_info :: cty where
  "prestera_msg_nh_mangle_info =
     CStruct
     [(''nh'', prestera_msg_nh),
      (''sip'', be32),
      (''dip'', be32),
      (''l4_src'', be16),
      (''l4_dst'', be16),
      (''l4_src_valid_l4_dst_valid_sip_valid_dip_valid'', cu8),
      (''pad'', CArr 3 cu8)]"

definition prestera_msg_nh_mangle_req :: cty where
  "prestera_msg_nh_mangle_req =
     CStruct
     [(''cmd'', prestera_msg_cmd),
      (''info'', prestera_msg_nh_mangle_info),
      (''nh_id'', le32)]"

definition prestera_msg_nh_mangle_resp :: cty where
  "prestera_msg_nh_mangle_resp =
     CStruct
     [(''ret'', prestera_msg_ret),
      (''info'', prestera_msg_nh_mangle_info),
      (''nh_id'', le32)]"

definition prestera_msg_acl_action :: cty where
  "prestera_msg_acl_action =
     CStruct
     [(''id'', le32),
      (''__reserved'', le32),
      ('''', CUnion
          [(''trap'', CStruct [(''hw_tc'', cu8)]),
           (''police'', CStruct [(''id'', le32)]),
           (''nh'', CStruct [(''nh_id'', le32)]),
           (''nat'', CStruct
              [(''old_addr'', be32),
               (''new_addr'', be32),
               (''port'', le32),
               (''dev'', le32),
               (''flags'', le32),
               (''__pad'', le32)]),
           (''jump'', CStruct [(''index'', le32)]),
           (''count'', CStruct [(''id'', le32)]),
           (''remark'', CStruct [(''dscp'', cu32)])])]"

definition prestera_msg_vtcam_create_req :: cty where
  "prestera_msg_vtcam_create_req =
     CStruct
     [(''cmd'', prestera_msg_cmd),
      (''keymask'', CArr PRESTERA_ACL_RULE_MATCH_TYPE_MAX le32),
      (''direction'', cu8),
      (''lookup'', cu8),
      (''pad'', CArr 2 cu8)]"

definition prestera_msg_vtcam_destroy_req :: cty where
  "prestera_msg_vtcam_destroy_req =
     CStruct [(''cmd'', prestera_msg_cmd), (''vtcam_id'', le32)]"

definition prestera_msg_vtcam_rule_add_req :: cty where
  "prestera_msg_vtcam_rule_add_req =
     CStruct
     [(''cmd'', prestera_msg_cmd),
      (''key'', CArr PRESTERA_ACL_RULE_MATCH_TYPE_MAX le32),
      (''keymask'', CArr PRESTERA_ACL_RULE_MATCH_TYPE_MAX le32),
      (''vtcam_id'', le32),
      (''prio'', le32),
      (''n_act'', le32)]"

definition prestera_msg_vtcam_rule_del_req :: cty where
  "prestera_msg_vtcam_rule_del_req =
     CStruct
     [(''cmd'', prestera_msg_cmd),
      (''vtcam_id'', le32),
      (''id'', le32)]"

definition prestera_msg_vtcam_bind_req :: cty where
  "prestera_msg_vtcam_bind_req =
     CStruct
     [(''cmd'', prestera_msg_cmd),
      ('''', CUnion
          [(''port'', CStruct [(''hw_id'', le32), (''dev_id'', le32)]),
           (''index'', le32)]),
      (''vtcam_id'', le32),
      (''pcl_id'', le16),
      (''type'', le16)]"

definition prestera_msg_vtcam_resp :: cty where
  "prestera_msg_vtcam_resp =
     CStruct
     [(''ret'', prestera_msg_ret),
      (''vtcam_id'', le32),
      (''rule_id'', le32)]"

definition prestera_msg_counter_req :: cty where
  "prestera_msg_counter_req =
     CStruct
     [(''cmd'', prestera_msg_cmd),
      (''client'', le32),
      (''block_id'', le32),
      (''num_counters'', le32)]"

definition prestera_msg_counter_stats :: cty where
  "prestera_msg_counter_stats =
     CStruct [(''packets'', le64), (''bytes'', le64)]"

definition prestera_msg_counter_resp :: cty where
  "prestera_msg_counter_resp =
     CStruct
     [(''ret'', prestera_msg_ret),
      (''block_id'', le32),
      (''offset'', le32),
      (''num_counters'', le32),
      (''done'', le32),
      (''stats'', CArr 0 prestera_msg_counter_stats)]"

definition prestera_msg_nat_port_req :: cty where
  "prestera_msg_nat_port_req =
     CStruct
     [(''cmd'', prestera_msg_cmd),
      (''port'', le32),
      (''dev'', le32),
      (''neigh_mac'', CArr ETH_ALEN cu8),
      (''__pad'', CArr 2 cu8)]"

definition prestera_msg_span_req :: cty where
  "prestera_msg_span_req =
     CStruct
     [(''cmd'', prestera_msg_cmd),
      (''port'', le32),
      (''dev'', le32),
      (''id'', cu8),
      (''pad'', CArr 3 cu8)]"

definition prestera_msg_span_resp :: cty where
  "prestera_msg_span_resp =
     CStruct
     [(''ret'', prestera_msg_ret),
      (''id'', cu8),
      (''pad'', CArr 3 cu8)]"

definition prestera_msg_event :: cty where
  "prestera_msg_event =
     CStruct [(''type'', le16), (''id'', le16)]"

definition prestera_msg_event_log :: cty where
  "prestera_msg_event_log =
     CStruct
     [(''id'', prestera_msg_event),
      (''log_string_size'', le32),
      (''log_string'', CArr 0 cu8)]"

definition prestera_msg_event_fdb_param :: cty where
  "prestera_msg_event_fdb_param =
     CUnion [(''mac'', CArr ETH_ALEN cu8)]"

definition prestera_msg_event_fdb :: cty where
  "prestera_msg_event_fdb =
     CStruct
     [(''id'', prestera_msg_event),
      (''vid'', le32),
      (''dest'', CUnion [(''port_id'', le32), (''lag_id'', le16)]),
      (''param'', prestera_msg_event_fdb_param),
      (''dest_type'', cu8)]"

definition prestera_msg_event_port :: cty where
  "prestera_msg_event_port =
     CStruct
     [(''id'', prestera_msg_event),
      (''port_id'', le32),
      (''param'', prestera_msg_event_port_param)]"

definition prestera_msg_bridge_req :: cty where
  "prestera_msg_bridge_req =
     CStruct
     [(''cmd'', prestera_msg_cmd),
      (''port'', le32),
      (''dev'', le32),
      (''bridge'', le16),
      (''pad'', CArr 2 cu8)]"

definition prestera_msg_bridge_resp :: cty where
  "prestera_msg_bridge_resp =
     CStruct
     [(''ret'', prestera_msg_ret),
      (''bridge'', le16),
      (''pad'', CArr 2 cu8)]"

definition prestera_msg_macvlan_req :: cty where
  "prestera_msg_macvlan_req =
     CStruct
     [(''cmd'', prestera_msg_cmd),
      (''vr_id'', le16),
      (''vid'', le16),
      (''mac'', CArr ETH_ALEN cu8),
      (''pad'', CArr 2 cu8),
      (''iface'', prestera_msg_iface)]"

definition prestera_msg_stp_req :: cty where
  "prestera_msg_stp_req =
     CStruct
     [(''cmd'', prestera_msg_cmd),
      (''port'', le32),
      (''dev'', le32),
      (''vid'', le16),
      (''state'', cu8),
      (''__pad'', cu8)]"

definition prestera_msg_rif_req :: cty where
  "prestera_msg_rif_req =
     CStruct
     [(''cmd'', prestera_msg_cmd),
      (''iif'', prestera_msg_iface),
      (''mtu'', le32),
      (''rif_id'', le16),
      (''__reserved'', le16),
      (''mac'', CArr ETH_ALEN cu8),
      (''__pad'', CArr 2 cu8)]"

definition prestera_msg_rif_resp :: cty where
  "prestera_msg_rif_resp =
     CStruct
     [(''ret'', prestera_msg_ret),
      (''rif_id'', le16),
      (''__pad'', le16)]"

definition prestera_msg_lpm_req :: cty where
  "prestera_msg_lpm_req =
     CStruct
     [(''cmd'', prestera_msg_cmd),
      (''dst'', prestera_msg_ip_addr),
      (''grp_id'', le32),
      (''dst_len'', le32),
      (''vr_id'', le16),
      (''__pad'', le16)]"

definition prestera_msg_nh_req :: cty where
  "prestera_msg_nh_req =
     CStruct
     [(''cmd'', prestera_msg_cmd),
      (''nh'', CArr PRESTERA_NHGR_SIZE_MAX prestera_msg_nh),
      (''size'', le32),
      (''grp_id'', le32)]"

definition prestera_msg_nh_resp :: cty where
  "prestera_msg_nh_resp =
     CStruct
     [(''ret'', prestera_msg_ret),
      (''nh'', CArr PRESTERA_NHGR_SIZE_MAX prestera_msg_nh)]"

definition prestera_msg_nh_chunk_req :: cty where
  "prestera_msg_nh_chunk_req =
     CStruct [(''cmd'', prestera_msg_cmd), (''offset'', le32)]"

definition prestera_msg_nh_chunk_resp :: cty where
  "prestera_msg_nh_chunk_resp =
     CStruct
     [(''ret'', prestera_msg_ret),
      (''hw_state'', CArr PRESTERA_MSG_CHUNK_SIZE cu8)]"

definition prestera_msg_nh_grp_req :: cty where
  "prestera_msg_nh_grp_req =
     CStruct
     [(''cmd'', prestera_msg_cmd),
      (''grp_id'', le32),
      (''size'', le32)]"

definition prestera_msg_nh_grp_resp :: cty where
  "prestera_msg_nh_grp_resp =
     CStruct [(''ret'', prestera_msg_ret), (''grp_id'', le32)]"

definition prestera_msg_mp_req :: cty where
  "prestera_msg_mp_req =
     CStruct
     [(''cmd'', prestera_msg_cmd),
      (''hash_policy'', cu8),
      (''__pad'', CArr 3 cu8)]"

definition prestera_msg_rxtx_req :: cty where
  "prestera_msg_rxtx_req =
     CStruct
     [(''cmd'', prestera_msg_cmd),
      (''use_sdma'', cu8),
      (''pad'', CArr 3 cu8)]"

definition prestera_msg_rxtx_resp :: cty where
  "prestera_msg_rxtx_resp =
     CStruct [(''ret'', prestera_msg_ret), (''map_addr'', le32)]"

definition prestera_msg_vr_req :: cty where
  "prestera_msg_vr_req =
     CStruct
     [(''cmd'', prestera_msg_cmd),
      (''vr_id'', le16),
      (''__pad'', le16)]"

definition prestera_msg_vr_resp :: cty where
  "prestera_msg_vr_resp =
     CStruct
     [(''ret'', prestera_msg_ret),
      (''vr_id'', le16),
      (''__pad'', le16)]"

definition prestera_msg_lag_req :: cty where
  "prestera_msg_lag_req =
     CStruct
     [(''cmd'', prestera_msg_cmd),
      (''port'', le32),
      (''dev'', le32),
      (''lag_id'', le16),
      (''vr_id'', le16)]"

definition prestera_msg_l2tun_cmd :: cty where
  "prestera_msg_l2tun_cmd =
     CStruct [(''cmd'', prestera_msg_cmd), (''bridge_id'', le16)]"

definition prestera_msg_l2tun_ret :: cty where
  "prestera_msg_l2tun_ret =
     CStruct [(''ret'', prestera_msg_ret), (''hw_tun_id'', le32)]"

definition prestera_msg_l2tun_tep_cmd :: cty where
  "prestera_msg_l2tun_tep_cmd =
     CStruct
     [(''cmd'', prestera_msg_cmd),
      (''hw_tep_id'', le32),
      (''source_id'', le32),
      (''vni'', le32),
      (''oif'', prestera_msg_iface),
      (''dst_ip'', prestera_msg_ip_addr),
      (''src_ip'', prestera_msg_ip_addr),
      (''mac'', CArr ETH_ALEN cu8),
      (''dst_port'', le16),
      (''src_port'', le16),
      (''enabled'', cu8)]"

definition prestera_msg_l2tun_tep_ret :: cty where
  "prestera_msg_l2tun_tep_ret =
     CStruct [(''ret'', prestera_msg_ret), (''hw_tep_id'', le32)]"

definition prestera_msg_l2tun_tt_cmd :: cty where
  "prestera_msg_l2tun_tt_cmd =
     CStruct
     [(''cmd'', prestera_msg_cmd),
      (''hw_tt_id'', le32),
      (''match_ip'', prestera_msg_ip_addr),
      (''match_ip_src'', prestera_msg_ip_addr),
      (''prio'', le32),
      (''match_vni'', le32),
      (''source_id'', le32),
      (''tep_id'', le32),
      (''match_udp'', le16),
      (''match_psngr_etype'', le16),
      (''match_psngr_etype_mask'', le16),
      (''match_psngr_vtag'', le16),
      (''match_psngr_vtag_mask'', le16),
      (''pvid'', le16),
      (''match_ip_src_valid'', cu8),
      (''set_pvid_tagged'', cu8)]"

definition prestera_msg_l2tun_tt_ret :: cty where
  "prestera_msg_l2tun_tt_ret =
     CStruct [(''ret'', prestera_msg_ret), (''hw_tt_id'', le32)]"

definition prestera_msg_keepalive_init_req :: cty where
  "prestera_msg_keepalive_init_req =
     CStruct [(''cmd'', prestera_msg_cmd), (''pulse_timeout_ms'', le32)]"

definition prestera_msg_cpu_code_counter_req :: cty where
  "prestera_msg_cpu_code_counter_req =
     CStruct
     [(''cmd'', prestera_msg_cmd),
      (''counter_type'', cu8),
      (''code'', cu8),
      (''pad'', CArr 2 cu8)]"

definition prestera_msg_cpu_code_counter_resp :: cty where
  "prestera_msg_cpu_code_counter_resp =
     CStruct [(''ret'', prestera_msg_ret), (''packet_count'', le64)]"

definition prestera_msg_flood_domain_create_req :: cty where
  "prestera_msg_flood_domain_create_req =
     CStruct [(''cmd'', prestera_msg_cmd)]"

definition prestera_msg_flood_domain_create_resp :: cty where
  "prestera_msg_flood_domain_create_resp =
     CStruct [(''ret'', prestera_msg_ret), (''flood_domain_idx'', le32)]"

definition prestera_msg_flood_domain_destroy_req :: cty where
  "prestera_msg_flood_domain_destroy_req =
     CStruct [(''cmd'', prestera_msg_cmd), (''flood_domain_idx'', le32)]"

definition prestera_msg_flood_domain_ports_set_req :: cty where
  "prestera_msg_flood_domain_ports_set_req =
     CStruct
     [(''cmd'', prestera_msg_cmd),
      (''flood_domain_idx'', le32),
      (''ports_num'', le32)]"

definition prestera_msg_flood_domain_ports_reset_req :: cty where
  "prestera_msg_flood_domain_ports_reset_req =
     CStruct [(''cmd'', prestera_msg_cmd), (''flood_domain_idx'', le32)]"

definition prestera_msg_flood_domain_port :: cty where
  "prestera_msg_flood_domain_port =
     CStruct
     [('''', CUnion
          [('''', CStruct [(''port_num'', le32), (''dev_num'', le32)]),
           (''lag_id'', le16)]),
      (''vid'', le16),
      (''port_type'', le16)]"

definition prestera_msg_mdb_create_req :: cty where
  "prestera_msg_mdb_create_req =
     CStruct
     [(''cmd'', prestera_msg_cmd),
      (''flood_domain_idx'', le32),
      (''vid'', le16),
      (''mac'', CArr ETH_ALEN cu8)]"

definition prestera_msg_mdb_destroy_req :: cty where
  "prestera_msg_mdb_destroy_req =
     CStruct
     [(''cmd'', prestera_msg_cmd),
      (''flood_domain_idx'', le32),
      (''vid'', le16),
      (''mac'', CArr ETH_ALEN cu8)]"

definition prestera_msg_qos_req :: cty where
  "prestera_msg_qos_req =
     CStruct
     [(''cmd'', prestera_msg_cmd),
      (''port'', cu32),
      (''dev'', cu32),
      (''priority'', cu32),
      (''mode'', cu32),
      (''dscp'', CArr 64 cu8)]"

definition prestera_msg_sched_req :: cty where
  "prestera_msg_sched_req =
     CStruct
     [(''cmd'', prestera_msg_cmd),
      (''dev'', le32),
      (''port'', le32),
      (''id'', le32)]"

definition prestera_msg_sched_resp :: cty where
  "prestera_msg_sched_resp =
     CStruct [(''ret'', prestera_msg_ret), (''id'', le32)]"

definition prestera_msg_sched_attr_req :: cty where
  "prestera_msg_sched_attr_req =
     CStruct
     [(''cmd'', prestera_msg_cmd),
      ('''', CUnion [(''sdwrr'', CStruct [(''weight'', le32)])]),
      (''dev'', le32),
      (''port'', le32),
      (''id'', le32),
      (''type'', cu8),
      (''tc'', cu8)]"

definition prestera_msg_shaper_req :: cty where
  "prestera_msg_shaper_req =
     CStruct
     [(''cmd'', prestera_msg_cmd),
      (''port'', cu32),
      (''dev'', cu32),
      (''tc'', cu32),
      (''burst'', cu32),
      (''rate'', cu32)]"

definition prestera_msg_shaper_stats_resp :: cty where
  "prestera_msg_shaper_stats_resp =
     CStruct
     [(''ret'', prestera_msg_ret),
      (''pkts'', cu64),
      (''bytes'', cu64),
      (''drops'', cu64)]"

definition prestera_msg_wred_req :: cty where
  "prestera_msg_wred_req =
     CStruct
     [(''cmd'', prestera_msg_cmd),
      (''port'', cu32),
      (''dev'', cu32),
      (''tc'', cu32),
      (''min'', cu32),
      (''max'', cu32),
      (''prob'', cu32)]"

definition prestera_msg_sct_ratelimit_set_req :: cty where
  "prestera_msg_sct_ratelimit_set_req =
     CStruct
     [(''cmd'', prestera_msg_cmd),
      (''rate_pps'', cu32),
      (''group'', cu8)]"

definition prestera_msg_sct_ratelimit_get_req :: cty where
  "prestera_msg_sct_ratelimit_get_req =
     CStruct [(''cmd'', prestera_msg_cmd), (''group'', cu8)]"

definition prestera_msg_sct_ratelimit_get_resp :: cty where
  "prestera_msg_sct_ratelimit_get_resp =
     CStruct [(''ret'', prestera_msg_ret), (''rate_pps'', cu32)]"

definition prestera_msg_ipg_set_req :: cty where
  "prestera_msg_ipg_set_req =
     CAligned 4 (CPacked
     [(''cmd'', prestera_msg_cmd),
      (''ipg'', cu32)])"

definition prestera_msg_ipg_get_resp :: cty where
  "prestera_msg_ipg_get_resp =
     CAligned 4 (CPacked
     [(''ret'', prestera_msg_ret),
      (''ipg'', cu32)])"

definition prestera_msg_policer_req :: cty where
  "prestera_msg_policer_req =
     CStruct
     [(''cmd'', prestera_msg_cmd),
      (''id'', le32),
      ('''', CUnion
          [(''sr_tcm'', CPacked [(''cir'', le64), (''cbs'', le32)]),
           (''reserved'', CArr 6 le32)]),
      (''mode'', cu8),
      (''type'', cu8)]"

definition prestera_msg_policer_resp :: cty where
  "prestera_msg_policer_resp =
     CStruct [(''ret'', prestera_msg_ret), (''id'', le32)]"

section \<open>Event structures of \<open>prestera_event.h\<close>\<close>

definition prestera_fdb_event :: cty where
  "prestera_fdb_event =
     CStruct
     [(''type'', cenum),
      (''dest'', CUnion [(''port_id'', cu32), (''lag_id'', cu16)]),
      (''vid'', cu32),
      (''data'', CUnion [(''mac'', CArr ETH_ALEN cu8)])]"

definition prestera_port_event :: cty where
  "prestera_port_event =
     CStruct
     [(''port_id'', cu32),
      (''data'', CUnion
          [(''mac'', CStruct
              [(''oper'', cu8),
               (''mode'', cu32),
               (''speed'', cu32),
               (''duplex'', cu8),
               (''fc'', cu8),
               (''fec'', cu8)]),
           (''phy'', CStruct
              [(''mdix'', cu8),
               (''lmode_bmap'', cu64),
               (''remote_fc'', CStruct [(''pause'', cbool), (''asym_pause'', cbool)])])])]"

definition prestera_fw_log_event :: cty where
  "prestera_fw_log_event =
     CStruct [(''log_len'', cu32), (''data'', cptr)]"

definition prestera_event :: cty where
  "prestera_event =
     CStruct
     [(''id'', cu16),
      ('''', CUnion
          [(''port_evt'', prestera_port_event),
           (''fdb_evt'', prestera_fdb_event),
           (''fw_log_evt'', prestera_fw_log_event)])]"

lemmas struct_defs =
  prestera_msg_cmd_def
  prestera_msg_ret_def
  prestera_msg_common_req_def
  prestera_msg_common_resp_def
  prestera_msg_switch_attr_req_def
  prestera_msg_switch_init_resp_def
  prestera_msg_event_port_param_def
  prestera_msg_port_cap_param_def
  prestera_msg_port_flood_param_def
  prestera_msg_port_param_def
  prestera_msg_port_attr_req_def
  prestera_msg_port_attr_resp_def
  prestera_msg_port_stats_resp_def
  prestera_msg_port_info_req_def
  prestera_msg_port_info_resp_def
  prestera_msg_port_storm_control_cfg_set_req_def
  prestera_msg_vlan_req_def
  prestera_msg_vlan_attr_req_def
  prestera_msg_fdb_req_def
  prestera_msg_log_lvl_set_req_def
  prestera_msg_iface_def
  prestera_msg_ip_addr_def
  prestera_msg_nh_def
  prestera_msg_nh_mangle_info_def
  prestera_msg_nh_mangle_req_def
  prestera_msg_nh_mangle_resp_def
  prestera_msg_acl_action_def
  prestera_msg_vtcam_create_req_def
  prestera_msg_vtcam_destroy_req_def
  prestera_msg_vtcam_rule_add_req_def
  prestera_msg_vtcam_rule_del_req_def
  prestera_msg_vtcam_bind_req_def
  prestera_msg_vtcam_resp_def
  prestera_msg_counter_req_def
  prestera_msg_counter_stats_def
  prestera_msg_counter_resp_def
  prestera_msg_nat_port_req_def
  prestera_msg_span_req_def
  prestera_msg_span_resp_def
  prestera_msg_event_def
  prestera_msg_event_log_def
  prestera_msg_event_fdb_param_def
  prestera_msg_event_fdb_def
  prestera_msg_event_port_def
  prestera_msg_bridge_req_def
  prestera_msg_bridge_resp_def
  prestera_msg_macvlan_req_def
  prestera_msg_stp_req_def
  prestera_msg_rif_req_def
  prestera_msg_rif_resp_def
  prestera_msg_lpm_req_def
  prestera_msg_nh_req_def
  prestera_msg_nh_resp_def
  prestera_msg_nh_chunk_req_def
  prestera_msg_nh_chunk_resp_def
  prestera_msg_nh_grp_req_def
  prestera_msg_nh_grp_resp_def
  prestera_msg_mp_req_def
  prestera_msg_rxtx_req_def
  prestera_msg_rxtx_resp_def
  prestera_msg_vr_req_def
  prestera_msg_vr_resp_def
  prestera_msg_lag_req_def
  prestera_msg_l2tun_cmd_def
  prestera_msg_l2tun_ret_def
  prestera_msg_l2tun_tep_cmd_def
  prestera_msg_l2tun_tep_ret_def
  prestera_msg_l2tun_tt_cmd_def
  prestera_msg_l2tun_tt_ret_def
  prestera_msg_keepalive_init_req_def
  prestera_msg_cpu_code_counter_req_def
  prestera_msg_cpu_code_counter_resp_def
  prestera_msg_flood_domain_create_req_def
  prestera_msg_flood_domain_create_resp_def
  prestera_msg_flood_domain_destroy_req_def
  prestera_msg_flood_domain_ports_set_req_def
  prestera_msg_flood_domain_ports_reset_req_def
  prestera_msg_flood_domain_port_def
  prestera_msg_mdb_create_req_def
  prestera_msg_mdb_destroy_req_def
  prestera_msg_qos_req_def
  prestera_msg_sched_req_def
  prestera_msg_sched_resp_def
  prestera_msg_sched_attr_req_def
  prestera_msg_shaper_req_def
  prestera_msg_shaper_stats_resp_def
  prestera_msg_wred_req_def
  prestera_msg_sct_ratelimit_set_req_def
  prestera_msg_sct_ratelimit_get_req_def
  prestera_msg_sct_ratelimit_get_resp_def
  prestera_msg_ipg_set_req_def
  prestera_msg_ipg_get_resp_def
  prestera_msg_policer_req_def
  prestera_msg_policer_resp_def
  prestera_fdb_event_def
  prestera_port_event_def
  prestera_fw_log_event_def
  prestera_event_def

section \<open>The size checks of the test\<close>

text \<open>Each \<open>BUILD_BUG_ON(sizeof(s) != n)\<close> of \<open>test_prestera_msg_sizes\<close> as a pair.\<close>

definition test_prestera_msg_sizes :: "(cty \<times> nat) list" where
  "test_prestera_msg_sizes =
     [(prestera_msg_common_req, 4),
      (prestera_msg_switch_attr_req, 16),
      (prestera_msg_port_attr_req, 144),
      (prestera_msg_port_info_req, 8),
      (prestera_msg_vlan_req, 16),
      (prestera_msg_vlan_attr_req, 12),
      (prestera_msg_fdb_req, 28),
      (prestera_msg_bridge_req, 16),
      (prestera_msg_span_req, 16),
      (prestera_msg_stp_req, 16),
      (prestera_msg_rxtx_req, 8),
      (prestera_msg_lag_req, 16),
      (prestera_msg_cpu_code_counter_req, 8),
      (prestera_msg_vtcam_create_req, 120),
      (prestera_msg_vtcam_destroy_req, 8),
      (prestera_msg_vtcam_rule_add_req, 240),
      (prestera_msg_vtcam_rule_del_req, 12),
      (prestera_msg_vtcam_bind_req, 20),
      (prestera_msg_counter_req, 16),
      (prestera_msg_counter_stats, 16),
      (prestera_msg_nh_mangle_req, 52),
      (prestera_msg_nat_port_req, 20),
      (prestera_msg_macvlan_req, 32),
      (prestera_msg_rif_req, 36),
      (prestera_msg_lpm_req, 36),
      (prestera_msg_nh_req, 124),
      (prestera_msg_nh_chunk_req, 8),
      (prestera_msg_nh_grp_req, 12),
      (prestera_msg_mp_req, 8),
      (prestera_msg_vr_req, 8),
      (prestera_msg_keepalive_init_req, 8),
      (prestera_msg_flood_domain_create_req, 4),
      (prestera_msg_flood_domain_destroy_req, 8),
      (prestera_msg_flood_domain_ports_set_req, 12),
      (prestera_msg_flood_domain_ports_reset_req, 8),
      (prestera_msg_mdb_create_req, 16),
      (prestera_msg_mdb_destroy_req, 16),
      (prestera_msg_qos_req, 84),
      (prestera_msg_sched_req, 16),
      (prestera_msg_sched_attr_req, 24),
      (prestera_msg_shaper_req, 24),
      (prestera_msg_wred_req, 28),
      (prestera_msg_sct_ratelimit_set_req, 12),
      (prestera_msg_sct_ratelimit_get_req, 8),
      (prestera_msg_policer_req, 36),
      (prestera_msg_acl_action, 32),
      (prestera_msg_iface, 16),
      (prestera_msg_ip_addr, 20),
      (prestera_msg_nh, 28),
      (prestera_msg_nh_mangle_info, 44),
      (prestera_msg_flood_domain_port, 12),
      (prestera_msg_common_resp, 8),
      (prestera_msg_switch_init_resp, 24),
      (prestera_msg_port_attr_resp, 136),
      (prestera_msg_port_stats_resp, 248),
      (prestera_msg_port_info_resp, 20),
      (prestera_msg_bridge_resp, 12),
      (prestera_msg_span_resp, 12),
      (prestera_msg_rxtx_resp, 12),
      (prestera_msg_vtcam_resp, 16),
      (prestera_msg_counter_resp, 24),
      (prestera_msg_nh_mangle_resp, 56),
      (prestera_msg_rif_resp, 12),
      (prestera_msg_nh_resp, 120),
      (prestera_msg_nh_chunk_resp, 1032),
      (prestera_msg_nh_grp_resp, 12),
      (prestera_msg_vr_resp, 12),
      (prestera_msg_flood_domain_create_resp, 12),
      (prestera_msg_sched_resp, 12),
      (prestera_msg_shaper_stats_resp, 32),
      (prestera_msg_sct_ratelimit_get_resp, 12),
      (prestera_msg_policer_resp, 12),
      (prestera_msg_event_port, 20),
      (prestera_msg_event_fdb, 20),
      (prestera_msg_event_log, 8)]"

section \<open>Layout facts\<close>

text \<open>Every structure of the test table has the size the test asserts.\<close>

lemma layout_sizes: "list_all (\<lambda>(t, n). csize t = n) test_prestera_msg_sizes"
  by code_simp

lemma layout_wf: "list_all (\<lambda>(t, n). cwf t) test_prestera_msg_sizes"
  by code_simp

text \<open>Size, well-formedness and members of the structures the agent reads and writes.\<close>

lemma prestera_msg_fdb_req_layout [simp]:
  "csize prestera_msg_fdb_req = 28"
  "cwf prestera_msg_fdb_req"
  "cfield prestera_msg_fdb_req [''dest'', '''', ''port''] = Some (8, le32)"
  by code_simp+

lemma prestera_msg_vr_req_layout [simp]:
  "csize prestera_msg_vr_req = 8"
  "cwf prestera_msg_vr_req"
  "cfield prestera_msg_vr_req [''vr_id''] = Some (4, le16)"
  by code_simp+

lemma prestera_msg_mp_req_layout [simp]:
  "csize prestera_msg_mp_req = 8"
  "cwf prestera_msg_mp_req"
  "cfield prestera_msg_mp_req [''hash_policy''] = Some (4, cu8)"
  by code_simp+

lemma prestera_msg_lpm_req_layout [simp]:
  "csize prestera_msg_lpm_req = 36"
  "cwf prestera_msg_lpm_req"
  "cfield prestera_msg_lpm_req [''dst'', ''u'', ''ipv4''] = Some (4, be32)"
  by code_simp+

lemma prestera_msg_switch_attr_req_layout [simp]:
  "csize prestera_msg_switch_attr_req = 16"
  "cwf prestera_msg_switch_attr_req"
  "cfield prestera_msg_switch_attr_req [''attr''] = Some (4, le32)"
  "cfield prestera_msg_switch_attr_req [''param'', ''ageing_timeout_ms''] = Some (8, le32)"
  "cfield prestera_msg_switch_attr_req [''param'', ''trap_policer_profile''] = Some (8, le32)"
  "cfield prestera_msg_switch_attr_req [''param'', '''', ''mac''] = Some (8, (CArr ETH_ALEN cu8))"
  by code_simp+

lemma prestera_msg_keepalive_init_req_layout [simp]:
  "csize prestera_msg_keepalive_init_req = 8"
  "cwf prestera_msg_keepalive_init_req"
  "cfield prestera_msg_keepalive_init_req [''pulse_timeout_ms''] = Some (4, le32)"
  by code_simp+

lemma prestera_msg_vlan_req_layout [simp]:
  "csize prestera_msg_vlan_req = 16"
  "cwf prestera_msg_vlan_req"
  "cfield prestera_msg_vlan_req [''port''] = Some (4, le32)"
  "cfield prestera_msg_vlan_req [''vid''] = Some (12, le16)"
  "cfield prestera_msg_vlan_req [''is_tagged''] = Some (15, cu8)"
  by code_simp+

lemma prestera_msg_stp_req_layout [simp]:
  "csize prestera_msg_stp_req = 16"
  "cwf prestera_msg_stp_req"
  "cfield prestera_msg_stp_req [''port''] = Some (4, le32)"
  "cfield prestera_msg_stp_req [''vid''] = Some (12, le16)"
  "cfield prestera_msg_stp_req [''state''] = Some (14, cu8)"
  by code_simp+

lemma prestera_msg_port_info_req_layout [simp]:
  "csize prestera_msg_port_info_req = 8"
  "cwf prestera_msg_port_info_req"
  "cfield prestera_msg_port_info_req [''port''] = Some (4, le32)"
  by code_simp+

lemma prestera_msg_port_attr_req_layout [simp]:
  "csize prestera_msg_port_attr_req = 144"
  "cwf prestera_msg_port_attr_req"
  "cfield prestera_msg_port_attr_req [''attr''] = Some (4, le32)"
  "cfield prestera_msg_port_attr_req [''port''] = Some (8, le32)"
  "cfield prestera_msg_port_attr_req [''param'', ''mtu''] = Some (16, le32)"
  "cfield prestera_msg_port_attr_req [''param'', ''mac''] = Some (16, (CArr ETH_ALEN cu8))"
  "cfield prestera_msg_port_attr_req [''param'', ''link'', ''phy'', ''admin''] = Some (28, cu8)"
  by code_simp+

lemma prestera_msg_ret_layout [simp]:
  "csize prestera_msg_ret = 8"
  "cwf prestera_msg_ret"
  "cfield prestera_msg_ret [''cmd'', ''type''] = Some (0, le32)"
  "cfield prestera_msg_ret [''status''] = Some (4, le32)"
  by code_simp+

lemma prestera_msg_switch_init_resp_layout [simp]:
  "csize prestera_msg_switch_init_resp = 24"
  "cwf prestera_msg_switch_init_resp"
  "cfield prestera_msg_switch_init_resp [''ret'', ''cmd'', ''type''] = Some (0, le32)"
  "cfield prestera_msg_switch_init_resp [''ret'', ''status''] = Some (4, le32)"
  "cfield prestera_msg_switch_init_resp [''port_count''] = Some (8, le32)"
  "cfield prestera_msg_switch_init_resp [''mtu_max''] = Some (12, le32)"
  "cfield prestera_msg_switch_init_resp [''size_tbl_router_nexthop''] = Some (16, le32)"
  "cfield prestera_msg_switch_init_resp [''switch_id''] = Some (20, cu8)"
  "cfield prestera_msg_switch_init_resp [''lag_max''] = Some (21, cu8)"
  "cfield prestera_msg_switch_init_resp [''lag_member_max''] = Some (22, cu8)"
  by code_simp+

lemma prestera_msg_port_info_resp_layout [simp]:
  "csize prestera_msg_port_info_resp = 20"
  "cwf prestera_msg_port_info_resp"
  "cfield prestera_msg_port_info_resp [''ret'', ''cmd'', ''type''] = Some (0, le32)"
  "cfield prestera_msg_port_info_resp [''ret'', ''status''] = Some (4, le32)"
  "cfield prestera_msg_port_info_resp [''hw_id''] = Some (8, le32)"
  "cfield prestera_msg_port_info_resp [''dev_id''] = Some (12, le32)"
  "cfield prestera_msg_port_info_resp [''fp_id''] = Some (16, le16)"
  by code_simp+

lemma prestera_msg_port_attr_resp_layout [simp]:
  "csize prestera_msg_port_attr_resp = 136"
  "cwf prestera_msg_port_attr_resp"
  "cfield prestera_msg_port_attr_resp [''ret'', ''cmd'', ''type''] = Some (0, le32)"
  "cfield prestera_msg_port_attr_resp [''ret'', ''status''] = Some (4, le32)"
  "cfield prestera_msg_port_attr_resp [''param'', ''cap'', ''link_mode''] = Some (8, le64)"
  "cfield prestera_msg_port_attr_resp [''param'', ''cap'', ''type''] = Some (16, cu8)"
  "cfield prestera_msg_port_attr_resp [''param'', ''cap'', ''fec''] = Some (17, cu8)"
  "cfield prestera_msg_port_attr_resp [''param'', ''cap'', ''transceiver''] = Some (19, cu8)"
  by code_simp+

lemma prestera_msg_port_stats_resp_layout [simp]:
  "csize prestera_msg_port_stats_resp = 248"
  "cwf prestera_msg_port_stats_resp"
  "cfield prestera_msg_port_stats_resp [''ret'', ''cmd'', ''type''] = Some (0, le32)"
  "cfield prestera_msg_port_stats_resp [''ret'', ''status''] = Some (4, le32)"
  "cfield prestera_msg_port_stats_resp [''stats''] = Some (8, (CArr PRESTERA_PORT_CNT_MAX le64))"
  by code_simp+

lemma prestera_msg_vr_resp_layout [simp]:
  "csize prestera_msg_vr_resp = 12"
  "cwf prestera_msg_vr_resp"
  "cfield prestera_msg_vr_resp [''ret'', ''cmd'', ''type''] = Some (0, le32)"
  "cfield prestera_msg_vr_resp [''ret'', ''status''] = Some (4, le32)"
  "cfield prestera_msg_vr_resp [''vr_id''] = Some (8, le16)"
  by code_simp+

lemma prestera_msg_event_layout [simp]:
  "csize prestera_msg_event = 4"
  "cwf prestera_msg_event"
  "cfield prestera_msg_event [''type''] = Some (0, le16)"
  "cfield prestera_msg_event [''id''] = Some (2, le16)"
  by code_simp+

lemma prestera_msg_event_port_layout [simp]:
  "csize prestera_msg_event_port = 20"
  "cwf prestera_msg_event_port"
  "cfield prestera_msg_event_port [''id'', ''type''] = Some (0, le16)"
  "cfield prestera_msg_event_port [''id'', ''id''] = Some (2, le16)"
  "cfield prestera_msg_event_port [''port_id''] = Some (4, le32)"
  "cfield prestera_msg_event_port [''param'', '''', ''mac'', ''mode''] = Some (8, le32)"
  "cfield prestera_msg_event_port [''param'', '''', ''mac'', ''speed''] = Some (12, le32)"
  "cfield prestera_msg_event_port [''param'', '''', ''mac'', ''oper''] = Some (16, cu8)"
  "cfield prestera_msg_event_port [''param'', '''', ''mac'', ''duplex''] = Some (17, cu8)"
  "cfield prestera_msg_event_port [''param'', '''', ''mac'', ''fc''] = Some (18, cu8)"
  "cfield prestera_msg_event_port [''param'', '''', ''mac'', ''fec''] = Some (19, cu8)"
  by code_simp+

section \<open>Values of the enumerations\<close>

lemma enum_values:
  "map_of prestera_port_cnt ''PRESTERA_PORT_CNT_MAX'' = Some (int PRESTERA_PORT_CNT_MAX)"
  "map_of prestera_acl_rule_match_type ''__PRESTERA_ACL_RULE_MATCH_TYPE_MAX'' =
     Some (int PRESTERA_ACL_RULE_MATCH_TYPE_MAX)"
  "map_of prestera_port_cnt ''PRESTERA_PORT_PKTS_64_OCTETS_CNT'' = Some (int PRESTERA_PORT_PKTS_64_OCTETS_CNT)"
  "map_of prestera_cmd_type_t ''PRESTERA_CMD_TYPE_MAX'' = Some (uint PRESTERA_CMD_TYPE_MAX)"
  "map_of prestera_cmd_type_t ''PRESTERA_CMD_TYPE_ACK'' = Some (uint PRESTERA_CMD_TYPE_ACK)"
  "map_of prestera_event_type ''PRESTERA_EVENT_TYPE_PULSE'' = Some (uint PRESTERA_EVENT_TYPE_PULSE)"
  "map_of prestera_event_type ''PRESTERA_EVENT_TYPE_PORT'' = Some (uint PRESTERA_EVENT_TYPE_PORT)"
  by code_simp+

lemma cmd_type_codes: "map snd prestera_cmd_type_t =
   [0x1, 0x2, 0x3, 0x4, 0x5, 0x6, 0xfe, 0xff, 0x100, 0x101, 0x110, 0x111, 0x200, 0x201, 0x202,
    0x203, 0x204, 0x300, 0x301, 0x310, 0x311, 0x312, 0x320, 0x321, 0x322, 0x323, 0x3ff, 0x400,
    0x401, 0x402, 0x403, 0x404, 0x405, 0x510, 0x511, 0x512, 0x513, 0x514, 0x515, 0x540, 0x541,
    0x550, 0x551, 0x560, 0x561, 0x600, 0x601, 0x602, 0x610, 0x611, 0x622, 0x644, 0x645, 0x623,
    0x624, 0x630, 0x631, 0x632, 0x650, 0x700, 0x701, 0x702, 0x703, 0x704, 0x705, 0x800, 0x900,
    0x901, 0x902, 0x903, 0x904, 0x1000, 0x1100, 0x1101, 0x1102, 0x1103, 0x1104, 0x1105, 0x1180,
    0x1183, 0x1184, 0x1185, 0x1186, 0x1187, 0x1200, 0x1211, 0x1212, 0x1213, 0x1214, 0x1301,
    0x1302, 0x1303, 0x1401, 0x1402, 0x1403, 0x1404, 0x1405, 0x1411, 0x1412, 0x1421, 0x1431,
    0x1432, 0x1500, 0x1501, 0x1502, 0x2000, 0x10000, 0x10001]"
  by code_simp

lemma cmd_type_codes_distinct: "distinct (map snd prestera_cmd_type_t)"
  unfolding cmd_type_codes by simp

lemma cmd_type_codes_range: "list_all (\<lambda>(x, c). 0 < c \<and> c \<le> 0x10001) prestera_cmd_type_t"
proof -
  have "list_all (\<lambda>c. 0 < c \<and> c \<le> (0x10001 :: int)) (map snd prestera_cmd_type_t)"
    unfolding cmd_type_codes by simp
  then show ?thesis by (simp add: list.pred_map comp_def split_def)
qed

section \<open>Properties\<close>

text \<open>
  Every structure of the size test has the size the test asserts, and every member a
  path of names designates lies inside it, so a handler that casts a buffer of that size
  reads and writes inside the buffer.
\<close>

theorem message_members_in_bounds:
  assumes "(t, n) \<in> set test_prestera_msg_sizes" "cfield t p = Some (off, u)"
  shows "csize t = n \<and> off + csize u \<le> n"
proof -
  have "csize t = n" "cwf t"
    using layout_sizes layout_wf assms(1) by (auto simp: list_all_iff)
  with cfield_in_bounds [OF _ assms(2)] show ?thesis by simp
qed

theorem message_members_in_bounds_witness:
  "csize prestera_msg_port_attr_req = 144 \<and> 28 + csize cu8 \<le> 144"
proof -
  have "(prestera_msg_port_attr_req, 144) \<in> set test_prestera_msg_sizes"
    by (simp add: test_prestera_msg_sizes_def)
  from message_members_in_bounds [OF this prestera_msg_port_attr_req_layout(7)] show ?thesis .
qed

end
