(* ===== verification/Saiagent_Ipc.thy ===== *)
theory Saiagent_Ipc
  imports Saiagent_Msg Prestera_Hw_Cmd
begin

text \<open>
  \<open>saiagent_ipc.c\<close>: the netlink channel to the driver and the table of command
  callbacks.  The libnl calls are parameters (\<open>nl_setup\<close>, \<open>nl_env\<close>, \<open>nl_in\<close>): what each
  returned, and the messages a receive delivered.  The receive loop itself, which needs
  the callbacks, is in \<open>Saiagent_Loop\<close>; the locale \<open>ipc_callbacks\<close> states here what the
  channel asks of them.
\<close>

section \<open>State\<close>

abbreviation (input) SAIAGENT_NL_TYPE_NEW_MSG :: u32 where "SAIAGENT_NL_TYPE_NEW_MSG \<equiv> 0"
abbreviation (input) SAIAGENT_NL_TYPE_DRV_INIT :: u32 where "SAIAGENT_NL_TYPE_DRV_INIT \<equiv> 1"
abbreviation (input) SAIAGENT_NL_TYPE_REPLY :: u32 where "SAIAGENT_NL_TYPE_REPLY \<equiv> 2"
abbreviation (input) SAIAGENT_NL_TYPE_EVENT :: u32 where "SAIAGENT_NL_TYPE_EVENT \<equiv> 3"

text \<open>libnl: a port or sequence number of 0 is filled in by the library.\<close>

abbreviation (input) NL_AUTO_PID :: u32 where "NL_AUTO_PID \<equiv> 0"
abbreviation (input) NL_AUTO_SEQ :: u32 where "NL_AUTO_SEQ \<equiv> 0"

text \<open>A message handed to \<open>nl_send_auto\<close>; \<open>out_tlv = None\<close> is a message without attribute.\<close>

record nl_out =
  out_family :: int
  out_type :: u32
  out_pid :: u32
  out_seq :: u32
  out_tlv :: "u8 list option"

text \<open>
  A message \<open>nl_recvmsgs\<close> delivers: its header fields and the attributes
  \<open>genlmsg_parse\<close> finds, \<open>None\<close> when it cannot be parsed.
\<close>

record nl_attrs =
  drv_init_ack :: bool
  tlv :: "u8 list option"

record nl_in =
  nlmsg_pid :: u32
  nlmsg_seq :: u32
  nl_parsed :: "nl_attrs option"

record saiagent_nl_recv_msg =
  buf :: "u8 list option"
  recv_size :: size_t
  pid :: u32
  seq :: u32
  recv_payload_size :: size_t
  err :: saiagent_rc_t

text \<open>
  \<open>ctx_t\<close>.  A function pointer of \<open>ipc_cb_list\<close> is a value of the parameter \<open>'cb\<close>, null
  is \<open>None\<close>; \<open>nl_sent\<close> lists what has been handed to the socket, oldest first.
\<close>

record 'cb ipc_ctx =
  family :: int
  sock :: "nat option"
  ipc_cb_list :: "u32 \<Rightarrow> 'cb option"
  running :: u8
  nl_sent :: "nl_out list"

section \<open>Setting the socket up\<close>

text \<open>What the libnl calls of \<open>saiagent_ipc_init\<close> return; \<open>genl_ctrl_resolve k\<close> on attempt \<open>k\<close>.\<close>

record nl_setup =
  nl_socket_alloc :: "nat option"
  genl_connect :: int
  genl_ctrl_resolve :: "nat \<Rightarrow> int"
  nl_socket_set_buffer_size :: int
  genl_ctrl_resolve_grp :: int
  nl_socket_add_membership :: int

text \<open>The loop that waits for the driver's family to appear: \<open>None\<close> if it never does.\<close>

partial_function (option) resolve_family :: "(nat \<Rightarrow> int) \<Rightarrow> nat \<Rightarrow> (int \<times> nat) option" where
  "resolve_family resolve k =
     (if resolve k < 0 then resolve_family resolve (Suc k) else Some (resolve k, k))"

text \<open>The result: the return code, the context, and the sockets freed.\<close>

definition saiagent_ipc_init :: "nl_setup \<Rightarrow> 'cb ipc_ctx \<Rightarrow> (saiagent_rc_t \<times> 'cb ipc_ctx \<times> nat list) option" where
  "saiagent_ipc_init nl ctx =
     (case nl_socket_alloc nl of
        None \<Rightarrow> Some (RC_STATUS_ERR, ctx, [])
      | Some sk \<Rightarrow>
          if genl_connect nl \<noteq> 0 then Some (RC_STATUS_ERR, ctx, [sk])
          else
            (case resolve_family (genl_ctrl_resolve nl) 0 of
               None \<Rightarrow> None
             | Some (fam, attempts) \<Rightarrow>
                 if nl_socket_set_buffer_size nl \<noteq> 0 then Some (RC_STATUS_ERR, ctx, [sk])
                 else if genl_ctrl_resolve_grp nl < 0 then Some (RC_STATUS_ERR, ctx, [sk])
                 else if nl_socket_add_membership nl \<noteq> 0 then Some (RC_STATUS_ERR, ctx, [sk])
                 else Some (RC_STATUS_OK, ctx\<lparr>family := fam, sock := Some sk\<rparr>, [])))"

section \<open>Sending\<close>

record nl_env =
  nlmsg_alloc_ok :: bool
  genlmsg_put_ok :: bool
  nla_put_rc :: int
  nl_send_auto_rc :: int

definition saiagent_ipc_send :: "nl_env \<Rightarrow> 'cb ipc_ctx \<Rightarrow> u8 list option \<Rightarrow> size_t \<Rightarrow> u32 \<Rightarrow> u32 \<Rightarrow> u32 \<Rightarrow>
    (saiagent_rc_t \<times> 'cb ipc_ctx) outcome" where
  "saiagent_ipc_send nl ctx msg n type p s =
     (if \<not> nlmsg_alloc_ok nl then Inr (RC_STATUS_ERR, ctx)
      else if \<not> genlmsg_put_ok nl then Inr (RC_STATUS_ERR, ctx)
      else
        bind_o
          (case msg of
             Some b \<Rightarrow>
               if n > 0
               then if unat n \<le> length b then Inr (nla_put_rc nl, Some (take (unat n) b)) else Inl Out_Of_Bounds
               else Inr (0, None)
           | None \<Rightarrow> Inr (0, None))
          (\<lambda>(rc, attr).
             if rc \<noteq> 0 then Inr (RC_STATUS_ERR, ctx)
             else
               let m = \<lparr>out_family = family ctx, out_type = type, out_pid = p, out_seq = s, out_tlv = attr\<rparr> in
               if nl_send_auto_rc nl < 0 then Inr (RC_STATUS_ERR, ctx)
               else Inr (RC_STATUS_OK, ctx\<lparr>nl_sent := nl_sent ctx @ [m]\<rparr>)))"

definition saiagent_ipc_send_event :: "nl_env \<Rightarrow> 'cb ipc_ctx \<Rightarrow> u8 list \<Rightarrow> size_t \<Rightarrow> (saiagent_rc_t \<times> 'cb ipc_ctx) outcome" where
  "saiagent_ipc_send_event nl ctx evt n =
     saiagent_ipc_send nl ctx (Some evt) n SAIAGENT_NL_TYPE_EVENT NL_AUTO_PID NL_AUTO_SEQ"

section \<open>Receiving\<close>

definition nl_ipc_drv_init_reply_msg_cb :: "nl_in \<Rightarrow> int \<Rightarrow> int" where
  "nl_ipc_drv_init_reply_msg_cb msg recv_flag =
     (case nl_parsed msg of
        None \<Rightarrow> 0
      | Some attrs \<Rightarrow> if drv_init_ack attrs then 1 else 0)"

definition nl_ipc_handle_recv_msg_cb :: "nl_in \<Rightarrow> saiagent_nl_recv_msg \<Rightarrow> saiagent_nl_recv_msg outcome" where
  "nl_ipc_handle_recv_msg_cb msg recv =
     (case nl_parsed msg of
        None \<Rightarrow> Inr (recv\<lparr>err := RC_STATUS_ERR\<rparr>)
      | Some attrs \<Rightarrow>
          (case tlv attrs of
             None \<Rightarrow> Inr (recv\<lparr>err := RC_STATUS_ERR\<rparr>)
           | Some bs \<Rightarrow>
               let n = (of_nat (length bs) :: u32) in
               if ucast n \<ge> recv_size recv then Inr (recv\<lparr>err := RC_STATUS_ERR\<rparr>)
               else
                 bind_o
                   (case buf recv of
                      None \<Rightarrow> if n = 0 then Inr None else Inl Null_Deref
                    | Some b \<Rightarrow>
                        if unat n \<le> length b then Inr (Some (patch 0 (take (unat n) bs) b))
                        else Inl Out_Of_Bounds)
                   (\<lambda>b. Inr (recv\<lparr>buf := b, recv_payload_size := ucast n, pid := nlmsg_pid msg,
                                  seq := nlmsg_seq msg, err := RC_STATUS_OK\<rparr>))))"

text \<open>\<open>nl_recvmsgs\<close> calls the callback for every valid message it receives, in order, and returns \<open>rc\<close>.\<close>

fun nl_recvmsgs :: "('m \<Rightarrow> 'r \<Rightarrow> 'r outcome) \<Rightarrow> 'm list \<Rightarrow> 'r \<Rightarrow> 'r outcome" where
  "nl_recvmsgs cb [] r = Inr r"
| "nl_recvmsgs cb (m # ms) r = bind_o (cb m r) (nl_recvmsgs cb ms)"

definition saiagent_ipc_recv :: "int \<Rightarrow> nl_in list \<Rightarrow> saiagent_nl_recv_msg \<Rightarrow> (saiagent_rc_t \<times> saiagent_nl_recv_msg) outcome" where
  "saiagent_ipc_recv rc ms msg =
     bind_o (nl_recvmsgs nl_ipc_handle_recv_msg_cb ms msg) (\<lambda>msg.
       Inr (if rc \<noteq> 0 \<or> err msg \<noteq> 0 then RC_STATUS_ERR else RC_STATUS_OK, msg))"

definition saiagent_ipc_drv_init :: "nl_env \<Rightarrow> int \<Rightarrow> nl_in list \<Rightarrow> 'cb ipc_ctx \<Rightarrow> (saiagent_rc_t \<times> 'cb ipc_ctx) outcome" where
  "saiagent_ipc_drv_init nl rc ms ctx =
     bind_o (saiagent_ipc_send nl ctx None 0 SAIAGENT_NL_TYPE_DRV_INIT NL_AUTO_PID NL_AUTO_SEQ) (\<lambda>(status, ctx).
     bind_o (nl_recvmsgs (\<lambda>m f. Inr (nl_ipc_drv_init_reply_msg_cb m f)) ms 0) (\<lambda>received.
       Inr (if rc \<noteq> 0 \<or> received = 0 then RC_STATUS_ERR else status, ctx)))"

section \<open>Callbacks and replies\<close>

definition saiagent_ipc_cb_set :: "u32 \<Rightarrow> 'cb \<Rightarrow> 'cb ipc_ctx \<Rightarrow> saiagent_rc_t \<times> 'cb ipc_ctx" where
  "saiagent_ipc_cb_set type cb ctx =
     (if type \<ge> PRESTERA_CMD_TYPE_MAX then (RC_STATUS_ERR, ctx)
      else (RC_STATUS_OK, ctx\<lparr>ipc_cb_list := (ipc_cb_list ctx)(type := Some cb)\<rparr>))"

definition saiagent_ipc_loop_stop :: "'cb ipc_ctx \<Rightarrow> saiagent_rc_t \<times> 'cb ipc_ctx" where
  "saiagent_ipc_loop_stop ctx = (RC_STATUS_OK, ctx\<lparr>running := 0\<rparr>)"

text \<open>\<open>nl_socket_free\<close> of a null socket does nothing; the result is the sockets freed.\<close>

definition saiagent_ipc_deinit :: "'cb ipc_ctx \<Rightarrow> nat list" where
  "saiagent_ipc_deinit ctx = (case sock ctx of None \<Rightarrow> [] | Some sk \<Rightarrow> [sk])"

definition prestera_ret_init :: "cty \<Rightarrow> string list \<Rightarrow> u32 \<Rightarrow> u8 list \<Rightarrow> u8 list" where
  "prestera_ret_init t ret status bs =
     wr_field t (ret @ [''status'']) status (wr_field t (ret @ [''cmd'', ''type'']) PRESTERA_CMD_TYPE_ACK bs)"

definition ack_response :: "saiagent_rc_t \<Rightarrow> u8 list" where
  "ack_response status =
     prestera_ret_init prestera_msg_ret []
       (if status = RC_STATUS_OK then PRESTERA_CMD_ACK_OK else PRESTERA_CMD_ACK_FAILED)
       (zeroed prestera_msg_ret)"

definition saiagent_ipc_put_reply_ack :: "saiagent_msg \<Rightarrow> saiagent_rc_t \<Rightarrow> saiagent_msg outcome" where
  "saiagent_ipc_put_reply_ack msg status =
     bind_o (saiagent_msg_put_data (saiagent_msg_clear msg) (ack_response status)
               (of_nat (csize prestera_msg_ret)))
       (\<lambda>(rc, msg). Inr msg)"

text \<open>A member of the structure a handler casts \<open>request->buff\<close> to.\<close>

definition req_field :: "cty \<Rightarrow> string list \<Rightarrow> saiagent_msg \<Rightarrow> 'a::len word outcome" where
  "req_field t p request = (case buff request of None \<Rightarrow> Inl Null_Deref | Some b \<Rightarrow> rd_field t p b)"

text \<open>
  \<open>call cb\<close> runs the function behind the pointer \<open>cb\<close>.  The result: the reply buffer, the
  reply's payload size, and the state.
\<close>

definition saiagent_ipc_process_req ::
    "('cb \<Rightarrow> saiagent_msg \<Rightarrow> saiagent_msg \<Rightarrow> 'st \<Rightarrow> (saiagent_msg \<times> 'st) outcome) \<Rightarrow> (u32 \<Rightarrow> 'cb option) \<Rightarrow>
     u8 list option \<Rightarrow> size_t \<Rightarrow> u8 list option \<Rightarrow> size_t \<Rightarrow> 'st \<Rightarrow>
     (saiagent_rc_t \<times> u8 list option \<times> size_t \<times> 'st) outcome" where
  "saiagent_ipc_process_req call cbs req_msg req_msg_size reply_msg reply_msg_size st =
     (let req = \<lparr>buff = req_msg, msg_size = req_msg_size, payload_size = req_msg_size, tail = None\<rparr>;
          reply = \<lparr>buff = reply_msg, msg_size = reply_msg_size, payload_size = 0, tail = None\<rparr>
      in
      bind_o (saiagent_msg_type_get req 0) (\<lambda>(status, cmd, req).
      bind_o
        (if status \<noteq> RC_STATUS_OK then
           bind_o (saiagent_ipc_put_reply_ack reply RC_STATUS_ERR) (\<lambda>reply. Inr (reply, st))
         else
           (case if cmd < PRESTERA_CMD_TYPE_MAX then cbs cmd else None of
              Some cb \<Rightarrow> call cb req reply st
            | None \<Rightarrow>
                bind_o (saiagent_ipc_put_reply_ack reply RC_STATUS_NOT_SUPP) (\<lambda>reply. Inr (reply, st))))
        (\<lambda>(reply, st). Inr (RC_STATUS_OK, buff reply, payload_size reply, st))))"

section \<open>Lemmas: set-up\<close>

lemma resolve_family_first:
  assumes "0 \<le> f n" "\<And>j. k \<le> j \<Longrightarrow> j < n \<Longrightarrow> f j < 0" "k \<le> n"
  shows "resolve_family f k = Some (f n, n)"
  using assms(2,3)
proof (induction "n - k" arbitrary: k)
  case 0
  then have "k = n" by simp
  with assms(1) show ?case by (simp add: resolve_family.simps [of f n])
next
  case (Suc d)
  then have "k < n" by simp
  with Suc.prems(1) have "f k < 0" by simp
  moreover have "resolve_family f (Suc k) = Some (f n, n)"
    using Suc.hyps(1) [of "Suc k"] Suc.hyps(2) Suc.prems \<open>k < n\<close> by simp
  ultimately show ?case by (simp add: resolve_family.simps [of f k])
qed

lemma resolve_family_result:
  assumes "resolve_family f k = Some r"
  shows "0 \<le> f (snd r)"
proof (rule resolve_family.raw_induct [where P = "\<lambda>f k r. 0 \<le> f (snd r)", OF _ assms])
  fix rec :: "(nat \<Rightarrow> int) \<Rightarrow> nat \<Rightarrow> (int \<times> nat) option" and f k r
  assume IH: "\<And>f k r. rec f k = Some r \<Longrightarrow> 0 \<le> f (snd r)"
    and eq: "(if f k < 0 then rec f (Suc k) else Some (f k, k)) = Some r"
  show "0 \<le> f (snd r)"
    using eq IH by (cases "f k < 0") auto
qed

lemma resolve_family_Least:
  assumes "\<exists>n. 0 \<le> f n"
  shows "resolve_family f 0 = Some (f (LEAST n. 0 \<le> f n), LEAST n. 0 \<le> f n)"
proof (rule resolve_family_first)
  from assms show "0 \<le> f (LEAST n. 0 \<le> f n)" by (rule LeastI_ex)
  show "f j < 0" if "j < (LEAST n. 0 \<le> f n)" for j
    using not_less_Least [OF that] by simp
qed simp

lemma resolve_family_None:
  assumes "\<And>n. f n < 0"
  shows "resolve_family f 0 = None"
proof (cases "resolve_family f 0")
  case (Some r)
  from resolve_family_result [OF this] assms [of "snd r"] show ?thesis by simp
qed

section \<open>Lemmas: sending\<close>

text \<open>The netlink calls of a send of \<open>n\<close> bytes all succeed.\<close>

definition nl_send_ok :: "nl_env \<Rightarrow> size_t \<Rightarrow> bool" where
  "nl_send_ok nl n \<longleftrightarrow> nlmsg_alloc_ok nl \<and> genlmsg_put_ok nl \<and> (n > 0 \<longrightarrow> nla_put_rc nl = 0) \<and>
     nl_send_auto_rc nl \<ge> 0"

definition nl_message :: "'cb ipc_ctx \<Rightarrow> u8 list \<Rightarrow> u32 \<Rightarrow> u32 \<Rightarrow> u32 \<Rightarrow> nl_out" where
  "nl_message ctx bs type p s =
     \<lparr>out_family = family ctx, out_type = type, out_pid = p, out_seq = s, out_tlv = if bs = [] then None else Some bs\<rparr>"

lemma ipc_send_eq:
  assumes "unat n \<le> length b"
  shows "saiagent_ipc_send nl ctx (Some b) n type p s =
    Inr (if nl_send_ok nl n
         then (RC_STATUS_OK, ctx\<lparr>nl_sent := nl_sent ctx @ [nl_message ctx (take (unat n) b) type p s]\<rparr>)
         else (RC_STATUS_ERR, ctx))"
proof -
  have "n > 0 \<longleftrightarrow> unat n \<noteq> 0" by (simp add: word_less_nat_alt)
  moreover have "take (unat n) b = [] \<longleftrightarrow> unat n = 0" using assms by auto
  ultimately show ?thesis
    using assms
    by (cases "unat n = 0") (simp_all add: saiagent_ipc_send_def nl_send_ok_def nl_message_def Let_def not_less)
qed

section \<open>Lemmas: receiving\<close>

text \<open>The invariant of the receive structure: the buffer has the size the structure says.\<close>

definition recv_ok :: "saiagent_nl_recv_msg \<Rightarrow> bool" where
  "recv_ok r \<longleftrightarrow> (\<exists>b. buf r = Some b \<and> unat (recv_size r) = length b \<and> length b < 2 ^ 31)"

lemma handle_recv_ok:
  assumes "recv_ok r"
  shows "\<exists>r'. nl_ipc_handle_recv_msg_cb m r = Inr r' \<and> recv_ok r' \<and> recv_size r' = recv_size r \<and>
      (err r' = RC_STATUS_OK \<longrightarrow> recv_payload_size r' < recv_size r')"
proof -
  from assms obtain b where b: "buf r = Some b" "unat (recv_size r) = length b" "length b < 2 ^ 31"
    by (auto simp: recv_ok_def)
  show ?thesis
  proof (cases "\<exists>attrs bs. nl_parsed m = Some attrs \<and> tlv attrs = Some bs \<and>
      ucast (of_nat (length bs) :: u32) < recv_size r")
    case True
    then obtain attrs bs where t: "nl_parsed m = Some attrs" "tlv attrs = Some bs"
      "ucast (of_nat (length bs) :: u32) < recv_size r" by blast
    let ?n = "of_nat (length bs) :: u32"
    have n: "unat ?n < length b" using t(3) b(2) by (simp add: word_less_nat_alt)
    have "unat ?n \<le> length bs" by (simp add: unat_of_nat)
    with n t b show ?thesis
      by (auto simp: nl_ipc_handle_recv_msg_cb_def Let_def recv_ok_def not_le)
  next
    case False
    with b show ?thesis
      by (auto simp: nl_ipc_handle_recv_msg_cb_def Let_def recv_ok_def not_le split: option.splits)
  qed
qed

lemma handle_recv_valid:
  assumes "recv_ok r" "nl_parsed m = Some attrs" "tlv attrs = Some bs" "length bs < unat (recv_size r)"
  shows "\<exists>b. buf r = Some b \<and>
      nl_ipc_handle_recv_msg_cb m r = Inr (r\<lparr>buf := Some (bs @ drop (length bs) b),
        recv_payload_size := of_nat (length bs), pid := nlmsg_pid m, seq := nlmsg_seq m, err := RC_STATUS_OK\<rparr>)"
proof -
  from assms obtain b where b: "buf r = Some b" "unat (recv_size r) = length b" "length b < 2 ^ 31"
    by (auto simp: recv_ok_def)
  have n: "unat (of_nat (length bs) :: u32) = length bs"
    using assms(4) b by (simp add: unat_of_nat)
  have u: "(ucast (of_nat (length bs) :: u32) :: size_t) = of_nat (length bs)"
    using assms(4) b by (simp add: word_unat_eq_iff n unat_of_nat)
  have "unat (of_nat (length bs) :: size_t) = length bs"
    using assms(4) b by (simp add: unat_of_nat)
  then have "\<not> of_nat (length bs) \<ge> recv_size r"
    using assms(4) by (simp add: word_le_nat_alt)
  with assms b n u show ?thesis
    by (simp add: nl_ipc_handle_recv_msg_cb_def Let_def patch_0)
qed

lemma recvmsgs_append:
  "nl_recvmsgs cb (ms @ ms') r = bind_o (nl_recvmsgs cb ms r) (nl_recvmsgs cb ms')"
proof (induction ms arbitrary: r)
  case (Cons m ms)
  then show ?case by (cases "cb m r") simp_all
qed simp

lemma recvmsgs_ok:
  assumes "recv_ok r"
  shows "\<exists>r'. nl_recvmsgs nl_ipc_handle_recv_msg_cb ms r = Inr r' \<and> recv_ok r' \<and> recv_size r' = recv_size r \<and>
      (ms \<noteq> [] \<and> err r' = RC_STATUS_OK \<longrightarrow> recv_payload_size r' < recv_size r')"
proof (induction ms rule: rev_induct)
  case Nil
  from assms show ?case by simp
next
  case (snoc m ms)
  then obtain r1 where "nl_recvmsgs nl_ipc_handle_recv_msg_cb ms r = Inr r1" "recv_ok r1"
      "recv_size r1 = recv_size r"
    by blast
  with handle_recv_ok [of r1 m] show ?case by (fastforce simp: recvmsgs_append)
qed

section \<open>Lemmas: replies and dispatch\<close>

definition reply_type :: "u8 list \<Rightarrow> u32" where
  "reply_type bs = le_val (take 4 bs)"

definition reply_status :: "u8 list \<Rightarrow> u32" where
  "reply_status bs = le_val (slice 4 4 bs)"

text \<open>
  A reply the driver accepts: a whole number of words that starts with an acknowledgement
  header.  No reply of the agent is longer than \<open>struct prestera_msg_port_attr_resp\<close>.
\<close>

definition good_reply :: "u8 list \<Rightarrow> bool" where
  "good_reply bs \<longleftrightarrow> csize prestera_msg_ret \<le> length bs \<and> length bs \<le> csize prestera_msg_port_attr_resp \<and>
     4 dvd length bs \<and> reply_type bs = PRESTERA_CMD_TYPE_ACK \<and>
     reply_status bs \<in> {PRESTERA_CMD_ACK_OK, PRESTERA_CMD_ACK_FAILED}"

lemma ack_response_bytes:
  "ack_response st = le_bytes 4 PRESTERA_CMD_TYPE_ACK @
     le_bytes 4 (if st = RC_STATUS_OK then PRESTERA_CMD_ACK_OK else PRESTERA_CMD_ACK_FAILED)"
  by (simp add: ack_response_def prestera_ret_init_def wr_field_def zeroed_def patch_0 patch_append)

lemma length_ack_response [simp]: "length (ack_response st) = 8"
  by (simp add: ack_response_bytes)

lemma good_reply_header:
  assumes "st \<in> {PRESTERA_CMD_ACK_OK, PRESTERA_CMD_ACK_FAILED}" "length bs \<le> 128" "4 dvd length bs"
  shows "good_reply (le_bytes 4 PRESTERA_CMD_TYPE_ACK @ le_bytes 4 st @ bs)"
proof -
  have "4 dvd 8 + length bs" using assms(3) by presburger
  with assms show ?thesis
    by (auto simp: good_reply_def reply_type_def reply_status_def slice_def simp del: le_bytes.simps)
qed

lemma good_reply_ack: "good_reply (ack_response st)"
  using good_reply_header [of "if st = RC_STATUS_OK then PRESTERA_CMD_ACK_OK else PRESTERA_CMD_ACK_FAILED" "[]"]
  by (simp add: ack_response_bytes)

lemma reply_status_ack [simp]:
  "reply_status (ack_response st) = (if st = RC_STATUS_OK then PRESTERA_CMD_ACK_OK else PRESTERA_CMD_ACK_FAILED)"
  by (simp add: ack_response_bytes reply_status_def slice_def)

text \<open>The two buffers of the loop: 1500 bytes each, the reply one empty when a callback gets it.\<close>

definition request_ok :: "saiagent_msg \<Rightarrow> bool" where
  "request_ok m \<longleftrightarrow> (\<exists>b. buff m = Some b \<and> length b = SAIAGENT_MSG_MAX_SIZE)"

definition reply_ok :: "saiagent_msg \<Rightarrow> bool" where
  "reply_ok m \<longleftrightarrow> msg_ok m \<and> msg_size m = of_nat SAIAGENT_MSG_MAX_SIZE \<and>
     (\<exists>b. buff m = Some b \<and> length b = SAIAGENT_MSG_MAX_SIZE)"

lemma reply_ok_put_data:
  assumes m: "reply_ok m" and d: "4 dvd length d" "length d \<le> SAIAGENT_MSG_MAX_SIZE"
  shows "\<exists>m'. saiagent_msg_put_data (saiagent_msg_clear m) d (of_nat (length d)) = Inr (RC_STATUS_OK, m') \<and>
      reply_ok m' \<and> written m' = d \<and> payload_size m' = of_nat (length d) \<and> tail m' = None"
proof -
  from m obtain b where b: "buff m = Some b" "length b = SAIAGENT_MSG_MAX_SIZE" "msg_ok m"
    and sz: "msg_size m = of_nat SAIAGENT_MSG_MAX_SIZE" by (auto simp: reply_ok_def)
  let ?c = "saiagent_msg_clear m"
  have ok: "msg_ok ?c" using b(3) by (rule msg_ok_clear)
  have n: "unat (of_nat (length d) :: size_t) = length d" using d(2) by (simp add: unat_of_nat)
  have fr: "length d \<le> free_bytes ?c" using d(2) by (simp add: free_bytes_def sz)
  from put_data_fits [OF ok _ n fr] d(1) n
  obtain m' where m': "saiagent_msg_put_data ?c d (of_nat (length d)) = Inr (RC_STATUS_OK, m')" "msg_ok m'"
      "written m' = written ?c @ d" "payload_size m' = payload_size ?c + of_nat (length d)"
      "msg_size m' = msg_size ?c" "tail m' = tail ?c" "buff m' = map_option (patch 0 d) (buff ?c)"
    by auto
  moreover have "length (patch 0 d b) = SAIAGENT_MSG_MAX_SIZE" using d(2) b(2) by simp
  ultimately show ?thesis using b sz by (auto simp: reply_ok_def)
qed

lemma put_reply_ack_ok:
  assumes "reply_ok m"
  shows "\<exists>m'. saiagent_ipc_put_reply_ack m st = Inr m' \<and> reply_ok m' \<and> written m' = ack_response st \<and>
      payload_size m' = 8 \<and> tail m' = None"
  using reply_ok_put_data [OF assms, of "ack_response st"]
  by (auto simp: saiagent_ipc_put_reply_ack_def)

lemma put_reply_ackE:
  assumes "saiagent_ipc_put_reply_ack m st = Inr m'" "reply_ok m"
  shows "reply_ok m' \<and> written m' = ack_response st"
  using put_reply_ack_ok [OF assms(2), of st] assms(1) by auto

definition request_msg :: "u8 list \<Rightarrow> size_t \<Rightarrow> saiagent_msg" where
  "request_msg b n = \<lparr>buff = Some b, msg_size = n, payload_size = n, tail = Some 4\<rparr>"

definition reply_msg :: "u8 list \<Rightarrow> saiagent_msg" where
  "reply_msg b = \<lparr>buff = Some b, msg_size = of_nat SAIAGENT_MSG_MAX_SIZE, payload_size = 0, tail = None\<rparr>"

definition request_cmd :: "u8 list \<Rightarrow> u32" where
  "request_cmd b = le_val (take 4 b)"

lemma request_ok_request_msg [simp]: "length b = SAIAGENT_MSG_MAX_SIZE \<Longrightarrow> request_ok (request_msg b n)"
  by (simp add: request_ok_def request_msg_def)

lemma reply_ok_reply_msg [simp]: "length b = SAIAGENT_MSG_MAX_SIZE \<Longrightarrow> reply_ok (reply_msg b)"
  by (simp add: reply_ok_def reply_msg_def msg_ok_def)

lemma type_get_request:
  assumes "4 \<le> length b"
  shows "saiagent_msg_type_get \<lparr>buff = Some b, msg_size = n, payload_size = n, tail = None\<rparr> old =
    Inr (if n < 4 then (RC_STATUS_ERR, old, \<lparr>buff = Some b, msg_size = n, payload_size = n, tail = None\<rparr>)
         else (RC_STATUS_OK, request_cmd b, request_msg b n))"
proof -
  have pad: "SAIAGENT_MSG_PADSIZE 4 = 4" by (rule padsize_aligned) simp_all
  have copy: "saiagent_buf_copy32 (le_bytes 4 old) 0 b 0 4 = Inr (take 4 b)"
    using copy32_aligned [of 4 0 b 0 "le_bytes 4 old"] assms by (simp add: slice_def patch_0)
  show ?thesis
    by (simp add: saiagent_msg_type_get_def get_word_def saiagent_msg_get_data_def Let_def pad copy
        request_cmd_def request_msg_def del: le_bytes.simps)
qed

text \<open>What \<open>saiagent_ipc_process_req\<close> does with a request of \<open>n\<close> bytes in the receive buffer.\<close>

lemma process_req_eq:
  assumes "length b = SAIAGENT_MSG_MAX_SIZE" "length rb = SAIAGENT_MSG_MAX_SIZE"
  shows "saiagent_ipc_process_req call cbs (Some b) n (Some rb) (of_nat SAIAGENT_MSG_MAX_SIZE) st =
    bind_o
      (if n < 4 then bind_o (saiagent_ipc_put_reply_ack (reply_msg rb) RC_STATUS_ERR) (\<lambda>reply. Inr (reply, st))
       else case if request_cmd b < PRESTERA_CMD_TYPE_MAX then cbs (request_cmd b) else None of
          Some cb \<Rightarrow> call cb (request_msg b n) (reply_msg rb) st
        | None \<Rightarrow> bind_o (saiagent_ipc_put_reply_ack (reply_msg rb) RC_STATUS_NOT_SUPP) (\<lambda>reply. Inr (reply, st)))
      (\<lambda>(reply, st). Inr (RC_STATUS_OK, buff reply, payload_size reply, st))"
  using assms
  by (simp add: saiagent_ipc_process_req_def type_get_request Let_def reply_msg_def cong: option.case_cong)

section \<open>The interface: what the channel asks of a callback\<close>

text \<open>
  \<open>inv\<close> is the state's invariant.  A callback that returns keeps it and leaves a reply of
  the required form in the reply buffer.
\<close>

locale ipc_callbacks =
  fixes call :: "'cb \<Rightarrow> saiagent_msg \<Rightarrow> saiagent_msg \<Rightarrow> 'st \<Rightarrow> (saiagent_msg \<times> 'st) outcome"
    and inv :: "'st \<Rightarrow> bool"
  assumes callback: "inv st \<Longrightarrow> request_ok req \<Longrightarrow> reply_ok reply \<Longrightarrow>
      call cb req reply st = Inr (reply', st') \<Longrightarrow>
      inv st' \<and> reply_ok reply' \<and> good_reply (written reply')"
begin

lemma process_req_reply:
  assumes inv: "inv st" and b: "length b = SAIAGENT_MSG_MAX_SIZE" "length rb = SAIAGENT_MSG_MAX_SIZE"
    and r: "saiagent_ipc_process_req call cbs (Some b) n (Some rb) (of_nat SAIAGENT_MSG_MAX_SIZE) st =
        Inr (rc, rb', k, st')"
  shows "rc = RC_STATUS_OK \<and> inv st' \<and>
    (\<exists>bs. rb' = Some bs \<and> length bs = SAIAGENT_MSG_MAX_SIZE \<and> unat k \<le> SAIAGENT_MSG_MAX_SIZE \<and>
      good_reply (take (unat k) bs))"
proof -
  have rep: "reply_ok (reply_msg rb)" using b(2) by simp
  have good: "reply_ok m \<and> good_reply (written m) \<and> inv st"
    if "saiagent_ipc_put_reply_ack (reply_msg rb) s = Inr m" for s m
    using put_reply_ackE [OF that rep] inv by (simp add: good_reply_ack)
  note r' = r [unfolded process_req_eq [OF b]]
  obtain reply where reply: "reply_ok reply \<and> good_reply (written reply) \<and> inv st'"
    and out: "rc = RC_STATUS_OK" "rb' = buff reply" "k = payload_size reply"
  proof (cases "n < 4")
    case True
    with r' good that show ?thesis by auto
  next
    case n: False
    show ?thesis
    proof (cases "if request_cmd b < PRESTERA_CMD_TYPE_MAX then cbs (request_cmd b) else None")
      case None
      with n r' good that show ?thesis by auto
    next
      case (Some cb)
      with n r' obtain reply where "call cb (request_msg b n) (reply_msg rb) st = Inr (reply, st')"
          "rc = RC_STATUS_OK" "rb' = buff reply" "k = payload_size reply"
        by (auto simp del: if_split)
      with callback [OF inv request_ok_request_msg [OF b(1)] rep] that show ?thesis by blast
    qed
  qed
  then show ?thesis
    by (auto simp: reply_ok_def msg_ok_def written_def word_le_nat_alt)
qed

end

section \<open>Properties\<close>

text \<open>
  C21. Opening the netlink socket, every way it can end.  Without a socket it fails; if the
  connection fails the socket is freed.  Otherwise it waits for the kernel module, so it
  never returns exactly when no attempt resolves the family; else it succeeds with the first
  family found when the three calls that follow do, and fails and frees the socket when
  one of them does not.  The context changes only on success.
\<close>

theorem ipc_init_outcome:
  "saiagent_ipc_init nl ctx =
     (case nl_socket_alloc nl of
        None \<Rightarrow> Some (RC_STATUS_ERR, ctx, [])
      | Some sk \<Rightarrow>
          if genl_connect nl \<noteq> 0 then Some (RC_STATUS_ERR, ctx, [sk])
          else if \<forall>n. genl_ctrl_resolve nl n < 0 then None
          else if nl_socket_set_buffer_size nl = 0 \<and> genl_ctrl_resolve_grp nl \<ge> 0 \<and> nl_socket_add_membership nl = 0
          then Some (RC_STATUS_OK,
            ctx\<lparr>family := genl_ctrl_resolve nl (LEAST n. 0 \<le> genl_ctrl_resolve nl n), sock := Some sk\<rparr>, [])
          else Some (RC_STATUS_ERR, ctx, [sk]))"
proof (cases "\<exists>n. 0 \<le> genl_ctrl_resolve nl n")
  case True
  then have "\<not> (\<forall>n. genl_ctrl_resolve nl n < 0)" by (auto simp: not_less)
  note [simp] = if_not_P [OF this]
  show ?thesis
    using resolve_family_Least [OF True] by (auto simp: saiagent_ipc_init_def not_less not_le split: option.split)
next
  case False
  then have "genl_ctrl_resolve nl n < 0" for n by (simp add: not_le)
  with resolve_family_None [of "genl_ctrl_resolve nl"] show ?thesis
    by (simp add: saiagent_ipc_init_def split: option.split)
qed

theorem ipc_init_outcome_witness:
  "saiagent_ipc_init \<lparr>nl_socket_alloc = Some 5, genl_connect = 0, genl_ctrl_resolve = (\<lambda>n. if n < 2 then - 1 else 28),
      nl_socket_set_buffer_size = 0, genl_ctrl_resolve_grp = - 1, nl_socket_add_membership = 0\<rparr>
    \<lparr>family = 0, sock = None, ipc_cb_list = (\<lambda>c. None :: nat option), running = 0, nl_sent = []\<rparr> =
    Some (RC_STATUS_ERR, \<lparr>family = 0, sock = None, ipc_cb_list = (\<lambda>c. None), running = 0, nl_sent = []\<rparr>, [5])"
proof -
  let ?f = "\<lambda>n :: nat. if n < 2 then - 1 else 28 :: int"
  have "\<not> (\<forall>n. ?f n < 0)" by (auto intro!: exI [of _ 2])
  then show ?thesis by (auto simp: ipc_init_outcome intro: exI [of _ 2])
qed

text \<open>
  C20. Receiving into the loop's buffer never leaves the buffer, whatever arrives: the call
  returns, the buffer keeps its size, and a success after at least one message leaves a
  payload smaller than the buffer.  A message whose attribute does not fit is refused and
  changes nothing but the error code.
\<close>

theorem recv_in_bounds:
  assumes "recv_ok m"
  shows "(\<exists>st m'. saiagent_ipc_recv rc ms m = Inr (st, m') \<and> recv_ok m' \<and> recv_size m' = recv_size m \<and>
      (st = RC_STATUS_OK \<and> ms \<noteq> [] \<longrightarrow> recv_payload_size m' < recv_size m')) \<and>
    (unat (recv_size m) \<le> length bs \<and> length bs < 2 ^ 32 \<longrightarrow>
      saiagent_ipc_recv rc [\<lparr>nlmsg_pid = p, nlmsg_seq = q, nl_parsed = Some \<lparr>drv_init_ack = d, tlv = Some bs\<rparr>\<rparr>] m =
        Inr (RC_STATUS_ERR, m\<lparr>err := RC_STATUS_ERR\<rparr>))"
proof (intro conjI impI)
  from recvmsgs_ok [OF assms, of ms]
  show "\<exists>st m'. saiagent_ipc_recv rc ms m = Inr (st, m') \<and> recv_ok m' \<and> recv_size m' = recv_size m \<and>
      (st = RC_STATUS_OK \<and> ms \<noteq> [] \<longrightarrow> recv_payload_size m' < recv_size m')"
    by (fastforce simp: saiagent_ipc_recv_def split: if_splits)
next
  assume bs: "unat (recv_size m) \<le> length bs \<and> length bs < 2 ^ 32"
  then have "unat (ucast (of_nat (length bs) :: u32) :: size_t) = length bs" by (simp add: unat_of_nat)
  with bs have "\<not> ucast (of_nat (length bs) :: u32) < recv_size m" by (simp add: word_less_nat_alt)
  then show "saiagent_ipc_recv rc [\<lparr>nlmsg_pid = p, nlmsg_seq = q, nl_parsed = Some \<lparr>drv_init_ack = d, tlv = Some bs\<rparr>\<rparr>] m =
        Inr (RC_STATUS_ERR, m\<lparr>err := RC_STATUS_ERR\<rparr>)"
    by (simp add: saiagent_ipc_recv_def nl_ipc_handle_recv_msg_cb_def Let_def not_less)
qed

definition empty_recv_msg :: "nat \<Rightarrow> saiagent_nl_recv_msg" where
  "empty_recv_msg n = \<lparr>buf = Some (replicate n 0), recv_size = of_nat n, pid = 0, seq = 0, recv_payload_size = 0, err = 0\<rparr>"

lemma recv_ok_empty: "n < 2 ^ 31 \<Longrightarrow> recv_ok (empty_recv_msg n)"
  by (simp add: recv_ok_def empty_recv_msg_def unat_of_nat)

theorem recv_in_bounds_witness:
  "saiagent_ipc_recv 0 [\<lparr>nlmsg_pid = 1, nlmsg_seq = 2, nl_parsed = Some \<lparr>drv_init_ack = False, tlv = Some [1, 2, 3, 4]\<rparr>\<rparr>]
      (empty_recv_msg 4) = Inr (RC_STATUS_ERR, (empty_recv_msg 4)\<lparr>err := RC_STATUS_ERR\<rparr>)"
  using recv_in_bounds [of "empty_recv_msg 4" 0 "[]" "[1, 2, 3, 4]" 1 2 False] recv_ok_empty [of 4]
  by (simp add: empty_recv_msg_def)

text \<open>
  C22. A request that has no type word, whose command is out of range, or whose command has
  no callback is answered with the 8-byte acknowledgement \<open>FAILED\<close>, and the state is left
  as it was.
\<close>

theorem process_req_rejects:
  assumes "length b = SAIAGENT_MSG_MAX_SIZE" "length rb = SAIAGENT_MSG_MAX_SIZE"
    "n < 4 \<or> \<not> request_cmd b < PRESTERA_CMD_TYPE_MAX \<or> cbs (request_cmd b) = None"
  shows "\<exists>bs. saiagent_ipc_process_req call cbs (Some b) n (Some rb) (of_nat SAIAGENT_MSG_MAX_SIZE) st =
      Inr (RC_STATUS_OK, Some bs, 8, st) \<and>
    take 8 bs = le_bytes 4 PRESTERA_CMD_TYPE_ACK @ le_bytes 4 PRESTERA_CMD_ACK_FAILED"
proof -
  have ack: "\<exists>bs m. saiagent_ipc_put_reply_ack (reply_msg rb) c = Inr m \<and> buff m = Some bs \<and> payload_size m = 8 \<and>
      take 8 bs = ack_response c" for c
    using put_reply_ack_ok [OF reply_ok_reply_msg [OF assms(2)], of c]
    by (auto simp: reply_ok_def written_def)
  obtain bs m where "saiagent_ipc_put_reply_ack (reply_msg rb) RC_STATUS_ERR = Inr m" "buff m = Some bs"
      "payload_size m = 8" "take 8 bs = ack_response RC_STATUS_ERR"
    using ack by blast
  moreover obtain bs' m' where "saiagent_ipc_put_reply_ack (reply_msg rb) RC_STATUS_NOT_SUPP = Inr m'"
      "buff m' = Some bs'" "payload_size m' = 8" "take 8 bs' = ack_response RC_STATUS_NOT_SUPP"
    using ack by blast
  ultimately show ?thesis
    using assms(3) unfolding process_req_eq [OF assms(1,2)] by (auto simp: ack_response_bytes)
qed

theorem process_req_rejects_witness:
  "\<exists>bs. saiagent_ipc_process_req (\<lambda>cb q r st. Inl Null_Deref) (\<lambda>c. None :: nat option) (Some (replicate 1500 0)) 1499
      (Some (replicate 1500 7)) (of_nat 1500) (9 :: nat) = Inr (RC_STATUS_OK, Some bs, 8, 9)"
proof -
  have "length (replicate 1500 (0 :: u8)) = 1500" "length (replicate 1500 (7 :: u8)) = 1500" by simp_all
  from process_req_rejects [OF this, of 1499 "\<lambda>c. None :: nat option" "\<lambda>cb q r st. Inl Null_Deref" 9]
  show ?thesis by blast
qed

end
