(* ===== verification/Saiagent_Sai.thy ===== *)
theory Saiagent_Sai
  imports Prelude
begin

text \<open>
  The Switch Abstraction Interface as the agent uses it.  The library behind it is a
  parameter: a function \<open>sai_lib\<close> from the calls made so far and the present call to what
  that call returns, so it may answer from any state of its own.  The attribute and API
  names are the ones in the agent's sources; \<open>sai_conforms\<close> is the documented contract
  on object lists.
\<close>

section \<open>Data\<close>

type_synonym sai_object_id_t = u64
type_synonym sai_status_t = int

abbreviation (input) SAI_NULL_OBJECT_ID :: sai_object_id_t where "SAI_NULL_OBJECT_ID \<equiv> 0"
abbreviation (input) SAI_STATUS_SUCCESS :: sai_status_t where "SAI_STATUS_SUCCESS \<equiv> 0"
abbreviation (input) SAI_STATUS_FAILURE :: sai_status_t where "SAI_STATUS_FAILURE \<equiv> -1"

datatype sai_api_t = SAI_API_SWITCH | SAI_API_BRIDGE | SAI_API_PORT | SAI_API_VLAN

datatype sai_log_level_t = SAI_LOG_LEVEL_DEBUG | SAI_LOG_LEVEL_INFO

datatype sai_attr_id_t =
    SAI_SWITCH_ATTR_INIT_SWITCH
  | SAI_SWITCH_ATTR_SWITCH_PROFILE_ID
  | SAI_SWITCH_ATTR_SWITCH_HARDWARE_INFO
  | SAI_SWITCH_ATTR_PORT_LIST
  | SAI_SWITCH_ATTR_DEFAULT_1Q_BRIDGE_ID
  | SAI_SWITCH_ATTR_DEFAULT_VLAN_ID
  | SAI_SWITCH_ATTR_PORT_STATE_CHANGE_NOTIFY
  | SAI_BRIDGE_ATTR_PORT_LIST
  | SAI_BRIDGE_PORT_ATTR_ADMIN_STATE
  | SAI_PORT_ATTR_ADMIN_STATE
  | SAI_PORT_ATTR_PORT_VLAN_ID
  | SAI_VLAN_ATTR_VLAN_ID
  | SAI_VLAN_ATTR_MEMBER_LIST
  | SAI_VLAN_MEMBER_ATTR_VLAN_ID
  | SAI_VLAN_MEMBER_ATTR_BRIDGE_PORT_ID
  | SAI_VLAN_MEMBER_ATTR_VLAN_TAGGING_MODE

datatype sai_vlan_tagging_mode_t = SAI_VLAN_TAGGING_MODE_UNTAGGED | SAI_VLAN_TAGGING_MODE_TAGGED

text \<open>The notification handler the agent passes to the library.\<close>

datatype notify_fn = Sai_on_port_state_change_notify

text \<open>
  \<open>sai_attribute_value_t\<close>, the member in use as the constructor.  \<open>Objlist count buf\<close> is
  the count with the contents of the buffer the list pointer designates.
\<close>

datatype sai_value =
    is_Booldata: Booldata bool
  | is_U16: U16 u16
  | is_U32: U32 u32
  | is_S32: S32 sai_vlan_tagging_mode_t
  | is_S8list: S8list u32 string
  | is_Oid: Oid sai_object_id_t
  | is_Objlist: Objlist u32 "sai_object_id_t list"
  | is_Ptr: Ptr notify_fn

type_synonym sai_attribute_t = "sai_attr_id_t \<times> sai_value"

datatype sai_call =
    Sai_api_initialize
  | Sai_api_uninitialize
  | Sai_api_query sai_api_t
  | Sai_log_set sai_api_t sai_log_level_t
  | Create_switch "sai_attribute_t list"
  | Remove_switch sai_object_id_t
  | Get_switch_attribute sai_object_id_t "sai_attribute_t list"
  | Set_switch_attribute sai_object_id_t sai_attribute_t
  | Get_bridge_attribute sai_object_id_t "sai_attribute_t list"
  | Set_bridge_port_attribute sai_object_id_t sai_attribute_t
  | Set_port_attribute sai_object_id_t sai_attribute_t
  | is_Create_vlan: Create_vlan sai_object_id_t "sai_attribute_t list"
  | Get_vlan_attribute sai_object_id_t "sai_attribute_t list"
  | Create_vlan_member sai_object_id_t "sai_attribute_t list"
  | Get_vlan_member_attribute sai_object_id_t "sai_attribute_t list"

text \<open>
  What a call returns: its status, the object identifier it stored through its first
  argument if it did, and for each attribute it was given the value it stored, if any.
\<close>

record sai_ret =
  ret_status :: sai_status_t
  ret_oid :: "sai_object_id_t option"
  ret_values :: "sai_value option list"

type_synonym sai_log = "(sai_call \<times> sai_ret) list"
type_synonym sai_lib = "sai_log \<Rightarrow> sai_call \<Rightarrow> sai_ret"

section \<open>Storing results\<close>

text \<open>
  A value stored in an attribute.  The library writes the member of the union that the
  attribute has; identifiers are stored into the caller's buffer, in order.
\<close>

definition sai_store :: "sai_value \<Rightarrow> sai_value \<Rightarrow> sai_value outcome" where
  "sai_store v w =
     (case v of
        Objlist n b \<Rightarrow>
          (case w of
             Objlist m l \<Rightarrow> if length l \<le> length b then Inr (Objlist m (patch 0 l b)) else Inl Out_Of_Bounds
           | _ \<Rightarrow> Inr v)
      | Booldata x \<Rightarrow> Inr (if is_Booldata w then w else v)
      | U16 x \<Rightarrow> Inr (if is_U16 w then w else v)
      | U32 x \<Rightarrow> Inr (if is_U32 w then w else v)
      | Oid x \<Rightarrow> Inr (if is_Oid w then w else v)
      | S32 x \<Rightarrow> Inr v
      | S8list n x \<Rightarrow> Inr v
      | Ptr x \<Rightarrow> Inr v)"

fun sai_store_all :: "sai_attribute_t list \<Rightarrow> sai_value option list \<Rightarrow> sai_attribute_t list outcome" where
  "sai_store_all ((i, v) # attrs) (r # rs) =
     bind_o (case r of None \<Rightarrow> Inr v | Some w \<Rightarrow> sai_store v w) (\<lambda>v.
     bind_o (sai_store_all attrs rs) (\<lambda>attrs. Inr ((i, v) # attrs)))"
| "sai_store_all attrs rs = Inr attrs"

text \<open>Reading a member of the union: only the one in use has a value.\<close>

definition value_oid :: "sai_value \<Rightarrow> sai_object_id_t" where
  "value_oid v = (case v of Oid x \<Rightarrow> x | _ \<Rightarrow> SAI_NULL_OBJECT_ID)"

definition value_u16 :: "sai_value \<Rightarrow> u16" where
  "value_u16 v = (case v of U16 x \<Rightarrow> x | _ \<Rightarrow> 0)"

definition value_count :: "sai_value \<Rightarrow> u32" where
  "value_count v = (case v of Objlist n b \<Rightarrow> n | _ \<Rightarrow> 0)"

definition value_list :: "sai_value \<Rightarrow> sai_object_id_t list" where
  "value_list v = (case v of Objlist n b \<Rightarrow> b | _ \<Rightarrow> [])"

section \<open>The contract\<close>

text \<open>The agent's object buffers have 64 elements (\<open>port_list\<close>, \<open>br_port_list\<close>, \<open>vlan_member_list\<close>).\<close>

abbreviation (input) OBJ_LIST_LEN :: nat where "OBJ_LIST_LEN \<equiv> 64"
abbreviation (input) OBJ_LIST_COUNT :: u32 where "OBJ_LIST_COUNT \<equiv> 64"

text \<open>The attributes a \<open>get_*_attribute\<close> call is passed.\<close>

definition get_attrs :: "sai_call \<Rightarrow> sai_attribute_t list" where
  "get_attrs c =
     (case c of
        Get_switch_attribute sw attrs \<Rightarrow> attrs
      | Get_bridge_attribute br attrs \<Rightarrow> attrs
      | Get_vlan_attribute v attrs \<Rightarrow> attrs
      | Get_vlan_member_attribute m attrs \<Rightarrow> attrs
      | _ \<Rightarrow> [])"

text \<open>
  SAI documentation of \<open>sai_object_list_t\<close>: the caller passes the number of elements its
  buffer has in \<open>count\<close>; the call stores at most that many, and when it succeeds sets \<open>count\<close> to
  the number stored.  When the buffer is too small it fails and sets \<open>count\<close> to the number
  needed, so nothing is said about \<open>count\<close> after a failure.
\<close>

definition sai_conforms :: "sai_lib \<Rightarrow> bool" where
  "sai_conforms sai \<longleftrightarrow> (\<forall>h c k i n b m l. (i, Objlist n b) = get_attrs c ! k \<longrightarrow> k < length (get_attrs c) \<longrightarrow>
     k < length (ret_values (sai h c)) \<longrightarrow> ret_values (sai h c) ! k = Some (Objlist m l) \<longrightarrow>
     length l \<le> unat n \<and> (ret_status (sai h c) = SAI_STATUS_SUCCESS \<longrightarrow> unat m = length l))"

text \<open>
  The switch has at most 64 ports, the bridge at most 64 ports and a VLAN at most 64 members:
  no list needs a \<open>count\<close> above the length of the agent's buffers.
\<close>

definition sai_fits :: "sai_lib \<Rightarrow> bool" where
  "sai_fits sai \<longleftrightarrow> (\<forall>h c m l. Some (Objlist m l) \<in> set (ret_values (sai h c)) \<longrightarrow> unat m \<le> OBJ_LIST_LEN)"

section \<open>Lemmas\<close>

lemma sai_store_simps [simp]:
  "sai_store (Objlist n b) (Objlist m l) = (if length l \<le> length b then Inr (Objlist m (patch 0 l b)) else Inl Out_Of_Bounds)"
  "sai_store (Booldata x) (Booldata y) = Inr (Booldata y)"
  "sai_store (U16 u) (U16 w) = Inr (U16 w)"
  "sai_store (Oid p) (Oid q) = Inr (Oid q)"
  by (simp_all add: sai_store_def)

lemma sai_store_shape:
  assumes "sai_store v w = Inr v'"
  shows "(\<forall>n b. v = Objlist n b \<longrightarrow> (\<exists>m b'. v' = Objlist m b' \<and> length b' = length b)) \<and>
    (\<forall>x. v = Oid x \<longrightarrow> (\<exists>y. v' = Oid y)) \<and> (\<forall>x. v = U16 x \<longrightarrow> (\<exists>y. v' = U16 y))"
  using assms by (cases v; cases w) (auto simp: sai_store_def split: if_splits)

lemma sai_store_all_length:
  "sai_store_all attrs rs = Inr attrs' \<Longrightarrow> length attrs' = length attrs \<and> map fst attrs' = map fst attrs"
  by (induction attrs rs arbitrary: attrs' rule: sai_store_all.induct) auto

text \<open>A result has the member and, for a list, the buffer size of the attribute it is stored in.\<close>

definition same_shape :: "sai_value \<Rightarrow> sai_value \<Rightarrow> bool" where
  "same_shape v w \<longleftrightarrow>
     (\<forall>n b. v = Objlist n b \<longrightarrow> (\<exists>m b'. w = Objlist m b' \<and> length b' = length b)) \<and>
     (\<forall>x. v = Oid x \<longrightarrow> (\<exists>y. w = Oid y)) \<and> (\<forall>x. v = U16 x \<longrightarrow> (\<exists>y. w = U16 y))"

lemma same_shape_refl [simp]: "same_shape v v"
  by (simp add: same_shape_def)

lemma sai_store_all_shape:
  "sai_store_all attrs rs = Inr attrs' \<Longrightarrow> list_all2 (\<lambda>(i, v) (j, w). i = j \<and> same_shape v w) attrs attrs'"
proof (induction attrs rs arbitrary: attrs' rule: sai_store_all.induct)
  case (1 i v attrs r rs)
  from 1(2) obtain v' as where v: "(case r of None \<Rightarrow> Inr v | Some w \<Rightarrow> sai_store v w) = Inr v'"
    and as: "sai_store_all attrs rs = Inr as" "attrs' = (i, v') # as"
    by auto
  have "same_shape v v'"
    using v sai_store_shape unfolding same_shape_def by (cases r) auto
  with 1(1) [OF as(1)] as(2) show ?case by simp
qed (auto simp: list_all2_same)

text \<open>Storing results one attribute at a time.\<close>

lemma sai_store_all_Cons:
  "sai_store_all ((i, v) # attrs) rs = (case rs of [] \<Rightarrow> Inr ((i, v) # attrs) | r # rs' \<Rightarrow>
     bind_o (case r of None \<Rightarrow> Inr v | Some w \<Rightarrow> sai_store v w) (\<lambda>v.
     bind_o (sai_store_all attrs rs') (\<lambda>attrs. Inr ((i, v) # attrs))))"
  by (cases rs) simp_all

text \<open>
  Attributes whose lists are a buffer of 64 elements with a \<open>count\<close> it has room for, and
  results that fit them.
\<close>

definition value_ok :: "sai_value \<Rightarrow> bool" where
  "value_ok v \<longleftrightarrow> (case v of Objlist n b \<Rightarrow> length b = OBJ_LIST_LEN \<and> unat n \<le> OBJ_LIST_LEN | _ \<Rightarrow> True)"

lemma value_ok_simps [simp]:
  "value_ok (Objlist n b) \<longleftrightarrow> length b = OBJ_LIST_LEN \<and> unat n \<le> OBJ_LIST_LEN"
  "value_ok (Booldata x)" "value_ok (U16 u)" "value_ok (U32 d)" "value_ok (S32 s)" "value_ok (S8list n t)"
  "value_ok (Oid q)" "value_ok (Ptr f)"
  by (simp_all add: value_ok_def)

lemma sai_store_ok:
  assumes "value_ok v" "\<And>n b m l. v = Objlist n b \<Longrightarrow> w = Objlist m l \<Longrightarrow> length l \<le> length b"
    "\<And>m l. w = Objlist m l \<Longrightarrow> unat m \<le> OBJ_LIST_LEN"
  shows "\<exists>v'. sai_store v w = Inr v' \<and> value_ok v'"
proof (cases v)
  case v: (Objlist n b)
  show ?thesis
  proof (cases w)
    case (Objlist m l)
    with assms v show ?thesis by simp
  qed (use assms(1) v in \<open>simp_all add: sai_store_def\<close>)
qed (cases w; simp add: sai_store_def)+

definition attrs_ok :: "sai_attribute_t list \<Rightarrow> bool" where
  "attrs_ok attrs \<longleftrightarrow> list_all (\<lambda>(i, v). value_ok v) attrs"

lemma attrs_ok_simps [simp]:
  "attrs_ok []"
  "attrs_ok ((i, v) # attrs) \<longleftrightarrow> value_ok v \<and> attrs_ok attrs"
  by (simp_all add: attrs_ok_def)

definition results_fit :: "sai_attribute_t list \<Rightarrow> sai_value option list \<Rightarrow> bool" where
  "results_fit attrs rs \<longleftrightarrow> (\<forall>k i n b m l. (i, Objlist n b) = attrs ! k \<longrightarrow> k < length attrs \<longrightarrow> k < length rs \<longrightarrow>
     rs ! k = Some (Objlist m l) \<longrightarrow> length l \<le> unat n)"

lemma results_fit_Cons:
  assumes "results_fit ((i, v) # attrs) (r # rs)"
  shows "results_fit attrs rs" "\<And>n b m l. v = Objlist n b \<Longrightarrow> r = Some (Objlist m l) \<Longrightarrow> length l \<le> unat n"
proof -
  show "results_fit attrs rs"
    unfolding results_fit_def
  proof (intro allI impI)
    fix k i n b m l
    assume "(i, Objlist n b) = attrs ! k" "k < length attrs" "k < length rs" "rs ! k = Some (Objlist m l)"
    then show "length l \<le> unat n"
      using assms [unfolded results_fit_def, rule_format, of i n b "Suc k" m l] by simp
  qed
  show "length l \<le> unat n" if "v = Objlist n b" "r = Some (Objlist m l)" for n b m l
    using assms [unfolded results_fit_def, rule_format, of i n b 0 m l] that by simp
qed

lemma sai_store_all_fits:
  assumes "results_fit attrs rs" "attrs_ok attrs" "\<forall>m l. Some (Objlist m l) \<in> set rs \<longrightarrow> unat m \<le> OBJ_LIST_LEN"
  shows "\<exists>attrs'. sai_store_all attrs rs = Inr attrs' \<and> attrs_ok attrs'"
  using assms
proof (induction attrs rs rule: sai_store_all.induct)
  case (1 i v attrs r rs)
  have "\<exists>v'. (case r of None \<Rightarrow> Inr v | Some w \<Rightarrow> sai_store v w) = Inr v' \<and> value_ok v'"
  proof (cases r)
    case None
    then show ?thesis using 1(3) by simp
  next
    case (Some w)
    have "length l \<le> length b" if "v = Objlist n b" "w = Objlist m l" for n b m l
      using results_fit_Cons(2) [OF 1(2) that(1), of m l] 1(3) that Some by simp
    moreover have "unat m \<le> OBJ_LIST_LEN" if "w = Objlist m l" for m l
      using 1(4) that Some by simp
    ultimately show ?thesis
      using 1(3) sai_store_ok [of v w] Some by simp
  qed
  then obtain v' where v': "(case r of None \<Rightarrow> Inr v | Some w \<Rightarrow> sai_store v w) = Inr v'" "value_ok v'"
    by blast
  have "\<exists>attrs'. sai_store_all attrs rs = Inr attrs' \<and> attrs_ok attrs'"
    using 1(1) [OF results_fit_Cons(1) [OF 1(2)]] 1(3,4) by auto
  with v' show ?case by auto
qed simp_all

end
