(* ===== verification/Saiagent_Thread.thy ===== *)
theory Saiagent_Thread
  imports Prelude
begin

text \<open>
  \<open>saiagent_thread.c\<close>.  First the three functions the agent calls, on a heap of thread
  contexts; then the thread itself, as a step relation in which the looping thread and
  the thread that stops and destroys it take turns in any order.
\<close>

section \<open>Contexts and the functions the agent calls\<close>

datatype saiagent_thread_type_t = THREAD_TYPE_NORMAL | THREAD_TYPE_LOOP

record 'f saiagent_thread_ctx =
  tid :: nat
  func :: 'f
  udata :: "nat option"
  thread_running :: int
  timeout :: int
  thread_type :: saiagent_thread_type_t

text \<open>A pointer is an index into the heap, or \<open>None\<close> for null; a freed context is \<open>None\<close>.\<close>

type_synonym 'f thread_heap = "'f saiagent_thread_ctx option list"

text \<open>The value a thread leaves for \<open>pthread_join\<close>, as far as \<open>free\<close> can tell it.\<close>

datatype thread_value = Null_Value | Heap_Block | Other_Value

text \<open>
  What the library calls return.  \<open>pthread_join_rc = None\<close>: the thread never ends.
  \<open>thread_loop\<close> has no \<open>return\<close>, so the value it leaves is \<open>loop_value\<close>, whatever was in
  the register; a routine run directly leaves \<open>routine_value\<close>.
\<close>

record thread_env =
  pthread_attr_init_rc :: int
  calloc_ctx_ok :: bool
  pthread_create_rc :: int
  pthread_tid :: nat
  pthread_join_rc :: "int option"
  loop_value :: thread_value
  routine_value :: thread_value

definition saiagent_thread_create ::
    "thread_env \<Rightarrow> 'f \<Rightarrow> nat option \<Rightarrow> saiagent_thread_type_t \<Rightarrow> int \<Rightarrow> 'f thread_heap \<Rightarrow> nat option \<times> 'f thread_heap" where
  "saiagent_thread_create te routine data type tmo heap =
     (if pthread_attr_init_rc te \<noteq> 0 then (None, heap)
      else if \<not> calloc_ctx_ok te then (None, heap)
      else if pthread_create_rc te \<noteq> 0 then (None, heap)
      else (Some (length heap),
            heap @ [Some \<lparr>tid = pthread_tid te, func = routine, udata = data, thread_running = 0, timeout = tmo,
              thread_type = type\<rparr>]))"

definition thread_deref :: "nat option \<Rightarrow> 'f thread_heap \<Rightarrow> 'f saiagent_thread_ctx outcome" where
  "thread_deref p heap =
     (case p of
        None \<Rightarrow> Inl Null_Deref
      | Some i \<Rightarrow>
          if i < length heap
          then (case heap ! i of None \<Rightarrow> Inl Dangling_Pointer | Some c \<Rightarrow> Inr c)
          else Inl Wild_Pointer)"

definition saiagent_thread_stop :: "nat option \<Rightarrow> 'f thread_heap \<Rightarrow> (saiagent_rc_t \<times> 'f thread_heap) outcome" where
  "saiagent_thread_stop p heap =
     bind_o (thread_deref p heap) (\<lambda>c.
       Inr (RC_STATUS_OK, heap[the p := Some (c\<lparr>thread_running := 0\<rparr>)]))"

definition thread_result :: "thread_env \<Rightarrow> 'f saiagent_thread_ctx \<Rightarrow> thread_value" where
  "thread_result te c = (case thread_type c of THREAD_TYPE_LOOP \<Rightarrow> loop_value te | THREAD_TYPE_NORMAL \<Rightarrow> routine_value te)"

definition saiagent_thread_destroy ::
    "thread_env \<Rightarrow> nat option \<Rightarrow> 'f thread_heap \<Rightarrow> (saiagent_rc_t \<times> 'f thread_heap) outcome" where
  "saiagent_thread_destroy te p heap =
     bind_o (thread_deref p heap) (\<lambda>c.
       let heap = heap[the p := Some (c\<lparr>thread_running := 0\<rparr>)] in
       (case pthread_join_rc te of
          None \<Rightarrow> Inl Blocked
        | Some s \<Rightarrow>
            if s \<noteq> 0 then Inr (RC_STATUS_ERR, heap)
            else if thread_result te c = Other_Value then Inl Bad_Free
            else Inr (RC_STATUS_OK, heap[the p := None])))"

section \<open>The looping thread\<close>

text \<open>
  The argument of \<open>usleep\<close>: the multiplication is done in \<open>int\<close> and converted to the
  unsigned \<open>useconds_t\<close>.
\<close>

definition sleep_usec :: "int \<Rightarrow> u32 outcome" where
  "sleep_usec tmo =
     (let us = tmo * 1000 in
      if us < - (2 ^ 31) \<or> us \<ge> 2 ^ 31 then Inl Signed_Overflow else Inr (of_int us))"

datatype loop_pc = L_Entry | L_Test | L_Call | L_Sleep | L_Return | L_Crash
datatype owner_pc = O_Before | O_Stopped | O_Joining | O_Joined

text \<open>
  \<open>ctx->running\<close> is shared.  The owner runs \<open>saiagent_thread_stop\<close>, then the store and the
  join of \<open>saiagent_thread_destroy\<close>; \<open>calls\<close> counts the calls of the routine.
\<close>

record thread_state =
  loop_at :: loop_pc
  owner_at :: owner_pc
  flag :: int
  calls :: nat

definition thread_start :: thread_state where
  "thread_start = \<lparr>loop_at = L_Entry, owner_at = O_Before, flag = 0, calls = 0\<rparr>"

inductive thread_step :: "int \<Rightarrow> thread_state \<Rightarrow> thread_state \<Rightarrow> bool" for tmo where
  enter: "loop_at s = L_Entry \<Longrightarrow> thread_step tmo s (s\<lparr>flag := 1, loop_at := L_Test\<rparr>)"
| test_true: "loop_at s = L_Test \<Longrightarrow> flag s \<noteq> 0 \<Longrightarrow> thread_step tmo s (s\<lparr>loop_at := L_Call\<rparr>)"
| test_false: "loop_at s = L_Test \<Longrightarrow> flag s = 0 \<Longrightarrow> thread_step tmo s (s\<lparr>loop_at := L_Return\<rparr>)"
| call: "loop_at s = L_Call \<Longrightarrow> thread_step tmo s (s\<lparr>calls := Suc (calls s), loop_at := L_Sleep\<rparr>)"
| sleep: "loop_at s = L_Sleep \<Longrightarrow> sleep_usec tmo = Inr us \<Longrightarrow> thread_step tmo s (s\<lparr>loop_at := L_Test\<rparr>)"
| overflow: "loop_at s = L_Sleep \<Longrightarrow> sleep_usec tmo = Inl f \<Longrightarrow> thread_step tmo s (s\<lparr>loop_at := L_Crash\<rparr>)"
| stop: "owner_at s = O_Before \<Longrightarrow> thread_step tmo s (s\<lparr>flag := 0, owner_at := O_Stopped\<rparr>)"
| destroy: "owner_at s = O_Stopped \<Longrightarrow> thread_step tmo s (s\<lparr>flag := 0, owner_at := O_Joining\<rparr>)"
| join: "owner_at s = O_Joining \<Longrightarrow> loop_at s = L_Return \<Longrightarrow> thread_step tmo s (s\<lparr>owner_at := O_Joined\<rparr>)"

inductive_cases thread_stepE: "thread_step tmo s s'"
inductive_simps thread_step_simps: "thread_step tmo s s'"

abbreviation thread_steps :: "int \<Rightarrow> thread_state \<Rightarrow> thread_state \<Rightarrow> bool" where
  "thread_steps tmo \<equiv> (thread_step tmo)\<^sup>*\<^sup>*"

text \<open>A state from which the thread can take no further part: the owner is joining and the loop has been entered too late.\<close>

definition stop_lost :: "thread_state \<Rightarrow> bool" where
  "stop_lost s \<longleftrightarrow> owner_at s = O_Joining \<and> loop_at s \<noteq> L_Return \<and> (loop_at s = L_Entry \<or> flag s \<noteq> 0)"

section \<open>Lemmas\<close>

lemma thread_steps_invariant:
  assumes "thread_steps tmo s s'" "I s" "\<And>s s'. I s \<Longrightarrow> thread_step tmo s s' \<Longrightarrow> I s'"
  shows "I s'"
  using assms(1,2) by (induction rule: rtranclp_induct) (auto intro: assms(3))

lemma stop_lost_step: "stop_lost s \<Longrightarrow> thread_step tmo s s' \<Longrightarrow> stop_lost s'"
  by (erule thread_stepE) (auto simp: stop_lost_def)

text \<open>
  Once the owner is joining and the loop had been entered before, the flag stays zero
  and only a bounded number of steps is left.
\<close>

definition stop_kept :: "thread_state \<Rightarrow> bool" where
  "stop_kept s \<longleftrightarrow> owner_at s \<noteq> O_Before \<and> loop_at s \<noteq> L_Entry \<and> flag s = 0"

fun loop_left :: "loop_pc \<Rightarrow> nat" where
  "loop_left L_Entry = 0"
| "loop_left L_Call = 3"
| "loop_left L_Sleep = 2"
| "loop_left L_Test = 1"
| "loop_left L_Return = 0"
| "loop_left L_Crash = 0"

fun owner_left :: "owner_pc \<Rightarrow> nat" where
  "owner_left O_Before = 3"
| "owner_left O_Stopped = 2"
| "owner_left O_Joining = 1"
| "owner_left O_Joined = 0"

lemma stop_kept_step:
  assumes "thread_step tmo s s'" "stop_kept s"
  shows "stop_kept s' \<and>
    loop_left (loop_at s') + owner_left (owner_at s') < loop_left (loop_at s) + owner_left (owner_at s)"
  using assms by (cases rule: thread_stepE) (auto simp: stop_kept_def)

lemma stop_kept_bound:
  assumes "(thread_step tmo ^^ n) s s'" "stop_kept s"
  shows "stop_kept s' \<and>
    n + loop_left (loop_at s') + owner_left (owner_at s') \<le> loop_left (loop_at s) + owner_left (owner_at s)"
  using assms
proof (induction n arbitrary: s')
  case (Suc n)
  then obtain t where "(thread_step tmo ^^ n) s t" "thread_step tmo t s'" by auto
  with Suc.IH [of t] Suc.prems(2) stop_kept_step [of tmo t s'] show ?case by force
qed simp

lemma stop_kept_progress:
  assumes "stop_kept s" "sleep_usec tmo = Inr us" "loop_at s \<noteq> L_Crash" "owner_at s \<noteq> O_Joined"
  shows "\<exists>s'. thread_step tmo s s'"
proof (cases "owner_at s")
  case O_Joining
  with assms show ?thesis
    by (cases "loop_at s") (auto simp: stop_kept_def intro: thread_step.intros)
qed (use assms in \<open>auto simp: stop_kept_def intro: thread_step.intros\<close>)

lemma sleep_usec_returns: "(\<exists>us. sleep_usec tmo = Inr us) \<longleftrightarrow> \<bar>tmo\<bar> \<le> 2147483"
  by (auto simp: sleep_usec_def Let_def abs_le_iff)

lemma thread_steps_relpow: "thread_steps tmo s s' \<Longrightarrow> \<exists>n. (thread_step tmo ^^ n) s s'"
  by (simp add: rtranclp_power)

text \<open>The thread leaves its loop only with the flag down, and nothing raises it again.\<close>

definition returned_down :: "thread_state \<Rightarrow> bool" where
  "returned_down s \<longleftrightarrow> (loop_at s = L_Return \<longrightarrow> flag s = 0)"

lemma returned_down_step: "returned_down s \<Longrightarrow> thread_step tmo s s' \<Longrightarrow> returned_down s'"
  by (erule thread_stepE) (auto simp: returned_down_def)

text \<open>From a stop that is not lost the join is reached.\<close>

lemma stop_kept_joins:
  assumes "stop_kept s" "loop_at s \<noteq> L_Crash" "sleep_usec tmo = Inr us"
  shows "\<exists>s'. thread_steps tmo s s' \<and> owner_at s' = O_Joined"
  using assms(1,2)
proof (induction "loop_left (loop_at s) + owner_left (owner_at s)" arbitrary: s rule: less_induct)
  case less
  show ?case
  proof (cases "owner_at s = O_Joined")
    case False
    then obtain t where t: "thread_step tmo s t"
      using stop_kept_progress [OF less.prems(1) assms(3) less.prems(2)] by blast
    have "loop_at t \<noteq> L_Crash" using t less.prems(2) assms(3) by (auto elim!: thread_stepE)
    with less.hyps [of t] stop_kept_step [OF t less.prems(1)] t show ?thesis
      by (blast intro: converse_rtranclp_into_rtranclp)
  qed blast
qed

text \<open>How many calls of the routine are left once the flag is down.\<close>

fun calls_left :: "loop_pc \<Rightarrow> nat" where
  "calls_left L_Call = 1"
| "calls_left pc = 0"

lemma stop_kept_calls:
  assumes "thread_step tmo s s'" "stop_kept s"
  shows "calls s' + calls_left (loop_at s') \<le> calls s + calls_left (loop_at s)"
  using assms by (cases rule: thread_stepE) (auto simp: stop_kept_def)

lemma stop_kept_calls_steps:
  assumes "(thread_step tmo ^^ n) s s'" "stop_kept s"
  shows "calls s' + calls_left (loop_at s') \<le> calls s + calls_left (loop_at s)"
  using assms
proof (induction n arbitrary: s')
  case (Suc n)
  then obtain t where t: "(thread_step tmo ^^ n) s t" "thread_step tmo t s'" by auto
  with Suc.IH [of t] Suc.prems(2) stop_kept_calls [of tmo t s'] stop_kept_bound [OF t(1) Suc.prems(2)]
  show ?case by force
qed simp

lemma no_crash_steps:
  assumes "(thread_step tmo ^^ n) s s'" "loop_at s \<noteq> L_Crash" "sleep_usec tmo = Inr us"
  shows "loop_at s' \<noteq> L_Crash"
  using assms(1,2)
proof (induction n arbitrary: s')
  case (Suc n)
  then obtain t where "(thread_step tmo ^^ n) s t" "thread_step tmo t s'" by auto
  with Suc.IH [of t] Suc.prems(2) assms(3) show ?case by (auto elim!: thread_stepE)
qed simp

section \<open>Properties\<close>

text \<open>
  C24. Once the flag has been cleared while the thread was in its loop, at most five more
  steps of the thread and its owner are possible, the routine is called at most once
  more, and no run stops short of the join: with a timeout whose microseconds fit an
  \<open>int\<close>, a state that is not joined has a next step.
\<close>

theorem stop_ends_thread:
  assumes "stop_kept s" "loop_at s \<noteq> L_Crash" "\<bar>tmo\<bar> \<le> 2147483" "(thread_step tmo ^^ n) s s'"
  shows "n \<le> 5 \<and> calls s' \<le> Suc (calls s) \<and> (owner_at s' = O_Joined \<or> (\<exists>t. thread_step tmo s' t))"
proof -
  obtain us where us: "sleep_usec tmo = Inr us" using assms(3) sleep_usec_returns by blast
  from stop_kept_bound [OF assms(4,1)] have k: "stop_kept s'"
    and b: "n \<le> loop_left (loop_at s) + owner_left (owner_at s)" by simp_all
  have "loop_left (loop_at s) + owner_left (owner_at s) \<le> 5"
    using assms(1) by (cases "loop_at s"; cases "owner_at s") (simp_all add: stop_kept_def)
  moreover have "calls s' \<le> Suc (calls s)"
  proof -
    have "calls_left pc \<le> 1" for pc by (cases pc) simp_all
    with stop_kept_calls_steps [OF assms(4,1)] show ?thesis
      by (metis add_leD1 add_le_cancel_left le_trans Suc_eq_plus1)
  qed
  moreover have "loop_at s' \<noteq> L_Crash" using no_crash_steps [OF assms(4,2) us] .
  ultimately show ?thesis using b stop_kept_progress [OF k us] by auto
qed

theorem stop_ends_thread_witness:
  "\<exists>t. thread_step 1000 \<lparr>loop_at = L_Call, owner_at = O_Stopped, flag = 0, calls = 7\<rparr> t"
  using stop_ends_thread [of "\<lparr>loop_at = L_Call, owner_at = O_Stopped, flag = 0, calls = 7\<rparr>" 1000 0
      "\<lparr>loop_at = L_Call, owner_at = O_Stopped, flag = 0, calls = 7\<rparr>"]
  by (simp add: stop_kept_def)

text \<open>
  C25. When a join returns.  \<open>thread_loop\<close> sets the flag itself when it starts.  In any reachable
  state in which the owner is at the join of \<open>saiagent_thread_destroy\<close>, with an interval whose
  microseconds fit an \<open>int\<close>, the join can still return if and only if the thread has entered
  its loop and the flag is zero.  So a thread that enters only after the store of
  \<open>saiagent_thread_destroy\<close> undoes both stores of 0, and is never joined; one that enters
  between the two stores is.
\<close>

theorem join_returns_iff:
  assumes "thread_steps tmo thread_start s" "owner_at s = O_Joining" "\<bar>tmo\<bar> \<le> 2147483"
  shows "(\<exists>s'. thread_steps tmo s s' \<and> owner_at s' = O_Joined) \<longleftrightarrow> loop_at s \<noteq> L_Entry \<and> flag s = 0"
proof
  obtain us where us: "sleep_usec tmo = Inr us" using assms(3) sleep_usec_returns by blast
  obtain n where "(thread_step tmo ^^ n) thread_start s" using thread_steps_relpow [OF assms(1)] by blast
  then have nc: "loop_at s \<noteq> L_Crash" by (rule no_crash_steps [OF _ _ us]) (simp add: thread_start_def)
  show "\<exists>s'. thread_steps tmo s s' \<and> owner_at s' = O_Joined" if "loop_at s \<noteq> L_Entry \<and> flag s = 0"
    by (rule stop_kept_joins [OF _ nc us]) (use that assms(2) in \<open>simp add: stop_kept_def\<close>)
next
  assume "\<exists>s'. thread_steps tmo s s' \<and> owner_at s' = O_Joined"
  then obtain s' where s': "thread_steps tmo s s'" "owner_at s' = O_Joined" by blast
  have "returned_down thread_start" by (simp add: returned_down_def thread_start_def)
  from thread_steps_invariant [where I = returned_down, OF assms(1) this returned_down_step]
  have "stop_lost s" if "\<not> (loop_at s \<noteq> L_Entry \<and> flag s = 0)"
    using that assms(2) by (auto simp: stop_lost_def returned_down_def)
  moreover have "\<not> stop_lost s'" using s'(2) by (simp add: stop_lost_def)
  ultimately show "loop_at s \<noteq> L_Entry \<and> flag s = 0"
    using thread_steps_invariant [where I = stop_lost, OF s'(1)] stop_lost_step by blast
qed

text \<open>The owner stops and destroys the thread before it runs: the thread then loops for ever.\<close>

theorem join_returns_iff_witness:
  "\<exists>s. thread_steps 1000 thread_start s \<and> owner_at s = O_Joining \<and> flag s = 0 \<and>
     \<not> (\<exists>s'. thread_steps 1000 s s' \<and> owner_at s' = O_Joined)"
proof -
  let ?s = "\<lambda>q. \<lparr>loop_at = L_Entry, owner_at = q, flag = 0, calls = 0\<rparr>"
  have "thread_step 1000 (?s O_Before) (?s O_Stopped)" "thread_step 1000 (?s O_Stopped) (?s O_Joining)"
    using thread_step.stop [of "?s O_Before" 1000] thread_step.destroy [of "?s O_Stopped" 1000] by simp_all
  then have run: "thread_steps 1000 thread_start (?s O_Joining)"
    unfolding thread_start_def by (meson converse_rtranclp_into_rtranclp rtranclp.rtrancl_refl)
  with join_returns_iff [OF run] show ?thesis by (intro exI [of _ "?s O_Joining"]) simp
qed

text \<open>
  The keepalive interval arrives as an unsigned 32-bit number of milliseconds and is
  kept in an \<open>int\<close>.  The multiplication by 1000 before each sleep stays in range exactly
  when that \<open>int\<close> is at most 2147483 in absolute value; for every other interval it
  overflows.
\<close>

theorem pulse_timeout_range:
  "sleep_usec (sint (v :: u32)) =
     (if unat v \<le> 2147483 \<or> 2 ^ 32 - 2147483 \<le> unat v then Inr (of_int (sint v * 1000)) else Inl Signed_Overflow)"
proof -
  define n where "n = unat v"
  have u: "uint v = int n" by (simp add: n_def)
  have b: "n < 4294967296" using unat_less_bound(3) [of v] by (simp add: n_def)
  have "sint v = signed_take_bit 31 (uint v)" by (simp add: sint_uint)
  also have "\<dots> = (int n + 2147483648) mod 4294967296 - 2147483648"
    by (simp add: signed_take_bit_eq_take_bit_shift take_bit_eq_mod u)
  also have "\<dots> = (if n < 2147483648 then int n else int n - 4294967296)"
  proof (cases "n < 2147483648")
    case True
    then have "(int n + 2147483648) mod 4294967296 = int n + 2147483648" by (intro mod_pos_pos_trivial) linarith+
    with True show ?thesis by simp
  next
    case False
    have "(int n + 2147483648) mod 4294967296 = ((int n - 2147483648) + 4294967296) mod 4294967296"
      by (simp add: add.commute)
    also have "\<dots> = (int n - 2147483648) mod 4294967296" by (rule mod_add_self2)
    also have "\<dots> = int n - 2147483648" using False b by (intro mod_pos_pos_trivial) linarith+
    finally show ?thesis using False by simp
  qed
  finally have "sint v = (if n < 2147483648 then int n else int n - 4294967296)" .
  then show ?thesis
    using b by (auto simp: sleep_usec_def Let_def simp flip: n_def)
qed

end
