(* ===== verification/Saiagent_Agent.thy ===== *)
theory Saiagent_Agent
  imports Saiagent_Ipc Saiagent_Sai Saiagent_Thread
begin

text \<open>
  The agent's static state, shared by the components: \<open>ctx\<close> of \<open>saiagent_ipc.c\<close>,
  \<open>sw_info\<close> of \<open>saiagent_switch.c\<close>, \<open>ctx\<close> of \<open>saiagent_vlan.c\<close>, the thread contexts, and
  the calls made to the SAI library.  Also here: what the handlers have in common (a call
  through the SAI, \<open>SAI_RET_ERR\<close>, writing a reply) and the accessors of
  \<open>saiagent_switch.h\<close> the other components use.
\<close>

section \<open>State\<close>

text \<open>The functions a pointer of \<open>ipc_cb_list\<close> can designate, and the routine a thread can run.\<close>

datatype saiagent_cb =
    Process_switch_init
  | Process_switch_reset
  | Process_switch_attr_set
  | Process_keepalive_init
  | Process_port_info_get
  | Process_port_attr_set
  | Process_port_attr_get
  | Process_vlan_create
  | Process_vlan_delete
  | Process_vlan_port_set
  | Process_vlan_pvid_set
  | Process_stp_port_set
  | Process_fdb_flush_port
  | Process_router_vr_create
  | Process_router_vr_del
  | Process_router_mp_hash_set
  | Process_router_lpm_add
  | Process_router_lpm_del

datatype routine_t = Keepalive_routine

record saiagent_switch_info =
  switch_oid :: sai_object_id_t
  port_list :: "sai_object_id_t list"
  br_port_list :: "sai_object_id_t list"
  default_dot1q_bridge_oid :: sai_object_id_t
  default_vlan_oid :: sai_object_id_t
  keepalive_ctx :: "nat option"
  num_ports :: size_t

record vlan_info =
  vlan_id :: u16
  vlan_oid :: sai_object_id_t

record agent =
  ipc :: "saiagent_cb ipc_ctx"
  sw_info :: saiagent_switch_info
  vlan_list :: "vlan_info list"
  threads :: "routine_t thread_heap"
  sai_log :: sai_log

text \<open>Static storage starts zeroed.\<close>

definition agent_start :: agent where
  "agent_start =
     \<lparr>ipc = \<lparr>family = 0, sock = None, ipc_cb_list = (\<lambda>c. None), running = 0, nl_sent = []\<rparr>,
      sw_info = \<lparr>switch_oid = SAI_NULL_OBJECT_ID, port_list = replicate OBJ_LIST_LEN SAI_NULL_OBJECT_ID,
        br_port_list = replicate OBJ_LIST_LEN SAI_NULL_OBJECT_ID, default_dot1q_bridge_oid = SAI_NULL_OBJECT_ID,
        default_vlan_oid = SAI_NULL_OBJECT_ID, keepalive_ctx = None, num_ports = 0\<rparr>,
      vlan_list = [], threads = [], sai_log = []\<rparr>"

text \<open>
  What one run of a handler meets: the content of the locals named \<open>status\<close> that are
  declared without a value, the allocations that succeed, the content of the local
  \<open>vlan_member_list\<close> and of the padding byte of \<open>struct prestera_msg_switch_init_resp\<close>,
  the pthread calls, and the netlink calls of the \<open>k\<close>-th event sent.
\<close>

datatype init_fn = Switch_Init | Port_Init | Fdb_Init | Vlan_Init | Router_Init

record env =
  uninit_status :: "init_fn \<Rightarrow> saiagent_rc_t"
  malloc_hw_type_ok :: bool
  calloc_vlan_ok :: bool
  member_list_junk :: "sai_object_id_t list"
  padding :: u8
  thread_calls :: thread_env
  event_calls :: "nat \<Rightarrow> nl_env"

definition env_ok :: "env \<Rightarrow> bool" where
  "env_ok e \<longleftrightarrow> length (member_list_junk e) = OBJ_LIST_LEN"

section \<open>Calls through the SAI\<close>

definition sai_invoke :: "sai_lib \<Rightarrow> sai_call \<Rightarrow> agent \<Rightarrow> sai_ret \<times> agent" where
  "sai_invoke sai c a = (let r = sai (sai_log a) c in (r, a\<lparr>sai_log := sai_log a @ [(c, r)]\<rparr>))"

text \<open>\<open>sai_api_query\<close> and the calls whose only result is the status.\<close>

definition sai_status :: "sai_lib \<Rightarrow> sai_call \<Rightarrow> agent \<Rightarrow> sai_status_t \<times> agent" where
  "sai_status sai c a = (let (r, a) = sai_invoke sai c a in (ret_status r, a))"

text \<open>A \<open>create_*\<close> call: the identifier it stores in the variable that had the value \<open>old\<close>.\<close>

definition sai_create :: "sai_lib \<Rightarrow> sai_call \<Rightarrow> sai_object_id_t \<Rightarrow> agent \<Rightarrow> sai_status_t \<times> sai_object_id_t \<times> agent" where
  "sai_create sai c old a =
     (let (r, a) = sai_invoke sai c a in (ret_status r, case ret_oid r of None \<Rightarrow> old | Some x \<Rightarrow> x, a))"

text \<open>A \<open>get_*_attribute\<close> call on the attributes it is given.\<close>

definition sai_get :: "sai_lib \<Rightarrow> (sai_attribute_t list \<Rightarrow> sai_call) \<Rightarrow> sai_attribute_t list \<Rightarrow> agent \<Rightarrow>
    (sai_status_t \<times> sai_attribute_t list \<times> agent) outcome" where
  "sai_get sai c attrs a =
     (let (r, a) = sai_invoke sai (c attrs) a in
      bind_o (sai_store_all attrs (ret_values r)) (\<lambda>attrs. Inr (ret_status r, attrs, a)))"

text \<open>
  The macro of \<open>saiagent_sai.h\<close>.  Its argument \<open>status\<close> is the text of an expression that it has
  twice: in the test, and in \<open>return status\<close>.  So a call that fails is made again, in the
  state the first one left, and it is the second status that is returned.  The expression
  is a function of a state \<open>'s\<close>, of which \<open>agent_part\<close> is the agent: the agent itself, or the
  agent with the local attributes a call reads and writes.
\<close>

definition SAI_RET_ERR :: "('s \<Rightarrow> (sai_status_t \<times> 's) outcome) \<Rightarrow> ('s \<Rightarrow> agent) \<Rightarrow> 's \<Rightarrow>
    ('s \<Rightarrow> (sai_status_t \<times> agent) outcome) \<Rightarrow> (sai_status_t \<times> agent) outcome" where
  "SAI_RET_ERR status agent_part s k =
     bind_o (status s) (\<lambda>(st, s).
       if st \<noteq> SAI_STATUS_SUCCESS then bind_o (status s) (\<lambda>(st, s). Inr (st, agent_part s))
       else k s)"

text \<open>
  The expressions: a call whose only result is its status, a get on the local attributes, and a
  status that is in a variable.
\<close>

definition status_expr :: "sai_lib \<Rightarrow> sai_call \<Rightarrow> agent \<Rightarrow> (sai_status_t \<times> agent) outcome" where
  "status_expr sai c a = Inr (sai_status sai c a)"

definition get_expr :: "sai_lib \<Rightarrow> (sai_attribute_t list \<Rightarrow> sai_call) \<Rightarrow> sai_attribute_t list \<times> agent \<Rightarrow>
    (sai_status_t \<times> sai_attribute_t list \<times> agent) outcome" where
  "get_expr sai c s = sai_get sai c (fst s) (snd s)"

definition var_expr :: "sai_status_t \<Rightarrow> agent \<Rightarrow> (sai_status_t \<times> agent) outcome" where
  "var_expr st a = Inr (st, a)"

section \<open>Accessors of \<open>saiagent_switch.h\<close>\<close>

definition sai_switch_port_find :: "agent \<Rightarrow> u32 \<Rightarrow> (sai_status_t \<times> sai_object_id_t) outcome" where
  "sai_switch_port_find a port_id =
     (if unat port_id < length (port_list (sw_info a))
      then Inr (SAI_STATUS_SUCCESS, port_list (sw_info a) ! unat port_id)
      else Inl Out_Of_Bounds)"

text \<open>The expression with \<open>port_oid\<close>, the local it stores into.\<close>

definition port_find_expr :: "u32 \<Rightarrow> sai_object_id_t \<times> agent \<Rightarrow> (sai_status_t \<times> sai_object_id_t \<times> agent) outcome" where
  "port_find_expr port_id s =
     bind_o (sai_switch_port_find (snd s) port_id) (\<lambda>(st, port_oid). Inr (st, port_oid, snd s))"

definition saiagent_switch_bridge_port_find :: "agent \<Rightarrow> u32 \<Rightarrow> sai_object_id_t outcome" where
  "saiagent_switch_bridge_port_find a port_id =
     (if unat port_id < length (br_port_list (sw_info a))
      then Inr (br_port_list (sw_info a) ! unat port_id)
      else Inl Out_Of_Bounds)"

definition sai_switch_get_default_dot1q_bridge :: "agent \<Rightarrow> sai_object_id_t" where
  "sai_switch_get_default_dot1q_bridge a = default_dot1q_bridge_oid (sw_info a)"

definition saiagent_switch_get_oid :: "agent \<Rightarrow> sai_object_id_t" where
  "saiagent_switch_get_oid a = switch_oid (sw_info a)"

definition saiagent_switch_get_default_vlan_oid :: "agent \<Rightarrow> sai_object_id_t" where
  "saiagent_switch_get_default_vlan_oid a = default_vlan_oid (sw_info a)"

section \<open>Replies, registration and events\<close>

text \<open>The end of every handler: \<open>saiagent_ipc_put_reply_ack (reply, status)\<close>.\<close>

definition reply_ack :: "saiagent_msg \<Rightarrow> saiagent_rc_t \<Rightarrow> agent \<Rightarrow> (saiagent_msg \<times> agent) outcome" where
  "reply_ack reply status a =
     bind_o (saiagent_ipc_put_reply_ack reply status) (\<lambda>reply. Inr (reply, a))"

text \<open>\<open>saiagent_msg_clear\<close> and \<open>saiagent_msg_put_data\<close> of a whole structure, its status ignored.\<close>

definition reply_data :: "saiagent_msg \<Rightarrow> u8 list \<Rightarrow> agent \<Rightarrow> (saiagent_msg \<times> agent) outcome" where
  "reply_data reply bs a =
     bind_o (saiagent_msg_put_data (saiagent_msg_clear reply) bs (of_nat (length bs))) (\<lambda>(rc, reply). Inr (reply, a))"

definition agent_cb_set :: "u32 \<Rightarrow> saiagent_cb \<Rightarrow> saiagent_rc_t \<times> agent \<Rightarrow> saiagent_rc_t \<times> agent" where
  "agent_cb_set type cb r =
     (case r of (status, a) \<Rightarrow>
        let (rc, ctx) = saiagent_ipc_cb_set type cb (ipc a) in (status OR rc, a\<lparr>ipc := ctx\<rparr>))"

definition agent_send_event :: "nl_env \<Rightarrow> u8 list \<Rightarrow> agent \<Rightarrow> (saiagent_rc_t \<times> agent) outcome" where
  "agent_send_event nl evt a =
     bind_o (saiagent_ipc_send_event nl (ipc a) evt (of_nat (length evt))) (\<lambda>(rc, ctx). Inr (rc, a\<lparr>ipc := ctx\<rparr>))"

section \<open>The invariant\<close>

text \<open>The command a handler is registered for.\<close>

fun cb_command :: "saiagent_cb \<Rightarrow> u32" where
  "cb_command Process_switch_init = PRESTERA_CMD_TYPE_SWITCH_INIT"
| "cb_command Process_switch_reset = PRESTERA_CMD_TYPE_SWITCH_RESET"
| "cb_command Process_switch_attr_set = PRESTERA_CMD_TYPE_SWITCH_ATTR_SET"
| "cb_command Process_keepalive_init = PRESTERA_CMD_TYPE_KEEPALIVE_INIT"
| "cb_command Process_port_info_get = PRESTERA_CMD_TYPE_PORT_INFO_GET"
| "cb_command Process_port_attr_set = PRESTERA_CMD_TYPE_PORT_ATTR_SET"
| "cb_command Process_port_attr_get = PRESTERA_CMD_TYPE_PORT_ATTR_GET"
| "cb_command Process_vlan_create = PRESTERA_CMD_TYPE_VLAN_CREATE"
| "cb_command Process_vlan_delete = PRESTERA_CMD_TYPE_VLAN_DELETE"
| "cb_command Process_vlan_port_set = PRESTERA_CMD_TYPE_VLAN_PORT_SET"
| "cb_command Process_vlan_pvid_set = PRESTERA_CMD_TYPE_VLAN_PVID_SET"
| "cb_command Process_stp_port_set = PRESTERA_CMD_TYPE_STP_PORT_SET"
| "cb_command Process_fdb_flush_port = PRESTERA_CMD_TYPE_FDB_FLUSH_PORT"
| "cb_command Process_router_vr_create = PRESTERA_CMD_TYPE_ROUTER_VR_CREATE"
| "cb_command Process_router_vr_del = PRESTERA_CMD_TYPE_ROUTER_VR_DELETE"
| "cb_command Process_router_mp_hash_set = PRESTERA_CMD_TYPE_ROUTER_MP_HASH_SET"
| "cb_command Process_router_lpm_add = PRESTERA_CMD_TYPE_ROUTER_LPM_ADD"
| "cb_command Process_router_lpm_del = PRESTERA_CMD_TYPE_ROUTER_LPM_DELETE"

text \<open>
  The arrays keep their length, a command is bound to its own handler or to none, and the
  keepalive pointer is null or a context that was once created.
\<close>

definition agent_ok :: "agent \<Rightarrow> bool" where
  "agent_ok a \<longleftrightarrow> length (port_list (sw_info a)) = OBJ_LIST_LEN \<and>
     length (br_port_list (sw_info a)) = OBJ_LIST_LEN \<and>
     (\<forall>c cb. ipc_cb_list (ipc a) c = Some cb \<longrightarrow> cb_command cb = c) \<and>
     (\<forall>p. keepalive_ctx (sw_info a) = Some p \<longrightarrow> p < length (threads a))"

section \<open>Lemmas\<close>

lemma agent_ok_start [wf_intros]: "agent_ok agent_start"
  by (simp add: agent_ok_def agent_start_def)

lemma agent_ok_log [simp]: "agent_ok (a\<lparr>sai_log := l\<rparr>) = agent_ok a"
  by (simp add: agent_ok_def)

lemma agent_ok_vlan_list [simp]: "agent_ok (a\<lparr>vlan_list := l\<rparr>) = agent_ok a"
  by (simp add: agent_ok_def)

lemma agent_ok_ipc [wf_intros]:
  assumes "agent_ok a" "ipc_cb_list ctx = ipc_cb_list (ipc a)"
  shows "agent_ok (a\<lparr>ipc := ctx\<rparr>)"
  using assms by (simp add: agent_ok_def)

text \<open>Reading the request: in bounds, because the receive buffer is larger than every structure.\<close>

definition req_word :: "nat \<Rightarrow> nat \<Rightarrow> saiagent_msg \<Rightarrow> 'a::len word" where
  "req_word off n request = le_val (slice off n (the (buff request)))"

lemma req_field_eq:
  assumes "request_ok request" "cfield t p = Some (off, u)" "cwf t" "csize t \<le> SAIAGENT_MSG_MAX_SIZE"
  shows "req_field t p request = Inr (req_word off (csize u) request)"
proof -
  from assms(1) obtain b where "buff request = Some b" "length b = SAIAGENT_MSG_MAX_SIZE"
    by (auto simp: request_ok_def)
  with assms(4) rd_field_returns [OF assms(3,2), of b] show ?thesis
    by (simp add: req_field_def req_word_def)
qed

text \<open>A handler that keeps the contract of \<open>ipc_callbacks\<close>.\<close>

definition handler_ok :: "(saiagent_msg \<Rightarrow> saiagent_msg \<Rightarrow> agent \<Rightarrow> (saiagent_msg \<times> agent) outcome) \<Rightarrow> bool" where
  "handler_ok f \<longleftrightarrow> (\<forall>request reply a reply' a'. agent_ok a \<longrightarrow> request_ok request \<longrightarrow> reply_ok reply \<longrightarrow>
     f request reply a = Inr (reply', a') \<longrightarrow> agent_ok a' \<and> reply_ok reply' \<and> good_reply (written reply'))"

lemma handler_okI:
  assumes "\<And>request reply a reply' a'. agent_ok a \<Longrightarrow> request_ok request \<Longrightarrow> reply_ok reply \<Longrightarrow>
      f request reply a = Inr (reply', a') \<Longrightarrow> agent_ok a' \<and> reply_ok reply' \<and> good_reply (written reply')"
  shows "handler_ok f"
  unfolding handler_ok_def by (intro allI impI) (rule assms)

text \<open>Results of SAI calls: only the log of the state changes.\<close>

definition only_log :: "agent \<Rightarrow> agent \<Rightarrow> bool" where
  "only_log a a' \<longleftrightarrow> (\<exists>l. a\<lparr>sai_log := sai_log a @ l\<rparr> = a')"

lemma only_log_refl [intro, simp]: "only_log a a"
  unfolding only_log_def by (rule exI [of _ "[]"]) simp

lemma only_log_ok: "only_log a a' \<Longrightarrow> agent_ok a' = agent_ok a"
  by (auto simp: only_log_def)

lemma only_log_append [simp]: "only_log a (a\<lparr>sai_log := sai_log a @ l\<rparr>)"
  by (auto simp: only_log_def)

lemma sai_invokeE [elim!]:
  assumes "sai_invoke sai c a = (r, a')"
  obtains "r = sai (sai_log a) c" "a' = a\<lparr>sai_log := sai_log a @ [(c, r)]\<rparr>"
  using assms by (auto simp: sai_invoke_def Let_def)

lemma sai_status_eq:
  "sai_status sai c a = (ret_status (sai (sai_log a) c), a\<lparr>sai_log := sai_log a @ [(c, sai (sai_log a) c)]\<rparr>)"
  by (simp add: sai_status_def sai_invoke_def Let_def)

lemma sai_create_eq:
  "sai_create sai c old a = (ret_status (sai (sai_log a) c),
     case ret_oid (sai (sai_log a) c) of None \<Rightarrow> old | Some x \<Rightarrow> x,
     a\<lparr>sai_log := sai_log a @ [(c, sai (sai_log a) c)]\<rparr>)"
  by (simp add: sai_create_def sai_invoke_def Let_def)

lemma sai_get_eq:
  "sai_get sai c attrs a =
     bind_o (sai_store_all attrs (ret_values (sai (sai_log a) (c attrs)))) (\<lambda>attrs'.
       Inr (ret_status (sai (sai_log a) (c attrs)), attrs', a\<lparr>sai_log := sai_log a @ [(c attrs, sai (sai_log a) (c attrs))]\<rparr>))"
  by (simp add: sai_get_def sai_invoke_def Let_def)

lemmas sai_call_eqs = sai_status_eq sai_create_eq sai_get_eq

text \<open>The two ways through the macro.\<close>

lemma SAI_RET_ERR_E:
  assumes "SAI_RET_ERR e ag s k = Inr (st, a')"
  obtains (failed) st1 s1 s2 where "e s = Inr (st1, s1)" "st1 \<noteq> SAI_STATUS_SUCCESS" "e s1 = Inr (st, s2)" "a' = ag s2"
    | (going_on) s1 where "e s = Inr (SAI_STATUS_SUCCESS, s1)" "k s1 = Inr (st, a')"
  using assms by (auto simp: SAI_RET_ERR_def split: if_splits)

lemma status_expr_eq:
  "status_expr sai c a = Inr (ret_status (sai (sai_log a) c), a\<lparr>sai_log := sai_log a @ [(c, sai (sai_log a) c)]\<rparr>)"
  by (simp add: status_expr_def sai_status_eq)

lemma var_expr_simps [simp]:
  "SAI_RET_ERR (var_expr SAI_STATUS_SUCCESS) ag a k = k a"
  "st \<noteq> SAI_STATUS_SUCCESS \<Longrightarrow> SAI_RET_ERR (var_expr st) ag a k = Inr (st, ag a)"
  by (simp_all add: SAI_RET_ERR_def var_expr_def)

lemma get_expr_eq: "get_expr sai c (attrs, a) = sai_get sai c attrs a"
  by (simp add: get_expr_def)

lemma SAI_RET_ERR_ok:
  "e s = Inr (SAI_STATUS_SUCCESS, s1) \<Longrightarrow> SAI_RET_ERR e ag s k = k s1"
  by (simp add: SAI_RET_ERR_def)

lemma SAI_RET_ERR_returns:
  assumes "\<And>s. I s \<Longrightarrow> \<exists>st s'. e s = Inr (st, s') \<and> I s'" "I s"
    "\<And>s'. e s = Inr (SAI_STATUS_SUCCESS, s') \<Longrightarrow> I s' \<Longrightarrow> \<exists>st a'. k s' = Inr (st, a')"
  shows "\<exists>st a'. SAI_RET_ERR e ag s k = Inr (st, a')"
proof -
  obtain st s1 where 1: "e s = Inr (st, s1)" "I s1" using assms(1) [OF assms(2)] by blast
  obtain st' s2 where 2: "e s1 = Inr (st', s2)" using assms(1) [OF 1(2)] by blast
  show ?thesis
    using assms(3) [OF _ 1(2)] 1 2 by (cases "st = SAI_STATUS_SUCCESS") (simp_all add: SAI_RET_ERR_def)
qed

lemma status_expr_returns:
  assumes "\<And>a'. \<exists>st a''. k a' = Inr (st, a'')"
  shows "\<exists>st a'. SAI_RET_ERR (status_expr sai c) id a k = Inr (st, a')"
  by (rule SAI_RET_ERR_returns [where I = "\<lambda>s. True"]) (simp_all add: status_expr_eq assms)

text \<open>
  The calls a run has made.  \<open>clean\<close>: none of them failed.  \<open>retried\<close>: all succeeded but the
  one before the last, which failed, was repeated by the macro and then succeeded.
\<close>

abbreviation log_ok :: "sai_log \<Rightarrow> bool" where
  "log_ok \<equiv> list_all (\<lambda>(c, r). ret_status r = SAI_STATUS_SUCCESS)"

definition clean :: "agent \<Rightarrow> agent \<Rightarrow> bool" where
  "clean a a' \<longleftrightarrow> log_ok (drop (length (sai_log a)) (sai_log a'))"

text \<open>The same call, up to the values of the attributes a get is passed.\<close>

definition same_call :: "sai_call \<Rightarrow> sai_call \<Rightarrow> bool" where
  "same_call c c' \<longleftrightarrow>
     (case (c, c') of
        (Get_switch_attribute x as, Get_switch_attribute y bs) \<Rightarrow> x = y \<and> map fst as = map fst bs
      | (Get_bridge_attribute x as, Get_bridge_attribute y bs) \<Rightarrow> x = y \<and> map fst as = map fst bs
      | (Get_vlan_attribute x as, Get_vlan_attribute y bs) \<Rightarrow> x = y \<and> map fst as = map fst bs
      | _ \<Rightarrow> c = c')"

lemma same_call_simps [simp]:
  "same_call (Get_switch_attribute x as) (Get_switch_attribute y bs) \<longleftrightarrow> x = y \<and> map fst as = map fst bs"
  "same_call (Get_bridge_attribute x as) (Get_bridge_attribute y bs) \<longleftrightarrow> x = y \<and> map fst as = map fst bs"
  "same_call (Get_vlan_attribute x as) (Get_vlan_attribute y bs) \<longleftrightarrow> x = y \<and> map fst as = map fst bs"
  "same_call c c"
  by (simp_all add: same_call_def split: sai_call.split)

definition retried :: "agent \<Rightarrow> agent \<Rightarrow> bool" where
  "retried a a' \<longleftrightarrow> (\<exists>l c r c' r'. sai_log a' = sai_log a @ l @ [(c, r), (c', r')] \<and> log_ok l \<and> same_call c c' \<and>
     ret_status r \<noteq> SAI_STATUS_SUCCESS \<and> ret_status r' = SAI_STATUS_SUCCESS)"

lemma retriedI:
  assumes "sai_log a' = sai_log a @ [(c, r), (c', r')]" "same_call c c'" "ret_status r \<noteq> SAI_STATUS_SUCCESS"
    "ret_status r' = SAI_STATUS_SUCCESS"
  shows "retried a a'"
  unfolding retried_def using assms by (intro exI [of _ "[]"]) auto

lemma retried_later:
  assumes "sai_log b = sai_log a @ l" "log_ok l" "retried b c"
  shows "retried a c"
proof -
  obtain l' d r d' r' where "sai_log c = sai_log b @ l' @ [(d, r), (d', r')]" "log_ok l'" "same_call d d'"
      "ret_status r \<noteq> SAI_STATUS_SUCCESS" "ret_status r' = SAI_STATUS_SUCCESS"
    using assms(3) unfolding retried_def by blast
  with assms(1,2) show ?thesis
    unfolding retried_def by (intro exI [of _ "l @ l'"]) auto
qed

lemma retried_not_clean: "retried a a' \<Longrightarrow> \<not> clean a a'"
  by (auto simp: retried_def clean_def)

lemma clean_log: "sai_log a' = sai_log a @ l \<Longrightarrow> clean a a' \<longleftrightarrow> log_ok l"
  by (simp add: clean_def)

text \<open>Under the contract a get on the agent's buffers returns, and its buffers keep their length.\<close>

lemma sai_get_returns:
  assumes "sai_conforms sai" "sai_fits sai" "attrs_ok attrs" "get_attrs (c attrs) = attrs"
  shows "\<exists>attrs'. sai_get sai c attrs a = Inr (ret_status (sai (sai_log a) (c attrs)), attrs',
      a\<lparr>sai_log := sai_log a @ [(c attrs, sai (sai_log a) (c attrs))]\<rparr>) \<and>
      sai_store_all attrs (ret_values (sai (sai_log a) (c attrs))) = Inr attrs' \<and> attrs_ok attrs'"
proof -
  have "results_fit attrs (ret_values (sai (sai_log a) (c attrs)))"
    using assms(1) unfolding results_fit_def sai_conforms_def by (metis assms(4))
  moreover have "\<forall>m l. Some (Objlist m l) \<in> set (ret_values (sai (sai_log a) (c attrs))) \<longrightarrow> unat m \<le> OBJ_LIST_LEN"
    using assms(2) unfolding sai_fits_def by blast
  ultimately show ?thesis using sai_store_all_fits [OF _ assms(3)] by (fastforce simp: sai_get_eq)
qed

lemma reply_ack_ok:
  assumes "reply_ok reply"
  shows "\<exists>m. reply_ack reply status a = Inr (m, a) \<and> reply_ok m \<and> written m = ack_response status \<and> payload_size m = 8"
  using put_reply_ack_ok [OF assms, of status] by (auto simp: reply_ack_def)

lemma reply_ackD:
  assumes "reply_ack reply status a = Inr (m, a')" "reply_ok reply"
  shows "a' = a \<and> reply_ok m \<and> written m = ack_response status \<and> good_reply (written m)"
  using reply_ack_ok [OF assms(2), of status a] assms(1) by (auto simp: good_reply_ack)

lemma reply_data_ok:
  assumes "reply_ok reply" "4 dvd length bs" "length bs \<le> SAIAGENT_MSG_MAX_SIZE"
  shows "\<exists>m. reply_data reply bs a = Inr (m, a) \<and> reply_ok m \<and> written m = bs \<and> payload_size m = of_nat (length bs)"
  using reply_ok_put_data [OF assms] by (auto simp: reply_data_def)

lemma reply_dataD:
  assumes "reply_data reply bs a = Inr (m, a')" "reply_ok reply" "good_reply bs"
  shows "a' = a \<and> reply_ok m \<and> written m = bs \<and> good_reply (written m)"
proof -
  have "4 dvd length bs" "length bs \<le> SAIAGENT_MSG_MAX_SIZE"
    using assms(3) by (simp_all add: good_reply_def)
  from reply_data_ok [OF assms(2) this, of a] assms(1,3) show ?thesis by auto
qed

lemma reply_ack_state: "reply_ack reply st a = Inr (m, a') \<Longrightarrow> a' = a"
  by (auto simp: reply_ack_def)

lemma reply_data_state: "reply_data reply bs a = Inr (m, a') \<Longrightarrow> a' = a"
  by (auto simp: reply_data_def)

lemma agent_cb_set_ok:
  assumes "agent_ok (snd r)" "cb_command cb = type"
  shows "agent_ok (snd (agent_cb_set type cb r))"
  using assms
  by (cases r) (auto simp: agent_cb_set_def saiagent_ipc_cb_set_def agent_ok_def Let_def)

text \<open>Registering a command of the range always succeeds, so the status is the one it started from.\<close>

lemma agent_cb_set_eq:
  assumes "type < PRESTERA_CMD_TYPE_MAX"
  shows "agent_cb_set type cb (status, a) =
    (status, a\<lparr>ipc := (ipc a)\<lparr>ipc_cb_list := (ipc_cb_list (ipc a))(type := Some cb)\<rparr>\<rparr>)"
  using assms by (simp add: agent_cb_set_def saiagent_ipc_cb_set_def linorder_not_le [symmetric])

lemma cb_command_range: "cb_command cb < PRESTERA_CMD_TYPE_MAX"
  by (cases cb) simp_all

lemma agent_cb_set_keeps [simp]:
  "sw_info (snd (agent_cb_set type cb r)) = sw_info (snd r)"
  "vlan_list (snd (agent_cb_set type cb r)) = vlan_list (snd r)"
  "threads (snd (agent_cb_set type cb r)) = threads (snd r)"
  "sai_log (snd (agent_cb_set type cb r)) = sai_log (snd r)"
  by (cases r; simp add: agent_cb_set_def saiagent_ipc_cb_set_def Let_def)+

text \<open>An event never gets stuck, and changes nothing but what has been sent.\<close>

lemma agent_send_event_eq:
  assumes "length evt < 2 ^ 31"
  shows "agent_send_event nl evt a =
    Inr (if nl_send_ok nl (of_nat (length evt))
         then (RC_STATUS_OK, a\<lparr>ipc := (ipc a)\<lparr>nl_sent := nl_sent (ipc a) @
             [nl_message (ipc a) evt SAIAGENT_NL_TYPE_EVENT NL_AUTO_PID NL_AUTO_SEQ]\<rparr>\<rparr>)
         else (RC_STATUS_ERR, a))"
proof -
  have "unat (of_nat (length evt) :: size_t) = length evt" using assms by (simp add: unat_of_nat)
  then show ?thesis
    by (simp add: agent_send_event_def saiagent_ipc_send_event_def ipc_send_eq)
qed

section \<open>Properties\<close>

text \<open>
  The command codes of the protocol are pairwise different and fit the callback table;
  each of the eighteen handlers has a command of its own, which is one of the protocol's,
  so registering one never displaces another.
\<close>

theorem command_table_injective:
  "distinct (map snd prestera_cmd_type_t) \<and>
   list_all (\<lambda>(x, c). 0 < c \<and> c \<le> uint PRESTERA_CMD_TYPE_MAX) prestera_cmd_type_t \<and>
   inj cb_command \<and> (\<forall>cb. uint (cb_command cb) \<in> snd ` set prestera_cmd_type_t)"
proof (intro conjI allI)
  show "distinct (map snd prestera_cmd_type_t)" by (rule cmd_type_codes_distinct)
  show "list_all (\<lambda>(x, c). 0 < c \<and> c \<le> uint PRESTERA_CMD_TYPE_MAX) prestera_cmd_type_t"
    using cmd_type_codes_range by simp
  show "inj cb_command"
  proof (rule injI)
    fix x y
    assume "cb_command x = cb_command y"
    then show "x = y" by (cases x; cases y) simp_all
  qed
  show "uint (cb_command cb) \<in> snd ` set prestera_cmd_type_t" for cb
    unfolding set_map [symmetric] cmd_type_codes by (cases cb) simp_all
qed

end
