(* ===== verification/Saiagent_Port.thy ===== *)
theory Saiagent_Port
  imports Saiagent_Agent
begin

text \<open>
  \<open>saiagent_port.c\<close>: the port handlers and the two functions that set an attribute of a
  port through the SAI.
\<close>

section \<open>Operations\<close>

text \<open>The local \<open>port_oid\<close> is declared without a value; \<open>sai_switch_port_find\<close> assigns it before it is read.\<close>

definition sai_port_admin_state_set :: "sai_lib \<Rightarrow> u32 \<Rightarrow> u8 \<Rightarrow> agent \<Rightarrow> (sai_status_t \<times> agent) outcome" where
  "sai_port_admin_state_set sai port_id admin a =
     SAI_RET_ERR (status_expr sai (Sai_api_query SAI_API_PORT)) id a (\<lambda>a.
     SAI_RET_ERR (port_find_expr port_id) snd (SAI_NULL_OBJECT_ID, a) (\<lambda>(port_oid, a).
     SAI_RET_ERR
       (status_expr sai (Set_port_attribute port_oid (SAI_PORT_ATTR_ADMIN_STATE, Booldata (admin \<noteq> 0)))) id a (\<lambda>a.
     Inr (SAI_STATUS_SUCCESS, a))))"

definition saiagent_ipc_process_port_info_get :: "saiagent_msg \<Rightarrow> saiagent_msg \<Rightarrow> agent \<Rightarrow> (saiagent_msg \<times> agent) outcome" where
  "saiagent_ipc_process_port_info_get request reply a =
     bind_o (req_field prestera_msg_port_info_req [''port''] request) (\<lambda>port :: u32.
       let param = prestera_ret_init prestera_msg_port_info_resp [''ret''] PRESTERA_CMD_ACK_OK
                     (zeroed prestera_msg_port_info_resp);
           param = wr_field prestera_msg_port_info_resp [''hw_id''] port param;
           param = wr_field prestera_msg_port_info_resp [''fp_id''] (ucast port :: u16) param;
           param = wr_field prestera_msg_port_info_resp [''dev_id''] (1 :: u32) param
       in reply_data reply param a)"

definition saiagent_ipc_process_port_attr_set :: "sai_lib \<Rightarrow> saiagent_msg \<Rightarrow> saiagent_msg \<Rightarrow> agent \<Rightarrow> (saiagent_msg \<times> agent) outcome" where
  "saiagent_ipc_process_port_attr_set sai request reply a =
     bind_o (req_field prestera_msg_port_attr_req [''attr''] request) (\<lambda>attr :: u32.
     bind_o (req_field prestera_msg_port_attr_req [''port''] request) (\<lambda>port :: u32.
       if attr = PRESTERA_CMD_PORT_ATTR_MTU then
         bind_o (req_field prestera_msg_port_attr_req [''param'', ''mtu''] request) (\<lambda>mtu :: u32.
           reply_ack reply RC_STATUS_OK a)
       else if attr = PRESTERA_CMD_PORT_ATTR_MAC then
         bind_o (req_field prestera_msg_port_attr_req [''param'', ''mac''] request) (\<lambda>mac :: 48 word.
           reply_ack reply RC_STATUS_OK a)
       else if attr = PRESTERA_CMD_PORT_ATTR_PHY_MODE then
         bind_o (req_field prestera_msg_port_attr_req [''param'', ''link'', ''phy'', ''admin''] request) (\<lambda>admin :: u8.
         bind_o (sai_port_admin_state_set sai port admin a) (\<lambda>(sai_st, a).
           if sai_st \<noteq> SAI_STATUS_SUCCESS then reply_ack reply RC_STATUS_ERR a
           else reply_ack reply RC_STATUS_OK a))
       else if attr \<in> {PRESTERA_CMD_PORT_ATTR_CAPABILITY, PRESTERA_CMD_PORT_ATTR_FLOOD, PRESTERA_CMD_PORT_ATTR_MAC_MODE}
       then reply_ack reply RC_STATUS_OK a
       else reply_ack reply RC_STATUS_OK a))"

text \<open>
  \<open>stats_resp\<close> is filled in and then not used: the reply is \<open>resp\<close> whatever the attribute.
\<close>

definition port_stats_resp :: "u8 list" where
  "port_stats_resp =
     (case cfield prestera_msg_port_stats_resp [''stats''] of
        None \<Rightarrow> []
      | Some (off, u) \<Rightarrow>
          patch (off + 8 * PRESTERA_PORT_PKTS_64_OCTETS_CNT) (le_bytes 8 (42 :: u64))
            (prestera_ret_init prestera_msg_port_stats_resp [''ret''] PRESTERA_CMD_ACK_OK
               (zeroed prestera_msg_port_stats_resp)))"

definition saiagent_ipc_process_port_attr_get :: "saiagent_msg \<Rightarrow> saiagent_msg \<Rightarrow> agent \<Rightarrow> (saiagent_msg \<times> agent) outcome" where
  "saiagent_ipc_process_port_attr_get request reply a =
     (let resp = prestera_ret_init prestera_msg_port_attr_resp [''ret''] PRESTERA_CMD_ACK_OK
                   (zeroed prestera_msg_port_attr_resp)
      in
      bind_o (req_field prestera_msg_port_attr_req [''attr''] request) (\<lambda>attr :: u32.
      bind_o (req_field prestera_msg_port_attr_req [''port''] request) (\<lambda>port :: u32.
        if attr = PRESTERA_CMD_PORT_ATTR_CAPABILITY then
          let resp = wr_field prestera_msg_port_attr_resp [''param'', ''cap'', ''link_mode''] (0 :: u64) resp;
              resp = wr_field prestera_msg_port_attr_resp [''param'', ''cap'', ''fec''] (0 :: u8) resp;
              resp = wr_field prestera_msg_port_attr_resp [''param'', ''cap'', ''type''] (0 :: u8) resp;
              resp = wr_field prestera_msg_port_attr_resp [''param'', ''cap'', ''transceiver''] (0 :: u8) resp
          in reply_data reply resp a
        else if attr = PRESTERA_CMD_PORT_ATTR_STATS then
          let stats_resp = port_stats_resp in reply_data reply resp a
        else reply_data reply resp a)))"

definition sai_port_pvid_set :: "sai_lib \<Rightarrow> u32 \<Rightarrow> u16 \<Rightarrow> agent \<Rightarrow> (sai_status_t \<times> agent) outcome" where
  "sai_port_pvid_set sai port_id vid a =
     SAI_RET_ERR (port_find_expr port_id) snd (SAI_NULL_OBJECT_ID, a) (\<lambda>(port_oid, a).
     SAI_RET_ERR (status_expr sai (Sai_api_query SAI_API_PORT)) id a (\<lambda>a.
     SAI_RET_ERR (status_expr sai (Set_port_attribute port_oid (SAI_PORT_ATTR_PORT_VLAN_ID, U16 vid))) id a (\<lambda>a.
     Inr (SAI_STATUS_SUCCESS, a))))"

definition saiagent_port_pvid_set :: "sai_lib \<Rightarrow> u32 \<Rightarrow> u16 \<Rightarrow> agent \<Rightarrow> (saiagent_rc_t \<times> agent) outcome" where
  "saiagent_port_pvid_set sai port_id vid a =
     bind_o (sai_port_pvid_set sai port_id vid a) (\<lambda>(st, a).
       Inr (if st \<noteq> SAI_STATUS_SUCCESS then RC_STATUS_ERR else RC_STATUS_OK, a))"

text \<open>\<open>status\<close> is declared without a value.\<close>

definition saiagent_port_init :: "env \<Rightarrow> agent \<Rightarrow> saiagent_rc_t \<times> agent" where
  "saiagent_port_init e a =
     agent_cb_set PRESTERA_CMD_TYPE_PORT_ATTR_GET Process_port_attr_get
       (agent_cb_set PRESTERA_CMD_TYPE_PORT_ATTR_SET Process_port_attr_set
         (agent_cb_set PRESTERA_CMD_TYPE_PORT_INFO_GET Process_port_info_get (uninit_status e Port_Init, a)))"

section \<open>Lemmas\<close>

text \<open>The replies, byte by byte.\<close>

definition port_info_bytes :: "u32 \<Rightarrow> u8 list" where
  "port_info_bytes port =
     le_bytes 4 PRESTERA_CMD_TYPE_ACK @ le_bytes 4 PRESTERA_CMD_ACK_OK @
     le_bytes 4 port @ le_bytes 4 (1 :: u32) @ le_bytes 2 (ucast port :: u16) @ [0, 0]"

definition port_attr_bytes :: "u8 list" where
  "port_attr_bytes = le_bytes 4 PRESTERA_CMD_TYPE_ACK @ le_bytes 4 PRESTERA_CMD_ACK_OK @ replicate 128 0"

lemma le_bytes_0: "le_bytes n 0 = replicate n 0"
  by (induction n) simp_all

lemma port_info_resp_eq:
  "wr_field prestera_msg_port_info_resp [''dev_id''] (1 :: u32)
     (wr_field prestera_msg_port_info_resp [''fp_id''] (ucast port :: u16)
       (wr_field prestera_msg_port_info_resp [''hw_id''] (port :: u32)
         (prestera_ret_init prestera_msg_port_info_resp [''ret''] PRESTERA_CMD_ACK_OK
           (zeroed prestera_msg_port_info_resp)))) = port_info_bytes port"
  by (simp add: port_info_bytes_def prestera_ret_init_def wr_field_def zeroed_def patch_def
      numeral_eq_Suc del: le_bytes.simps)

lemma port_attr_resp_eq:
  "prestera_ret_init prestera_msg_port_attr_resp [''ret''] PRESTERA_CMD_ACK_OK (zeroed prestera_msg_port_attr_resp) =
     port_attr_bytes"
  by (simp add: port_attr_bytes_def prestera_ret_init_def wr_field_def zeroed_def patch_def del: le_bytes.simps)

lemma patch_replicate:
  assumes "k \<le> off" "off + n \<le> k + m" "length xs = k"
  shows "patch off (replicate n x) (xs @ replicate m x) = xs @ replicate m x"
proof -
  have "m = (off - k) + (n + (m - (off - k) - n))" using assms by simp
  then show ?thesis
    using assms by (simp add: patch_def flip: replicate_add)
qed

lemma port_attr_capability_eq:
  "wr_field prestera_msg_port_attr_resp [''param'', ''cap'', ''transceiver''] (0 :: u8)
    (wr_field prestera_msg_port_attr_resp [''param'', ''cap'', ''type''] (0 :: u8)
      (wr_field prestera_msg_port_attr_resp [''param'', ''cap'', ''fec''] (0 :: u8)
        (wr_field prestera_msg_port_attr_resp [''param'', ''cap'', ''link_mode''] (0 :: u64) port_attr_bytes))) =
    port_attr_bytes"
proof -
  note p = patch_replicate [of 8 _ _ 128 "le_bytes 4 PRESTERA_CMD_TYPE_ACK @ le_bytes 4 PRESTERA_CMD_ACK_OK" 0]
  show ?thesis
    using p [of 8 8] p [of 16 1] p [of 17 1] p [of 19 1]
    by (simp add: port_attr_bytes_def wr_field_def le_bytes_0 del: le_bytes.simps)
qed

lemma good_reply_port_info: "good_reply (port_info_bytes port)"
  unfolding port_info_bytes_def by (rule good_reply_header) simp_all

lemma good_reply_port_attr: "good_reply port_attr_bytes"
  unfolding port_attr_bytes_def by (rule good_reply_header) simp_all

text \<open>What each handler does with a request in the receive buffer.\<close>

lemma port_info_get_eq:
  assumes "request_ok request"
  shows "saiagent_ipc_process_port_info_get request reply a = reply_data reply (port_info_bytes (req_word 4 4 request)) a"
  by (simp add: saiagent_ipc_process_port_info_get_def req_field_eq [OF assms] Let_def port_info_resp_eq del: le_bytes.simps)

lemma port_attr_get_eq:
  assumes "request_ok request"
  shows "saiagent_ipc_process_port_attr_get request reply a = reply_data reply port_attr_bytes a"
  by (simp add: saiagent_ipc_process_port_attr_get_def req_field_eq [OF assms] Let_def port_attr_resp_eq
      port_attr_capability_eq del: le_bytes.simps)

lemma port_attr_set_eq:
  assumes "request_ok request"
  shows "saiagent_ipc_process_port_attr_set sai request reply a =
    (if (req_word 4 4 request :: u32) = PRESTERA_CMD_PORT_ATTR_PHY_MODE
     then bind_o (sai_port_admin_state_set sai (req_word 8 4 request) (req_word 28 1 request) a) (\<lambda>(st, a).
            reply_ack reply (if st \<noteq> SAI_STATUS_SUCCESS then RC_STATUS_ERR else RC_STATUS_OK) a)
     else reply_ack reply RC_STATUS_OK a)"
  by (simp add: saiagent_ipc_process_port_attr_set_def req_field_eq [OF assms] if_distrib [where f = "\<lambda>s. reply_ack reply s _"]
      cong: if_cong)

text \<open>A port number inside the array: the call sequence.\<close>

lemma port_find_eq:
  assumes "agent_ok a" "unat port < OBJ_LIST_LEN"
  shows "sai_switch_port_find a port = Inr (SAI_STATUS_SUCCESS, port_list (sw_info a) ! unat port)"
  using assms by (simp add: sai_switch_port_find_def agent_ok_def)

lemma port_find_oob:
  assumes "agent_ok a" "OBJ_LIST_LEN \<le> unat port"
  shows "sai_switch_port_find a port = Inl Out_Of_Bounds"
  using assms by (simp add: sai_switch_port_find_def agent_ok_def)

lemma port_find_expr_eq:
  "port_find_expr port s = bind_o (sai_switch_port_find (snd s) port) (\<lambda>(st, oid). Inr (st, oid, snd s))"
  by (simp add: port_find_expr_def)

lemma admin_state_set_returns:
  assumes "agent_ok a" "unat port < OBJ_LIST_LEN"
  shows "\<exists>st a'. sai_port_admin_state_set sai port admin a = Inr (st, a') \<and> only_log a a'"
  using assms
  by (simp add: sai_port_admin_state_set_def status_expr_eq SAI_RET_ERR_def port_find_expr_eq port_find_eq)

lemma pvid_set_returns:
  assumes "agent_ok a" "unat port < OBJ_LIST_LEN"
  shows "\<exists>rc a'. saiagent_port_pvid_set sai port vid a = Inr (rc, a') \<and> only_log a a' \<and>
      rc \<in> {RC_STATUS_OK, RC_STATUS_ERR}"
  using assms
  by (simp add: saiagent_port_pvid_set_def sai_port_pvid_set_def status_expr_eq SAI_RET_ERR_def port_find_expr_eq port_find_eq)

lemma admin_state_set_only_log:
  assumes "sai_port_admin_state_set sai port admin a = Inr (st, a')"
  shows "only_log a a'"
  using assms
  by (auto simp: sai_port_admin_state_set_def status_expr_eq SAI_RET_ERR_def port_find_expr_eq split: if_splits)

lemma pvid_set_only_log:
  assumes "saiagent_port_pvid_set sai port vid a = Inr (rc, a')"
  shows "only_log a a'"
  using assms
  by (auto simp: saiagent_port_pvid_set_def sai_port_pvid_set_def status_expr_eq SAI_RET_ERR_def port_find_expr_eq
      split: if_splits)

text \<open>The contract of the dispatcher.\<close>

lemma handler_ok_port_info_get [wf_intros]: "handler_ok saiagent_ipc_process_port_info_get"
  by (rule handler_okI) (auto simp: port_info_get_eq dest!: reply_dataD [OF _ _ good_reply_port_info])

lemma handler_ok_port_attr_get [wf_intros]: "handler_ok saiagent_ipc_process_port_attr_get"
  by (rule handler_okI) (auto simp: port_attr_get_eq dest!: reply_dataD [OF _ _ good_reply_port_attr])

lemma handler_ok_port_attr_set [wf_intros]: "handler_ok (saiagent_ipc_process_port_attr_set sai)"
proof (rule handler_okI)
  fix request reply a reply' a'
  assume "agent_ok a" "request_ok request" "reply_ok reply"
    and "saiagent_ipc_process_port_attr_set sai request reply a = Inr (reply', a')"
  then show "agent_ok a' \<and> reply_ok reply' \<and> good_reply (written reply')"
    by (fastforce simp: port_attr_set_eq dest!: reply_ackD admin_state_set_only_log only_log_ok split: if_splits)
qed

lemma port_init_eq:
  "saiagent_port_init e a = (uninit_status e Port_Init, a\<lparr>ipc := (ipc a)\<lparr>ipc_cb_list := (ipc_cb_list (ipc a))
     (PRESTERA_CMD_TYPE_PORT_INFO_GET := Some Process_port_info_get,
      PRESTERA_CMD_TYPE_PORT_ATTR_SET := Some Process_port_attr_set,
      PRESTERA_CMD_TYPE_PORT_ATTR_GET := Some Process_port_attr_get)\<rparr>\<rparr>)"
  by (simp add: saiagent_port_init_def agent_cb_set_eq)

lemma port_init_ok [wf_intros]: "agent_ok a \<Longrightarrow> agent_ok (snd (saiagent_port_init e a))"
  unfolding saiagent_port_init_def by (intro agent_cb_set_ok) simp_all

section \<open>Properties\<close>

text \<open>
  C38. A port information request is answered with 20 bytes: the acknowledgement \<open>OK\<close>, the
  port number of the request as hardware identifier, device 1, the low 16 bits of the
  port number as front-panel identifier, and two zero bytes.  The state does not change.
\<close>

theorem port_info_reply:
  assumes "request_ok request" "reply_ok reply"
  shows "\<exists>m. saiagent_ipc_process_port_info_get request reply a = Inr (m, a) \<and> payload_size m = 20 \<and>
    written m = le_bytes 4 PRESTERA_CMD_TYPE_ACK @ le_bytes 4 PRESTERA_CMD_ACK_OK @
      le_bytes 4 (req_word 4 4 request :: u32) @ le_bytes 4 (1 :: u32) @
      le_bytes 2 (ucast (req_word 4 4 request :: u32) :: u16) @ [0, 0]"
proof -
  have "length (port_info_bytes p) = 20" for p by (simp add: port_info_bytes_def)
  with reply_data_ok [OF assms(2), of "port_info_bytes (req_word 4 4 request)" a] show ?thesis
    by (auto simp: port_info_get_eq [OF assms(1)] port_info_bytes_def)
qed

definition request_bytes :: "u8 list \<Rightarrow> saiagent_msg" where
  "request_bytes bs = request_msg (bs @ replicate (SAIAGENT_MSG_MAX_SIZE - length bs) 0) (of_nat (length bs))"

lemma request_ok_bytes: "length bs \<le> SAIAGENT_MSG_MAX_SIZE \<Longrightarrow> request_ok (request_bytes bs)"
  by (simp add: request_bytes_def)

definition fresh_reply :: saiagent_msg where
  "fresh_reply = reply_msg (replicate SAIAGENT_MSG_MAX_SIZE 0)"

lemma reply_ok_fresh: "reply_ok fresh_reply"
  by (simp add: fresh_reply_def)

theorem port_info_reply_witness:
  "\<exists>m. saiagent_ipc_process_port_info_get (request_bytes [0x10, 1, 0, 0, 5, 0, 1, 0]) fresh_reply agent_start =
      Inr (m, agent_start) \<and> payload_size m = 20"
  using port_info_reply [OF request_ok_bytes reply_ok_fresh, of "[0x10, 1, 0, 0, 5, 0, 1, 0]" agent_start] by auto

text \<open>
  C39. The counters are never reported.  Whatever attribute a \<open>PORT_ATTR_GET\<close> asks for, \<open>STATS\<close>
  included, the reply is the same 136 bytes, an acknowledgement \<open>OK\<close> followed by zeros,
  and not the 248-byte statistics structure the handler fills in.
\<close>

theorem port_stats_not_sent:
  assumes "request_ok request" "reply_ok reply"
  shows "\<exists>m. saiagent_ipc_process_port_attr_get request reply a = Inr (m, a) \<and>
    written m = le_bytes 4 PRESTERA_CMD_TYPE_ACK @ le_bytes 4 PRESTERA_CMD_ACK_OK @ replicate 128 0 \<and>
    length (written m) = csize prestera_msg_port_attr_resp \<and> written m \<noteq> port_stats_resp"
proof -
  have len: "length port_attr_bytes = 136" by (simp add: port_attr_bytes_def)
  have stats: "length port_stats_resp = 248"
    by (simp add: port_stats_resp_def prestera_ret_init_def length_wr_field)
  have dvd: "4 dvd length port_attr_bytes" "length port_attr_bytes \<le> SAIAGENT_MSG_MAX_SIZE" by (simp_all add: len)
  obtain m where m: "reply_data reply port_attr_bytes a = Inr (m, a)" "written m = port_attr_bytes"
    using reply_data_ok [OF assms(2) dvd, of a] by blast
  have "port_attr_bytes \<noteq> port_stats_resp" using len stats by auto
  with m len show ?thesis
    by (intro exI [of _ m]) (simp add: port_attr_get_eq [OF assms(1)] flip: port_attr_bytes_def)
qed

theorem port_stats_not_sent_witness:
  "\<exists>m. saiagent_ipc_process_port_attr_get (request_bytes [1, 1, 0, 0, 17, 0, 0, 0]) fresh_reply agent_start =
      Inr (m, agent_start) \<and> written m \<noteq> port_stats_resp"
  using port_stats_not_sent [OF request_ok_bytes reply_ok_fresh, of "[1, 1, 0, 0, 17, 0, 0, 0]" agent_start] by auto

end
