(* ===== verification/Saiagent_Vlan.thy ===== *)
theory Saiagent_Vlan
  imports Saiagent_Port
begin

text \<open>
  \<open>saiagent_vlan.c\<close>: the cache of VLANs the agent has created, the operations that make a
  port a member of a VLAN, and the VLAN and STP handlers.  The locale \<open>vid_cache\<close> states
  what the operations need of the cache.
\<close>

section \<open>The cache\<close>

text \<open>\<open>struct valn_ctx\<close> is the list, newest entry first; the flag is whether \<open>calloc\<close> succeeds.\<close>

definition saiagent_vlan_add_new :: "bool \<Rightarrow> u16 \<Rightarrow> sai_object_id_t \<Rightarrow> vlan_info list \<Rightarrow> vlan_info option \<times> vlan_info list" where
  "saiagent_vlan_add_new calloc_ok vid oid l =
     (if calloc_ok then let v = \<lparr>vlan_id = vid, vlan_oid = oid\<rparr> in (Some v, v # l) else (None, l))"

fun saiagent_vlan_get :: "vlan_info list \<Rightarrow> u16 \<Rightarrow> vlan_info option" where
  "saiagent_vlan_get [] vid = None"
| "saiagent_vlan_get (v # l) vid = (if vlan_id v = vid then Some v else saiagent_vlan_get l vid)"

section \<open>SAI operations\<close>

definition sai_vlan_default_init :: "sai_lib \<Rightarrow> env \<Rightarrow> agent \<Rightarrow> (sai_status_t \<times> agent) outcome" where
  "sai_vlan_default_init sai e a =
     SAI_RET_ERR (status_expr sai (Sai_api_query SAI_API_VLAN)) id a (\<lambda>a.
       let oid = saiagent_switch_get_default_vlan_oid a in
       if oid = SAI_NULL_OBJECT_ID then Inr (SAI_STATUS_FAILURE, a)
       else
         SAI_RET_ERR (get_expr sai (Get_vlan_attribute oid)) snd ([(SAI_VLAN_ATTR_VLAN_ID, U16 0)], a) (\<lambda>(attrs, a).
           (case saiagent_vlan_add_new (calloc_vlan_ok e) (value_u16 (snd (attrs ! 0))) oid (vlan_list a) of
              (None, l) \<Rightarrow> Inr (SAI_STATUS_FAILURE, a)
            | (Some v, l) \<Rightarrow> Inr (SAI_STATUS_SUCCESS, a\<lparr>vlan_list := l\<rparr>))))"

text \<open>
  The loop over the members of the VLAN, on the indices that are left: the status to
  return, and \<open>port_vlan_oid\<close>.  The library is called with a count of 1, so it sees the
  first of the two attributes and no other.
\<close>

fun vlan_member_loop :: "sai_lib \<Rightarrow> sai_object_id_t \<Rightarrow> sai_object_id_t \<Rightarrow> sai_object_id_t list \<Rightarrow> nat list \<Rightarrow> agent \<Rightarrow>
    (sai_status_t \<times> sai_object_id_t \<times> agent) outcome" where
  "vlan_member_loop sai oid br members [] a = Inr (SAI_STATUS_SUCCESS, SAI_NULL_OBJECT_ID, a)"
| "vlan_member_loop sai oid br members (i # is) a =
     (if i \<ge> length members then Inl Out_Of_Bounds
      else
        let attr = [(SAI_VLAN_MEMBER_ATTR_VLAN_ID, Oid SAI_NULL_OBJECT_ID),
                    (SAI_VLAN_MEMBER_ATTR_BRIDGE_PORT_ID, Oid SAI_NULL_OBJECT_ID)] in
        bind_o (sai_get sai (Get_vlan_member_attribute (members ! i)) (take 1 attr) a) (\<lambda>(st, got, a).
          let attr = got @ drop 1 attr in
          if st \<noteq> SAI_STATUS_SUCCESS then Inr (SAI_STATUS_FAILURE, SAI_NULL_OBJECT_ID, a)
          else if oid = value_oid (snd (attr ! 0)) \<and> br = value_oid (snd (attr ! 1))
          then Inr (SAI_STATUS_SUCCESS, members ! i, a)
          else vlan_member_loop sai oid br members is a))"

text \<open>The VLAN's identifier, from the cache or from a new VLAN.\<close>

definition vlan_find_or_create :: "sai_lib \<Rightarrow> env \<Rightarrow> u16 \<Rightarrow> agent \<Rightarrow> sai_status_t \<times> sai_object_id_t \<times> agent" where
  "vlan_find_or_create sai e vid a =
     (case saiagent_vlan_get (vlan_list a) vid of
        Some v \<Rightarrow> (SAI_STATUS_SUCCESS, vlan_oid v, a)
      | None \<Rightarrow>
          let (st, oid, a) = sai_create sai (Create_vlan (saiagent_switch_get_oid a) [(SAI_VLAN_ATTR_VLAN_ID, U16 vid)])
                               SAI_NULL_OBJECT_ID a in
          if st \<noteq> SAI_STATUS_SUCCESS then (st, oid, a)
          else
            (case saiagent_vlan_add_new (calloc_vlan_ok e) vid oid (vlan_list a) of
               (None, l) \<Rightarrow> (SAI_STATUS_FAILURE, oid, a)
             | (Some v, l) \<Rightarrow> (SAI_STATUS_SUCCESS, oid, a\<lparr>vlan_list := l\<rparr>)))"

text \<open>
  The rest of \<open>sai_vlan_add_port_member\<close>, from the query of the member list on, in three parts:
  the query, the loop with the creation of the member unless the port is one, and the code
  at the label \<open>enable_bridge_port_and_exit\<close>.
\<close>

definition enable_bridge_port_and_exit :: "sai_lib \<Rightarrow> sai_object_id_t \<Rightarrow> agent \<Rightarrow> (sai_status_t \<times> agent) outcome" where
  "enable_bridge_port_and_exit sai br a =
     SAI_RET_ERR
       (status_expr sai (Set_bridge_port_attribute br (SAI_BRIDGE_PORT_ATTR_ADMIN_STATE, Booldata True))) id a (\<lambda>a.
     Inr (SAI_STATUS_SUCCESS, a))"

definition vlan_join_port :: "sai_lib \<Rightarrow> sai_object_id_t \<Rightarrow> sai_object_id_t \<Rightarrow> bool \<Rightarrow> sai_attribute_t list \<Rightarrow> agent \<Rightarrow>
    (sai_status_t \<times> agent) outcome" where
  "vlan_join_port sai oid br tag attr a =
     bind_o (vlan_member_loop sai oid br (value_list (snd (attr ! 0)))
               [0..<unat (value_count (snd (attr ! 0)))] a) (\<lambda>(st, port_vlan_oid, a).
       if st \<noteq> SAI_STATUS_SUCCESS then Inr (st, a)
       else if port_vlan_oid \<noteq> SAI_NULL_OBJECT_ID then enable_bridge_port_and_exit sai br a
       else
         let (st, m, a) = sai_create sai (Create_vlan_member (saiagent_switch_get_oid a)
                             [(SAI_VLAN_MEMBER_ATTR_VLAN_ID, Oid oid),
                              (SAI_VLAN_MEMBER_ATTR_BRIDGE_PORT_ID, Oid br),
                              (SAI_VLAN_MEMBER_ATTR_VLAN_TAGGING_MODE,
                               S32 (if tag then SAI_VLAN_TAGGING_MODE_TAGGED else SAI_VLAN_TAGGING_MODE_UNTAGGED))])
                           port_vlan_oid a
         in if st \<noteq> SAI_STATUS_SUCCESS then Inr (st, a) else enable_bridge_port_and_exit sai br a)"

definition vlan_attach_port :: "sai_lib \<Rightarrow> env \<Rightarrow> sai_object_id_t \<Rightarrow> sai_object_id_t \<Rightarrow> bool \<Rightarrow> agent \<Rightarrow> (sai_status_t \<times> agent) outcome" where
  "vlan_attach_port sai e oid br tag a =
     SAI_RET_ERR (get_expr sai (Get_vlan_attribute oid)) snd
       ([(SAI_VLAN_ATTR_MEMBER_LIST, Objlist OBJ_LIST_COUNT (member_list_junk e))], a) (\<lambda>(attr, a).
     vlan_join_port sai oid br tag attr a)"

definition sai_vlan_add_port_member :: "sai_lib \<Rightarrow> env \<Rightarrow> u16 \<Rightarrow> u32 \<Rightarrow> bool \<Rightarrow> agent \<Rightarrow> (sai_status_t \<times> agent) outcome" where
  "sai_vlan_add_port_member sai e vid port_id tag a =
     SAI_RET_ERR (status_expr sai (Sai_api_query SAI_API_VLAN)) id a (\<lambda>a.
     SAI_RET_ERR (status_expr sai (Sai_api_query SAI_API_BRIDGE)) id a (\<lambda>a.
     bind_o (saiagent_switch_bridge_port_find a port_id) (\<lambda>br.
       if br = SAI_NULL_OBJECT_ID then Inr (SAI_STATUS_FAILURE, a)
       else
         let (st, oid, a) = vlan_find_or_create sai e vid a in
         if st \<noteq> SAI_STATUS_SUCCESS then Inr (st, a) else vlan_attach_port sai e oid br tag a)))"

section \<open>Handlers\<close>

definition saiagent_ipc_process_vlan_create :: "saiagent_msg \<Rightarrow> saiagent_msg \<Rightarrow> agent \<Rightarrow> (saiagent_msg \<times> agent) outcome" where
  "saiagent_ipc_process_vlan_create request reply a =
     bind_o (req_field prestera_msg_vlan_req [''vid''] request) (\<lambda>vid :: u16. reply_ack reply RC_STATUS_OK a)"

definition saiagent_ipc_process_vlan_delete :: "saiagent_msg \<Rightarrow> saiagent_msg \<Rightarrow> agent \<Rightarrow> (saiagent_msg \<times> agent) outcome" where
  "saiagent_ipc_process_vlan_delete request reply a =
     bind_o (req_field prestera_msg_vlan_req [''vid''] request) (\<lambda>vid :: u16. reply_ack reply RC_STATUS_OK a)"

definition saiagent_ipc_process_vlan_port_set :: "sai_lib \<Rightarrow> env \<Rightarrow> saiagent_msg \<Rightarrow> saiagent_msg \<Rightarrow> agent \<Rightarrow> (saiagent_msg \<times> agent) outcome" where
  "saiagent_ipc_process_vlan_port_set sai e request reply a =
     bind_o (req_field prestera_msg_vlan_req [''port''] request) (\<lambda>port :: u32.
     bind_o (req_field prestera_msg_vlan_req [''vid''] request) (\<lambda>vid :: u16.
     bind_o (req_field prestera_msg_vlan_req [''is_tagged''] request) (\<lambda>is_tagged :: u8.
     bind_o (sai_vlan_add_port_member sai e vid port (is_tagged \<noteq> 0) a) (\<lambda>(sai_st, a).
       if sai_st \<noteq> SAI_STATUS_SUCCESS then reply_ack reply RC_STATUS_ERR a
       else reply_ack reply RC_STATUS_OK a))))"

definition saiagent_ipc_process_vlan_pvid_set :: "sai_lib \<Rightarrow> saiagent_msg \<Rightarrow> saiagent_msg \<Rightarrow> agent \<Rightarrow> (saiagent_msg \<times> agent) outcome" where
  "saiagent_ipc_process_vlan_pvid_set sai request reply a =
     bind_o (req_field prestera_msg_vlan_req [''port''] request) (\<lambda>port :: u32.
     bind_o (req_field prestera_msg_vlan_req [''vid''] request) (\<lambda>vid :: u16.
     bind_o (saiagent_port_pvid_set sai port vid a) (\<lambda>(status, a).
       reply_ack reply status a)))"

definition saiagent_ipc_process_stp_port_set :: "saiagent_msg \<Rightarrow> saiagent_msg \<Rightarrow> agent \<Rightarrow> (saiagent_msg \<times> agent) outcome" where
  "saiagent_ipc_process_stp_port_set request reply a =
     bind_o (req_field prestera_msg_stp_req [''port''] request) (\<lambda>port :: u32.
     bind_o (req_field prestera_msg_stp_req [''vid''] request) (\<lambda>vid :: u16.
     bind_o (req_field prestera_msg_stp_req [''state''] request) (\<lambda>state :: u8.
       reply_ack reply RC_STATUS_OK a)))"

text \<open>\<open>status\<close> is declared without a value.\<close>

definition saiagent_vlan_init :: "sai_lib \<Rightarrow> env \<Rightarrow> agent \<Rightarrow> (saiagent_rc_t \<times> agent) outcome" where
  "saiagent_vlan_init sai e a =
     (let (st, a) = sai_status sai (Sai_log_set SAI_API_VLAN SAI_LOG_LEVEL_DEBUG) a in
      if st \<noteq> SAI_STATUS_SUCCESS then Inr (RC_STATUS_ERR, a)
      else
        bind_o (sai_vlan_default_init sai e a) (\<lambda>(st, a).
          if st \<noteq> SAI_STATUS_SUCCESS then Inr (RC_STATUS_ERR, a)
          else
            Inr (agent_cb_set PRESTERA_CMD_TYPE_STP_PORT_SET Process_stp_port_set
              (agent_cb_set PRESTERA_CMD_TYPE_VLAN_PVID_SET Process_vlan_pvid_set
                (agent_cb_set PRESTERA_CMD_TYPE_VLAN_PORT_SET Process_vlan_port_set
                  (agent_cb_set PRESTERA_CMD_TYPE_VLAN_DELETE Process_vlan_delete
                    (agent_cb_set PRESTERA_CMD_TYPE_VLAN_CREATE Process_vlan_create
                      (uninit_status e Vlan_Init, a))))))))"

section \<open>The interface: a cache of VLAN identifiers\<close>

locale vid_cache =
  fixes add :: "'k \<Rightarrow> 'v \<Rightarrow> 'c \<Rightarrow> 'c"
    and find :: "'c \<Rightarrow> 'k \<Rightarrow> 'v option"
    and none :: 'c
  assumes find_none: "find none k = None"
    and find_add: "find (add k v c) k' = (if k' = k then Some v else find c k')"
begin

lemma find_adds: "find (fold (\<lambda>(k, v). add k v) kvs c) k =
    (case map_of (rev kvs) k of None \<Rightarrow> find c k | Some v \<Rightarrow> Some v)"
proof (induction kvs arbitrary: c)
  case (Cons kv kvs)
  then show ?case
    by (cases kv) (auto simp: find_add map_add_def split: option.splits)
qed simp

lemma find_map_of: "find (fold (\<lambda>(k, v). add k v) kvs none) k = map_of (rev kvs) k"
  by (simp add: find_adds find_none split: option.splits)

lemma find_kept: "find c k \<noteq> None \<Longrightarrow> find (add k' v c) k \<noteq> None"
  by (simp add: find_add)

end

definition vlan_add :: "u16 \<Rightarrow> sai_object_id_t \<Rightarrow> vlan_info list \<Rightarrow> vlan_info list" where
  "vlan_add vid oid l = snd (saiagent_vlan_add_new True vid oid l)"

definition vlan_find :: "vlan_info list \<Rightarrow> u16 \<Rightarrow> sai_object_id_t option" where
  "vlan_find l vid = map_option vlan_oid (saiagent_vlan_get l vid)"

interpretation vlan_cache: vid_cache vlan_add vlan_find "[]"
  by unfold_locales (simp_all add: vlan_add_def vlan_find_def saiagent_vlan_add_new_def Let_def)

section \<open>Lemmas\<close>

text \<open>
  The operations add to the log calls that satisfy \<open>P\<close> and put entries at the head of the
  cache, nothing else.
\<close>

definition vlan_run :: "(sai_call \<Rightarrow> bool) \<Rightarrow> agent \<Rightarrow> agent \<Rightarrow> bool" where
  "vlan_run P a a' \<longleftrightarrow>
     (\<exists>l v. list_all (\<lambda>(c, r). P c) l \<and> a\<lparr>sai_log := sai_log a @ l, vlan_list := v @ vlan_list a\<rparr> = a')"

abbreviation only_vlan :: "agent \<Rightarrow> agent \<Rightarrow> bool" where
  "only_vlan \<equiv> vlan_run (\<lambda>c. True)"

lemma vlan_runI:
  "list_all (\<lambda>(c, r). P c) l \<Longrightarrow> a\<lparr>sai_log := sai_log a @ l, vlan_list := v @ vlan_list a\<rparr> = a' \<Longrightarrow> vlan_run P a a'"
  unfolding vlan_run_def by blast

lemma vlan_run_refl [simp]: "vlan_run P a a"
  by (rule vlan_runI [where l = "[]" and v = "[]"]) simp_all

lemma vlan_run_call [simp]: "P c \<Longrightarrow> vlan_run P a (a\<lparr>sai_log := sai_log a @ [(c, r)]\<rparr>)"
  by (rule vlan_runI [where l = "[(c, r)]" and v = "[]"]) simp_all

lemma vlan_run_add [simp]: "vlan_run P a (a\<lparr>vlan_list := v # vlan_list a\<rparr>)"
  by (rule vlan_runI [where l = "[]" and v = "[v]"]) simp_all

lemma vlan_run_trans:
  assumes "vlan_run P a b" "vlan_run P b c"
  shows "vlan_run P a c"
proof -
  obtain l v where l: "list_all (\<lambda>(c, r). P c) l" "b = a\<lparr>sai_log := sai_log a @ l, vlan_list := v @ vlan_list a\<rparr>"
    using assms(1) unfolding vlan_run_def by metis
  obtain l' v' where l': "list_all (\<lambda>(c, r). P c) l'" "c = b\<lparr>sai_log := sai_log b @ l', vlan_list := v' @ vlan_list b\<rparr>"
    using assms(2) unfolding vlan_run_def by metis
  show ?thesis
    by (rule vlan_runI [where l = "l @ l'" and v = "v' @ v"]) (use l l' in simp_all)
qed

lemma vlan_run_log [simp]:
  "vlan_run P a b \<Longrightarrow> list_all (\<lambda>(c, r). P c) l \<Longrightarrow> vlan_run P a (b\<lparr>sai_log := sai_log b @ l\<rparr>)"
  by (erule vlan_run_trans) (rule vlan_runI [where l = l and v = "[]"], simp_all)

lemma vlan_run_logD:
  "vlan_run P (a\<lparr>sai_log := sai_log a @ l\<rparr>) b \<Longrightarrow> list_all (\<lambda>(c, r). P c) l \<Longrightarrow> vlan_run P a b"
  by (rule vlan_run_trans [OF vlan_run_log [OF vlan_run_refl]])

lemma vlan_run_added: "vlan_run P a b \<Longrightarrow> vlan_run P a (b\<lparr>vlan_list := v # vlan_list b\<rparr>)"
  by (erule vlan_run_trans) simp

lemma vlan_run_mono: "vlan_run P a b \<Longrightarrow> (\<And>c. P c \<Longrightarrow> Q c) \<Longrightarrow> vlan_run Q a b"
  unfolding vlan_run_def by (metis (mono_tags, lifting) list.pred_mono_strong case_prod_beta)

lemma vlan_run_ok: "vlan_run P a a' \<Longrightarrow> agent_ok a' = agent_ok a"
  by (auto simp: vlan_run_def)

lemma vlan_run_fields:
  assumes "vlan_run P a a'"
  shows "sw_info a' = sw_info a" "ipc a' = ipc a" "threads a' = threads a"
  using assms by (auto simp: vlan_run_def)

lemma vlan_run_found:
  assumes "vlan_run P a a'" "vlan_find (vlan_list a) vid \<noteq> None"
  shows "vlan_find (vlan_list a') vid \<noteq> None"
proof -
  have "vlan_find (v @ l) vid \<noteq> None" if "vlan_find l vid \<noteq> None" for v l
    using that by (induction v) (auto simp: vlan_find_def)
  with assms show ?thesis by (auto simp: vlan_run_def)
qed

text \<open>What the macro does to a relation that every call keeps.\<close>

lemma SAI_RET_ERR_keeps:
  assumes "SAI_RET_ERR ex ag s k = Inr (st, a')"
    "\<And>s st s'. ex s = Inr (st, s') \<Longrightarrow> R (ag s) (ag s')" "\<And>x y z. R x y \<Longrightarrow> R y z \<Longrightarrow> R x z"
    "\<And>s'. ex s = Inr (SAI_STATUS_SUCCESS, s') \<Longrightarrow> k s' = Inr (st, a') \<Longrightarrow> R (ag s') a'"
  shows "R (ag s) a'"
  using assms(1)
proof (rule SAI_RET_ERR_E)
  fix st1 s1 s2
  assume "ex s = Inr (st1, s1)" "ex s1 = Inr (st, s2)" "a' = ag s2"
  with assms(2,3) show ?thesis by blast
next
  fix s1
  assume "ex s = Inr (SAI_STATUS_SUCCESS, s1)" "k s1 = Inr (st, a')"
  with assms(2-4) show ?thesis by blast
qed

lemma status_expr_run:
  assumes "SAI_RET_ERR (status_expr sai c) id a k = Inr (st, a')" "P c"
    "\<And>b. vlan_run P a b \<Longrightarrow> k b = Inr (st, a') \<Longrightarrow> vlan_run P b a'"
  shows "vlan_run P a a'"
  using SAI_RET_ERR_keeps [where R = "vlan_run P", OF assms(1) _ vlan_run_trans] assms(2,3)
  by (simp add: status_expr_eq)

lemma get_expr_run:
  assumes "SAI_RET_ERR (get_expr sai c) snd (attrs, a) k = Inr (st, a')" "\<And>attrs. P (c attrs)"
    "\<And>attrs b. vlan_run P a b \<Longrightarrow> k (attrs, b) = Inr (st, a') \<Longrightarrow> vlan_run P b a'"
  shows "vlan_run P a a'"
proof -
  have get: "vlan_run P (snd s) (snd s')" if "get_expr sai c s = Inr (st, s')" for s st s'
    using that assms(2) by (auto simp: get_expr_def sai_get_eq)
  have "vlan_run P (snd (attrs, a)) a'"
    by (rule SAI_RET_ERR_keeps [where R = "vlan_run P", OF assms(1) get vlan_run_trans])
      (use assms(3) get in fastforce)+
  then show ?thesis by simp
qed

lemma find_or_create_run:
  assumes "vlan_find_or_create sai e vid a = (st, oid, a')"
  shows "vlan_run (\<lambda>c. is_Create_vlan c \<longrightarrow> vlan_find (vlan_list a) vid = None) a a'"
proof (cases "saiagent_vlan_get (vlan_list a) vid")
  case None
  let ?b = "a\<lparr>sai_log := sai_log a @ [(Create_vlan (saiagent_switch_get_oid a) [(SAI_VLAN_ATTR_VLAN_ID, U16 vid)],
      sai (sai_log a) (Create_vlan (saiagent_switch_get_oid a) [(SAI_VLAN_ATTR_VLAN_ID, U16 vid)]))]\<rparr>"
  have b: "vlan_run (\<lambda>c. is_Create_vlan c \<longrightarrow> vlan_find (vlan_list a) vid = None) a ?b"
    using None by (simp add: vlan_find_def)
  from assms None consider "a' = ?b" | v where "a' = ?b\<lparr>vlan_list := v # vlan_list ?b\<rparr>"
    by (auto simp: vlan_find_or_create_def saiagent_vlan_add_new_def sai_create_eq Let_def split: if_splits)
  then show ?thesis by cases (use b vlan_run_trans [OF b vlan_run_add] in simp_all)
qed (use assms in \<open>simp add: vlan_find_or_create_def\<close>)

text \<open>
  The second attribute of the member query keeps the null identifier it was given, so no
  member ever matches a bridge port.
\<close>

lemma sai_get_one:
  "sai_get sai c [(i, Oid x)] a = Inr (ret_status (sai (sai_log a) (c [(i, Oid x)])),
     [(i, Oid (case ret_values (sai (sai_log a) (c [(i, Oid x)])) of Some (Oid y) # rs \<Rightarrow> y | _ \<Rightarrow> x))],
     a\<lparr>sai_log := sai_log a @ [(c [(i, Oid x)], sai (sai_log a) (c [(i, Oid x)]))]\<rparr>)"
  by (auto simp: sai_get_eq sai_store_all_Cons sai_store_def split: list.split option.split sai_value.split)

lemma member_loop_result:
  assumes "vlan_member_loop sai oid br members is a = Inr (st, m, a')" "br \<noteq> SAI_NULL_OBJECT_ID"
  shows "m = SAI_NULL_OBJECT_ID \<and> vlan_run (\<lambda>c. \<not> is_Create_vlan c) a a' \<and>
    (st = SAI_STATUS_SUCCESS \<longrightarrow>
      (\<exists>l. a' = a\<lparr>sai_log := sai_log a @ l\<rparr> \<and> list_all (\<lambda>(c, r). ret_status r = SAI_STATUS_SUCCESS) l \<and>
        map fst l = map (\<lambda>i. Get_vlan_member_attribute (members ! i) [(SAI_VLAN_MEMBER_ATTR_VLAN_ID, Oid SAI_NULL_OBJECT_ID)]) is))"
  using assms
proof (induction "is" arbitrary: a)
  case Nil
  then have "m = SAI_NULL_OBJECT_ID" "a' = a" by simp_all
  then show ?case by (auto intro!: exI [of _ "[]"])
next
  case (Cons i "is")
  let ?c = "Get_vlan_member_attribute (members ! i) [(SAI_VLAN_MEMBER_ATTR_VLAN_ID, Oid SAI_NULL_OBJECT_ID)]"
  let ?r = "sai (sai_log a) ?c"
  let ?b = "a\<lparr>sai_log := sai_log a @ [(?c, ?r)]\<rparr>"
  show ?case
  proof (cases "ret_status ?r = SAI_STATUS_SUCCESS")
    case False
    with Cons.prems have "m = SAI_NULL_OBJECT_ID" "a' = ?b" "st = SAI_STATUS_FAILURE"
      by (auto simp: sai_get_one Let_def split: if_splits)
    then show ?thesis by simp
  next
    case True
    with Cons.prems have rest: "vlan_member_loop sai oid br members is ?b = Inr (st, m, a')"
      by (auto simp: sai_get_one Let_def value_oid_def split: if_splits)
    note IH = Cons.IH [OF rest Cons.prems(2)]
    have "vlan_run (\<lambda>c. \<not> is_Create_vlan c) a a'"
      by (rule vlan_run_trans [of _ _ ?b]) (use IH in simp_all)
    moreover have "\<exists>l. a' = a\<lparr>sai_log := sai_log a @ l\<rparr> \<and>
        list_all (\<lambda>(c, r). ret_status r = SAI_STATUS_SUCCESS) l \<and>
        map fst l = map (\<lambda>i. Get_vlan_member_attribute (members ! i)
          [(SAI_VLAN_MEMBER_ATTR_VLAN_ID, Oid SAI_NULL_OBJECT_ID)]) (i # is)"
      if "st = SAI_STATUS_SUCCESS"
    proof -
      from IH that obtain l where "a' = ?b\<lparr>sai_log := sai_log ?b @ l\<rparr>"
          "list_all (\<lambda>(c, r). ret_status r = SAI_STATUS_SUCCESS) l"
          "map fst l = map (\<lambda>i. Get_vlan_member_attribute (members ! i)
             [(SAI_VLAN_MEMBER_ATTR_VLAN_ID, Oid SAI_NULL_OBJECT_ID)]) is"
        by blast
      with True show ?thesis by (intro exI [of _ "(?c, ?r) # l"]) simp
    qed
    ultimately show ?thesis using IH by blast
  qed
qed

lemma member_loop_run:
  "vlan_member_loop sai oid br members is a = Inr (st, m, a') \<Longrightarrow> br \<noteq> SAI_NULL_OBJECT_ID \<Longrightarrow>
   m = SAI_NULL_OBJECT_ID \<and> vlan_run (\<lambda>c. \<not> is_Create_vlan c) a a'"
  using member_loop_result by blast

text \<open>What the operations may change, whatever their result.\<close>

lemma enable_run: "enable_bridge_port_and_exit sai br a = Inr (st, a') \<Longrightarrow> vlan_run (\<lambda>c. \<not> is_Create_vlan c) a a'"
  unfolding enable_bridge_port_and_exit_def by (erule status_expr_run) auto

lemma join_port_run:
  assumes "vlan_join_port sai oid br tag attr a = Inr (st, a')" "br \<noteq> SAI_NULL_OBJECT_ID"
  shows "vlan_run (\<lambda>c. \<not> is_Create_vlan c) a a'"
  using assms unfolding vlan_join_port_def
  by (auto simp: sai_create_eq Let_def split: if_splits dest!: member_loop_run enable_run vlan_run_logD intro: vlan_run_trans)

lemma attach_port_run:
  assumes "vlan_attach_port sai e oid br tag a = Inr (st, a')" "br \<noteq> SAI_NULL_OBJECT_ID"
  shows "vlan_run (\<lambda>c. \<not> is_Create_vlan c) a a'"
  using assms(1) unfolding vlan_attach_port_def by (rule get_expr_run) (use join_port_run assms(2) in auto)

text \<open>The ways through \<open>sai_vlan_add_port_member\<close>; \<open>queried\<close> is the state after the two API queries.\<close>

definition queried :: "sai_lib \<Rightarrow> agent \<Rightarrow> agent" where
  "queried sai a = snd (sai_status sai (Sai_api_query SAI_API_BRIDGE) (snd (sai_status sai (Sai_api_query SAI_API_VLAN) a)))"

definition queries_ok :: "sai_lib \<Rightarrow> agent \<Rightarrow> bool" where
  "queries_ok sai a \<longleftrightarrow> fst (sai_status sai (Sai_api_query SAI_API_VLAN) a) = SAI_STATUS_SUCCESS \<and>
     fst (sai_status sai (Sai_api_query SAI_API_BRIDGE) (snd (sai_status sai (Sai_api_query SAI_API_VLAN) a))) = SAI_STATUS_SUCCESS"

definition is_query :: "sai_call \<Rightarrow> bool" where
  "is_query c \<longleftrightarrow> (\<exists>api. c = Sai_api_query api)"

lemma queried_fields [simp]:
  "vlan_list (queried sai a) = vlan_list a" "sw_info (queried sai a) = sw_info a" "ipc (queried sai a) = ipc a"
  "threads (queried sai a) = threads a"
  by (simp_all add: queried_def sai_status_eq)

lemma queried_log:
  "\<exists>r r'. queried sai a = a\<lparr>sai_log := sai_log a @ [(Sai_api_query SAI_API_VLAN, r), (Sai_api_query SAI_API_BRIDGE, r')]\<rparr> \<and>
     (queries_ok sai a \<longleftrightarrow> ret_status r = SAI_STATUS_SUCCESS \<and> ret_status r' = SAI_STATUS_SUCCESS)"
  by (intro exI [of _ "sai (sai_log a) (Sai_api_query SAI_API_VLAN)"]
      exI [of _ "sai (sai_log a @ [(Sai_api_query SAI_API_VLAN, sai (sai_log a) (Sai_api_query SAI_API_VLAN))]) (Sai_api_query SAI_API_BRIDGE)"])
    (simp add: queried_def queries_ok_def sai_status_eq)

lemma add_port_member_E:
  assumes "sai_vlan_add_port_member sai e vid port tag a = Inr (st, a')"
  obtains (not_queried) l where "a' = a\<lparr>sai_log := sai_log a @ l\<rparr>" "list_all (\<lambda>(c, r). is_query c) l" "\<not> log_ok l"
      "st = SAI_STATUS_SUCCESS \<longrightarrow> retried a a'"
  | (no_port) "queries_ok sai a" "a' = queried sai a" "st \<noteq> SAI_STATUS_SUCCESS"
  | (no_vlan) oid where "queries_ok sai a" "vlan_find_or_create sai e vid (queried sai a) = (st, oid, a')"
      "st \<noteq> SAI_STATUS_SUCCESS"
  | (vlan) br oid b where "queries_ok sai a" "saiagent_switch_bridge_port_find a port = Inr br" "br \<noteq> SAI_NULL_OBJECT_ID"
      "vlan_find_or_create sai e vid (queried sai a) = (SAI_STATUS_SUCCESS, oid, b)"
      "vlan_attach_port sai e oid br tag b = Inr (st, a')"
proof -
  let ?v = "Sai_api_query SAI_API_VLAN" and ?b = "Sai_api_query SAI_API_BRIDGE"
  let ?a1 = "snd (sai_status sai ?v a)"
  have find: "saiagent_switch_bridge_port_find (queried sai a) port = saiagent_switch_bridge_port_find a port"
    by (simp add: saiagent_switch_bridge_port_find_def)
  from assms show thesis
    unfolding sai_vlan_add_port_member_def
  proof (rule SAI_RET_ERR_E)
    fix st1 s1 s2
    assume f: "status_expr sai ?v a = Inr (st1, s1)" "st1 \<noteq> SAI_STATUS_SUCCESS" "status_expr sai ?v s1 = Inr (st, s2)"
      "a' = id s2"
    show thesis
      by (rule not_queried [of "[(?v, sai (sai_log a) ?v), (?v, sai (sai_log s1) ?v)]"])
        (use f in \<open>auto simp: status_expr_eq is_query_def intro: retriedI\<close>)
  next
    fix s1
    assume s1: "status_expr sai ?v a = Inr (SAI_STATUS_SUCCESS, s1)"
      and k: "SAI_RET_ERR (status_expr sai ?b) id s1 (\<lambda>a.
        bind_o (saiagent_switch_bridge_port_find a port) (\<lambda>br.
          if br = SAI_NULL_OBJECT_ID then Inr (SAI_STATUS_FAILURE, a)
          else
            let (st, oid, a) = vlan_find_or_create sai e vid a in
            if st \<noteq> SAI_STATUS_SUCCESS then Inr (st, a) else vlan_attach_port sai e oid br tag a)) = Inr (st, a')"
    from k show thesis
    proof (rule SAI_RET_ERR_E)
      fix st1 s2 s3
      assume f: "status_expr sai ?b s1 = Inr (st1, s2)" "st1 \<noteq> SAI_STATUS_SUCCESS" "status_expr sai ?b s2 = Inr (st, s3)"
        "a' = id s3"
      have "st = SAI_STATUS_SUCCESS \<Longrightarrow> retried s1 a'" using f by (auto simp: status_expr_eq intro: retriedI)
      then have "st = SAI_STATUS_SUCCESS \<Longrightarrow> retried a a'"
        using s1 by (intro retried_later [of s1 a "[(?v, sai (sai_log a) ?v)]"]) (auto simp: status_expr_eq)
      then show thesis
        by (intro not_queried [of "[(?v, sai (sai_log a) ?v), (?b, sai (sai_log s1) ?b), (?b, sai (sai_log s2) ?b)]"])
          (use f s1 in \<open>auto simp: status_expr_eq is_query_def\<close>)
    next
      fix s2
      assume s2: "status_expr sai ?b s1 = Inr (SAI_STATUS_SUCCESS, s2)"
        and k: "bind_o (saiagent_switch_bridge_port_find s2 port) (\<lambda>br.
          if br = SAI_NULL_OBJECT_ID then Inr (SAI_STATUS_FAILURE, s2)
          else
            let (st, oid, a) = vlan_find_or_create sai e vid s2 in
            if st \<noteq> SAI_STATUS_SUCCESS then Inr (st, a) else vlan_attach_port sai e oid br tag a) = Inr (st, a')"
      have q: "queries_ok sai a" "s2 = queried sai a"
        using s1 s2 by (auto simp: queries_ok_def queried_def status_expr_def)
      from k consider "a' = queried sai a" "st \<noteq> SAI_STATUS_SUCCESS"
        | oid where "vlan_find_or_create sai e vid (queried sai a) = (st, oid, a')" "st \<noteq> SAI_STATUS_SUCCESS"
        | br oid b where "saiagent_switch_bridge_port_find a port = Inr br" "br \<noteq> SAI_NULL_OBJECT_ID"
            "vlan_find_or_create sai e vid (queried sai a) = (SAI_STATUS_SUCCESS, oid, b)"
            "vlan_attach_port sai e oid br tag b = Inr (st, a')"
        unfolding q(2) by (auto simp: Let_def find split: if_splits prod.splits)
      then show thesis
        by cases (rule no_port [OF q(1)] no_vlan [OF q(1)] vlan [OF q(1)]; assumption)+
    qed
  qed
qed

lemma vlan_run_queries: "list_all (\<lambda>(c, r). is_query c) l \<Longrightarrow> (\<And>api. P (Sai_api_query api)) \<Longrightarrow> list_all (\<lambda>(c, r). P c) l"
  by (induction l) (auto simp: is_query_def)

lemma vlan_run_queried: "(\<And>api. P (Sai_api_query api)) \<Longrightarrow> vlan_run P a (queried sai a)"
  using queried_log [of sai a] by (auto intro!: vlan_run_log)

lemma add_port_member_run:
  assumes "sai_vlan_add_port_member sai e vid port tag a = Inr (st, a')"
  shows "vlan_run (\<lambda>c. is_Create_vlan c \<longrightarrow> vlan_find (vlan_list a) vid = None) a a'" (is "vlan_run ?P a a'")
proof -
  have q: "vlan_run ?P a (queried sai a)" by (rule vlan_run_queried) simp
  from assms show ?thesis
  proof (cases rule: add_port_member_E)
    case (not_queried l)
    then show ?thesis by (auto intro!: vlan_run_log vlan_run_queries)
  next
    case no_port
    with q show ?thesis by simp
  next
    case (no_vlan oid)
    from q find_or_create_run [OF no_vlan(2)] show ?thesis by (auto intro: vlan_run_trans)
  next
    case (vlan br oid b)
    have "vlan_run ?P (queried sai a) b" using find_or_create_run [OF vlan(4)] by simp
    moreover have "vlan_run ?P b a'" by (rule vlan_run_mono [OF attach_port_run [OF vlan(5,3)]]) simp
    ultimately show ?thesis using q by (blast intro: vlan_run_trans)
  qed
qed

text \<open>
  A successful run: \<open>made_calls cs a a'\<close> says that the calls \<open>cs\<close> were made, in this order, and
  that all of them succeeded.
\<close>

definition made_calls :: "sai_call list \<Rightarrow> agent \<Rightarrow> agent \<Rightarrow> bool" where
  "made_calls cs a a' \<longleftrightarrow> (\<exists>l. sai_log a' = sai_log a @ l \<and> map fst l = cs \<and>
     list_all (\<lambda>(c, r). ret_status r = SAI_STATUS_SUCCESS) l)"

lemma made_calls_Nil: "sai_log b = sai_log a \<Longrightarrow> made_calls [] a b"
  by (simp add: made_calls_def)

lemma made_calls_trans: "made_calls cs a b \<Longrightarrow> made_calls ds b c \<Longrightarrow> made_calls (cs @ ds) a c"
  by (force simp: made_calls_def)

lemma made_calls_call: "ret_status r = SAI_STATUS_SUCCESS \<Longrightarrow> sai_log b = sai_log a @ [(c, r)] \<Longrightarrow> made_calls [c] a b"
  by (simp add: made_calls_def)

definition members_query :: "env \<Rightarrow> sai_object_id_t \<Rightarrow> sai_call" where
  "members_query e oid =
     Get_vlan_attribute oid [(SAI_VLAN_ATTR_MEMBER_LIST, Objlist OBJ_LIST_COUNT (member_list_junk e))]"

definition member_query :: "sai_object_id_t \<Rightarrow> sai_call" where
  "member_query m = Get_vlan_member_attribute m [(SAI_VLAN_MEMBER_ATTR_VLAN_ID, Oid SAI_NULL_OBJECT_ID)]"

definition create_member :: "sai_object_id_t \<Rightarrow> sai_object_id_t \<Rightarrow> sai_object_id_t \<Rightarrow> bool \<Rightarrow> sai_call" where
  "create_member sw oid br tag = Create_vlan_member sw
     [(SAI_VLAN_MEMBER_ATTR_VLAN_ID, Oid oid), (SAI_VLAN_MEMBER_ATTR_BRIDGE_PORT_ID, Oid br),
      (SAI_VLAN_MEMBER_ATTR_VLAN_TAGGING_MODE,
       S32 (if tag then SAI_VLAN_TAGGING_MODE_TAGGED else SAI_VLAN_TAGGING_MODE_UNTAGGED))]"

definition enable_bridge_port :: "sai_object_id_t \<Rightarrow> sai_call" where
  "enable_bridge_port br = Set_bridge_port_attribute br (SAI_BRIDGE_PORT_ATTR_ADMIN_STATE, Booldata True)"

lemma find_or_create_success:
  assumes "vlan_find_or_create sai e vid a = (SAI_STATUS_SUCCESS, oid, a')"
  shows "made_calls (if vlan_find (vlan_list a) vid = None
      then [Create_vlan (switch_oid (sw_info a)) [(SAI_VLAN_ATTR_VLAN_ID, U16 vid)]] else []) a a' \<and>
    vlan_find (vlan_list a') vid = Some oid"
  using assms
  by (auto simp: vlan_find_or_create_def vlan_find_def saiagent_vlan_add_new_def sai_create_eq Let_def
      saiagent_switch_get_oid_def split: option.splits if_splits intro: made_calls_Nil made_calls_call)

lemma sai_get_ran:
  assumes "sai_get sai c attrs a = Inr (SAI_STATUS_SUCCESS, attrs', a')"
  shows "made_calls [c attrs] a a'"
  using assms by (auto simp: sai_get_eq intro: made_calls_call)

lemma member_loop_ran:
  assumes "vlan_member_loop sai oid br members is a = Inr (SAI_STATUS_SUCCESS, m, a')" "br \<noteq> SAI_NULL_OBJECT_ID"
  shows "m = SAI_NULL_OBJECT_ID \<and> made_calls (map (\<lambda>i. member_query (members ! i)) is) a a'"
proof -
  from member_loop_result [OF assms] obtain l where "m = SAI_NULL_OBJECT_ID" "a' = a\<lparr>sai_log := sai_log a @ l\<rparr>"
      "list_all (\<lambda>(c, r). ret_status r = SAI_STATUS_SUCCESS) l" "map fst l = map (\<lambda>i. member_query (members ! i)) is"
    by (auto simp: member_query_def)
  then show ?thesis unfolding made_calls_def by auto
qed

lemma vlan_list_get: "sai_get sai c attrs a = Inr (st, attrs', a') \<Longrightarrow> vlan_list a' = vlan_list a \<and> sw_info a' = sw_info a"
  by (auto simp: sai_get_eq)

lemma vlan_list_loop:
  "vlan_member_loop sai oid br members is a = Inr (st, m, a') \<Longrightarrow> vlan_list a' = vlan_list a \<and> sw_info a' = sw_info a"
  by (induction "is" arbitrary: a) (fastforce simp: sai_get_one Let_def split: if_splits)+

lemma made_calls_retried: "made_calls cs a b \<Longrightarrow> retried b c \<Longrightarrow> retried a c"
  by (auto simp: made_calls_def intro: retried_later)

lemma enable_success:
  assumes "enable_bridge_port_and_exit sai br a = Inr (SAI_STATUS_SUCCESS, a')"
  shows "vlan_list a' = vlan_list a \<and> (made_calls [enable_bridge_port br] a a' \<or> retried a a')"
  using assms unfolding enable_bridge_port_and_exit_def
  by (auto elim!: SAI_RET_ERR_E simp: status_expr_eq enable_bridge_port_def made_calls_def intro: retriedI)

lemma join_port_success:
  assumes "vlan_join_port sai oid br tag attr a = Inr (SAI_STATUS_SUCCESS, a')" "br \<noteq> SAI_NULL_OBJECT_ID"
  shows "vlan_list a' = vlan_list a \<and> (retried a a' \<or> (\<exists>members. made_calls (map member_query members @
      [create_member (switch_oid (sw_info a)) oid br tag, enable_bridge_port br]) a a'))"
proof -
  let ?ms = "value_list (snd (attr ! 0))" and ?is = "[0..<unat (value_count (snd (attr ! 0)))]"
  let ?create = "create_member (switch_oid (sw_info a)) oid br tag"
  from assms(1) obtain m c where l: "vlan_member_loop sai oid br ?ms ?is a = Inr (SAI_STATUS_SUCCESS, m, c)"
    unfolding vlan_join_port_def by (auto simp: Let_def split: if_splits prod.splits)
  have m: "m = SAI_NULL_OBJECT_ID" and lr: "made_calls (map (\<lambda>i. member_query (?ms ! i)) ?is) a c"
    using member_loop_ran [OF l assms(2)] by simp_all
  have c: "vlan_list c = vlan_list a" "sw_info c = sw_info a" using vlan_list_loop [OF l] by simp_all
  let ?d = "c\<lparr>sai_log := sai_log c @ [(?create, sai (sai_log c) ?create)]\<rparr>"
  have ok: "ret_status (sai (sai_log c) ?create) = SAI_STATUS_SUCCESS"
    and e: "enable_bridge_port_and_exit sai br ?d = Inr (SAI_STATUS_SUCCESS, a')"
    using assms(1) unfolding vlan_join_port_def l
    by (auto simp: m sai_create_eq Let_def create_member_def saiagent_switch_get_oid_def c split: if_splits)
  have d: "made_calls (map (\<lambda>i. member_query (?ms ! i)) ?is @ [?create]) a ?d"
    using lr made_calls_call [OF ok, of ?d c] by (intro made_calls_trans [OF lr]) simp
  from enable_success [OF e] show ?thesis
  proof (elim conjE disjE)
    assume "made_calls [enable_bridge_port br] ?d a'" "vlan_list a' = vlan_list ?d"
    with made_calls_trans [OF d] c show ?thesis
      by (auto intro!: exI [of _ "map (\<lambda>i. ?ms ! i) ?is"] simp: o_def)
  qed (use d c made_calls_retried in auto)
qed

lemma attach_port_success:
  assumes "vlan_attach_port sai e oid br tag a = Inr (SAI_STATUS_SUCCESS, a')" "br \<noteq> SAI_NULL_OBJECT_ID"
  shows "vlan_list a' = vlan_list a \<and> (retried a a' \<or> (\<exists>members. made_calls (members_query e oid # map member_query members @
      [create_member (switch_oid (sw_info a)) oid br tag, enable_bridge_port br]) a a'))"
  using assms(1) unfolding vlan_attach_port_def
proof (rule SAI_RET_ERR_E)
  fix st1 s1 s2
  assume f: "get_expr sai (Get_vlan_attribute oid)
      ([(SAI_VLAN_ATTR_MEMBER_LIST, Objlist OBJ_LIST_COUNT (member_list_junk e))], a) = Inr (st1, s1)"
    "st1 \<noteq> SAI_STATUS_SUCCESS" "get_expr sai (Get_vlan_attribute oid) s1 = Inr (SAI_STATUS_SUCCESS, s2)" "a' = snd s2"
  obtain attrs b where s1: "s1 = (attrs, b)" by (cases s1)
  have "map fst attrs = [SAI_VLAN_ATTR_MEMBER_LIST]"
    using f(1) by (auto simp: s1 get_expr_eq sai_get_eq dest: sai_store_all_length)
  with f have "retried a a'"
    by (auto simp: s1 get_expr_def sai_get_eq intro!: retriedI)
  moreover have "vlan_list a' = vlan_list a"
    using f by (cases s2) (auto simp: s1 get_expr_def dest!: vlan_list_get)
  ultimately show ?thesis by blast
next
  fix s1
  assume f: "get_expr sai (Get_vlan_attribute oid)
      ([(SAI_VLAN_ATTR_MEMBER_LIST, Objlist OBJ_LIST_COUNT (member_list_junk e))], a) = Inr (SAI_STATUS_SUCCESS, s1)"
    and k: "(case s1 of (attr, a) \<Rightarrow> vlan_join_port sai oid br tag attr a) = Inr (SAI_STATUS_SUCCESS, a')"
  obtain attrs b where s1: "s1 = (attrs, b)" by (cases s1)
  have g: "sai_get sai (Get_vlan_attribute oid)
      [(SAI_VLAN_ATTR_MEMBER_LIST, Objlist OBJ_LIST_COUNT (member_list_junk e))] a = Inr (SAI_STATUS_SUCCESS, attrs, b)"
    using f by (simp add: s1 get_expr_eq)
  have q: "made_calls [members_query e oid] a b" using sai_get_ran [OF g] by (simp add: members_query_def)
  have b: "vlan_list b = vlan_list a" "sw_info b = sw_info a" using vlan_list_get [OF g] by simp_all
  have j: "vlan_join_port sai oid br tag attrs b = Inr (SAI_STATUS_SUCCESS, a')" using k by (simp add: s1)
  from join_port_success [OF j assms(2)] q b show ?thesis
    by (auto dest: made_calls_retried made_calls_trans)
qed

section \<open>In bounds: the operations return\<close>

lemma member_loop_returns:
  assumes "\<forall>i \<in> set is. i < length members"
  shows "\<exists>st m a'. vlan_member_loop sai oid br members is a = Inr (st, m, a')"
  using assms
proof (induction "is" arbitrary: a)
  case (Cons i "is")
  then have "\<exists>st m a'. vlan_member_loop sai oid br members is b = Inr (st, m, a')" for b by simp
  with Cons.prems show ?case by (simp add: sai_get_one Let_def not_le)
qed simp

text \<open>The attributes of a get on one list of 64 elements.\<close>

definition one_list :: "sai_attribute_t list \<times> agent \<Rightarrow> bool" where
  "one_list s \<longleftrightarrow> attrs_ok (fst s) \<and> (\<exists>i n b. fst s = [(i, Objlist n b)])"

lemma one_list_get:
  assumes "sai_conforms sai" "sai_fits sai" "one_list s" "\<And>attrs. get_attrs (c attrs) = attrs"
  shows "\<exists>st s'. get_expr sai c s = Inr (st, s') \<and> one_list s'"
proof -
  obtain attrs a where s: "s = (attrs, a)" by (cases s)
  then obtain i n b where attrs: "attrs = [(i, Objlist n b)]" "attrs_ok attrs" using assms(3) by (auto simp: one_list_def)
  obtain attrs' where g: "sai_store_all attrs (ret_values (sai (sai_log a) (c attrs))) = Inr attrs'" "attrs_ok attrs'"
    using sai_get_returns [OF assms(1,2) attrs(2), of c a] assms(4) by blast
  from sai_store_all_shape [OF g(1)] obtain m b' where "attrs' = [(i, Objlist m b')]"
    by (auto simp: attrs(1) list_all2_Cons1 same_shape_def)
  with g show ?thesis by (auto simp: s get_expr_eq sai_get_eq one_list_def)
qed

lemma join_port_returns:
  assumes "one_list (attr, a)"
  shows "\<exists>st a'. vlan_join_port sai oid br tag attr a = Inr (st, a')"
proof -
  obtain i n b where attr: "attr = [(i, Objlist n b)]" "length b = OBJ_LIST_LEN" "unat n \<le> OBJ_LIST_LEN"
    using assms by (auto simp: one_list_def)
  then have "\<forall>i \<in> set [0..<unat n]. i < length b" by auto
  from member_loop_returns [OF this] obtain st m d
    where l: "vlan_member_loop sai oid br b [0..<unat n] a = Inr (st, m, d)" by blast
  have e: "\<exists>st a'. enable_bridge_port_and_exit sai br x = Inr (st, a')" for x
    unfolding enable_bridge_port_and_exit_def by (rule status_expr_returns) simp
  show ?thesis
    using e by (simp add: vlan_join_port_def attr(1) value_list_def value_count_def l sai_create_eq Let_def)
qed

lemma attach_port_returns:
  assumes "sai_conforms sai" "sai_fits sai" "env_ok e"
  shows "\<exists>st a'. vlan_attach_port sai e oid br tag a = Inr (st, a')"
  unfolding vlan_attach_port_def
proof (rule SAI_RET_ERR_returns [where I = one_list])
  show "one_list ([(SAI_VLAN_ATTR_MEMBER_LIST, Objlist OBJ_LIST_COUNT (member_list_junk e))], a)"
    using assms(3) by (simp add: one_list_def env_ok_def)
  show "\<exists>st s'. get_expr sai (Get_vlan_attribute oid) s = Inr (st, s') \<and> one_list s'" if "one_list s" for s
    by (rule one_list_get [OF assms(1,2) that]) (simp add: get_attrs_def)
  show "\<exists>st a'. (case s' of (attr, a) \<Rightarrow> vlan_join_port sai oid br tag attr a) = Inr (st, a')" if "one_list s'" for s'
    using join_port_returns that by (cases s') simp
qed

lemma bridge_port_find_eq:
  assumes "agent_ok a" "unat port < OBJ_LIST_LEN"
  shows "saiagent_switch_bridge_port_find a port = Inr (br_port_list (sw_info a) ! unat port)"
  using assms by (simp add: saiagent_switch_bridge_port_find_def agent_ok_def)

lemma bridge_port_find_oob:
  assumes "agent_ok a" "OBJ_LIST_LEN \<le> unat port"
  shows "saiagent_switch_bridge_port_find a port = Inl Out_Of_Bounds"
  using assms by (simp add: saiagent_switch_bridge_port_find_def agent_ok_def)

lemma add_port_member_returns:
  assumes "sai_conforms sai" "sai_fits sai" "env_ok e" "agent_ok a" "unat port < OBJ_LIST_LEN"
  shows "\<exists>st a'. sai_vlan_add_port_member sai e vid port tag a = Inr (st, a')"
  unfolding sai_vlan_add_port_member_def
proof (rule SAI_RET_ERR_returns [where I = agent_ok])
  fix s1
  assume "agent_ok s1"
  then show "\<exists>st a'. SAI_RET_ERR (status_expr sai (Sai_api_query SAI_API_BRIDGE)) id s1 (\<lambda>a.
     bind_o (saiagent_switch_bridge_port_find a port) (\<lambda>br.
       if br = SAI_NULL_OBJECT_ID then Inr (SAI_STATUS_FAILURE, a)
       else
         let (st, oid, a) = vlan_find_or_create sai e vid a in
         if st \<noteq> SAI_STATUS_SUCCESS then Inr (st, a) else vlan_attach_port sai e oid br tag a)) = Inr (st, a')"
    by (rule SAI_RET_ERR_returns [where I = agent_ok, rotated])
      (use assms(5) attach_port_returns [OF assms(1-3)] in
        \<open>auto simp: status_expr_eq bridge_port_find_eq Let_def split: prod.split\<close>)
qed (use assms(4) in \<open>auto simp: status_expr_eq\<close>)

section \<open>The handlers\<close>

lemma vlan_acks:
  assumes "request_ok request"
  shows "saiagent_ipc_process_vlan_create request reply a = reply_ack reply RC_STATUS_OK a"
    "saiagent_ipc_process_vlan_delete request reply a = reply_ack reply RC_STATUS_OK a"
    "saiagent_ipc_process_stp_port_set request reply a = reply_ack reply RC_STATUS_OK a"
  by (simp_all add: saiagent_ipc_process_vlan_create_def saiagent_ipc_process_vlan_delete_def
      saiagent_ipc_process_stp_port_set_def req_field_eq [OF assms])

lemma vlan_port_set_eq:
  assumes "request_ok request"
  shows "saiagent_ipc_process_vlan_port_set sai e request reply a =
    bind_o (sai_vlan_add_port_member sai e (req_word 12 2 request) (req_word 4 4 request)
              ((req_word 15 1 request :: u8) \<noteq> 0) a) (\<lambda>(st, a).
      reply_ack reply (if st \<noteq> SAI_STATUS_SUCCESS then RC_STATUS_ERR else RC_STATUS_OK) a)"
  by (simp add: saiagent_ipc_process_vlan_port_set_def req_field_eq [OF assms]
      if_distrib [where f = "\<lambda>s. reply_ack reply s _"] cong: if_cong)

lemma vlan_pvid_set_eq:
  assumes "request_ok request"
  shows "saiagent_ipc_process_vlan_pvid_set sai request reply a =
    bind_o (saiagent_port_pvid_set sai (req_word 4 4 request) (req_word 12 2 request) a) (\<lambda>(rc, a). reply_ack reply rc a)"
  by (simp add: saiagent_ipc_process_vlan_pvid_set_def req_field_eq [OF assms])

lemma handler_ok_vlan [wf_intros]:
  "handler_ok saiagent_ipc_process_vlan_create"
  "handler_ok saiagent_ipc_process_vlan_delete"
  "handler_ok saiagent_ipc_process_stp_port_set"
  by (rule handler_okI, auto simp: vlan_acks dest!: reply_ackD)+

lemma handler_ok_vlan_port_set [wf_intros]: "handler_ok (saiagent_ipc_process_vlan_port_set sai e)"
  by (rule handler_okI) (fastforce simp: vlan_port_set_eq vlan_run_ok dest!: reply_ackD add_port_member_run)

lemma handler_ok_vlan_pvid_set [wf_intros]: "handler_ok (saiagent_ipc_process_vlan_pvid_set sai)"
  by (rule handler_okI) (fastforce simp: vlan_pvid_set_eq only_log_ok dest!: reply_ackD pvid_set_only_log)

section \<open>Initialisation\<close>

lemma vlan_default_init_run:
  assumes "sai_vlan_default_init sai e a = Inr (st, a')"
  shows "only_vlan a a'"
  using assms unfolding sai_vlan_default_init_def
  by (rule status_expr_run)
    (auto simp: Let_def saiagent_vlan_add_new_def split: if_splits elim!: get_expr_run)

text \<open>The attributes of a get on one 16-bit value.\<close>

definition one_u16 :: "sai_attribute_t list \<times> agent \<Rightarrow> bool" where
  "one_u16 s \<longleftrightarrow> (\<exists>i x. fst s = [(i, U16 x)])"

lemma is_U16_iff: "is_U16 w \<longleftrightarrow> (\<exists>x. w = U16 x)"
  by (cases w) auto

lemma one_u16_get: "one_u16 s \<Longrightarrow> \<exists>st s'. get_expr sai c s = Inr (st, s') \<and> one_u16 s'"
  by (auto simp: is_U16_iff one_u16_def get_expr_def sai_get_eq sai_store_all_Cons sai_store_def
      split: list.split option.split sai_value.split)

lemma vlan_default_init_returns: "\<exists>st a'. sai_vlan_default_init sai e a = Inr (st, a')"
  unfolding sai_vlan_default_init_def
proof (rule status_expr_returns)
  fix b
  have "\<exists>st a'. SAI_RET_ERR (get_expr sai (Get_vlan_attribute oid)) snd ([(SAI_VLAN_ATTR_VLAN_ID, U16 0)], b) (\<lambda>(attrs, a).
      (case saiagent_vlan_add_new (calloc_vlan_ok e) (value_u16 (snd (attrs ! 0))) oid (vlan_list a) of
         (None, l) \<Rightarrow> Inr (SAI_STATUS_FAILURE, a)
       | (Some v, l) \<Rightarrow> Inr (SAI_STATUS_SUCCESS, a\<lparr>vlan_list := l\<rparr>))) = Inr (st, a')" for oid
    by (rule SAI_RET_ERR_returns [where I = one_u16, OF one_u16_get])
      (auto simp: one_u16_def saiagent_vlan_add_new_def Let_def)
  then show "\<exists>st a'. (let oid = saiagent_switch_get_default_vlan_oid b in
       if oid = SAI_NULL_OBJECT_ID then Inr (SAI_STATUS_FAILURE, b)
       else
         SAI_RET_ERR (get_expr sai (Get_vlan_attribute oid)) snd ([(SAI_VLAN_ATTR_VLAN_ID, U16 0)], b) (\<lambda>(attrs, a).
           (case saiagent_vlan_add_new (calloc_vlan_ok e) (value_u16 (snd (attrs ! 0))) oid (vlan_list a) of
              (None, l) \<Rightarrow> Inr (SAI_STATUS_FAILURE, a)
            | (Some v, l) \<Rightarrow> Inr (SAI_STATUS_SUCCESS, a\<lparr>vlan_list := l\<rparr>)))) = Inr (st, a')"
    by (simp add: Let_def)
qed

lemma vlan_init_eq:
  "saiagent_vlan_init sai e a =
    (let (st, b) = sai_status sai (Sai_log_set SAI_API_VLAN SAI_LOG_LEVEL_DEBUG) a in
     if st \<noteq> SAI_STATUS_SUCCESS then Inr (RC_STATUS_ERR, b)
     else
       bind_o (sai_vlan_default_init sai e b) (\<lambda>(st, c).
         if st \<noteq> SAI_STATUS_SUCCESS then Inr (RC_STATUS_ERR, c)
         else Inr (uninit_status e Vlan_Init, c\<lparr>ipc := (ipc c)\<lparr>ipc_cb_list := (ipc_cb_list (ipc c))
           (PRESTERA_CMD_TYPE_VLAN_CREATE := Some Process_vlan_create,
            PRESTERA_CMD_TYPE_VLAN_DELETE := Some Process_vlan_delete,
            PRESTERA_CMD_TYPE_VLAN_PORT_SET := Some Process_vlan_port_set,
            PRESTERA_CMD_TYPE_VLAN_PVID_SET := Some Process_vlan_pvid_set,
            PRESTERA_CMD_TYPE_STP_PORT_SET := Some Process_stp_port_set)\<rparr>\<rparr>)))"
  by (simp add: saiagent_vlan_init_def agent_cb_set_eq cong: if_cong)

lemma vlan_init_returns: "\<exists>rc a'. saiagent_vlan_init sai e a = Inr (rc, a')"
proof -
  let ?b = "snd (sai_status sai (Sai_log_set SAI_API_VLAN SAI_LOG_LEVEL_DEBUG) a)"
  obtain st c where "sai_vlan_default_init sai e ?b = Inr (st, c)"
    using vlan_default_init_returns by blast
  then show ?thesis
    by (cases "st = SAI_STATUS_SUCCESS") (simp_all add: vlan_init_eq sai_status_eq)
qed

lemma vlan_init_ok [wf_intros]:
  assumes "saiagent_vlan_init sai e a = Inr (rc, a')" "agent_ok a"
  shows "agent_ok a'"
proof -
  have init: "agent_ok b" if "sai_vlan_default_init sai e c = Inr (st, b)" "agent_ok c" for st b c
    using vlan_run_ok [OF vlan_default_init_run [OF that(1)]] that(2) by simp
  have cbs: "agent_ok b" if "(rc, b) = agent_cb_set t cb r" "agent_ok (snd r)" "cb_command cb = t" for b t cb r
    using agent_cb_set_ok [OF that(2,3)] that(1) by (metis snd_conv)
  show ?thesis
    using assms unfolding saiagent_vlan_init_def sai_status_eq
    by (auto split: if_splits dest!: init intro!: agent_cb_set_ok elim!: cbs [OF sym])
qed

lemma vlan_init_frame:
  assumes "saiagent_vlan_init sai e a = Inr (rc, a')"
  shows "sw_info a' = sw_info a \<and> threads a' = threads a"
proof -
  have "sw_info b = sw_info c \<and> threads b = threads c" if "sai_vlan_default_init sai e c = Inr (st, b)" for st b c
    using vlan_run_fields [OF vlan_default_init_run [OF that]] by simp
  with assms show ?thesis
    unfolding vlan_init_eq sai_status_eq by (fastforce split: if_splits)
qed

section \<open>Lemmas: runs of many requests\<close>

lemma sai_status_ran:
  "made_calls [c] a (a\<lparr>sai_log := sai_log a @ [(c, r)]\<rparr>)" if "ret_status r = SAI_STATUS_SUCCESS"
  using that by (simp add: made_calls_def)

text \<open>The calls of a successful \<open>sai_vlan_add_port_member\<close>, and what it leaves in the cache.\<close>

lemma add_port_member_success:
  assumes "sai_vlan_add_port_member sai e vid port tag a = Inr (SAI_STATUS_SUCCESS, a')"
  shows "retried a a' \<or> (\<exists>br oid members. saiagent_switch_bridge_port_find a port = Inr br \<and> br \<noteq> SAI_NULL_OBJECT_ID \<and>
    vlan_find (vlan_list a') vid = Some oid \<and>
    (vlan_find (vlan_list a) vid \<noteq> None \<longrightarrow> vlan_list a' = vlan_list a) \<and>
    made_calls ([Sai_api_query SAI_API_VLAN, Sai_api_query SAI_API_BRIDGE] @
      (if vlan_find (vlan_list a) vid = None
       then [Create_vlan (switch_oid (sw_info a)) [(SAI_VLAN_ATTR_VLAN_ID, U16 vid)]] else []) @
      members_query e oid # map member_query members @
      [create_member (switch_oid (sw_info a)) oid br tag, enable_bridge_port br]) a a')"
  using assms
proof (cases rule: add_port_member_E)
  case (vlan br oid b)
  have q: "made_calls [Sai_api_query SAI_API_VLAN, Sai_api_query SAI_API_BRIDGE] a (queried sai a)"
    using queried_log [of sai a] vlan(1) by (auto simp: made_calls_def)
  note fc = find_or_create_success [OF vlan(4), unfolded queried_fields]
  have sw: "sw_info b = sw_info a" using vlan_run_fields [OF find_or_create_run [OF vlan(4)]] by simp
  note qf = made_calls_trans [OF q conjunct1 [OF fc]]
  from attach_port_success [OF vlan(5,3), unfolded sw] have vl: "vlan_list a' = vlan_list b"
    and "retried b a' \<or> (\<exists>members. made_calls (members_query e oid # map member_query members @
      [create_member (switch_oid (sw_info a)) oid br tag, enable_bridge_port br]) b a')"
    by blast+
  moreover have "vlan_list a' = vlan_list a" if "vlan_find (vlan_list a) vid \<noteq> None"
    using vlan(4) that vl by (auto simp: vlan_find_or_create_def vlan_find_def)
  moreover have "vlan_find (vlan_list a') vid = Some oid" using fc vl by simp
  ultimately show ?thesis
    using made_calls_retried [OF qf] made_calls_trans [OF qf] vlan(2,3) unfolding append_assoc by blast
qed simp_all

text \<open>The call \<open>d\<close> is among the calls of a run.\<close>

definition has_call :: "sai_call \<Rightarrow> agent \<Rightarrow> agent \<Rightarrow> bool" where
  "has_call d a a' \<longleftrightarrow> (\<exists>l. sai_log a' = sai_log a @ l \<and> 1 \<le> length (filter (\<lambda>(c, r). c = d) l))"

lemma made_calls_has: "made_calls cs a a' \<Longrightarrow> d \<in> set cs \<Longrightarrow> has_call d a a'"
proof -
  assume "made_calls cs a a'" "d \<in> set cs"
  then obtain l where l: "sai_log a' = sai_log a @ l" "d \<in> fst ` set l" by (auto simp: made_calls_def)
  then have "filter (\<lambda>(c, r). c = d) l \<noteq> []" by (auto simp: filter_empty_conv)
  with l(1) show ?thesis by (auto simp: has_call_def Suc_le_eq)
qed

text \<open>The VLANs successfully created for an identifier, among the calls of a log.\<close>

definition created :: "u16 \<Rightarrow> sai_log \<Rightarrow> nat" where
  "created vid l = length (filter (\<lambda>(c, r). ret_status r = SAI_STATUS_SUCCESS \<and>
     (\<exists>sw. c = Create_vlan sw [(SAI_VLAN_ATTR_VLAN_ID, U16 vid)])) l)"

lemma created_append [simp]: "created vid (l @ l') = created vid l + created vid l'"
  by (simp add: created_def)

lemma created_none: "list_all (\<lambda>(c, r). \<not> is_Create_vlan c) l \<Longrightarrow> created vid l = 0"
  by (auto simp: created_def list_all_iff filter_empty_conv)

text \<open>A credit: one creation is left for an identifier that is not in the cache.\<close>

definition creations :: "u16 \<Rightarrow> agent \<Rightarrow> nat" where
  "creations vid a = created vid (sai_log a) + (if vlan_find (vlan_list a) vid = None then 1 else 0)"

lemma creations_log [simp]:
  "list_all (\<lambda>(c, r). \<not> is_Create_vlan c) l \<Longrightarrow> creations vid (a\<lparr>sai_log := sai_log a @ l\<rparr>) = creations vid a"
  by (simp add: creations_def created_none)

lemma creations_run:
  assumes "vlan_run (\<lambda>c. \<not> is_Create_vlan c) a a'"
  shows "creations vid a' \<le> creations vid a"
proof -
  from assms obtain l v where l: "list_all (\<lambda>(c, r). \<not> is_Create_vlan c) l"
      "a' = a\<lparr>sai_log := sai_log a @ l, vlan_list := v @ vlan_list a\<rparr>"
    by (auto simp: vlan_run_def)
  have c: "created vid (sai_log a') = created vid (sai_log a)"
    using created_none [OF l(1), of vid] by (simp add: l(2))
  show ?thesis
  proof (cases "vlan_find (vlan_list a) vid = None")
    case False
    with vlan_run_found [OF assms False] c show ?thesis by (simp add: creations_def)
  qed (simp add: creations_def c)
qed

lemma creations_find_or_create:
  assumes "vlan_find_or_create sai e vid' a = (st, oid, a')" "calloc_vlan_ok e"
  shows "creations vid a' \<le> creations vid a"
proof (cases "saiagent_vlan_get (vlan_list a) vid'")
  case None
  then show ?thesis
    using assms
    by (auto simp: vlan_find_or_create_def saiagent_vlan_add_new_def sai_create_eq Let_def creations_def
        created_def vlan_find_def split: if_splits)
qed (use assms in \<open>simp add: vlan_find_or_create_def\<close>)

lemma creations_add_port_member:
  assumes "sai_vlan_add_port_member sai e vid' port tag a = Inr (st, a')" "calloc_vlan_ok e"
  shows "creations vid a' \<le> creations vid a"
proof -
  have q: "creations vid (queried sai a) \<le> creations vid a"
    by (rule creations_run, rule vlan_run_queried) simp
  from assms(1) show ?thesis
  proof (cases rule: add_port_member_E)
    case (not_queried l)
    then have "vlan_run (\<lambda>c. \<not> is_Create_vlan c) a a'" by (auto intro!: vlan_run_log vlan_run_queries)
    then show ?thesis by (rule creations_run)
  next
    case no_port
    with q show ?thesis by simp
  next
    case (no_vlan oid)
    from le_trans [OF creations_find_or_create [OF no_vlan(2) assms(2)] q] show ?thesis .
  next
    case (vlan br oid b)
    from le_trans [OF creations_run [OF attach_port_run [OF vlan(5,3)]]
        le_trans [OF creations_find_or_create [OF vlan(4) assms(2)] q]]
    show ?thesis .
  qed
qed

text \<open>Requests to add ports to VLANs, one after the other, each in an environment of its own.\<close>

fun add_members :: "sai_lib \<Rightarrow> (env \<times> u16 \<times> u32 \<times> bool) list \<Rightarrow> agent \<Rightarrow> agent outcome" where
  "add_members sai [] a = Inr a"
| "add_members sai ((e, vid, port, tag) # qs) a =
     bind_o (sai_vlan_add_port_member sai e vid port tag a) (\<lambda>(st, a). add_members sai qs a)"

section \<open>Properties\<close>

text \<open>
  C11. A port is added to a VLAN by this sequence of calls, all of which succeeded: the two
  API queries, the creation of the VLAN if and only if the cache does not have it, the
  query of its members, one query for each member, the creation of a member for the
  port's bridge port with the tagging asked for, and enabling that bridge port.  The VLAN
  used is the one the cache has afterwards.  The one other way the operation returns
  success is \<open>retried\<close>: its last two calls are the same one, which failed, was repeated by
  \<open>SAI_RET_ERR\<close> and then succeeded, wherever in the sequence that was.
\<close>

theorem add_port_member_calls:
  assumes "sai_vlan_add_port_member sai e vid port tag a = Inr (SAI_STATUS_SUCCESS, a')" "agent_ok a"
  shows "retried a a' \<or>
    unat port < OBJ_LIST_LEN \<and> br_port_list (sw_info a) ! unat port \<noteq> SAI_NULL_OBJECT_ID \<and>
    (\<exists>oid members. vlan_find (vlan_list a') vid = Some oid \<and>
      made_calls ([Sai_api_query SAI_API_VLAN, Sai_api_query SAI_API_BRIDGE] @
        (if vlan_find (vlan_list a) vid = None
         then [Create_vlan (switch_oid (sw_info a)) [(SAI_VLAN_ATTR_VLAN_ID, U16 vid)]] else []) @
        members_query e oid # map member_query members @
        [create_member (switch_oid (sw_info a)) oid (br_port_list (sw_info a) ! unat port) tag,
         enable_bridge_port (br_port_list (sw_info a) ! unat port)]) a a')"
proof (cases "retried a a'")
  case False
  with add_port_member_success [OF assms(1)] obtain br
    where br: "saiagent_switch_bridge_port_find a port = Inr br" "br \<noteq> SAI_NULL_OBJECT_ID" by blast
  have u: "unat port < OBJ_LIST_LEN"
    using bridge_port_find_oob [OF assms(2), of port] br(1) by (cases "OBJ_LIST_LEN \<le> unat port") simp_all
  then have "br = br_port_list (sw_info a) ! unat port" using bridge_port_find_eq [OF assms(2) u] br(1) by simp
  with u add_port_member_success [OF assms(1)] False show ?thesis by (auto simp: br)
qed simp

text \<open>
  A library in which every call succeeds, and creations return the number of the call: a switch
  with two ports, a bridge with two ports and VLANs with one member.  A list that is longer
  than the count passed is not stored.
\<close>

definition ok_list :: "sai_object_id_t list \<Rightarrow> sai_value \<Rightarrow> sai_value option" where
  "ok_list l v =
     (case v of
        Objlist n b \<Rightarrow> if length l \<le> unat n then Some (Objlist (of_nat (length l)) l) else None
      | _ \<Rightarrow> None)"

definition ok_value :: "sai_attribute_t \<Rightarrow> sai_value option" where
  "ok_value attr =
     (case fst attr of
        SAI_SWITCH_ATTR_PORT_LIST \<Rightarrow> ok_list [11, 12] (snd attr)
      | SAI_SWITCH_ATTR_DEFAULT_1Q_BRIDGE_ID \<Rightarrow> Some (Oid 7)
      | SAI_SWITCH_ATTR_DEFAULT_VLAN_ID \<Rightarrow> Some (Oid 8)
      | SAI_BRIDGE_ATTR_PORT_LIST \<Rightarrow> ok_list [21, 22] (snd attr)
      | SAI_VLAN_ATTR_VLAN_ID \<Rightarrow> Some (U16 1)
      | SAI_VLAN_ATTR_MEMBER_LIST \<Rightarrow> ok_list [31] (snd attr)
      | _ \<Rightarrow> None)"

definition ok_lib :: sai_lib where
  "ok_lib h c = \<lparr>ret_status = SAI_STATUS_SUCCESS, ret_oid = Some (of_nat (length h) + 100),
     ret_values = map ok_value (get_attrs c)\<rparr>"

definition ok_env :: env where
  "ok_env = \<lparr>uninit_status = (\<lambda>f. RC_STATUS_OK), malloc_hw_type_ok = True, calloc_vlan_ok = True,
     member_list_junk = replicate OBJ_LIST_LEN 0, padding = 0,
     thread_calls = \<lparr>pthread_attr_init_rc = 0, calloc_ctx_ok = True, pthread_create_rc = 0, pthread_tid = 9,
       pthread_join_rc = Some 0, loop_value = Null_Value, routine_value = Null_Value\<rparr>,
     event_calls = (\<lambda>k. \<lparr>nlmsg_alloc_ok = True, genlmsg_put_ok = True, nla_put_rc = 0, nl_send_auto_rc = 0\<rparr>)\<rparr>"

definition two_ports :: agent where
  "two_ports = agent_start\<lparr>sw_info := (sw_info agent_start)\<lparr>switch_oid := 5,
     port_list := [11, 12] @ replicate 62 0, br_port_list := [21, 22] @ replicate 62 0\<rparr>\<rparr>"

lemma ok_value_list:
  assumes "ok_value (i, v) = Some (Objlist m l)"
  shows "length l \<le> 2 \<and> unat m = length l \<and> (\<forall>n b. v = Objlist n b \<longrightarrow> length l \<le> unat n)"
  using assms by (auto simp: ok_value_def ok_list_def split: sai_attr_id_t.splits sai_value.splits if_splits)

lemma ok_lib_conforms: "sai_conforms ok_lib"
  unfolding sai_conforms_def
proof (intro allI impI)
  fix h c k i n b m l
  assume a: "(i, Objlist n b) = get_attrs c ! k" "k < length (get_attrs c)" "ret_values (ok_lib h c) ! k = Some (Objlist m l)"
  then have "ok_value (i, Objlist n b) = Some (Objlist m l)" by (simp add: ok_lib_def)
  from ok_value_list [OF this]
  show "length l \<le> unat n \<and> (ret_status (ok_lib h c) = SAI_STATUS_SUCCESS \<longrightarrow> unat m = length l)" by simp
qed

lemma ok_lib_fits: "sai_fits ok_lib"
proof -
  have "unat m \<le> OBJ_LIST_LEN" if "Some (Objlist m l) = ok_value x" for x m l
    using ok_value_list [of "fst x" "snd x" m l] that by simp
  then show ?thesis by (auto simp: sai_fits_def ok_lib_def)
qed

lemmas ok_lib_eval = ok_lib_def ok_value_def ok_list_def get_attrs_def ok_env_def
lemmas sai_eval = SAI_RET_ERR_def status_expr_eq get_expr_def sai_get_eq sai_status_eq sai_create_eq Let_def
  value_count_def value_list_def value_oid_def value_u16_def patch_def
lemmas vlan_eval = sai_vlan_add_port_member_def vlan_find_or_create_def vlan_attach_port_def vlan_join_port_def
  enable_bridge_port_and_exit_def saiagent_switch_bridge_port_find_def saiagent_vlan_add_new_def saiagent_switch_get_oid_def
  members_query_def member_query_def create_member_def enable_bridge_port_def

lemma ok_env_ok: "env_ok ok_env"
  by (simp add: env_ok_def ok_env_def)

lemma agent_ok_two_ports: "agent_ok two_ports"
  by (simp add: two_ports_def agent_ok_def agent_start_def)

lemma two_ports_added:
  "\<exists>a'. sai_vlan_add_port_member ok_lib ok_env 10 1 True two_ports = Inr (SAI_STATUS_SUCCESS, a') \<and>
    map fst (sai_log a') = [Sai_api_query SAI_API_VLAN, Sai_api_query SAI_API_BRIDGE,
      Create_vlan 5 [(SAI_VLAN_ATTR_VLAN_ID, U16 10)], members_query ok_env 102, member_query 31,
      create_member 5 102 22 True, enable_bridge_port 22] \<and> vlan_list a' = [\<lparr>vlan_id = 10, vlan_oid = 102\<rparr>] \<and>
      sw_info a' = sw_info two_ports \<and> clean two_ports a'"
proof -
  have n: "replicate 64 (0 :: sai_object_id_t) = 0 # replicate 63 0" by (simp add: numeral_eq_Suc)
  show ?thesis
    by (simp add: vlan_eval sai_eval ok_lib_eval two_ports_def agent_start_def n nth_append clean_def)
qed

theorem add_port_member_calls_witness:
  "\<exists>a'. sai_vlan_add_port_member ok_lib ok_env 10 1 True two_ports = Inr (SAI_STATUS_SUCCESS, a') \<and>
    vlan_find (vlan_list a') 10 \<noteq> None"
proof -
  obtain a' where a': "sai_vlan_add_port_member ok_lib ok_env 10 1 True two_ports = Inr (SAI_STATUS_SUCCESS, a')"
      "clean two_ports a'"
    using two_ports_added by blast
  from add_port_member_calls [OF a'(1) agent_ok_two_ports] retried_not_clean a' show ?thesis by blast
qed


text \<open>
  C12. A VLAN is created once.  Over any requests to add ports to VLANs, in any order and
  whatever the library answers, if the cache entries could be allocated, then at most one
  creation succeeds for a VLAN identifier that was not in the cache, and none for one
  that was.
\<close>

theorem vlan_created_once:
  assumes "add_members sai qs a = Inr a'" "\<forall>(e, q) \<in> set qs. calloc_vlan_ok e"
  shows "\<exists>l. sai_log a' = sai_log a @ l \<and> created vid l \<le> (if vlan_find (vlan_list a) vid = None then 1 else 0)"
proof -
  have "creations vid a' \<le> creations vid a \<and> (\<exists>l. sai_log a' = sai_log a @ l)"
    using assms
  proof (induction qs arbitrary: a)
    case (Cons q qs)
    obtain e vid' port tag where q: "q = (e, vid', port, tag)" by (cases q)
    with Cons.prems(1) obtain st b where b: "sai_vlan_add_port_member sai e vid' port tag a = Inr (st, b)"
      and r: "add_members sai qs b = Inr a'"
      by auto
    have "creations vid a' \<le> creations vid b \<and> (\<exists>l. sai_log a' = sai_log b @ l)"
      using Cons.IH [OF r] Cons.prems(2) by simp
    moreover have "creations vid b \<le> creations vid a"
      using creations_add_port_member [OF b] Cons.prems(2) by (simp add: q)
    moreover have "\<exists>l. sai_log b = sai_log a @ l"
      using add_port_member_run [OF b] by (auto simp: vlan_run_def)
    ultimately show ?case by auto
  qed simp
  then show ?thesis by (auto simp: creations_def split: if_splits)
qed

theorem vlan_created_once_witness:
  "\<exists>a'. add_members ok_lib [(ok_env, 10, 1, True)] two_ports = Inr a' \<and> created 10 (sai_log a') \<le> 1"
proof -
  obtain a' where "add_members ok_lib [(ok_env, 10, 1, True)] two_ports = Inr a'"
    using two_ports_added by auto
  with vlan_created_once [OF this, of 10] show ?thesis
    by (auto simp: ok_env_def two_ports_def agent_start_def vlan_find_def)
qed

text \<open>
  C27. A port can become a member of a VLAN twice.  The query of each member passes a count
  of 1, so its bridge port is never read and no member is recognised as the port's: two
  requests for the same port and VLAN that return success, and of whose calls none failed,
  make two identical creations of a member.
\<close>

theorem vlan_member_duplicates:
  assumes "sai_vlan_add_port_member sai e vid port tag a = Inr (SAI_STATUS_SUCCESS, b)"
    "sai_vlan_add_port_member sai' e' vid port tag b = Inr (SAI_STATUS_SUCCESS, c)" "clean a b" "clean b c"
  shows "\<exists>oid. vlan_find (vlan_list c) vid = Some oid \<and>
    length (filter (\<lambda>(d, r). d = create_member (switch_oid (sw_info a)) oid (br_port_list (sw_info a) ! unat port) tag)
      (sai_log c)) \<ge> 2"
proof -
  let ?br = "br_port_list (sw_info a) ! unat port"
  have b: "sw_info b = sw_info a"
    using vlan_run_fields [OF add_port_member_run [OF assms(1)]] by simp
  have run: "\<exists>oid. vlan_find (vlan_list y) vid = Some oid \<and> (vlan_find (vlan_list x) vid \<noteq> None \<longrightarrow> vlan_list y = vlan_list x) \<and>
      has_call (create_member (switch_oid (sw_info a)) oid ?br tag) x y"
    if r: "sai_vlan_add_port_member lib env vid port tag x = Inr (SAI_STATUS_SUCCESS, y)" "clean x y"
      and x: "sw_info x = sw_info a"
    for lib env x y
  proof -
    from add_port_member_success [OF r(1)] retried_not_clean r(2) obtain z oid members where
      z: "saiagent_switch_bridge_port_find x port = Inr z" "vlan_find (vlan_list y) vid = Some oid"
        "vlan_find (vlan_list x) vid \<noteq> None \<longrightarrow> vlan_list y = vlan_list x"
      and m: "made_calls ([Sai_api_query SAI_API_VLAN, Sai_api_query SAI_API_BRIDGE] @
        (if vlan_find (vlan_list x) vid = None
         then [Create_vlan (switch_oid (sw_info x)) [(SAI_VLAN_ATTR_VLAN_ID, U16 vid)]] else []) @
        members_query env oid # map member_query members @
        [create_member (switch_oid (sw_info x)) oid z tag, enable_bridge_port z]) x y"
      by blast
    have "z = ?br" using z(1) x by (auto simp: saiagent_switch_bridge_port_find_def split: if_splits)
    with made_calls_has [OF m, of "create_member (switch_oid (sw_info a)) oid ?br tag"] z x show ?thesis by auto
  qed
  obtain oid where o1: "vlan_find (vlan_list b) vid = Some oid"
    and l1: "has_call (create_member (switch_oid (sw_info a)) oid ?br tag) a b"
    using run [OF assms(1,3)] by blast
  obtain oid' where "vlan_find (vlan_list c) vid = Some oid'" "vlan_list c = vlan_list b"
    and l2: "has_call (create_member (switch_oid (sw_info a)) oid' ?br tag) b c"
    using run [OF assms(2,4) b] o1 by auto
  with o1 have o2: "vlan_find (vlan_list c) vid = Some oid" and oid: "oid' = oid" by simp_all
  from l1 l2 [unfolded oid] have "2 \<le> length (filter (\<lambda>(d, r). d = create_member (switch_oid (sw_info a)) oid ?br tag) (sai_log c))"
    by (auto simp: has_call_def)
  with o2 show ?thesis by blast
qed


lemma two_ports_added_again:
  "\<exists>b c. sai_vlan_add_port_member ok_lib ok_env 10 1 True two_ports = Inr (SAI_STATUS_SUCCESS, b) \<and>
    sai_vlan_add_port_member ok_lib ok_env 10 1 True b = Inr (SAI_STATUS_SUCCESS, c) \<and> clean two_ports b \<and> clean b c"
proof -
  have n: "replicate 64 (0 :: sai_object_id_t) = 0 # replicate 63 0" by (simp add: numeral_eq_Suc)
  show ?thesis
    by (simp add: vlan_eval sai_eval ok_lib_eval two_ports_def agent_start_def n nth_append clean_def)
qed

theorem vlan_member_duplicates_witness:
  "\<exists>b c oid. sai_vlan_add_port_member ok_lib ok_env 10 1 True two_ports = Inr (SAI_STATUS_SUCCESS, b) \<and>
    sai_vlan_add_port_member ok_lib ok_env 10 1 True b = Inr (SAI_STATUS_SUCCESS, c) \<and>
    2 \<le> length (filter (\<lambda>(d, r). d = create_member 5 oid 22 True) (sai_log c))"
proof -
  obtain b c where r: "sai_vlan_add_port_member ok_lib ok_env 10 1 True two_ports = Inr (SAI_STATUS_SUCCESS, b)"
      "sai_vlan_add_port_member ok_lib ok_env 10 1 True b = Inr (SAI_STATUS_SUCCESS, c)" "clean two_ports b" "clean b c"
    using two_ports_added_again by blast
  from vlan_member_duplicates [OF r] show ?thesis
    using r by (auto simp: two_ports_def)
qed

text \<open>
  The cache implements a map.  After any insertions, looking an identifier up gives the
  value inserted last for it, and nothing for an identifier that was never inserted.
\<close>

theorem vlan_cache_is_map:
  "vlan_find (fold (\<lambda>(vid, oid). vlan_add vid oid) kvs []) vid = map_of (rev kvs) vid"
  by (rule vlan_cache.find_map_of)

text \<open>
  C16. The answer to \<open>VLAN_PORT_SET\<close>.  For a port inside the array, and a library that keeps to
  its contract and reports no list of more than 64 elements, the handler returns, the state it leaves is the one of \<open>sai_vlan_add_port_member\<close> on the request's port, VLAN and
  tagging, and the 8-byte reply is \<open>OK\<close> exactly when that succeeded.
\<close>

theorem vlan_port_set_verdict:
  assumes "sai_conforms sai" "sai_fits sai" "env_ok e" "agent_ok a" "request_ok request" "reply_ok reply"
    "unat (req_word 4 4 request :: u32) < OBJ_LIST_LEN"
  shows "\<exists>st a' m. sai_vlan_add_port_member sai e (req_word 12 2 request) (req_word 4 4 request)
        ((req_word 15 1 request :: u8) \<noteq> 0) a = Inr (st, a') \<and>
      saiagent_ipc_process_vlan_port_set sai e request reply a = Inr (m, a') \<and> agent_ok a' \<and>
      written m = le_bytes 4 PRESTERA_CMD_TYPE_ACK @
        le_bytes 4 (if st = SAI_STATUS_SUCCESS then PRESTERA_CMD_ACK_OK else PRESTERA_CMD_ACK_FAILED)"
proof -
  let ?add = "sai_vlan_add_port_member sai e (req_word 12 2 request) (req_word 4 4 request)
        ((req_word 15 1 request :: u8) \<noteq> 0) a"
  obtain st a' where r: "?add = Inr (st, a')"
    using add_port_member_returns [OF assms(1-4,7)] by blast
  moreover have "agent_ok a'" using vlan_run_ok [OF add_port_member_run [OF r]] assms(4) by simp
  ultimately show ?thesis
    using reply_ack_ok [OF assms(6), of "if st \<noteq> SAI_STATUS_SUCCESS then RC_STATUS_ERR else RC_STATUS_OK" a']
    by (auto simp: vlan_port_set_eq [OF assms(5)] ack_response_bytes)
qed

theorem vlan_port_set_verdict_witness:
  "\<exists>m a'. saiagent_ipc_process_vlan_port_set ok_lib ok_env
      (request_bytes [2, 2, 0, 0, 1, 0, 0, 0, 1, 0, 0, 0, 10, 0, 1, 1]) fresh_reply two_ports = Inr (m, a')"
proof -
  let ?q = "request_bytes [2, 2, 0, 0, 1, 0, 0, 0, 1, 0, 0, 0, 10, 0, 1, 1]"
  have "request_ok ?q" by (rule request_ok_bytes) simp
  moreover have "unat (req_word 4 4 ?q :: u32) < OBJ_LIST_LEN"
    by (simp add: req_word_def request_bytes_def request_msg_def slice_def)
  ultimately show ?thesis
    using vlan_port_set_verdict [OF ok_lib_conforms ok_lib_fits ok_env_ok agent_ok_two_ports _ reply_ok_fresh, of ?q] by blast
qed

text \<open>
  A VLAN the library has created is forgotten when its cache entry cannot be allocated:
  the operation fails, the cache is as before, and the next request for the identifier
  asks the library to create it again.
\<close>

theorem vlan_lost_on_calloc_failure:
  assumes "vlan_find (vlan_list a) vid = None" "\<not> calloc_vlan_ok e"
    "vlan_find_or_create sai e vid a = (st, oid, b)" "vlan_find_or_create sai' e' vid b = (st', oid', c)"
  shows "st \<noteq> SAI_STATUS_SUCCESS \<and> vlan_list b = vlan_list a \<and>
    map fst (sai_log c) = map fst (sai_log a) @ replicate 2 (Create_vlan (switch_oid (sw_info a)) [(SAI_VLAN_ATTR_VLAN_ID, U16 vid)])"
  using assms
  by (auto simp: vlan_find_or_create_def vlan_find_def saiagent_vlan_add_new_def sai_create_eq Let_def numeral_2_eq_2
      saiagent_switch_get_oid_def split: if_splits)

theorem vlan_lost_on_calloc_failure_witness:
  "\<exists>st oid b st' oid' c. vlan_find_or_create ok_lib (ok_env\<lparr>calloc_vlan_ok := False\<rparr>) 10 two_ports = (st, oid, b) \<and>
    vlan_find_or_create ok_lib ok_env 10 b = (st', oid', c) \<and>
    map fst (sai_log c) = replicate 2 (Create_vlan 5 [(SAI_VLAN_ATTR_VLAN_ID, U16 10)])"
proof -
  let ?e = "ok_env\<lparr>calloc_vlan_ok := False\<rparr>"
  obtain st oid b where b: "vlan_find_or_create ok_lib ?e 10 two_ports = (st, oid, b)" by (metis prod_cases3)
  obtain st' oid' c where c: "vlan_find_or_create ok_lib ok_env 10 b = (st', oid', c)" by (metis prod_cases3)
  have s: "vlan_find (vlan_list two_ports) 10 = None" "sai_log two_ports = []" "switch_oid (sw_info two_ports) = 5"
    by (simp_all add: two_ports_def agent_start_def vlan_find_def)
  have "map fst (sai_log c) = replicate 2 (Create_vlan 5 [(SAI_VLAN_ATTR_VLAN_ID, U16 10)])"
    using vlan_lost_on_calloc_failure [OF s(1) _ b c] s by (simp add: ok_env_def)
  with b c show ?thesis by blast
qed

text \<open>
  C26. Port numbers are not checked.  The driver's port number indexes the two arrays of 64
  identifiers as it is, so for a number of 64 or more \<open>VLAN_PORT_SET\<close>, \<open>VLAN_PVID_SET\<close> and
  \<open>PORT_ATTR_SET\<close> of the administrative state read past the end of an array, whatever the state,
  once the API queries made before the access have succeeded.
\<close>

theorem out_of_range_port:
  assumes "agent_ok a" "request_ok request" "\<And>h api. ret_status (sai h (Sai_api_query api)) = SAI_STATUS_SUCCESS"
  shows "(OBJ_LIST_LEN \<le> unat (req_word 4 4 request :: u32) \<longrightarrow>
      saiagent_ipc_process_vlan_port_set sai e request reply a = Inl Out_Of_Bounds \<and>
      saiagent_ipc_process_vlan_pvid_set sai request reply a = Inl Out_Of_Bounds) \<and>
    (OBJ_LIST_LEN \<le> unat (req_word 8 4 request :: u32) \<longrightarrow>
      (req_word 4 4 request :: u32) = PRESTERA_CMD_PORT_ATTR_PHY_MODE \<longrightarrow>
      saiagent_ipc_process_port_attr_set sai request reply a = Inl Out_Of_Bounds)"
  using assms(1)
  by (simp_all add: vlan_port_set_eq vlan_pvid_set_eq port_attr_set_eq assms(2,3) sai_vlan_add_port_member_def SAI_RET_ERR_def
      status_expr_eq port_find_expr_eq bridge_port_find_oob port_find_oob sai_port_admin_state_set_def
      saiagent_port_pvid_set_def sai_port_pvid_set_def)

theorem out_of_range_port_witness:
  "saiagent_ipc_process_vlan_port_set ok_lib ok_env (request_bytes [2, 2, 0, 0, 64, 0, 0, 0, 1, 0, 0, 0, 10, 0, 1, 1])
      fresh_reply two_ports = Inl Out_Of_Bounds \<and>
   saiagent_ipc_process_port_attr_set ok_lib (request_bytes ([0, 1, 0, 0, 12, 0, 0, 0, 0, 1, 0, 0] @ replicate 32 0))
      fresh_reply two_ports = Inl Out_Of_Bounds"
proof -
  let ?q = "request_bytes [2, 2, 0, 0, 64, 0, 0, 0, 1, 0, 0, 0, 10, 0, 1, 1]"
  let ?p = "request_bytes ([0, 1, 0, 0, 12, 0, 0, 0, 0, 1, 0, 0] @ replicate 32 0)"
  have q: "request_ok ?q" "request_ok ?p" by (rule request_ok_bytes, simp)+
  have ok: "ret_status (ok_lib h (Sai_api_query api)) = SAI_STATUS_SUCCESS" for h api by (simp add: ok_lib_def)
  have "OBJ_LIST_LEN \<le> unat (req_word 4 4 ?q :: u32)" "OBJ_LIST_LEN \<le> unat (req_word 8 4 ?p :: u32)"
    "(req_word 4 4 ?p :: u32) = PRESTERA_CMD_PORT_ATTR_PHY_MODE"
    by (simp_all add: req_word_def request_bytes_def request_msg_def slice_def)
  then show ?thesis
    using out_of_range_port [where sai = ok_lib, OF agent_ok_two_ports q(1) ok]
      out_of_range_port [where sai = ok_lib, OF agent_ok_two_ports q(2) ok] by blast
qed

text \<open>
  A library whose VLAN \<open>oid\<close> has the members \<open>ms\<close>, as the SAI documents a query of an object
  list: it stores as many as the count passed allows and sets the count to the number there
  are, and it succeeds if and only if that was all of them.
\<close>

definition reports_members :: "sai_lib \<Rightarrow> sai_object_id_t \<Rightarrow> sai_object_id_t list \<Rightarrow> bool" where
  "reports_members sai oid ms \<longleftrightarrow>
     (\<forall>h n b. let r = sai h (Get_vlan_attribute oid [(SAI_VLAN_ATTR_MEMBER_LIST, Objlist n b)]) in
        ret_values r = [Some (Objlist (of_nat (length ms)) (take (unat n) ms))] \<and>
        (ret_status r = SAI_STATUS_SUCCESS \<longleftrightarrow> length ms \<le> unat n))"

lemma attach_overruns:
  assumes "reports_members sai oid ms" "env_ok e" "OBJ_LIST_LEN < length ms" "length ms < 2 ^ 32"
  shows "vlan_attach_port sai e oid br tag a = Inl Out_Of_Bounds"
proof -
  have u: "unat (of_nat (length ms) :: u32) = length ms" using assms(4) by (simp add: unat_of_nat)
  note rep = assms(1) [unfolded reports_members_def Let_def, rule_format]
  have junk: "length (member_list_junk e) = OBJ_LIST_LEN" using assms(2) by (simp add: env_ok_def)
  show ?thesis
    using assms(3) u by (simp add: vlan_attach_port_def SAI_RET_ERR_def get_expr_def sai_get_eq rep junk not_le)
qed

text \<open>
  C19. A VLAN with more than 64 members makes the agent write past \<open>vlan_member_list\<close>.  The query
  with the count 64 fails, as documented, and sets the count to the number of members;
  \<open>SAI_RET_ERR\<close> then makes the same call again, now with that count, on the array of 64
  elements.  So a \<open>VLAN_PORT_SET\<close> request for such a VLAN leaves the array, for every port with a
  bridge port, although the library keeps to its contract.
\<close>

theorem member_list_overrun:
  assumes "reports_members sai oid ms" "OBJ_LIST_LEN < length ms" "length ms < 2 ^ 32" "env_ok e" "agent_ok a"
    "request_ok request" "queries_ok sai a" "unat (req_word 4 4 request :: u32) < OBJ_LIST_LEN"
    "br_port_list (sw_info a) ! unat (req_word 4 4 request :: u32) \<noteq> SAI_NULL_OBJECT_ID"
    "vlan_find (vlan_list a) (req_word 12 2 request) = Some oid"
  shows "saiagent_ipc_process_vlan_port_set sai e request reply a = Inl Out_Of_Bounds"
proof -
  have f: "vlan_find_or_create sai e (req_word 12 2 request) (queried sai a) = (SAI_STATUS_SUCCESS, oid, queried sai a)"
    using assms(10) by (auto simp: vlan_find_or_create_def vlan_find_def split: option.splits)
  have ok: "agent_ok (queried sai a)" using queried_log [of sai a] assms(5) by auto
  have "sai_vlan_add_port_member sai e (req_word 12 2 request) (req_word 4 4 request) tag a = Inl Out_Of_Bounds" for tag
    using assms(7) f bridge_port_find_eq [OF ok assms(8)] assms(9) attach_overruns [OF assms(1,4,2,3)]
    by (simp add: sai_vlan_add_port_member_def SAI_RET_ERR_def status_expr_def queries_ok_def queried_def case_prod_unfold
        queried_fields [unfolded queried_def])
  then show ?thesis by (simp add: vlan_port_set_eq [OF assms(6)])
qed

text \<open>\<open>ok_lib\<close> with 65 members in every VLAN.\<close>

definition crowded_lib :: sai_lib where
  "crowded_lib h c =
     (case c of
        Get_vlan_attribute oid [(SAI_VLAN_ATTR_MEMBER_LIST, Objlist n b)] \<Rightarrow>
          \<lparr>ret_status = (if 65 \<le> unat n then SAI_STATUS_SUCCESS else SAI_STATUS_FAILURE), ret_oid = None,
           ret_values = [Some (Objlist 65 (take (unat n) (replicate 65 31)))]\<rparr>
      | _ \<Rightarrow> ok_lib h c)"

lemma crowded_reports: "reports_members crowded_lib oid (replicate 65 31)"
  by (simp add: reports_members_def crowded_lib_def)

theorem member_list_overrun_witness:
  "saiagent_ipc_process_vlan_port_set crowded_lib ok_env
     (request_bytes [2, 2, 0, 0, 1, 0, 0, 0, 1, 0, 0, 0, 10, 0, 1, 1]) fresh_reply
     (two_ports\<lparr>vlan_list := [\<lparr>vlan_id = 10, vlan_oid = 102\<rparr>]\<rparr>) = Inl Out_Of_Bounds"
proof -
  let ?q = "request_bytes [2, 2, 0, 0, 1, 0, 0, 0, 1, 0, 0, 0, 10, 0, 1, 1]"
  let ?a = "two_ports\<lparr>vlan_list := [\<lparr>vlan_id = 10, vlan_oid = 102\<rparr>]\<rparr>"
  have q: "request_ok ?q" by (rule request_ok_bytes) simp
  have w: "(req_word 4 4 ?q :: u32) = 1" "(req_word 12 2 ?q :: u16) = 10"
    by (simp_all add: req_word_def request_bytes_def request_msg_def slice_def)
  have s: "queries_ok crowded_lib ?a" "agent_ok ?a" "br_port_list (sw_info ?a) ! 1 = 22" "vlan_find (vlan_list ?a) 10 = Some 102"
    using agent_ok_two_ports
    by (simp_all add: queries_ok_def sai_status_eq crowded_lib_def ok_lib_def two_ports_def vlan_find_def nth_append)
  show ?thesis
    by (rule member_list_overrun [OF crowded_reports _ _ ok_env_ok s(2) q s(1)]) (use s w in simp_all)
qed

end
