(* ===== verification/Saiagent_Fdb.thy ===== *)
theory Saiagent_Fdb
  imports Saiagent_Agent
begin

text \<open>\<open>saiagent_fdb.c\<close>: the flush command, which the agent acknowledges without acting on it.\<close>

definition saiagent_ipc_process_fdb_flush_port :: "saiagent_msg \<Rightarrow> saiagent_msg \<Rightarrow> agent \<Rightarrow> (saiagent_msg \<times> agent) outcome" where
  "saiagent_ipc_process_fdb_flush_port request reply a =
     bind_o (req_field prestera_msg_fdb_req [''dest'', '''', ''port''] request) (\<lambda>port :: u32.
       reply_ack reply RC_STATUS_OK a)"

text \<open>\<open>status\<close> is declared without a value.\<close>

definition saiagent_fdb_init :: "env \<Rightarrow> agent \<Rightarrow> saiagent_rc_t \<times> agent" where
  "saiagent_fdb_init e a =
     agent_cb_set PRESTERA_CMD_TYPE_FDB_FLUSH_PORT Process_fdb_flush_port (uninit_status e Fdb_Init, a)"

section \<open>Lemmas\<close>

lemma fdb_flush_port_eq:
  assumes "request_ok request"
  shows "saiagent_ipc_process_fdb_flush_port request reply a = reply_ack reply RC_STATUS_OK a"
  by (simp add: saiagent_ipc_process_fdb_flush_port_def req_field_eq [OF assms])

lemma handler_ok_fdb_flush_port [wf_intros]: "handler_ok saiagent_ipc_process_fdb_flush_port"
  by (rule handler_okI) (auto simp: fdb_flush_port_eq dest!: reply_ackD)

lemma fdb_init_eq:
  "saiagent_fdb_init e a = (uninit_status e Fdb_Init, a\<lparr>ipc := (ipc a)\<lparr>ipc_cb_list := (ipc_cb_list (ipc a))
     (PRESTERA_CMD_TYPE_FDB_FLUSH_PORT := Some Process_fdb_flush_port)\<rparr>\<rparr>)"
  by (simp add: saiagent_fdb_init_def agent_cb_set_eq)

lemma fdb_init_ok [wf_intros]: "agent_ok a \<Longrightarrow> agent_ok (snd (saiagent_fdb_init e a))"
  unfolding saiagent_fdb_init_def by (intro agent_cb_set_ok) simp_all

end
