(* ===== verification/Saiagent_Router.thy ===== *)
theory Saiagent_Router
  imports Saiagent_Agent
begin

text \<open>
  \<open>saiagent_router.c\<close>: the router commands, which the agent acknowledges without acting on
  them.
\<close>

section \<open>Operations\<close>

definition saiagent_ipc_process_router_vr_create :: "saiagent_msg \<Rightarrow> saiagent_msg \<Rightarrow> agent \<Rightarrow> (saiagent_msg \<times> agent) outcome" where
  "saiagent_ipc_process_router_vr_create request reply a =
     (let param = prestera_ret_init prestera_msg_vr_resp [''ret''] PRESTERA_CMD_ACK_OK (zeroed prestera_msg_vr_resp);
          param = wr_field prestera_msg_vr_resp [''vr_id''] (1 :: u16) param
      in bind_o (reply_data reply param a) (\<lambda>(reply, a).
         reply_ack reply RC_STATUS_OK a))"

definition saiagent_ipc_process_router_vr_del :: "saiagent_msg \<Rightarrow> saiagent_msg \<Rightarrow> agent \<Rightarrow> (saiagent_msg \<times> agent) outcome" where
  "saiagent_ipc_process_router_vr_del request reply a =
     bind_o (req_field prestera_msg_vr_req [''vr_id''] request) (\<lambda>vr_id :: u16.
       reply_ack reply RC_STATUS_OK a)"

definition saiagent_ipc_process_router_mp_hash_set :: "saiagent_msg \<Rightarrow> saiagent_msg \<Rightarrow> agent \<Rightarrow> (saiagent_msg \<times> agent) outcome" where
  "saiagent_ipc_process_router_mp_hash_set request reply a =
     bind_o (req_field prestera_msg_mp_req [''hash_policy''] request) (\<lambda>hash_policy :: u8.
       reply_ack reply RC_STATUS_OK a)"

definition saiagent_ipc_process_router_lpm_add :: "saiagent_msg \<Rightarrow> saiagent_msg \<Rightarrow> agent \<Rightarrow> (saiagent_msg \<times> agent) outcome" where
  "saiagent_ipc_process_router_lpm_add request reply a =
     bind_o (req_field prestera_msg_lpm_req [''dst'', ''u'', ''ipv4''] request) (\<lambda>ipv4 :: u32.
       reply_ack reply RC_STATUS_OK a)"

definition saiagent_ipc_process_router_lpm_del :: "saiagent_msg \<Rightarrow> saiagent_msg \<Rightarrow> agent \<Rightarrow> (saiagent_msg \<times> agent) outcome" where
  "saiagent_ipc_process_router_lpm_del request reply a =
     bind_o (req_field prestera_msg_lpm_req [''dst'', ''u'', ''ipv4''] request) (\<lambda>ipv4 :: u32.
       reply_ack reply RC_STATUS_OK a)"

text \<open>\<open>status\<close> is declared without a value.\<close>

definition saiagent_router_init :: "env \<Rightarrow> agent \<Rightarrow> saiagent_rc_t \<times> agent" where
  "saiagent_router_init e a =
     agent_cb_set PRESTERA_CMD_TYPE_ROUTER_LPM_DELETE Process_router_lpm_del
       (agent_cb_set PRESTERA_CMD_TYPE_ROUTER_LPM_ADD Process_router_lpm_add
         (agent_cb_set PRESTERA_CMD_TYPE_ROUTER_VR_DELETE Process_router_vr_del
           (agent_cb_set PRESTERA_CMD_TYPE_ROUTER_VR_CREATE Process_router_vr_create
             (agent_cb_set PRESTERA_CMD_TYPE_ROUTER_MP_HASH_SET Process_router_mp_hash_set
               (uninit_status e Router_Init, a)))))"

section \<open>Lemmas\<close>

text \<open>The structure \<open>vr_create\<close> fills in, and drops.\<close>

definition vr_resp_bytes :: "u8 list" where
  "vr_resp_bytes = le_bytes 4 PRESTERA_CMD_TYPE_ACK @ le_bytes 4 PRESTERA_CMD_ACK_OK @ le_bytes 2 (1 :: u16) @ [0, 0]"

lemma vr_resp_eq:
  "wr_field prestera_msg_vr_resp [''vr_id''] (1 :: u16)
     (prestera_ret_init prestera_msg_vr_resp [''ret''] PRESTERA_CMD_ACK_OK (zeroed prestera_msg_vr_resp)) = vr_resp_bytes"
  by (simp add: vr_resp_bytes_def prestera_ret_init_def wr_field_def zeroed_def patch_def numeral_eq_Suc
      del: le_bytes.simps)

lemma good_reply_vr_resp: "good_reply vr_resp_bytes"
  unfolding vr_resp_bytes_def by (rule good_reply_header) simp_all

lemma vr_create_eq:
  assumes "reply_ok reply"
  shows "\<exists>m. saiagent_ipc_process_router_vr_create request reply a = Inr (m, a) \<and> reply_ok m \<and>
      written m = ack_response RC_STATUS_OK \<and> payload_size m = 8"
proof -
  have "4 dvd length vr_resp_bytes" "length vr_resp_bytes \<le> SAIAGENT_MSG_MAX_SIZE"
    using good_reply_vr_resp by (auto simp: good_reply_def)
  from reply_data_ok [OF assms this, of a] obtain m where m: "reply_data reply vr_resp_bytes a = Inr (m, a)" "reply_ok m"
    by blast
  with reply_ack_ok [OF m(2), of RC_STATUS_OK a] show ?thesis
    by (simp add: saiagent_ipc_process_router_vr_create_def vr_resp_eq)
qed

lemma router_acks:
  assumes "request_ok request"
  shows "saiagent_ipc_process_router_vr_del request reply a = reply_ack reply RC_STATUS_OK a"
    "saiagent_ipc_process_router_mp_hash_set request reply a = reply_ack reply RC_STATUS_OK a"
    "saiagent_ipc_process_router_lpm_add request reply a = reply_ack reply RC_STATUS_OK a"
    "saiagent_ipc_process_router_lpm_del request reply a = reply_ack reply RC_STATUS_OK a"
  by (simp_all add: saiagent_ipc_process_router_vr_del_def saiagent_ipc_process_router_mp_hash_set_def
      saiagent_ipc_process_router_lpm_add_def saiagent_ipc_process_router_lpm_del_def req_field_eq [OF assms])

lemma handler_ok_router [wf_intros]:
  "handler_ok saiagent_ipc_process_router_vr_create"
  "handler_ok saiagent_ipc_process_router_vr_del"
  "handler_ok saiagent_ipc_process_router_mp_hash_set"
  "handler_ok saiagent_ipc_process_router_lpm_add"
  "handler_ok saiagent_ipc_process_router_lpm_del"
proof -
  show "handler_ok saiagent_ipc_process_router_vr_create"
  proof (rule handler_okI)
    fix request reply a reply' a'
    assume "agent_ok a" "reply_ok reply" and r: "saiagent_ipc_process_router_vr_create request reply a = Inr (reply', a')"
    with vr_create_eq [of reply request a] show "agent_ok a' \<and> reply_ok reply' \<and> good_reply (written reply')"
      by (auto simp: good_reply_ack)
  qed
qed (rule handler_okI, auto simp: router_acks dest!: reply_ackD)+

lemma router_init_eq:
  "saiagent_router_init e a = (uninit_status e Router_Init, a\<lparr>ipc := (ipc a)\<lparr>ipc_cb_list := (ipc_cb_list (ipc a))
     (PRESTERA_CMD_TYPE_ROUTER_MP_HASH_SET := Some Process_router_mp_hash_set,
      PRESTERA_CMD_TYPE_ROUTER_VR_CREATE := Some Process_router_vr_create,
      PRESTERA_CMD_TYPE_ROUTER_VR_DELETE := Some Process_router_vr_del,
      PRESTERA_CMD_TYPE_ROUTER_LPM_ADD := Some Process_router_lpm_add,
      PRESTERA_CMD_TYPE_ROUTER_LPM_DELETE := Some Process_router_lpm_del)\<rparr>\<rparr>)"
  by (simp add: saiagent_router_init_def agent_cb_set_eq)

lemma router_init_ok [wf_intros]: "agent_ok a \<Longrightarrow> agent_ok (snd (saiagent_router_init e a))"
  unfolding saiagent_router_init_def by (intro agent_cb_set_ok) simp_all

section \<open>Properties\<close>

text \<open>
  Creating a virtual router does not report its identifier: the 12-byte response with
  \<open>vr_id\<close> is written into the reply and then replaced by the plain 8-byte acknowledgement.
\<close>

theorem vr_create_drops_id:
  assumes "reply_ok reply"
  shows "\<exists>m. saiagent_ipc_process_router_vr_create request reply a = Inr (m, a) \<and> payload_size m = 8 \<and>
    written m = le_bytes 4 PRESTERA_CMD_TYPE_ACK @ le_bytes 4 PRESTERA_CMD_ACK_OK \<and>
    length (written m) < csize prestera_msg_vr_resp"
  using vr_create_eq [OF assms, of request a] by (auto simp: ack_response_bytes)

theorem vr_create_drops_id_witness:
  "\<exists>m. saiagent_ipc_process_router_vr_create (request_msg [] 0) (reply_msg (replicate 1500 0)) agent_start =
      Inr (m, agent_start) \<and> length (written m) < csize prestera_msg_vr_resp"
proof -
  have "reply_ok (reply_msg (replicate 1500 0))" by simp
  from vr_create_drops_id [OF this, of "request_msg [] 0" agent_start] show ?thesis by blast
qed

end
