(* ===== verification/Saiagent_Switch.thy ===== *)
theory Saiagent_Switch
  imports Saiagent_Vlan Saiagent_Fdb Saiagent_Router
begin

text \<open>
  \<open>saiagent_switch.c\<close>: creating and removing the switch, the switch handlers, the keepalive
  routine and the handler of port notifications.
\<close>

section \<open>Port notifications\<close>

text \<open>The values of \<open>sai_port_oper_status_t\<close> the code tells apart.\<close>

datatype sai_port_oper_status_t = SAI_PORT_OPER_STATUS_UP | Other_Oper_Status

record sai_port_oper_status_notification =
  port_id :: sai_object_id_t
  port_state :: sai_port_oper_status_t

text \<open>One iteration of the loop: the local \<open>evt\<close>, whose content was \<open>evt\<close>, after the assignments.\<close>

definition port_event :: "sai_port_oper_status_notification \<Rightarrow> u8 list \<Rightarrow> u8 list" where
  "port_event d evt =
     (let t = prestera_msg_event_port;
          evt = wr_field t [''id'', ''type''] PRESTERA_EVENT_TYPE_PORT evt;
          evt = wr_field t [''id'', ''id''] PRESTERA_PORT_EVENT_MAC_STATE_CHANGED evt;
          evt = wr_field t [''port_id''] (ucast (port_id d) :: u32) evt;
          evt = wr_field t [''param'', '''', ''mac'', ''oper'']
                  (if port_state d = SAI_PORT_OPER_STATUS_UP then 1 else 0 :: u8) evt;
          evt = wr_field t [''param'', '''', ''mac'', ''speed''] (1000 :: u32) evt;
          evt = wr_field t [''param'', '''', ''mac'', ''mode''] (0 :: u32) evt;
          evt = wr_field t [''param'', '''', ''mac'', ''duplex''] (0 :: u8) evt;
          evt = wr_field t [''param'', '''', ''mac'', ''fc''] (0 :: u8) evt
      in wr_field t [''param'', '''', ''mac'', ''fec''] (0 :: u8) evt)"

fun port_events :: "env \<Rightarrow> nat \<Rightarrow> u8 list \<Rightarrow> sai_port_oper_status_notification list \<Rightarrow> agent \<Rightarrow> agent outcome" where
  "port_events e i evt [] a = Inr a"
| "port_events e i evt (d # data) a =
     (let evt = port_event d evt in
      bind_o (agent_send_event (event_calls e i) evt a) (\<lambda>(rc, a). port_events e (Suc i) evt data a))"

definition sai_on_port_state_change_notify ::
    "env \<Rightarrow> u8 list \<Rightarrow> sai_port_oper_status_notification list \<Rightarrow> agent \<Rightarrow> agent outcome" where
  "sai_on_port_state_change_notify e evt data a = port_events e 0 evt data a"

section \<open>Creating the switch\<close>

definition hw_type :: string where
  "hw_type = ''wm''"

text \<open>
  The two queries, as the expressions the macro repeats: on the local \<open>attr\<close>, whose list is the
  array \<open>port_list\<close> or \<open>br_port_list\<close> itself, so that the array changes whatever the status.
\<close>

definition switch_get_expr :: "sai_lib \<Rightarrow> sai_attribute_t list \<times> agent \<Rightarrow>
    (sai_status_t \<times> sai_attribute_t list \<times> agent) outcome" where
  "switch_get_expr sai s =
     bind_o (sai_get sai (Get_switch_attribute (switch_oid (sw_info (snd s)))) (fst s) (snd s)) (\<lambda>(st, attr, a).
       Inr (st, attr, a\<lparr>sw_info := (sw_info a)\<lparr>port_list := value_list (snd (attr ! 0))\<rparr>\<rparr>))"

definition bridge_get_expr :: "sai_lib \<Rightarrow> sai_attribute_t list \<times> agent \<Rightarrow>
    (sai_status_t \<times> sai_attribute_t list \<times> agent) outcome" where
  "bridge_get_expr sai s =
     bind_o (sai_get sai (Get_bridge_attribute (default_dot1q_bridge_oid (sw_info (snd s)))) (fst s) (snd s)) (\<lambda>(st, attr, a).
       Inr (st, attr, a\<lparr>sw_info := (sw_info a)\<lparr>br_port_list := value_list (snd (attr ! 0))\<rparr>\<rparr>))"

text \<open>\<open>sai_switch_init\<close> from the query of the bridge on, from the query of the switch on, and as a whole.\<close>

definition switch_init_bridge :: "sai_lib \<Rightarrow> agent \<Rightarrow> (sai_status_t \<times> agent) outcome" where
  "switch_init_bridge sai a =
     SAI_RET_ERR (bridge_get_expr sai) snd
         ([(SAI_BRIDGE_ATTR_PORT_LIST, Objlist OBJ_LIST_COUNT (br_port_list (sw_info a)))], a) (\<lambda>(attr, a).
     SAI_RET_ERR (status_expr sai (Set_switch_attribute (switch_oid (sw_info a))
         (SAI_SWITCH_ATTR_PORT_STATE_CHANGE_NOTIFY, Ptr Sai_on_port_state_change_notify))) id a (\<lambda>a.
     Inr (SAI_STATUS_SUCCESS, a)))"

definition switch_init_ports :: "sai_lib \<Rightarrow> agent \<Rightarrow> (sai_status_t \<times> agent) outcome" where
  "switch_init_ports sai a =
     SAI_RET_ERR (switch_get_expr sai) snd
         ([(SAI_SWITCH_ATTR_PORT_LIST, Objlist OBJ_LIST_COUNT (port_list (sw_info a))),
           (SAI_SWITCH_ATTR_DEFAULT_1Q_BRIDGE_ID, Oid SAI_NULL_OBJECT_ID),
           (SAI_SWITCH_ATTR_DEFAULT_VLAN_ID, Oid SAI_NULL_OBJECT_ID)], a) (\<lambda>(attr, a).
       if value_oid (snd (attr ! 1)) = SAI_NULL_OBJECT_ID then Inr (SAI_STATUS_FAILURE, a)
       else if value_oid (snd (attr ! 2)) = SAI_NULL_OBJECT_ID then Inr (SAI_STATUS_FAILURE, a)
       else
         switch_init_bridge sai (a\<lparr>sw_info := (sw_info a)\<lparr>num_ports := ucast (value_count (snd (attr ! 0))),
                   default_dot1q_bridge_oid := value_oid (snd (attr ! 1)),
                   default_vlan_oid := value_oid (snd (attr ! 2))\<rparr>\<rparr>))"

definition sai_switch_init :: "sai_lib \<Rightarrow> env \<Rightarrow> agent \<Rightarrow> (sai_status_t \<times> agent) outcome" where
  "sai_switch_init sai e a =
     SAI_RET_ERR (status_expr sai (Sai_api_query SAI_API_SWITCH)) id a (\<lambda>a.
     SAI_RET_ERR (status_expr sai (Sai_api_query SAI_API_BRIDGE)) id a (\<lambda>a.
       if \<not> malloc_hw_type_ok e then Inl Null_Deref
       else
         let (st, oid, a) = sai_create sai (Create_switch
                 [(SAI_SWITCH_ATTR_INIT_SWITCH, Booldata True),
                  (SAI_SWITCH_ATTR_SWITCH_PROFILE_ID, U32 0),
                  (SAI_SWITCH_ATTR_SWITCH_HARDWARE_INFO,
                   S8list (of_nat (length hw_type + 1)) (hw_type @ [CHR 0x00]))])
               (switch_oid (sw_info a)) a;
             a = a\<lparr>sw_info := (sw_info a)\<lparr>switch_oid := oid\<rparr>\<rparr>
         in
         SAI_RET_ERR (var_expr st) id a (\<lambda>a. switch_init_ports sai a)))"

section \<open>Handlers\<close>

text \<open>\<open>status\<close> is declared without a value, and returned when the SAI part fails.\<close>

definition saiagent_switch_init :: "sai_lib \<Rightarrow> env \<Rightarrow> agent \<Rightarrow> (saiagent_rc_t \<times> agent) outcome" where
  "saiagent_switch_init sai e a =
     bind_o (sai_switch_init sai e a) (\<lambda>(st, a).
       if st \<noteq> SAI_STATUS_SUCCESS then Inr (uninit_status e Switch_Init, a)
       else
         Inr (agent_cb_set PRESTERA_CMD_TYPE_KEEPALIVE_INIT Process_keepalive_init
               (agent_cb_set PRESTERA_CMD_TYPE_SWITCH_ATTR_SET Process_switch_attr_set
                 (agent_cb_set PRESTERA_CMD_TYPE_SWITCH_RESET Process_switch_reset
                   (uninit_status e Switch_Init, a)))))"

text \<open>The structure of the reply; one byte of it is padding.\<close>

definition switch_init_param :: "env \<Rightarrow> size_t \<Rightarrow> u8 list" where
  "switch_init_param e ports =
     (let t = prestera_msg_switch_init_resp;
          param = prestera_ret_init t [''ret''] PRESTERA_CMD_ACK_OK (patch 23 [padding e] (zeroed t));
          param = wr_field t [''port_count''] (ucast ports :: u32) param;
          param = wr_field t [''switch_id''] (1 :: u8) param;
          param = wr_field t [''mtu_max''] (1500 :: u32) param;
          param = wr_field t [''lag_max''] (16 :: u8) param;
          param = wr_field t [''lag_member_max''] (8 :: u8) param
      in wr_field t [''size_tbl_router_nexthop''] (1024 :: u32) param)"

definition saiagent_ipc_process_switch_init :: "sai_lib \<Rightarrow> env \<Rightarrow> saiagent_msg \<Rightarrow> saiagent_msg \<Rightarrow> agent \<Rightarrow> (saiagent_msg \<times> agent) outcome" where
  "saiagent_ipc_process_switch_init sai e request reply a =
     bind_o (saiagent_switch_init sai e a) (\<lambda>(status, a).
       if status \<noteq> RC_STATUS_OK then reply_ack reply RC_STATUS_ERR a
       else
         let param = switch_init_param e (num_ports (sw_info a));
             (status, a) = saiagent_port_init e a;
             (status, a) = saiagent_fdb_init e a
         in
         bind_o (saiagent_vlan_init sai e a) (\<lambda>(status, a).
           let (status, a) = saiagent_router_init e a in
           if status \<noteq> RC_STATUS_OK then reply_ack reply RC_STATUS_ERR a
           else reply_data reply param a))"

definition saiagent_ipc_process_switch_attr_set :: "saiagent_msg \<Rightarrow> saiagent_msg \<Rightarrow> agent \<Rightarrow> (saiagent_msg \<times> agent) outcome" where
  "saiagent_ipc_process_switch_attr_set request reply a =
     bind_o (req_field prestera_msg_switch_attr_req [''attr''] request) (\<lambda>attr :: u32.
       if attr = PRESTERA_CMD_SWITCH_ATTR_TRAP_POLICER then
         bind_o (req_field prestera_msg_switch_attr_req [''param'', ''trap_policer_profile''] request) (\<lambda>p :: u32.
           reply_ack reply RC_STATUS_OK a)
       else if attr = PRESTERA_CMD_SWITCH_ATTR_AGEING then
         bind_o (req_field prestera_msg_switch_attr_req [''param'', ''ageing_timeout_ms''] request) (\<lambda>p :: u32.
           reply_ack reply RC_STATUS_OK a)
       else if attr = PRESTERA_CMD_SWITCH_ATTR_MAC then
         bind_o (req_field prestera_msg_switch_attr_req [''param'', '''', ''mac''] request) (\<lambda>p :: 48 word.
           reply_ack reply RC_STATUS_OK a)
       else reply_ack reply RC_STATUS_OK a)"

definition pulse_event :: "u8 list" where
  "pulse_event =
     wr_field prestera_msg_event [''id''] (0 :: u16)
       (wr_field prestera_msg_event [''type''] PRESTERA_EVENT_TYPE_PULSE (zeroed prestera_msg_event))"

definition keepalive_routine :: "nl_env \<Rightarrow> agent \<Rightarrow> agent outcome" where
  "keepalive_routine nl a = bind_o (agent_send_event nl pulse_event a) (\<lambda>(rc, a). Inr a)"

text \<open>The 32-bit field is converted to the \<open>int\<close> parameter of \<open>saiagent_thread_create\<close>.\<close>

definition saiagent_ipc_process_keepalive_init :: "env \<Rightarrow> saiagent_msg \<Rightarrow> saiagent_msg \<Rightarrow> agent \<Rightarrow> (saiagent_msg \<times> agent) outcome" where
  "saiagent_ipc_process_keepalive_init e request reply a =
     bind_o (req_field prestera_msg_keepalive_init_req [''pulse_timeout_ms''] request) (\<lambda>pulse_timeout_ms :: u32.
       let (ctx, heap) = saiagent_thread_create (thread_calls e) Keepalive_routine None THREAD_TYPE_LOOP
                           (sint pulse_timeout_ms) (threads a);
           a = a\<lparr>threads := heap\<rparr>
       in
       (case ctx of
          None \<Rightarrow> reply_ack reply RC_STATUS_ERR a
        | Some p \<Rightarrow> reply_ack reply RC_STATUS_OK (a\<lparr>sw_info := (sw_info a)\<lparr>keepalive_ctx := Some p\<rparr>\<rparr>)))"

text \<open>
  The status of \<open>sai_api_query\<close> is not looked at: if it fails, \<open>sai_switch_api\<close> was never
  assigned and the next call goes through it.
\<close>

definition saiagent_ipc_process_switch_reset :: "sai_lib \<Rightarrow> env \<Rightarrow> saiagent_msg \<Rightarrow> saiagent_msg \<Rightarrow> agent \<Rightarrow> (saiagent_msg \<times> agent) outcome" where
  "saiagent_ipc_process_switch_reset sai e request reply a =
     bind_o
       (if switch_oid (sw_info a) \<noteq> SAI_NULL_OBJECT_ID then
          bind_o (saiagent_thread_stop (keepalive_ctx (sw_info a)) (threads a)) (\<lambda>(rc, heap).
            let a = a\<lparr>threads := heap\<rparr>;
                (st, a) = sai_status sai (Sai_api_query SAI_API_SWITCH) a
            in
            if st \<noteq> SAI_STATUS_SUCCESS then Inl Wild_Pointer
            else
              let (st, a) = sai_status sai (Remove_switch (switch_oid (sw_info a))) a in
              bind_o (saiagent_thread_destroy (thread_calls e) (keepalive_ctx (sw_info a)) (threads a)) (\<lambda>(rc, heap).
                let a = a\<lparr>threads := heap\<rparr>;
                    (rc, ctx) = saiagent_ipc_loop_stop (ipc a)
                in Inr (a\<lparr>ipc := ctx\<rparr>)))
        else Inr a)
       (\<lambda>a. reply_ack reply RC_STATUS_OK a)"

definition saiagent_switch_ipc_init :: "agent \<Rightarrow> saiagent_rc_t \<times> agent" where
  "saiagent_switch_ipc_init a =
     (let (rc, ctx) = saiagent_ipc_cb_set PRESTERA_CMD_TYPE_SWITCH_INIT Process_switch_init (ipc a)
      in (rc, a\<lparr>ipc := ctx\<rparr>))"

section \<open>Lemmas: events\<close>

text \<open>The event of a notification: every byte is assigned, so what the local held before does not matter.\<close>

definition port_event_bytes :: "sai_port_oper_status_notification \<Rightarrow> u8 list" where
  "port_event_bytes d =
     le_bytes 2 PRESTERA_EVENT_TYPE_PORT @ le_bytes 2 PRESTERA_PORT_EVENT_MAC_STATE_CHANGED @
     le_bytes 4 (ucast (port_id d) :: u32) @ le_bytes 4 (0 :: u32) @ le_bytes 4 (1000 :: u32) @
     [if port_state d = SAI_PORT_OPER_STATUS_UP then 1 else 0, 0, 0, 0]"

lemma length_port_event_bytes [simp]: "length (port_event_bytes d) = 20"
  by (simp add: port_event_bytes_def)

lemma patch_split: "length xs = off \<Longrightarrow> length ys = length ws \<Longrightarrow> patch off ys (xs @ ws @ zs) = xs @ ys @ zs"
  by (simp add: patch_def)

lemma port_event_eq:
  assumes "length evt = 20"
  shows "port_event d evt = port_event_bytes d"
proof -
  obtain x0 x2 x4 x8 x12 x16 x17 x18 x19 where
    evt: "evt = x0 @ x2 @ x4 @ x8 @ x12 @ [x16, x17, x18, x19 :: u8]" and
    len: "length x0 = 2" "length x2 = 2" "length x4 = 4" "length x8 = 4" "length x12 = 4"
  proof
    show "evt = slice 0 2 evt @ slice 2 2 evt @ slice 4 4 evt @ slice 8 4 evt @ slice 12 4 evt @
        [evt ! 16, evt ! 17, evt ! 18, evt ! 19]"
      using assms by (auto simp: slice_def numeral_eq_Suc length_Suc_conv)
  qed (use assms in \<open>simp_all add: length_slice\<close>)
  show ?thesis
    by (simp add: port_event_def port_event_bytes_def Let_def wr_field_def evt len patch_def del: le_bytes.simps)
      (simp add: numeral_eq_Suc)
qed

text \<open>All notifications give one event each, and none gets stuck.\<close>

lemma port_events_eq:
  assumes "length evt = 20"
  shows "\<exists>a' sent. port_events e i evt data a = Inr a' \<and>
    a' = a\<lparr>ipc := (ipc a)\<lparr>nl_sent := nl_sent (ipc a) @ sent\<rparr>\<rparr> \<and>
    sent = map (\<lambda>d. nl_message (ipc a) (port_event_bytes d) SAIAGENT_NL_TYPE_EVENT NL_AUTO_PID NL_AUTO_SEQ)
      (map snd (filter (\<lambda>(k, d). nl_send_ok (event_calls e k) 20) (zip [i..<i + length data] data)))"
  using assms
proof (induction data arbitrary: i evt a)
  case (Cons d data)
  let ?m = "nl_message (ipc a) (port_event_bytes d) SAIAGENT_NL_TYPE_EVENT NL_AUTO_PID NL_AUTO_SEQ"
  let ?b = "if nl_send_ok (event_calls e i) 20
    then a\<lparr>ipc := (ipc a)\<lparr>nl_sent := nl_sent (ipc a) @ [?m]\<rparr>\<rparr> else a"
  have step: "port_events e i evt (d # data) a = port_events e (Suc i) (port_event_bytes d) data ?b"
    using agent_send_event_eq [of "port_event_bytes d" "event_calls e i" a]
    by (simp add: port_event_eq [OF Cons.prems] Let_def)
  have msg: "nl_message (ipc ?b) = nl_message (ipc a)"
    by (intro ext) (simp add: nl_message_def)
  have upt: "[i..<i + length (d # data)] = i # [Suc i..<Suc i + length data]"
    by (simp add: upt_rec)
  from Cons.IH [of "port_event_bytes d" "Suc i" ?b] show ?case
    unfolding step msg upt by auto
qed simp

lemma pulse_event_eq: "pulse_event = le_bytes 2 PRESTERA_EVENT_TYPE_PULSE @ [0, 0]"
  by (simp add: pulse_event_def wr_field_def zeroed_def patch_def le_bytes_0 del: le_bytes.simps)
    (simp add: numeral_eq_Suc)

lemma keepalive_eq:
  "keepalive_routine nl a = Inr (if nl_send_ok nl 4
     then a\<lparr>ipc := (ipc a)\<lparr>nl_sent := nl_sent (ipc a) @
       [nl_message (ipc a) pulse_event SAIAGENT_NL_TYPE_EVENT NL_AUTO_PID NL_AUTO_SEQ]\<rparr>\<rparr>
     else a)"
proof -
  have "length pulse_event = 4" by (simp add: pulse_event_eq)
  then show ?thesis
    using agent_send_event_eq [of pulse_event nl a] by (simp add: keepalive_routine_def)
qed

section \<open>Lemmas: creating the switch\<close>

text \<open>What \<open>sai_switch_init\<close> leaves alone.\<close>

definition switch_frame :: "agent \<Rightarrow> agent \<Rightarrow> bool" where
  "switch_frame a a' \<longleftrightarrow> ipc a' = ipc a \<and> threads a' = threads a \<and> vlan_list a' = vlan_list a \<and>
     keepalive_ctx (sw_info a') = keepalive_ctx (sw_info a) \<and>
     length (port_list (sw_info a')) = length (port_list (sw_info a)) \<and>
     length (br_port_list (sw_info a')) = length (br_port_list (sw_info a)) \<and> (\<exists>l. sai_log a' = sai_log a @ l)"

lemma switch_frame_ok: "switch_frame a a' \<Longrightarrow> agent_ok a' = agent_ok a"
  by (auto simp: switch_frame_def agent_ok_def)

text \<open>The states of the two expressions: the attributes are as at first, up to what a get stores.\<close>

definition switch_got :: "agent \<Rightarrow> sai_attribute_t list \<times> agent \<Rightarrow> bool" where
  "switch_got a s \<longleftrightarrow> switch_frame a (snd s) \<and> switch_oid (sw_info (snd s)) = switch_oid (sw_info a) \<and>
     br_port_list (sw_info (snd s)) = br_port_list (sw_info a) \<and>
     (\<exists>m b y z. fst s = [(SAI_SWITCH_ATTR_PORT_LIST, Objlist m b), (SAI_SWITCH_ATTR_DEFAULT_1Q_BRIDGE_ID, Oid y),
       (SAI_SWITCH_ATTR_DEFAULT_VLAN_ID, Oid z)] \<and> length b = length (port_list (sw_info a)))"

definition bridge_got :: "agent \<Rightarrow> sai_attribute_t list \<times> agent \<Rightarrow> bool" where
  "bridge_got a s \<longleftrightarrow> switch_frame a (snd s) \<and> switch_oid (sw_info (snd s)) = switch_oid (sw_info a) \<and>
     default_dot1q_bridge_oid (sw_info (snd s)) = default_dot1q_bridge_oid (sw_info a) \<and>
     default_vlan_oid (sw_info (snd s)) = default_vlan_oid (sw_info a) \<and>
     (\<exists>m b. fst s = [(SAI_BRIDGE_ATTR_PORT_LIST, Objlist m b)] \<and> length b = length (br_port_list (sw_info a)))"

lemma switch_frame_refl [simp]: "switch_frame a a"
  by (simp add: switch_frame_def)

lemma switch_frame_trans: "switch_frame a b \<Longrightarrow> switch_frame b c \<Longrightarrow> switch_frame a c"
  unfolding switch_frame_def by force

lemma switch_got_start:
  "switch_got a ([(SAI_SWITCH_ATTR_PORT_LIST, Objlist n (port_list (sw_info a))),
     (SAI_SWITCH_ATTR_DEFAULT_1Q_BRIDGE_ID, Oid x), (SAI_SWITCH_ATTR_DEFAULT_VLAN_ID, Oid y)], a)"
  by (simp add: switch_got_def)

lemma bridge_got_start: "bridge_got a ([(SAI_BRIDGE_ATTR_PORT_LIST, Objlist n (br_port_list (sw_info a)))], a)"
  by (simp add: bridge_got_def)

lemma switch_got_step:
  assumes "switch_get_expr sai s = Inr (st, s')" "switch_got a s"
  shows "switch_got a s'"
proof -
  obtain m b y z where f: "fst s = [(SAI_SWITCH_ATTR_PORT_LIST, Objlist m b), (SAI_SWITCH_ATTR_DEFAULT_1Q_BRIDGE_ID, Oid y),
      (SAI_SWITCH_ATTR_DEFAULT_VLAN_ID, Oid z)]" "length b = length (port_list (sw_info a))"
    using assms(2) unfolding switch_got_def by blast
  from assms(1) obtain attr d where g: "sai_get sai (Get_switch_attribute (switch_oid (sw_info (snd s)))) (fst s) (snd s) = Inr (st, attr, d)"
    and s': "s' = (attr, d\<lparr>sw_info := (sw_info d)\<lparr>port_list := value_list (snd (attr ! 0))\<rparr>\<rparr>)"
    by (auto simp: switch_get_expr_def)
  from g f have d: "\<exists>l. d = (snd s)\<lparr>sai_log := sai_log (snd s) @ l\<rparr>" and "\<exists>rs. sai_store_all (fst s) rs = Inr attr"
    by (auto simp: sai_get_eq)
  with sai_store_all_shape obtain m' b' y' z' where "attr = [(SAI_SWITCH_ATTR_PORT_LIST, Objlist m' b'),
      (SAI_SWITCH_ATTR_DEFAULT_1Q_BRIDGE_ID, Oid y'), (SAI_SWITCH_ATTR_DEFAULT_VLAN_ID, Oid z')]" "length b' = length b"
    unfolding f(1) by (fastforce simp: list_all2_Cons1 same_shape_def)
  with d s' f(2) assms(2) show ?thesis
    by (auto simp: switch_got_def switch_frame_def value_list_def)
qed

lemma bridge_got_step:
  assumes "bridge_get_expr sai s = Inr (st, s')" "bridge_got a s"
  shows "bridge_got a s'"
proof -
  obtain m b where f: "fst s = [(SAI_BRIDGE_ATTR_PORT_LIST, Objlist m b)]" "length b = length (br_port_list (sw_info a))"
    using assms(2) unfolding bridge_got_def by blast
  from assms(1) obtain attr d where g: "sai_get sai (Get_bridge_attribute (default_dot1q_bridge_oid (sw_info (snd s)))) (fst s) (snd s) =
      Inr (st, attr, d)"
    and s': "s' = (attr, d\<lparr>sw_info := (sw_info d)\<lparr>br_port_list := value_list (snd (attr ! 0))\<rparr>\<rparr>)"
    by (auto simp: bridge_get_expr_def)
  from g f have d: "\<exists>l. d = (snd s)\<lparr>sai_log := sai_log (snd s) @ l\<rparr>" and "\<exists>rs. sai_store_all (fst s) rs = Inr attr"
    by (auto simp: sai_get_eq)
  with sai_store_all_shape obtain m' b' where "attr = [(SAI_BRIDGE_ATTR_PORT_LIST, Objlist m' b')]" "length b' = length b"
    unfolding f(1) by (fastforce simp: list_all2_Cons1 same_shape_def)
  with d s' f(2) assms(2) show ?thesis
    by (auto simp: bridge_got_def switch_frame_def value_list_def)
qed

text \<open>Through the macro with an invariant of its expression.\<close>

lemma SAI_RET_ERR_inv:
  assumes "SAI_RET_ERR ex ag s k = Inr (st, a')" "I s" "\<And>s st s'. ex s = Inr (st, s') \<Longrightarrow> I s \<Longrightarrow> I s'"
  obtains (failed) s' where "I s'" "a' = ag s'"
    | (going_on) s' where "I s'" "k s' = Inr (st, a')"
  using assms by (blast elim: SAI_RET_ERR_E)

lemma status_expr_frame:
  assumes "SAI_RET_ERR (status_expr sai c) id a k = Inr (st, a')"
    "\<And>b. switch_frame a b \<Longrightarrow> k b = Inr (st, a') \<Longrightarrow> switch_frame b a'"
  shows "switch_frame a a'"
  using assms(1)
proof (rule SAI_RET_ERR_E)
  fix s1
  assume s1: "status_expr sai c a = Inr (SAI_STATUS_SUCCESS, s1)" "k s1 = Inr (st, a')"
  then have "switch_frame a s1" by (auto simp: status_expr_eq switch_frame_def)
  with assms(2) s1(2) show ?thesis by (blast intro: switch_frame_trans)
qed (auto simp: status_expr_eq switch_frame_def)

lemma bridge_part_frame:
  assumes "switch_init_bridge sai a = Inr (st, a')"
  shows "switch_frame a a'"
  using assms unfolding switch_init_bridge_def
proof (rule SAI_RET_ERR_inv [where I = "bridge_got a", OF _ bridge_got_start])
  fix s
  assume "bridge_got a s" "(case s of (attr, a) \<Rightarrow>
      SAI_RET_ERR (status_expr sai (Set_switch_attribute (switch_oid (sw_info a))
         (SAI_SWITCH_ATTR_PORT_STATE_CHANGE_NOTIFY, Ptr Sai_on_port_state_change_notify))) id a
       (\<lambda>a. Inr (SAI_STATUS_SUCCESS, a))) = Inr (st, a')"
  moreover from this(2) have "switch_frame (snd s) a'"
    by (cases s) (auto elim!: status_expr_frame)
  ultimately show "switch_frame a a'" by (auto simp: bridge_got_def intro: switch_frame_trans)
qed (erule bridge_got_step, assumption, simp add: bridge_got_def)

lemma ports_part_frame:
  assumes "switch_init_ports sai a = Inr (st, a')"
  shows "switch_frame a a'"
  using assms unfolding switch_init_ports_def
proof (rule SAI_RET_ERR_inv [where I = "switch_got a", OF _ switch_got_start])
  fix s
  assume s: "switch_got a s" and k: "(case s of (attr, a) \<Rightarrow>
      if value_oid (snd (attr ! 1)) = SAI_NULL_OBJECT_ID then Inr (SAI_STATUS_FAILURE, a)
      else if value_oid (snd (attr ! 2)) = SAI_NULL_OBJECT_ID then Inr (SAI_STATUS_FAILURE, a)
      else switch_init_bridge sai (a\<lparr>sw_info := (sw_info a)\<lparr>num_ports := ucast (value_count (snd (attr ! 0))),
               default_dot1q_bridge_oid := value_oid (snd (attr ! 1)), default_vlan_oid := value_oid (snd (attr ! 2))\<rparr>\<rparr>)) =
      Inr (st, a')"
  have "switch_frame (snd s) a'"
    using k by (cases s) (auto split: if_splits dest!: bridge_part_frame simp: switch_frame_def)
  with s show "switch_frame a a'" by (auto simp: switch_got_def intro: switch_frame_trans)
qed (erule switch_got_step, assumption, simp add: switch_got_def)

lemma switch_init_frame:
  assumes "sai_switch_init sai e a = Inr (st, a')"
  shows "switch_frame a a'"
  using assms unfolding sai_switch_init_def
proof (elim status_expr_frame)
  fix b
  let ?c = "Create_switch [(SAI_SWITCH_ATTR_INIT_SWITCH, Booldata True), (SAI_SWITCH_ATTR_SWITCH_PROFILE_ID, U32 0),
      (SAI_SWITCH_ATTR_SWITCH_HARDWARE_INFO, S8list (of_nat (length hw_type + 1)) (hw_type @ [CHR 0x00]))]"
  assume k: "(if \<not> malloc_hw_type_ok e then Inl Null_Deref
       else
         let (st, oid, a) = sai_create sai ?c (switch_oid (sw_info b)) b;
             a = a\<lparr>sw_info := (sw_info a)\<lparr>switch_oid := oid\<rparr>\<rparr>
         in SAI_RET_ERR (var_expr st) id a (\<lambda>a. switch_init_ports sai a)) = Inr (st, a')"
  have v: "switch_frame b a'" if "SAI_RET_ERR (var_expr x) id y (switch_init_ports sai) = Inr (st, a')" "switch_frame b y" for x y
    using that by (cases "x = SAI_STATUS_SUCCESS") (auto dest!: ports_part_frame intro: switch_frame_trans)
  from k obtain x y where "SAI_RET_ERR (var_expr x) id y (switch_init_ports sai) = Inr (st, a')"
      "\<exists>oid l. y = b\<lparr>sai_log := sai_log b @ l, sw_info := (sw_info b)\<lparr>switch_oid := oid\<rparr>\<rparr>"
    by (simp add: sai_create_eq Let_def split: if_splits) blast
  then show "switch_frame b a'" using v [of x y] by (auto simp: switch_frame_def)
qed

text \<open>With lists of at most 64 elements every part returns.\<close>

lemma switch_get_returns:
  assumes "sai_conforms sai" "sai_fits sai" "switch_got a s \<and> attrs_ok (fst s)"
  shows "\<exists>st s'. switch_get_expr sai s = Inr (st, s') \<and> switch_got a s' \<and> attrs_ok (fst s')"
proof -
  let ?c = "Get_switch_attribute (switch_oid (sw_info (snd s)))"
  have "attrs_ok (fst s)" "get_attrs (?c (fst s)) = fst s" using assms(3) by (simp_all add: get_attrs_def)
  from sai_get_returns [where c = ?c, OF assms(1,2) this, of "snd s"] obtain st s' where
    "switch_get_expr sai s = Inr (st, s')" "attrs_ok (fst s')" by (auto simp: switch_get_expr_def)
  with switch_got_step assms(3) show ?thesis by blast
qed

lemma bridge_get_returns:
  assumes "sai_conforms sai" "sai_fits sai" "bridge_got a s \<and> attrs_ok (fst s)"
  shows "\<exists>st s'. bridge_get_expr sai s = Inr (st, s') \<and> bridge_got a s' \<and> attrs_ok (fst s')"
proof -
  let ?c = "Get_bridge_attribute (default_dot1q_bridge_oid (sw_info (snd s)))"
  have "attrs_ok (fst s)" "get_attrs (?c (fst s)) = fst s" using assms(3) by (simp_all add: get_attrs_def)
  from sai_get_returns [where c = ?c, OF assms(1,2) this, of "snd s"] obtain st s' where
    "bridge_get_expr sai s = Inr (st, s')" "attrs_ok (fst s')" by (auto simp: bridge_get_expr_def)
  with bridge_got_step assms(3) show ?thesis by blast
qed

lemma bridge_part_returns:
  assumes "sai_conforms sai" "sai_fits sai" "length (br_port_list (sw_info a)) = OBJ_LIST_LEN"
  shows "\<exists>st a'. switch_init_bridge sai a = Inr (st, a')"
  unfolding switch_init_bridge_def
proof (rule SAI_RET_ERR_returns [where I = "\<lambda>s. bridge_got a s \<and> attrs_ok (fst s)", OF bridge_get_returns [OF assms(1,2)]])
  show "\<exists>st a'. (case s of (attr, a) \<Rightarrow>
      SAI_RET_ERR (status_expr sai (Set_switch_attribute (switch_oid (sw_info a))
         (SAI_SWITCH_ATTR_PORT_STATE_CHANGE_NOTIFY, Ptr Sai_on_port_state_change_notify))) id a
       (\<lambda>a. Inr (SAI_STATUS_SUCCESS, a))) = Inr (st, a')" for s
    by (cases s) (simp add: status_expr_returns)
qed (use assms(3) bridge_got_start in simp_all)

lemma ports_part_returns:
  assumes "sai_conforms sai" "sai_fits sai" "length (port_list (sw_info a)) = OBJ_LIST_LEN"
    "length (br_port_list (sw_info a)) = OBJ_LIST_LEN"
  shows "\<exists>st a'. switch_init_ports sai a = Inr (st, a')"
  unfolding switch_init_ports_def
proof (rule SAI_RET_ERR_returns [where I = "\<lambda>s. switch_got a s \<and> attrs_ok (fst s)", OF switch_get_returns [OF assms(1,2)]])
  fix s
  assume "switch_got a s \<and> attrs_ok (fst s)"
  then have len: "length (br_port_list (sw_info (snd s))) = OBJ_LIST_LEN"
    using assms(4) by (simp add: switch_got_def)
  show "\<exists>st a'. (case s of (attr, a) \<Rightarrow>
      if value_oid (snd (attr ! 1)) = SAI_NULL_OBJECT_ID then Inr (SAI_STATUS_FAILURE, a)
      else if value_oid (snd (attr ! 2)) = SAI_NULL_OBJECT_ID then Inr (SAI_STATUS_FAILURE, a)
      else switch_init_bridge sai (a\<lparr>sw_info := (sw_info a)\<lparr>num_ports := ucast (value_count (snd (attr ! 0))),
               default_dot1q_bridge_oid := value_oid (snd (attr ! 1)), default_vlan_oid := value_oid (snd (attr ! 2))\<rparr>\<rparr>)) =
      Inr (st, a')"
    by (cases s) (use len in \<open>auto intro!: bridge_part_returns [OF assms(1,2)]\<close>)
qed (use assms(3) switch_got_start in simp_all)

lemma switch_init_returns:
  assumes "sai_conforms sai" "sai_fits sai" "agent_ok a" "malloc_hw_type_ok e"
  shows "\<exists>st a'. sai_switch_init sai e a = Inr (st, a')"
proof -
  have v: "\<exists>st a'. SAI_RET_ERR (var_expr x) id y (switch_init_ports sai) = Inr (st, a')" if "agent_ok y" for x y
    using that ports_part_returns [OF assms(1,2)] by (cases "x = SAI_STATUS_SUCCESS") (simp_all add: agent_ok_def)
  have step: "\<exists>st s'. status_expr sai c s = Inr (st, s') \<and> agent_ok s'" if "agent_ok s" for c s
    using that by (simp add: status_expr_eq)
  show ?thesis
    unfolding sai_switch_init_def
    by (intro SAI_RET_ERR_returns [where I = agent_ok, OF step assms(3)] SAI_RET_ERR_returns [where I = agent_ok, OF step])
      (use assms(4) in \<open>auto simp: sai_create_eq Let_def agent_ok_def intro!: v\<close>)
qed

text \<open>The calls of a successful creation.\<close>

definition create_switch_call :: sai_call where
  "create_switch_call = Create_switch
     [(SAI_SWITCH_ATTR_INIT_SWITCH, Booldata True), (SAI_SWITCH_ATTR_SWITCH_PROFILE_ID, U32 0),
      (SAI_SWITCH_ATTR_SWITCH_HARDWARE_INFO, S8list 3 [CHR ''w'', CHR ''m'', CHR 0x00])]"

definition switch_query :: "sai_object_id_t \<Rightarrow> sai_object_id_t list \<Rightarrow> sai_call" where
  "switch_query sw ports = Get_switch_attribute sw
     [(SAI_SWITCH_ATTR_PORT_LIST, Objlist OBJ_LIST_COUNT ports),
      (SAI_SWITCH_ATTR_DEFAULT_1Q_BRIDGE_ID, Oid SAI_NULL_OBJECT_ID),
      (SAI_SWITCH_ATTR_DEFAULT_VLAN_ID, Oid SAI_NULL_OBJECT_ID)]"

definition bridge_query :: "sai_object_id_t \<Rightarrow> sai_object_id_t list \<Rightarrow> sai_call" where
  "bridge_query br ports = Get_bridge_attribute br [(SAI_BRIDGE_ATTR_PORT_LIST, Objlist OBJ_LIST_COUNT ports)]"

definition set_notify_call :: "sai_object_id_t \<Rightarrow> sai_call" where
  "set_notify_call sw = Set_switch_attribute sw
     (SAI_SWITCH_ATTR_PORT_STATE_CHANGE_NOTIFY, Ptr Sai_on_port_state_change_notify)"

lemma create_switch_call_eq:
  "Create_switch
     [(SAI_SWITCH_ATTR_INIT_SWITCH, Booldata True), (SAI_SWITCH_ATTR_SWITCH_PROFILE_ID, U32 0),
      (SAI_SWITCH_ATTR_SWITCH_HARDWARE_INFO, S8list (of_nat (length hw_type + 1)) (hw_type @ [CHR 0x00]))] =
   create_switch_call"
  by (simp add: create_switch_call_def hw_type_def)

text \<open>Through the macro to a success: the call succeeded, or its repetition did.\<close>

lemma status_expr_success:
  assumes "SAI_RET_ERR (status_expr sai c) id a k = Inr (SAI_STATUS_SUCCESS, a')"
  obtains (repeated) "retried a a'"
    | (made) b l where "made_calls [c] a b" "b = a\<lparr>sai_log := l\<rparr>" "k b = Inr (SAI_STATUS_SUCCESS, a')"
  using assms
proof (rule SAI_RET_ERR_E)
  fix st1 s1 s2
  assume "status_expr sai c a = Inr (st1, s1)" "st1 \<noteq> SAI_STATUS_SUCCESS" "status_expr sai c s1 = Inr (SAI_STATUS_SUCCESS, s2)"
    "a' = id s2"
  then show thesis by (intro repeated retriedI [where c = c and c' = c]) (auto simp: status_expr_eq)
next
  fix s1
  assume "status_expr sai c a = Inr (SAI_STATUS_SUCCESS, s1)" "k s1 = Inr (SAI_STATUS_SUCCESS, a')"
  then show thesis by (intro made [of s1]) (auto simp: status_expr_eq made_calls_def)
qed

lemma bridge_part_success:
  assumes "switch_init_bridge sai a = Inr (SAI_STATUS_SUCCESS, a')"
  shows "retried a a' \<or>
    made_calls [bridge_query (default_dot1q_bridge_oid (sw_info a)) (br_port_list (sw_info a)),
      set_notify_call (switch_oid (sw_info a))] a a' \<and>
    switch_oid (sw_info a') = switch_oid (sw_info a) \<and>
    default_dot1q_bridge_oid (sw_info a') = default_dot1q_bridge_oid (sw_info a) \<and>
    default_vlan_oid (sw_info a') = default_vlan_oid (sw_info a)"
  using assms unfolding switch_init_bridge_def
proof (rule SAI_RET_ERR_E)
  fix st1 s1 s2
  assume f: "bridge_get_expr sai ([(SAI_BRIDGE_ATTR_PORT_LIST, Objlist OBJ_LIST_COUNT (br_port_list (sw_info a)))], a) = Inr (st1, s1)"
    "st1 \<noteq> SAI_STATUS_SUCCESS" "bridge_get_expr sai s1 = Inr (SAI_STATUS_SUCCESS, s2)" "a' = snd s2"
  from bridge_got_step [OF f(1) bridge_got_start] have "map fst (fst s1) = [SAI_BRIDGE_ATTR_PORT_LIST]"
    "default_dot1q_bridge_oid (sw_info (snd s1)) = default_dot1q_bridge_oid (sw_info a)"
    by (auto simp: bridge_got_def)
  with f have "retried a a'"
    by (auto simp: bridge_get_expr_def sai_get_eq intro!: retriedI)
  then show ?thesis by blast
next
  fix s1
  assume f: "bridge_get_expr sai ([(SAI_BRIDGE_ATTR_PORT_LIST, Objlist OBJ_LIST_COUNT (br_port_list (sw_info a)))], a) =
      Inr (SAI_STATUS_SUCCESS, s1)"
    and k: "(case s1 of (attr, a) \<Rightarrow>
      SAI_RET_ERR (status_expr sai (Set_switch_attribute (switch_oid (sw_info a))
         (SAI_SWITCH_ATTR_PORT_STATE_CHANGE_NOTIFY, Ptr Sai_on_port_state_change_notify))) id a
       (\<lambda>a. Inr (SAI_STATUS_SUCCESS, a))) = Inr (SAI_STATUS_SUCCESS, a')"
  have s1: "switch_oid (sw_info (snd s1)) = switch_oid (sw_info a)"
    "default_dot1q_bridge_oid (sw_info (snd s1)) = default_dot1q_bridge_oid (sw_info a)"
    "default_vlan_oid (sw_info (snd s1)) = default_vlan_oid (sw_info a)"
    using bridge_got_step [OF f bridge_got_start] by (simp_all add: bridge_got_def)
  have m: "made_calls [bridge_query (default_dot1q_bridge_oid (sw_info a)) (br_port_list (sw_info a))] a (snd s1)"
    using f by (auto simp: bridge_get_expr_def sai_get_eq bridge_query_def made_calls_def)
  from k have "SAI_RET_ERR (status_expr sai (set_notify_call (switch_oid (sw_info a)))) id (snd s1)
      (\<lambda>a. Inr (SAI_STATUS_SUCCESS, a)) = Inr (SAI_STATUS_SUCCESS, a')"
    using s1 by (cases s1) (simp add: set_notify_call_def)
  then show ?thesis
  proof (cases rule: status_expr_success)
    case repeated
    with m show ?thesis by (blast intro: made_calls_retried)
  next
    case (made b l)
    from made_calls_trans [OF m made(1)] made(2,3) s1 show ?thesis by auto
  qed
qed

lemma ports_part_success:
  assumes "switch_init_ports sai a = Inr (SAI_STATUS_SUCCESS, a')"
  shows "retried a a' \<or>
    made_calls [switch_query (switch_oid (sw_info a)) (port_list (sw_info a)),
      bridge_query (default_dot1q_bridge_oid (sw_info a')) (br_port_list (sw_info a)),
      set_notify_call (switch_oid (sw_info a))] a a' \<and>
    switch_oid (sw_info a') = switch_oid (sw_info a) \<and>
    default_dot1q_bridge_oid (sw_info a') \<noteq> SAI_NULL_OBJECT_ID \<and> default_vlan_oid (sw_info a') \<noteq> SAI_NULL_OBJECT_ID"
  using assms unfolding switch_init_ports_def
proof (rule SAI_RET_ERR_E)
  fix st1 s1 s2
  assume f: "switch_get_expr sai ([(SAI_SWITCH_ATTR_PORT_LIST, Objlist OBJ_LIST_COUNT (port_list (sw_info a))),
      (SAI_SWITCH_ATTR_DEFAULT_1Q_BRIDGE_ID, Oid SAI_NULL_OBJECT_ID), (SAI_SWITCH_ATTR_DEFAULT_VLAN_ID, Oid SAI_NULL_OBJECT_ID)], a) =
      Inr (st1, s1)"
    "st1 \<noteq> SAI_STATUS_SUCCESS" "switch_get_expr sai s1 = Inr (SAI_STATUS_SUCCESS, s2)" "a' = snd s2"
  from switch_got_step [OF f(1) switch_got_start] have "switch_oid (sw_info (snd s1)) = switch_oid (sw_info a)"
    "map fst (fst s1) = [SAI_SWITCH_ATTR_PORT_LIST, SAI_SWITCH_ATTR_DEFAULT_1Q_BRIDGE_ID, SAI_SWITCH_ATTR_DEFAULT_VLAN_ID]"
    by (auto simp: switch_got_def)
  with f have "retried a a'"
    by (auto simp: switch_get_expr_def sai_get_eq intro!: retriedI)
  then show ?thesis by blast
next
  fix s1
  assume f: "switch_get_expr sai ([(SAI_SWITCH_ATTR_PORT_LIST, Objlist OBJ_LIST_COUNT (port_list (sw_info a))),
      (SAI_SWITCH_ATTR_DEFAULT_1Q_BRIDGE_ID, Oid SAI_NULL_OBJECT_ID), (SAI_SWITCH_ATTR_DEFAULT_VLAN_ID, Oid SAI_NULL_OBJECT_ID)], a) =
      Inr (SAI_STATUS_SUCCESS, s1)"
    and k: "(case s1 of (attr, a) \<Rightarrow>
      if value_oid (snd (attr ! 1)) = SAI_NULL_OBJECT_ID then Inr (SAI_STATUS_FAILURE, a)
      else if value_oid (snd (attr ! 2)) = SAI_NULL_OBJECT_ID then Inr (SAI_STATUS_FAILURE, a)
      else switch_init_bridge sai (a\<lparr>sw_info := (sw_info a)\<lparr>num_ports := ucast (value_count (snd (attr ! 0))),
               default_dot1q_bridge_oid := value_oid (snd (attr ! 1)), default_vlan_oid := value_oid (snd (attr ! 2))\<rparr>\<rparr>)) =
      Inr (SAI_STATUS_SUCCESS, a')"
  from k obtain d n x y where b: "switch_init_bridge sai d = Inr (SAI_STATUS_SUCCESS, a')"
    and d: "d = (snd s1)\<lparr>sw_info := (sw_info (snd s1))\<lparr>num_ports := n, default_dot1q_bridge_oid := x, default_vlan_oid := y\<rparr>\<rparr>"
      "x \<noteq> SAI_NULL_OBJECT_ID" "y \<noteq> SAI_NULL_OBJECT_ID"
    by (cases s1) (auto split: if_splits)
  have s1: "switch_oid (sw_info (snd s1)) = switch_oid (sw_info a)" "br_port_list (sw_info (snd s1)) = br_port_list (sw_info a)"
    using switch_got_step [OF f switch_got_start] by (simp_all add: switch_got_def)
  have m: "made_calls [switch_query (switch_oid (sw_info a)) (port_list (sw_info a))] a d"
    using f by (auto simp: switch_get_expr_def sai_get_eq switch_query_def made_calls_def d(1))
  from bridge_part_success [OF b] show ?thesis
  proof (elim disjE conjE)
    assume "retried d a'"
    with m show ?thesis by (blast intro: made_calls_retried)
  next
    assume "made_calls [bridge_query (default_dot1q_bridge_oid (sw_info d)) (br_port_list (sw_info d)),
        set_notify_call (switch_oid (sw_info d))] d a'"
      "switch_oid (sw_info a') = switch_oid (sw_info d)"
      "default_dot1q_bridge_oid (sw_info a') = default_dot1q_bridge_oid (sw_info d)"
      "default_vlan_oid (sw_info a') = default_vlan_oid (sw_info d)"
    with made_calls_trans [OF m this(1)] d s1 show ?thesis by simp
  qed
qed

lemma switch_init_calls:
  assumes "sai_switch_init sai e a = Inr (SAI_STATUS_SUCCESS, a')"
  shows "retried a a' \<or>
    made_calls [Sai_api_query SAI_API_SWITCH, Sai_api_query SAI_API_BRIDGE, create_switch_call,
      switch_query (switch_oid (sw_info a')) (port_list (sw_info a)),
      bridge_query (default_dot1q_bridge_oid (sw_info a')) (br_port_list (sw_info a)),
      set_notify_call (switch_oid (sw_info a'))] a a' \<and>
    default_dot1q_bridge_oid (sw_info a') \<noteq> SAI_NULL_OBJECT_ID \<and> default_vlan_oid (sw_info a') \<noteq> SAI_NULL_OBJECT_ID"
  using assms unfolding sai_switch_init_def create_switch_call_eq
proof (cases rule: status_expr_success)
  case (made b l)
  from made(3) show ?thesis
  proof (cases rule: status_expr_success)
    case repeated
    with made(1) show ?thesis by (blast intro: made_calls_retried)
  next
    case made': (made c l')
    have m: "made_calls [Sai_api_query SAI_API_SWITCH, Sai_api_query SAI_API_BRIDGE] a c"
      using made_calls_trans [OF made(1) made'(1)] by simp
    obtain d oid x where d: "d = (c\<lparr>sai_log := sai_log c @ [(create_switch_call, x)]\<rparr>)\<lparr>sw_info := (sw_info c)\<lparr>switch_oid := oid\<rparr>\<rparr>"
      and v: "SAI_RET_ERR (var_expr (ret_status x)) id d (switch_init_ports sai) = Inr (SAI_STATUS_SUCCESS, a')"
      using made'(3) by (auto simp: sai_create_eq Let_def split: if_splits)
    have ok: "ret_status x = SAI_STATUS_SUCCESS" using v by (cases "ret_status x = SAI_STATUS_SUCCESS") simp_all
    have md: "made_calls [Sai_api_query SAI_API_SWITCH, Sai_api_query SAI_API_BRIDGE, create_switch_call] a d"
      using made_calls_trans [OF m made_calls_call [OF ok, of d c]] by (simp add: d)
    have same: "port_list (sw_info d) = port_list (sw_info a)" "br_port_list (sw_info d) = br_port_list (sw_info a)"
      using made(2) made'(2) by (simp_all add: d)
    from v ok have "switch_init_ports sai d = Inr (SAI_STATUS_SUCCESS, a')" by simp
    from ports_part_success [OF this] show ?thesis
    proof (elim disjE conjE)
      assume "retried d a'"
      with md show ?thesis by (blast intro: made_calls_retried)
    next
      assume "made_calls [switch_query (switch_oid (sw_info d)) (port_list (sw_info d)),
          bridge_query (default_dot1q_bridge_oid (sw_info a')) (br_port_list (sw_info d)),
          set_notify_call (switch_oid (sw_info d))] d a'"
        "switch_oid (sw_info a') = switch_oid (sw_info d)"
        "default_dot1q_bridge_oid (sw_info a') \<noteq> SAI_NULL_OBJECT_ID" "default_vlan_oid (sw_info a') \<noteq> SAI_NULL_OBJECT_ID"
      with made_calls_trans [OF md this(1)] same show ?thesis by simp
    qed
  qed
qed blast

section \<open>Lemmas: the initialisation handler\<close>

lemma saiagent_switch_init_returns:
  assumes "sai_conforms sai" "sai_fits sai" "agent_ok a" "malloc_hw_type_ok e"
  shows "\<exists>a'. saiagent_switch_init sai e a = Inr (uninit_status e Switch_Init, a') \<and> agent_ok a'"
proof -
  obtain st b where b: "sai_switch_init sai e a = Inr (st, b)"
    using switch_init_returns [OF assms] by blast
  have ok: "agent_ok b" using switch_frame_ok [OF switch_init_frame [OF b]] assms(3) by simp
  let ?r = "agent_cb_set PRESTERA_CMD_TYPE_KEEPALIVE_INIT Process_keepalive_init
               (agent_cb_set PRESTERA_CMD_TYPE_SWITCH_ATTR_SET Process_switch_attr_set
                 (agent_cb_set PRESTERA_CMD_TYPE_SWITCH_RESET Process_switch_reset
                   (uninit_status e Switch_Init, b)))"
  have "agent_ok (snd ?r)" using ok by (intro agent_cb_set_ok) simp_all
  moreover have "fst ?r = uninit_status e Switch_Init" by (simp add: agent_cb_set_eq)
  ultimately show ?thesis
    using b ok by (cases ?r) (simp add: saiagent_switch_init_def)
qed

lemma saiagent_switch_init_ok:
  assumes "saiagent_switch_init sai e a = Inr (rc, a')" "agent_ok a"
  shows "agent_ok a'"
proof -
  obtain st b where b: "sai_switch_init sai e a = Inr (st, b)"
    and r: "(if st \<noteq> SAI_STATUS_SUCCESS then (uninit_status e Switch_Init, b)
       else agent_cb_set PRESTERA_CMD_TYPE_KEEPALIVE_INIT Process_keepalive_init
               (agent_cb_set PRESTERA_CMD_TYPE_SWITCH_ATTR_SET Process_switch_attr_set
                 (agent_cb_set PRESTERA_CMD_TYPE_SWITCH_RESET Process_switch_reset
                   (uninit_status e Switch_Init, b)))) = (rc, a')"
    using assms(1) by (auto simp: saiagent_switch_init_def split: if_splits)
  have ok: "agent_ok b" using switch_frame_ok [OF switch_init_frame [OF b]] assms(2) by simp
  then have "agent_ok (snd (agent_cb_set PRESTERA_CMD_TYPE_KEEPALIVE_INIT Process_keepalive_init
               (agent_cb_set PRESTERA_CMD_TYPE_SWITCH_ATTR_SET Process_switch_attr_set
                 (agent_cb_set PRESTERA_CMD_TYPE_SWITCH_RESET Process_switch_reset
                   (uninit_status e Switch_Init, b)))))"
    by (intro agent_cb_set_ok) simp_all
  with r ok show ?thesis by (auto split: if_splits)
qed

definition switch_init_bytes :: "u8 \<Rightarrow> size_t \<Rightarrow> u8 list" where
  "switch_init_bytes pad ports =
     le_bytes 4 PRESTERA_CMD_TYPE_ACK @ le_bytes 4 PRESTERA_CMD_ACK_OK @
     le_bytes 4 (ucast ports :: u32) @ le_bytes 4 (1500 :: u32) @ le_bytes 4 (1024 :: u32) @ [1, 16, 8, pad]"

lemma switch_init_param_eq: "switch_init_param e ports = switch_init_bytes (padding e) ports"
  by (simp add: switch_init_param_def switch_init_bytes_def Let_def prestera_ret_init_def wr_field_def zeroed_def
      patch_def numeral_eq_Suc del: le_bytes.simps) simp

lemma good_reply_switch_init: "good_reply (switch_init_bytes pad ports)"
  unfolding switch_init_bytes_def by (rule good_reply_header) simp_all

text \<open>
  The verdict of the handler does not depend on the SAI: once no access is out of bounds,
  it is the content of two locals that were never assigned.
\<close>

definition init_components :: "sai_lib \<Rightarrow> env \<Rightarrow> saiagent_msg \<Rightarrow> agent \<Rightarrow> (saiagent_msg \<times> agent) outcome" where
  "init_components sai e reply b =
     bind_o (saiagent_vlan_init sai e (snd (saiagent_fdb_init e (snd (saiagent_port_init e b))))) (\<lambda>(status, a).
       if uninit_status e Router_Init \<noteq> RC_STATUS_OK then reply_ack reply RC_STATUS_ERR (snd (saiagent_router_init e a))
       else reply_data reply (switch_init_bytes (padding e) (num_ports (sw_info b))) (snd (saiagent_router_init e a)))"

lemma init_components_result:
  assumes "agent_ok b" "reply_ok reply"
  shows "\<exists>m c. init_components sai e reply b = Inr (m, c) \<and>
      agent_ok c \<and> reply_ok m \<and> sw_info c = sw_info b \<and>
      written m = (if uninit_status e Router_Init = RC_STATUS_OK then switch_init_bytes (padding e) (num_ports (sw_info b))
        else ack_response RC_STATUS_ERR)"
proof -
  let ?b = "snd (saiagent_fdb_init e (snd (saiagent_port_init e b)))"
  have ok: "agent_ok ?b" using assms(1) by (intro fdb_init_ok port_init_ok)
  have sw: "sw_info ?b = sw_info b" by (simp add: fdb_init_eq port_init_eq)
  obtain rc c where c: "saiagent_vlan_init sai e ?b = Inr (rc, c)" using vlan_init_returns by blast
  define d where "d = snd (saiagent_router_init e c)"
  have d: "agent_ok d" unfolding d_def using vlan_init_ok [OF c ok] by (rule router_init_ok)
  have swd: "sw_info d = sw_info b" unfolding d_def using vlan_init_frame [OF c] sw by (simp add: router_init_eq)
  have len: "length (switch_init_bytes pad ports) = 24" for pad ports by (simp add: switch_init_bytes_def)
  show ?thesis
  proof (cases "uninit_status e Router_Init = RC_STATUS_OK")
    case True
    with reply_data_ok [OF assms(2), of "switch_init_bytes (padding e) (num_ports (sw_info b))" d] d swd
    show ?thesis by (auto simp: init_components_def c len simp flip: d_def)
  next
    case False
    with reply_ack_ok [OF assms(2), of RC_STATUS_ERR d] d swd
    show ?thesis by (auto simp: init_components_def c simp flip: d_def)
  qed
qed

lemma process_switch_init_eq:
  "saiagent_ipc_process_switch_init sai e request reply a =
    bind_o (saiagent_switch_init sai e a) (\<lambda>(status, b).
      if status \<noteq> RC_STATUS_OK then reply_ack reply RC_STATUS_ERR b else init_components sai e reply b)"
  by (simp add: saiagent_ipc_process_switch_init_def init_components_def switch_init_param_eq port_init_eq
      fdb_init_eq router_init_eq cong: if_cong)

lemma process_switch_init_result:
  assumes "sai_conforms sai" "sai_fits sai" "agent_ok a" "malloc_hw_type_ok e" "reply_ok reply"
  shows "\<exists>m a'. saiagent_ipc_process_switch_init sai e request reply a = Inr (m, a') \<and> agent_ok a' \<and> reply_ok m \<and>
    written m = (if uninit_status e Switch_Init = RC_STATUS_OK \<and> uninit_status e Router_Init = RC_STATUS_OK
      then switch_init_bytes (padding e) (num_ports (sw_info a')) else ack_response RC_STATUS_ERR)"
proof -
  obtain b where b: "saiagent_switch_init sai e a = Inr (uninit_status e Switch_Init, b)" "agent_ok b"
    using saiagent_switch_init_returns [OF assms(1-4)] by blast
  show ?thesis
  proof (cases "uninit_status e Switch_Init = RC_STATUS_OK")
    case True
    from init_components_result [OF b(2) assms(5), of sai e] obtain m c where
      "init_components sai e reply b = Inr (m, c)" "agent_ok c" "reply_ok m" "sw_info c = sw_info b"
      "written m = (if uninit_status e Router_Init = RC_STATUS_OK then switch_init_bytes (padding e) (num_ports (sw_info b))
        else ack_response RC_STATUS_ERR)"
      by blast
    with True b(1) show ?thesis
      by (intro exI [of _ m] exI [of _ c]) (simp add: process_switch_init_eq)
  next
    case False
    with reply_ack_ok [OF assms(5), of RC_STATUS_ERR b] b show ?thesis
      by (auto simp: process_switch_init_eq)
  qed
qed

lemma handler_ok_switch_init [wf_intros]: "handler_ok (saiagent_ipc_process_switch_init sai e)"
proof (rule handler_okI)
  fix request reply a reply' a'
  assume a: "agent_ok a" and reply: "reply_ok reply"
    and r: "saiagent_ipc_process_switch_init sai e request reply a = Inr (reply', a')"
  then obtain rc b where b: "saiagent_switch_init sai e a = Inr (rc, b)"
    by (auto simp: process_switch_init_eq)
  have ok: "agent_ok b" using saiagent_switch_init_ok [OF b a] .
  show "agent_ok a' \<and> reply_ok reply' \<and> good_reply (written reply')"
  proof (cases "rc = RC_STATUS_OK")
    case True
    with init_components_result [OF ok reply, of sai e] r show ?thesis
      by (auto simp: process_switch_init_eq b good_reply_ack good_reply_switch_init split: if_splits)
  next
    case False
    with r ok show ?thesis
      by (auto simp: process_switch_init_eq b dest!: reply_ackD [OF _ reply])
  qed
qed

section \<open>Lemmas: the other handlers\<close>

lemma switch_attr_set_eq:
  assumes "request_ok request"
  shows "saiagent_ipc_process_switch_attr_set request reply a = reply_ack reply RC_STATUS_OK a"
  by (simp add: saiagent_ipc_process_switch_attr_set_def req_field_eq [OF assms])

lemma handler_ok_switch_attr_set [wf_intros]: "handler_ok saiagent_ipc_process_switch_attr_set"
  by (rule handler_okI) (auto simp: switch_attr_set_eq dest!: reply_ackD)

lemma keepalive_init_eq:
  assumes "request_ok request"
  shows "saiagent_ipc_process_keepalive_init e request reply a =
    (if pthread_attr_init_rc (thread_calls e) = 0 \<and> calloc_ctx_ok (thread_calls e) \<and> pthread_create_rc (thread_calls e) = 0
     then reply_ack reply RC_STATUS_OK (a\<lparr>threads := threads a @ [Some \<lparr>tid = pthread_tid (thread_calls e),
              func = Keepalive_routine, udata = None, thread_running = 0, timeout = sint (req_word 4 4 request :: u32),
              thread_type = THREAD_TYPE_LOOP\<rparr>],
            sw_info := (sw_info a)\<lparr>keepalive_ctx := Some (length (threads a))\<rparr>\<rparr>)
     else reply_ack reply RC_STATUS_ERR a)"
  by (simp add: saiagent_ipc_process_keepalive_init_def req_field_eq [OF assms] saiagent_thread_create_def)

lemma handler_ok_keepalive_init [wf_intros]: "handler_ok (saiagent_ipc_process_keepalive_init e)"
proof (rule handler_okI)
  fix request reply a reply' a'
  assume a: "agent_ok a" and q: "request_ok request" and reply: "reply_ok reply"
    and r: "saiagent_ipc_process_keepalive_init e request reply a = Inr (reply', a')"
  have "agent_ok (a\<lparr>threads := threads a @ [t], sw_info := (sw_info a)\<lparr>keepalive_ctx := Some (length (threads a))\<rparr>\<rparr>)" for t
    using a by (simp add: agent_ok_def)
  with a r show "agent_ok a' \<and> reply_ok reply' \<and> good_reply (written reply')"
    by (auto simp: keepalive_init_eq [OF q] dest!: reply_ackD [OF _ reply] split: if_splits)
qed

lemma thread_stop_length:
  "saiagent_thread_stop p heap = Inr (rc, heap') \<Longrightarrow> length heap' = length heap"
  by (auto simp: saiagent_thread_stop_def)

lemma thread_destroy_length:
  "saiagent_thread_destroy te p heap = Inr (rc, heap') \<Longrightarrow> length heap' = length heap"
  by (auto simp: saiagent_thread_destroy_def Let_def split: option.splits if_splits)

lemma handler_ok_switch_reset [wf_intros]: "handler_ok (saiagent_ipc_process_switch_reset sai e)"
proof (rule handler_okI)
  fix request reply a reply' a'
  assume a: "agent_ok a" and reply: "reply_ok reply"
    and r: "saiagent_ipc_process_switch_reset sai e request reply a = Inr (reply', a')"
  show "agent_ok a' \<and> reply_ok reply' \<and> good_reply (written reply')"
  proof (cases "switch_oid (sw_info a) = SAI_NULL_OBJECT_ID")
    case True
    with a r show ?thesis
      by (auto simp: saiagent_ipc_process_switch_reset_def dest!: reply_ackD [OF _ reply])
  next
    case False
    with r obtain rc h rc' h' l where h: "saiagent_thread_stop (keepalive_ctx (sw_info a)) (threads a) = Inr (rc, h)"
        "saiagent_thread_destroy (thread_calls e) (keepalive_ctx (sw_info a)) h = Inr (rc', h')"
      and ack: "reply_ack reply RC_STATUS_OK (a\<lparr>sai_log := l, threads := h', ipc := (ipc a)\<lparr>running := 0\<rparr>\<rparr>) =
        Inr (reply', a')"
      by (auto simp: saiagent_ipc_process_switch_reset_def sai_status_eq Let_def saiagent_ipc_loop_stop_def
          split: if_splits)
    have "agent_ok (a\<lparr>sai_log := l, threads := h', ipc := (ipc a)\<lparr>running := 0\<rparr>\<rparr>)"
      using a thread_stop_length [OF h(1)] thread_destroy_length [OF h(2)] by (simp add: agent_ok_def)
    with reply_ackD [OF ack reply] show ?thesis by (simp add: good_reply_ack)
  qed
qed

section \<open>Lemmas: registering the handlers\<close>

text \<open>When none of its calls fails the VLAN part registers its five callbacks.\<close>

lemma default_init_clean:
  assumes "sai_vlan_default_init sai e a = Inr (st, a')" "clean a a'"
    "default_vlan_oid (sw_info a) \<noteq> SAI_NULL_OBJECT_ID" "calloc_vlan_ok e"
  shows "st = SAI_STATUS_SUCCESS"
  using assms(1) unfolding sai_vlan_default_init_def
proof (rule SAI_RET_ERR_E)
  fix s1
  let ?q = "Sai_api_query SAI_API_VLAN"
  assume s1: "status_expr sai ?q a = Inr (SAI_STATUS_SUCCESS, s1)"
    and k: "(let oid = saiagent_switch_get_default_vlan_oid s1 in
       if oid = SAI_NULL_OBJECT_ID then Inr (SAI_STATUS_FAILURE, s1)
       else
         SAI_RET_ERR (get_expr sai (Get_vlan_attribute oid)) snd ([(SAI_VLAN_ATTR_VLAN_ID, U16 0)], s1) (\<lambda>(attrs, a).
           (case saiagent_vlan_add_new (calloc_vlan_ok e) (value_u16 (snd (attrs ! 0))) oid (vlan_list a) of
              (None, l) \<Rightarrow> Inr (SAI_STATUS_FAILURE, a)
            | (Some v, l) \<Rightarrow> Inr (SAI_STATUS_SUCCESS, a\<lparr>vlan_list := l\<rparr>)))) = Inr (st, a')"
  have "default_vlan_oid (sw_info s1) \<noteq> SAI_NULL_OBJECT_ID" "sai_log s1 = sai_log a @ [(?q, sai (sai_log a) ?q)]"
    using s1 assms(3) by (auto simp: status_expr_eq)
  with k assms(2,4) show ?thesis
    by (auto simp: saiagent_switch_get_default_vlan_oid_def saiagent_vlan_add_new_def Let_def get_expr_def sai_get_eq clean_def
        elim!: SAI_RET_ERR_E)
qed (use assms(2) in \<open>auto simp: status_expr_eq clean_def\<close>)

lemma vlan_init_log:
  assumes "saiagent_vlan_init sai e a = Inr (rc, a')"
  shows "\<exists>l. sai_log a' = sai_log a @ l"
proof -
  have "\<exists>l. sai_log b = sai_log c @ l" if "sai_vlan_default_init sai e c = Inr (st, b)" for st b c
    using vlan_default_init_run [OF that] by (auto simp: vlan_run_def)
  with assms show ?thesis
    unfolding vlan_init_eq sai_status_eq by (fastforce split: if_splits)
qed

lemma vlan_init_clean:
  assumes "saiagent_vlan_init sai e a = Inr (rc, a')" "clean a a'"
    "default_vlan_oid (sw_info a) \<noteq> SAI_NULL_OBJECT_ID" "calloc_vlan_ok e"
  shows "ipc_cb_list (ipc a') = (ipc_cb_list (ipc a))
           (PRESTERA_CMD_TYPE_VLAN_CREATE := Some Process_vlan_create,
            PRESTERA_CMD_TYPE_VLAN_DELETE := Some Process_vlan_delete,
            PRESTERA_CMD_TYPE_VLAN_PORT_SET := Some Process_vlan_port_set,
            PRESTERA_CMD_TYPE_VLAN_PVID_SET := Some Process_vlan_pvid_set,
            PRESTERA_CMD_TYPE_STP_PORT_SET := Some Process_stp_port_set)"
proof -
  let ?log = "Sai_log_set SAI_API_VLAN SAI_LOG_LEVEL_DEBUG"
  let ?b = "a\<lparr>sai_log := sai_log a @ [(?log, sai (sai_log a) ?log)]\<rparr>"
  obtain st c where c: "sai_vlan_default_init sai e ?b = Inr (st, c)" using vlan_default_init_returns by blast
  have run: "only_vlan ?b c" by (rule vlan_default_init_run [OF c])
  then obtain l where l: "sai_log c = sai_log ?b @ l" by (auto simp: vlan_run_def)
  have ok: "ret_status (sai (sai_log a) ?log) = SAI_STATUS_SUCCESS"
    using assms(1,2) by (auto simp: vlan_init_eq sai_status_eq clean_def split: if_splits)
  then have log: "sai_log a' = sai_log c"
    using assms(1) by (auto simp: vlan_init_eq sai_status_eq c split: if_splits)
  with assms(2) l have "clean ?b c" by (simp add: clean_def)
  then have "st = SAI_STATUS_SUCCESS" using default_init_clean [OF c] assms(3,4) by simp
  with assms(1) ok show ?thesis
    using vlan_run_fields [OF run] by (auto simp: vlan_init_eq sai_status_eq c)
qed

lemma all_handlers:
  "(\<forall>cb. P cb) \<longleftrightarrow> P Process_switch_init \<and> P Process_switch_reset \<and> P Process_switch_attr_set \<and>
     P Process_keepalive_init \<and> P Process_port_info_get \<and> P Process_port_attr_set \<and> P Process_port_attr_get \<and>
     P Process_vlan_create \<and> P Process_vlan_delete \<and> P Process_vlan_port_set \<and> P Process_vlan_pvid_set \<and>
     P Process_stp_port_set \<and> P Process_fdb_flush_port \<and> P Process_router_vr_create \<and> P Process_router_vr_del \<and>
     P Process_router_mp_hash_set \<and> P Process_router_lpm_add \<and> P Process_router_lpm_del"
proof
  assume *: "P Process_switch_init \<and> P Process_switch_reset \<and> P Process_switch_attr_set \<and>
     P Process_keepalive_init \<and> P Process_port_info_get \<and> P Process_port_attr_set \<and> P Process_port_attr_get \<and>
     P Process_vlan_create \<and> P Process_vlan_delete \<and> P Process_vlan_port_set \<and> P Process_vlan_pvid_set \<and>
     P Process_stp_port_set \<and> P Process_fdb_flush_port \<and> P Process_router_vr_create \<and> P Process_router_vr_del \<and>
     P Process_router_mp_hash_set \<and> P Process_router_lpm_add \<and> P Process_router_lpm_del"
  show "\<forall>cb. P cb"
  proof
    fix cb
    show "P cb" using * by (cases cb) simp_all
  qed
qed simp

section \<open>Lemmas: resetting\<close>

text \<open>The three ways a context pointer can be followed.\<close>

lemma thread_deref_cases:
  assumes "agent_ok a"
  shows "thread_deref (keepalive_ctx (sw_info a)) (threads a) =
    (case keepalive_ctx (sw_info a) of None \<Rightarrow> Inl Null_Deref
     | Some p \<Rightarrow> case threads a ! p of None \<Rightarrow> Inl Dangling_Pointer | Some c \<Rightarrow> Inr c)"
  using assms by (auto simp: thread_deref_def agent_ok_def split: option.split)

lemma thread_deref_stopped:
  "p < length heap \<Longrightarrow> thread_deref (Some p) (heap[p := Some c]) = Inr c"
  by (simp add: thread_deref_def)

section \<open>Properties\<close>

text \<open>
  C13. Creating the switch.  When it succeeds these calls were made, in this order, and all
  of them succeeded: two API queries, \<open>create_switch\<close> with the hardware string \<open>wm\<close>, the
  query of the port list and the two default identifiers from the switch that was created,
  the query of the bridge ports from the default bridge, and the registration of the
  notification handler; and neither default identifier is null.  The one other way it returns
  success is \<open>retried\<close>: its last two calls are the same one, which failed, was repeated by
  \<open>SAI_RET_ERR\<close> and then succeeded.  Whatever it returns, the callbacks, the VLAN cache, the
  threads and the sizes of the arrays are as before, and calls are only added to the log.
\<close>

theorem switch_created:
  assumes "sai_switch_init sai e a = Inr (st, a')"
  shows "(st = SAI_STATUS_SUCCESS \<longrightarrow> retried a a' \<or>
      made_calls [Sai_api_query SAI_API_SWITCH, Sai_api_query SAI_API_BRIDGE, create_switch_call,
        switch_query (switch_oid (sw_info a')) (port_list (sw_info a)),
        bridge_query (default_dot1q_bridge_oid (sw_info a')) (br_port_list (sw_info a)),
        set_notify_call (switch_oid (sw_info a'))] a a' \<and>
      default_dot1q_bridge_oid (sw_info a') \<noteq> SAI_NULL_OBJECT_ID \<and> default_vlan_oid (sw_info a') \<noteq> SAI_NULL_OBJECT_ID) \<and>
    switch_frame a a'"
  using switch_init_calls switch_init_frame assms by blast

lemmas switch_eval = sai_switch_init_def switch_init_ports_def switch_init_bridge_def switch_get_expr_def bridge_get_expr_def
  var_expr_def sai_eval

lemma ok_lib_switch:
  "\<exists>a'. sai_switch_init ok_lib ok_env agent_start = Inr (SAI_STATUS_SUCCESS, a') \<and> switch_oid (sw_info a') = 102 \<and>
    num_ports (sw_info a') = 2 \<and> take 2 (br_port_list (sw_info a')) = [21, 22] \<and>
    default_vlan_oid (sw_info a') = 8 \<and> ipc a' = ipc agent_start \<and> length (sai_log a') = 6 \<and> clean agent_start a'"
proof -
  have n: "replicate 64 (0 :: sai_object_id_t) = 0 # 0 # replicate 62 0" by (simp add: numeral_eq_Suc)
  show ?thesis
    by (simp add: switch_eval ok_lib_eval agent_start_def n clean_def)
qed

theorem switch_created_witness:
  "\<exists>a'. sai_switch_init ok_lib ok_env agent_start = Inr (SAI_STATUS_SUCCESS, a') \<and> switch_oid (sw_info a') = 102 \<and>
    made_calls [Sai_api_query SAI_API_SWITCH, Sai_api_query SAI_API_BRIDGE, create_switch_call,
      switch_query 102 (replicate OBJ_LIST_LEN 0), bridge_query (default_dot1q_bridge_oid (sw_info a')) (replicate OBJ_LIST_LEN 0),
      set_notify_call 102] agent_start a'"
proof -
  obtain a' where r: "sai_switch_init ok_lib ok_env agent_start = Inr (SAI_STATUS_SUCCESS, a')" "switch_oid (sw_info a') = 102"
      "clean agent_start a'"
    using ok_lib_switch by blast
  have "port_list (sw_info agent_start) = replicate OBJ_LIST_LEN 0" "br_port_list (sw_info agent_start) = replicate OBJ_LIST_LEN 0"
    by (simp_all add: agent_start_def)
  with switch_created [OF r(1)] retried_not_clean r show ?thesis by auto
qed

text \<open>
  C15. The answer to \<open>SWITCH_INIT\<close> does not depend on the switch.  \<open>saiagent_switch_init\<close> and
  \<open>saiagent_router_init\<close> return a local that was never assigned: whatever the library
  answers, within its contract and with no list of more than 64 elements, the handler returns
  and the reply reports success exactly when both locals happened to hold zero, even
  if the switch could not be created, and failure otherwise, even if it was.
\<close>

theorem switch_init_verdict:
  assumes "sai_conforms sai" "sai_fits sai" "agent_ok a" "malloc_hw_type_ok e" "reply_ok reply"
  shows "\<exists>m a'. saiagent_ipc_process_switch_init sai e request reply a = Inr (m, a') \<and>
    (if uninit_status e Switch_Init = RC_STATUS_OK \<and> uninit_status e Router_Init = RC_STATUS_OK
     then length (written m) = 24 \<and> reply_status (written m) = PRESTERA_CMD_ACK_OK
     else length (written m) = 8 \<and> reply_status (written m) = PRESTERA_CMD_ACK_FAILED)"
proof -
  have bytes: "length (switch_init_bytes pad n) = 24 \<and> reply_status (switch_init_bytes pad n) = PRESTERA_CMD_ACK_OK" for pad n
    by (simp add: switch_init_bytes_def reply_status_def slice_def del: le_bytes.simps)
  from process_switch_init_result [OF assms, of request] bytes show ?thesis by fastforce
qed

text \<open>A library in which nothing succeeds.\<close>

definition failing_lib :: sai_lib where
  "failing_lib h c = \<lparr>ret_status = SAI_STATUS_FAILURE, ret_oid = None, ret_values = []\<rparr>"

lemma failing_lib_conforms: "sai_conforms failing_lib" "sai_fits failing_lib"
  by (simp_all add: sai_conforms_def sai_fits_def failing_lib_def)

theorem switch_init_verdict_witness:
  "\<exists>m a'. saiagent_ipc_process_switch_init failing_lib ok_env (request_bytes [1, 0, 0, 0]) fresh_reply agent_start =
    Inr (m, a') \<and> reply_status (written m) = PRESTERA_CMD_ACK_OK"
  using switch_init_verdict [OF failing_lib_conforms agent_ok_start _ reply_ok_fresh, of ok_env "request_bytes [1, 0, 0, 0]"]
  by (auto simp: ok_env_def)

text \<open>
  C7. \<open>SWITCH_RESET\<close>, every way it can end.  Without a switch it only acknowledges.  With
  one it follows the keepalive pointer first, so it reads through null when no keepalive
  was started and through a freed block when it was destroyed before; if the API query
  fails it calls through a pointer that was never set; it blocks if the thread never ends,
  and frees whatever the thread left as its value.  Otherwise the thread was stopped
  before the switch is removed and its context freed after it, unless the join failed, the
  loop is told to end, and the reply is \<open>OK\<close> whatever \<open>remove_switch\<close> returned.
\<close>

theorem reset_outcome:
  assumes "agent_ok a"
    "\<forall>p c. keepalive_ctx (sw_info a) = Some p \<longrightarrow> threads a ! p = Some c \<longrightarrow> thread_type c = THREAD_TYPE_LOOP"
  shows "saiagent_ipc_process_switch_reset sai e request reply a =
    (let query = Sai_api_query SAI_API_SWITCH; remove = Remove_switch (switch_oid (sw_info a));
         r = sai (sai_log a) query; l = sai_log a @ [(query, r)]; s = sai l remove in
     if switch_oid (sw_info a) = SAI_NULL_OBJECT_ID then reply_ack reply RC_STATUS_OK a
     else
       (case keepalive_ctx (sw_info a) of None \<Rightarrow> Inl Null_Deref
        | Some p \<Rightarrow>
       (case threads a ! p of None \<Rightarrow> Inl Dangling_Pointer
        | Some c \<Rightarrow>
          if ret_status r \<noteq> SAI_STATUS_SUCCESS then Inl Wild_Pointer
          else
            (case pthread_join_rc (thread_calls e) of None \<Rightarrow> Inl Blocked
             | Some j \<Rightarrow>
               if j = 0 \<and> loop_value (thread_calls e) = Other_Value then Inl Bad_Free
               else reply_ack reply RC_STATUS_OK (a\<lparr>sai_log := l @ [(remove, s)],
                 threads := (threads a)[p := if j = 0 then None else Some (c\<lparr>thread_running := 0\<rparr>)],
                 ipc := (ipc a)\<lparr>running := 0\<rparr>\<rparr>)))))"
proof (cases "switch_oid (sw_info a) = SAI_NULL_OBJECT_ID")
  case True
  then show ?thesis by (simp add: saiagent_ipc_process_switch_reset_def)
next
  case sw: False
  note deref = thread_deref_cases [OF assms(1)]
  show ?thesis
  proof (cases "keepalive_ctx (sw_info a)")
    case None
    with sw show ?thesis by (simp add: saiagent_ipc_process_switch_reset_def saiagent_thread_stop_def thread_deref_def)
  next
    case p: (Some p)
    then have len: "p < length (threads a)" using assms(1) by (simp add: agent_ok_def)
    show ?thesis
    proof (cases "threads a ! p")
      case None
      with sw p len show ?thesis by (simp add: saiagent_ipc_process_switch_reset_def saiagent_thread_stop_def thread_deref_def)
    next
      case c: (Some c)
      have type: "thread_type c = THREAD_TYPE_LOOP" using assms(2) p c by blast
      have stop: "saiagent_thread_stop (Some p) (threads a) = Inr (RC_STATUS_OK, (threads a)[p := Some (c\<lparr>thread_running := 0\<rparr>)])"
        using len c by (simp add: saiagent_thread_stop_def thread_deref_def)
      show ?thesis
        using sw p len
        by (simp add: saiagent_ipc_process_switch_reset_def stop c saiagent_thread_destroy_def thread_deref_stopped
            sai_status_eq Let_def saiagent_ipc_loop_stop_def thread_result_def type split: option.split)
    qed
  qed
qed

definition with_keepalive :: agent where
  "with_keepalive = two_ports\<lparr>threads := [Some \<lparr>tid = 9, func = Keepalive_routine, udata = None, thread_running = 1, timeout = 1000,
       thread_type = THREAD_TYPE_LOOP\<rparr>], sw_info := (sw_info two_ports)\<lparr>keepalive_ctx := Some 0\<rparr>\<rparr>"

theorem reset_outcome_witness:
  "\<exists>m a'. saiagent_ipc_process_switch_reset ok_lib ok_env (request_bytes [4, 0, 0, 0]) fresh_reply with_keepalive =
     Inr (m, a') \<and> map fst (sai_log a') = [Sai_api_query SAI_API_SWITCH, Remove_switch 5] \<and>
     threads a' = [None] \<and> running (ipc a') = 0"
proof -
  have ok: "agent_ok with_keepalive"
    by (simp add: with_keepalive_def two_ports_def agent_ok_def agent_start_def)
  have "\<forall>p c. keepalive_ctx (sw_info with_keepalive) = Some p \<longrightarrow> threads with_keepalive ! p = Some c \<longrightarrow>
      thread_type c = THREAD_TYPE_LOOP"
    by (auto simp: with_keepalive_def)
  note r = reset_outcome [where sai = ok_lib and e = ok_env and request = "request_bytes [4, 0, 0, 0]" and
      reply = fresh_reply, OF ok this]
  have "(\<exists>m a'. reply_ack fresh_reply RC_STATUS_OK x = Inr (m, a') \<and> P a') \<longleftrightarrow> P x" for x P
    using reply_ack_ok [OF reply_ok_fresh, of RC_STATUS_OK x] by (auto dest: reply_ack_state)
  then show ?thesis
    unfolding r by (simp add: with_keepalive_def two_ports_def ok_lib_def ok_env_def agent_start_def Let_def)
qed

text \<open>
  C32. A second \<open>KEEPALIVE_INIT\<close> loses the first thread: its context is still allocated and
  still running, but the pointer now designates the second one, so nothing can stop the
  first any more.  The interval is the request's field read as a signed number.
\<close>

theorem keepalive_init_leaks:
  assumes "request_ok q" "request_ok q'"
    "saiagent_ipc_process_keepalive_init e q reply a = Inr (m, b)"
    "saiagent_ipc_process_keepalive_init e' q' reply' b = Inr (m', c)"
    "pthread_attr_init_rc (thread_calls e) = 0 \<and> calloc_ctx_ok (thread_calls e) \<and> pthread_create_rc (thread_calls e) = 0"
    "pthread_attr_init_rc (thread_calls e') = 0 \<and> calloc_ctx_ok (thread_calls e') \<and> pthread_create_rc (thread_calls e') = 0"
  shows "\<exists>s t. threads c = threads a @ [Some s, Some t] \<and> keepalive_ctx (sw_info c) = Some (Suc (length (threads a))) \<and>
    tid s = pthread_tid (thread_calls e) \<and> timeout s = sint (req_word 4 4 q :: u32) \<and> timeout t = sint (req_word 4 4 q' :: u32)"
  using assms(3-)
  by (auto simp: keepalive_init_eq [OF assms(1)] keepalive_init_eq [OF assms(2)] dest!: reply_ack_state)


theorem keepalive_init_leaks_witness:
  "\<exists>m b m' c s t. saiagent_ipc_process_keepalive_init ok_env (request_bytes [3, 0, 0, 0, 0xE8, 3, 0, 0]) fresh_reply two_ports =
      Inr (m, b) \<and>
    saiagent_ipc_process_keepalive_init ok_env (request_bytes [3, 0, 0, 0, 0xD0, 7, 0, 0]) fresh_reply b = Inr (m', c) \<and>
    threads c = [Some s, Some t] \<and> keepalive_ctx (sw_info c) = Some 1 \<and> timeout s = 1000 \<and> timeout t = 2000"
proof -
  let ?q = "request_bytes [3, 0, 0, 0, 0xE8, 3, 0, 0]"
  let ?q' = "request_bytes [3, 0, 0, 0, 0xD0, 7, 0, 0]"
  have q: "request_ok ?q" "request_ok ?q'" by (rule request_ok_bytes, simp)+
  have env: "pthread_attr_init_rc (thread_calls ok_env) = 0 \<and> calloc_ctx_ok (thread_calls ok_env) \<and>
      pthread_create_rc (thread_calls ok_env) = 0"
    by (simp add: ok_env_def)
  obtain m b where b: "saiagent_ipc_process_keepalive_init ok_env ?q fresh_reply two_ports = Inr (m, b)"
    using reply_ack_ok [OF reply_ok_fresh] env by (simp add: keepalive_init_eq [OF q(1)]) blast
  obtain m' c where c: "saiagent_ipc_process_keepalive_init ok_env ?q' fresh_reply b = Inr (m', c)"
    using reply_ack_ok [OF reply_ok_fresh] env by (simp add: keepalive_init_eq [OF q(2)]) blast
  have "threads two_ports = []" by (simp add: two_ports_def agent_start_def)
  moreover have "sint (req_word 4 4 ?q :: u32) = 1000" "sint (req_word 4 4 ?q' :: u32) = 2000"
    by (simp_all add: req_word_def request_bytes_def request_msg_def slice_def)
  ultimately show ?thesis using keepalive_init_leaks [OF q b c env env] b c by auto
qed

text \<open>
  C33. The VLAN part of \<open>SWITCH_INIT\<close> can fail unnoticed.  When \<open>saiagent_vlan_init\<close> returns an
  error, for whatever reason (its own local \<open>status\<close> held zero, so the error is one it met), none
  of the five VLAN and STP entries of the callback table has changed since before the request;
  and if the locals of the switch and the router part held zero, the reply reports the
  switch as initialised.
\<close>

theorem vlan_failure_unnoticed:
  assumes "saiagent_switch_init sai e a = Inr (RC_STATUS_OK, b)" "uninit_status e Router_Init = RC_STATUS_OK"
    "saiagent_vlan_init sai e (snd (saiagent_fdb_init e (snd (saiagent_port_init e b)))) = Inr (rc, c)"
    "rc \<noteq> RC_STATUS_OK" "uninit_status e Vlan_Init = RC_STATUS_OK" "reply_ok reply"
    "cb \<in> {Process_vlan_create, Process_vlan_delete, Process_vlan_port_set, Process_vlan_pvid_set, Process_stp_port_set}"
  shows "\<exists>m a'. saiagent_ipc_process_switch_init sai e request reply a = Inr (m, a') \<and>
    reply_status (written m) = PRESTERA_CMD_ACK_OK \<and>
    ipc_cb_list (ipc a') (cb_command cb) = ipc_cb_list (ipc a) (cb_command cb)"
proof -
  let ?d = "snd (saiagent_fdb_init e (snd (saiagent_port_init e b)))"
  have keep: "ipc y = ipc x" if "sai_vlan_default_init sai e x = Inr (st, y)" for st x y
    using vlan_run_fields [OF vlan_default_init_run [OF that]] by simp
  have c: "ipc c = ipc ?d"
    using assms(3-5) unfolding vlan_init_eq sai_status_eq by (auto split: if_splits dest!: keep)
  have cb: "cb_command cb \<notin> {PRESTERA_CMD_TYPE_SWITCH_RESET, PRESTERA_CMD_TYPE_SWITCH_ATTR_SET, PRESTERA_CMD_TYPE_KEEPALIVE_INIT,
      PRESTERA_CMD_TYPE_PORT_INFO_GET, PRESTERA_CMD_TYPE_PORT_ATTR_SET, PRESTERA_CMD_TYPE_PORT_ATTR_GET,
      PRESTERA_CMD_TYPE_FDB_FLUSH_PORT, PRESTERA_CMD_TYPE_ROUTER_MP_HASH_SET, PRESTERA_CMD_TYPE_ROUTER_VR_CREATE,
      PRESTERA_CMD_TYPE_ROUTER_VR_DELETE, PRESTERA_CMD_TYPE_ROUTER_LPM_ADD, PRESTERA_CMD_TYPE_ROUTER_LPM_DELETE}"
    using assms(7) by auto
  have b: "ipc_cb_list (ipc b) (cb_command cb) = ipc_cb_list (ipc a) (cb_command cb)"
  proof -
    from assms(1) obtain st x where x: "sai_switch_init sai e a = Inr (st, x)"
      and "b = (if st = SAI_STATUS_SUCCESS then snd (agent_cb_set PRESTERA_CMD_TYPE_KEEPALIVE_INIT Process_keepalive_init
               (agent_cb_set PRESTERA_CMD_TYPE_SWITCH_ATTR_SET Process_switch_attr_set
                 (agent_cb_set PRESTERA_CMD_TYPE_SWITCH_RESET Process_switch_reset
                   (uninit_status e Switch_Init, x)))) else x)"
      by (auto simp: saiagent_switch_init_def split: if_splits)
    with cb switch_init_frame [OF x] show ?thesis by (auto simp: agent_cb_set_eq switch_frame_def)
  qed
  let ?bytes = "switch_init_bytes (padding e) (num_ports (sw_info b))"
  have len: "length ?bytes = 24" and st: "reply_status ?bytes = PRESTERA_CMD_ACK_OK"
    by (simp_all add: switch_init_bytes_def reply_status_def slice_def del: le_bytes.simps)
  have dvd: "4 dvd length ?bytes" "length ?bytes \<le> SAIAGENT_MSG_MAX_SIZE" by (simp_all add: len)
  obtain m where "reply_data reply ?bytes (snd (saiagent_router_init e c)) = Inr (m, snd (saiagent_router_init e c))"
      "written m = ?bytes"
    using reply_data_ok [OF assms(6) dvd] by blast
  moreover have "ipc_cb_list (ipc (snd (saiagent_router_init e c))) (cb_command cb) = ipc_cb_list (ipc b) (cb_command cb)"
    using cb by (auto simp: router_init_eq c fdb_init_eq port_init_eq)
  ultimately show ?thesis
    using assms(1-3) st b by (auto simp: process_switch_init_eq init_components_def)
qed

text \<open>The library of \<open>ok_lib\<close>, except that the VLAN log level cannot be set.\<close>

definition no_vlan_log_lib :: sai_lib where
  "no_vlan_log_lib h c = (if c = Sai_log_set SAI_API_VLAN SAI_LOG_LEVEL_DEBUG then failing_lib h c else ok_lib h c)"

theorem vlan_failure_unnoticed_witness:
  "\<exists>m a'. saiagent_ipc_process_switch_init no_vlan_log_lib ok_env (request_bytes [1, 0, 0, 0]) fresh_reply agent_start =
      Inr (m, a') \<and> reply_status (written m) = PRESTERA_CMD_ACK_OK \<and>
    ipc_cb_list (ipc a') PRESTERA_CMD_TYPE_VLAN_PORT_SET = None"
proof -
  have n: "replicate 64 (0 :: sai_object_id_t) = 0 # 0 # replicate 62 0" by (simp add: numeral_eq_Suc)
  have "\<exists>b. sai_switch_init no_vlan_log_lib ok_env agent_start = Inr (SAI_STATUS_SUCCESS, b)"
    by (simp add: switch_eval agent_start_def ok_lib_eval no_vlan_log_lib_def n)
  then obtain b where b: "saiagent_switch_init no_vlan_log_lib ok_env agent_start = Inr (RC_STATUS_OK, b)"
    by (auto simp: saiagent_switch_init_def agent_cb_set_eq ok_env_def)
  have env: "uninit_status ok_env Router_Init = RC_STATUS_OK" "uninit_status ok_env Vlan_Init = RC_STATUS_OK"
    by (simp_all add: ok_env_def)
  obtain c where "saiagent_vlan_init no_vlan_log_lib ok_env (snd (saiagent_fdb_init ok_env (snd (saiagent_port_init ok_env b)))) =
      Inr (RC_STATUS_ERR, c)"
    by (simp add: vlan_init_eq sai_status_eq no_vlan_log_lib_def failing_lib_def)
  from vlan_failure_unnoticed [OF b env(1) this _ env(2) reply_ok_fresh, of Process_vlan_port_set "request_bytes [1, 0, 0, 0]"]
  show ?thesis by (simp add: agent_start_def)
qed

text \<open>
  C14. A \<open>SWITCH_INIT\<close> of which nothing failed opens the whole protocol.  If the creation of the
  switch returned success, no SAI call of the request failed, the cache entry could be
  allocated and the local of the switch part held zero, then afterwards each of the other
  seventeen handlers is registered for its own command, and no other entry of the table has
  changed.
\<close>

theorem switch_init_registers:
  assumes "sai_switch_init sai e a = Inr (SAI_STATUS_SUCCESS, b)" "uninit_status e Switch_Init = RC_STATUS_OK"
    "calloc_vlan_ok e" "saiagent_ipc_process_switch_init sai e request reply a = Inr (m, a')" "clean a a'"
  shows "(\<forall>cb. cb \<noteq> Process_switch_init \<longrightarrow> ipc_cb_list (ipc a') (cb_command cb) = Some cb) \<and>
    (\<forall>c. (\<forall>cb. cb_command cb = c \<longrightarrow> cb = Process_switch_init) \<longrightarrow> ipc_cb_list (ipc a') c = ipc_cb_list (ipc a) c)"
proof -
  define b' where "b' = b\<lparr>ipc := (ipc b)\<lparr>ipc_cb_list := (ipc_cb_list (ipc b))
     (PRESTERA_CMD_TYPE_SWITCH_RESET := Some Process_switch_reset,
      PRESTERA_CMD_TYPE_SWITCH_ATTR_SET := Some Process_switch_attr_set,
      PRESTERA_CMD_TYPE_KEEPALIVE_INIT := Some Process_keepalive_init)\<rparr>\<rparr>"
  have i: "saiagent_switch_init sai e a = Inr (RC_STATUS_OK, b')"
    using assms(1,2) by (simp add: saiagent_switch_init_def agent_cb_set_eq b'_def)
  have ipc: "ipc b = ipc a" using switch_init_frame [OF assms(1)] by (simp add: switch_frame_def)
  let ?d = "snd (saiagent_fdb_init e (snd (saiagent_port_init e b')))"
  obtain rc c where c: "saiagent_vlan_init sai e ?d = Inr (rc, c)" using vlan_init_returns by blast
  have d: "sai_log ?d = sai_log b" by (simp add: fdb_init_eq port_init_eq b'_def)
  have a': "sai_log a' = sai_log c"
    using assms(4) by (auto simp: process_switch_init_eq i init_components_def c router_init_eq split: if_splits
        dest!: reply_ack_state reply_data_state)
  obtain l where "sai_log b = sai_log a @ l" using switch_init_frame [OF assms(1)] by (auto simp: switch_frame_def)
  moreover obtain l' where "sai_log c = sai_log ?d @ l'" using vlan_init_log [OF c] by blast
  ultimately have cl: "clean a b" "clean ?d c" using assms(5) a' d by (simp_all add: clean_def)
  have oid: "default_vlan_oid (sw_info ?d) \<noteq> SAI_NULL_OBJECT_ID"
    using switch_init_calls [OF assms(1)] retried_not_clean cl(1) by (auto simp: fdb_init_eq port_init_eq b'_def)
  note cb = vlan_init_clean [OF c cl(2) oid assms(3)]
  have "ipc_cb_list (ipc a') = ipc_cb_list (ipc (snd (saiagent_router_init e c)))"
    using assms(4) by (auto simp: process_switch_init_eq i init_components_def c split: if_splits
        dest!: reply_ack_state reply_data_state)
  then have cbs: "ipc_cb_list (ipc a') = (ipc_cb_list (ipc a))
     (PRESTERA_CMD_TYPE_SWITCH_RESET := Some Process_switch_reset,
      PRESTERA_CMD_TYPE_SWITCH_ATTR_SET := Some Process_switch_attr_set,
      PRESTERA_CMD_TYPE_KEEPALIVE_INIT := Some Process_keepalive_init,
      PRESTERA_CMD_TYPE_PORT_INFO_GET := Some Process_port_info_get,
      PRESTERA_CMD_TYPE_PORT_ATTR_SET := Some Process_port_attr_set,
      PRESTERA_CMD_TYPE_PORT_ATTR_GET := Some Process_port_attr_get,
      PRESTERA_CMD_TYPE_FDB_FLUSH_PORT := Some Process_fdb_flush_port,
      PRESTERA_CMD_TYPE_VLAN_CREATE := Some Process_vlan_create,
      PRESTERA_CMD_TYPE_VLAN_DELETE := Some Process_vlan_delete,
      PRESTERA_CMD_TYPE_VLAN_PORT_SET := Some Process_vlan_port_set,
      PRESTERA_CMD_TYPE_VLAN_PVID_SET := Some Process_vlan_pvid_set,
      PRESTERA_CMD_TYPE_STP_PORT_SET := Some Process_stp_port_set,
      PRESTERA_CMD_TYPE_ROUTER_MP_HASH_SET := Some Process_router_mp_hash_set,
      PRESTERA_CMD_TYPE_ROUTER_VR_CREATE := Some Process_router_vr_create,
      PRESTERA_CMD_TYPE_ROUTER_VR_DELETE := Some Process_router_vr_del,
      PRESTERA_CMD_TYPE_ROUTER_LPM_ADD := Some Process_router_lpm_add,
      PRESTERA_CMD_TYPE_ROUTER_LPM_DELETE := Some Process_router_lpm_del)"
    by (simp add: router_init_eq cb fdb_init_eq port_init_eq b'_def ipc)
  show ?thesis
  proof (intro conjI allI impI)
    show "ipc_cb_list (ipc a') (cb_command cb) = Some cb" if "cb \<noteq> Process_switch_init" for cb
      using that by (cases cb) (simp_all add: cbs)
    show "ipc_cb_list (ipc a') c = ipc_cb_list (ipc a) c" if "\<forall>cb. cb_command cb = c \<longrightarrow> cb = Process_switch_init" for c
      using that [unfolded all_handlers] by (auto simp: cbs)
  qed
qed

lemma ok_lib_vlan_init:
  assumes "default_vlan_oid (sw_info a) = 8"
  shows "\<exists>c. saiagent_vlan_init ok_lib ok_env a = Inr (RC_STATUS_OK, c) \<and> (\<exists>l. sai_log c = sai_log a @ l \<and> log_ok l)"
  using assms
  by (simp add: vlan_init_eq sai_vlan_default_init_def saiagent_switch_get_default_vlan_oid_def saiagent_vlan_add_new_def
      sai_eval ok_lib_eval)

theorem switch_init_registers_witness:
  "\<exists>m a'. saiagent_ipc_process_switch_init ok_lib ok_env (request_bytes [1, 0, 0, 0]) fresh_reply agent_start = Inr (m, a') \<and>
    ipc_cb_list (ipc a') PRESTERA_CMD_TYPE_VLAN_PORT_SET = Some Process_vlan_port_set \<and>
    ipc_cb_list (ipc a') 0x900 = None"
proof -
  obtain b where b: "sai_switch_init ok_lib ok_env agent_start = Inr (SAI_STATUS_SUCCESS, b)" "clean agent_start b"
      "default_vlan_oid (sw_info b) = 8"
    using ok_lib_switch by blast
  have env: "uninit_status ok_env Switch_Init = RC_STATUS_OK" "calloc_vlan_ok ok_env" "malloc_hw_type_ok ok_env"
    by (simp_all add: ok_env_def)
  obtain m a' where r: "saiagent_ipc_process_switch_init ok_lib ok_env (request_bytes [1, 0, 0, 0]) fresh_reply agent_start =
      Inr (m, a')"
    using process_switch_init_result [OF ok_lib_conforms ok_lib_fits agent_ok_start env(3) reply_ok_fresh] by blast
  obtain b' where b': "saiagent_switch_init ok_lib ok_env agent_start = Inr (RC_STATUS_OK, b')" "sai_log b' = sai_log b"
      "sw_info b' = sw_info b"
    using b(1) env(1) by (simp add: saiagent_switch_init_def agent_cb_set_eq)
  let ?d = "snd (saiagent_fdb_init ok_env (snd (saiagent_port_init ok_env b')))"
  have d: "default_vlan_oid (sw_info ?d) = 8" "sai_log ?d = sai_log b" using b' b(3) by (simp_all add: fdb_init_eq port_init_eq)
  obtain c l where c: "saiagent_vlan_init ok_lib ok_env ?d = Inr (RC_STATUS_OK, c)" "sai_log c = sai_log b @ l" "log_ok l"
    using ok_lib_vlan_init [OF d(1)] d(2) by auto
  have "sai_log a' = sai_log c"
    using r by (auto simp: process_switch_init_eq b'(1) init_components_def c(1) router_init_eq split: if_splits
        dest!: reply_ack_state reply_data_state)
  with b(2) c(2,3) have "clean agent_start a'" by (simp add: clean_def agent_start_def)
  from switch_init_registers [OF b(1) env(1,2) r this] show ?thesis
    using r by (intro exI [of _ m] exI [of _ a'])
      (auto simp: all_handlers agent_start_def dest: spec [of _ Process_vlan_port_set] spec [of _ "0x900"])
qed

text \<open>
  C31. A notification call sends one event for each port it names, in order, except those
  whose netlink calls fail.  Each is 20 bytes: the two event codes, the low 32 bits of the
  port's SAI identifier, and a MAC state of 1000 Mb/s whose \<open>oper\<close> byte is 1 exactly when the
  port is up.  What the local held before does not show, and nothing else changes.
\<close>

theorem port_notifications:
  assumes "length evt = 20"
  shows "\<exists>a' sent. sai_on_port_state_change_notify e evt data a = Inr a' \<and>
    a' = a\<lparr>ipc := (ipc a)\<lparr>nl_sent := nl_sent (ipc a) @ sent\<rparr>\<rparr> \<and>
    map out_tlv sent = map (\<lambda>d. Some (le_bytes 2 PRESTERA_EVENT_TYPE_PORT @ le_bytes 2 PRESTERA_PORT_EVENT_MAC_STATE_CHANGED @
        le_bytes 4 (ucast (port_id d) :: u32) @ le_bytes 4 (0 :: u32) @ le_bytes 4 (1000 :: u32) @
        [if port_state d = SAI_PORT_OPER_STATUS_UP then 1 else 0, 0, 0, 0]))
      (map snd (filter (\<lambda>(k, d). nl_send_ok (event_calls e k) 20) (zip [0..<length data] data))) \<and>
    (\<forall>m \<in> set sent. out_type m = SAIAGENT_NL_TYPE_EVENT \<and> out_pid m = NL_AUTO_PID \<and> out_seq m = NL_AUTO_SEQ)"
proof -
  have ne: "port_event_bytes d \<noteq> []" for d by (simp add: port_event_bytes_def)
  have tlv: "out_tlv (nl_message ctx (port_event_bytes d) t p q) = Some (port_event_bytes d)" for ctx d t p q
    using ne [of d] by (simp add: nl_message_def)
  let ?sent = "map (\<lambda>d. nl_message (ipc a) (port_event_bytes d) SAIAGENT_NL_TYPE_EVENT NL_AUTO_PID NL_AUTO_SEQ)
      (map snd (filter (\<lambda>(k, d). nl_send_ok (event_calls e k) 20) (zip [0..<length data] data)))"
  from port_events_eq [OF assms, of e 0 data a]
  have "sai_on_port_state_change_notify e evt data a = Inr (a\<lparr>ipc := (ipc a)\<lparr>nl_sent := nl_sent (ipc a) @ ?sent\<rparr>\<rparr>)"
    by (auto simp: sai_on_port_state_change_notify_def)
  moreover have "\<forall>m \<in> set ?sent. out_type m = SAIAGENT_NL_TYPE_EVENT \<and> out_pid m = NL_AUTO_PID \<and> out_seq m = NL_AUTO_SEQ"
    by (auto simp: nl_message_def)
  ultimately show ?thesis
    by (intro exI [of _ ?sent] exI conjI) (simp_all add: o_def tlv flip: port_event_bytes_def)
qed

theorem port_notifications_witness:
  "\<exists>a'. sai_on_port_state_change_notify ok_env (replicate 20 0xFF) [\<lparr>port_id = 11, port_state = SAI_PORT_OPER_STATUS_UP\<rparr>]
      agent_start = Inr a' \<and>
    map out_tlv (nl_sent (ipc a')) = [Some [1, 0, 1, 0, 11, 0, 0, 0, 0, 0, 0, 0, 0xE8, 3, 0, 0, 1, 0, 0, 0]]"
proof -
  let ?d = "\<lparr>port_id = 11, port_state = SAI_PORT_OPER_STATUS_UP\<rparr>"
  have bytes: "le_bytes 2 (1 :: u16) = [1, 0]" "le_bytes 4 (11 :: u32) = [11, 0, 0, 0]" "le_bytes 4 (0 :: u32) = [0, 0, 0, 0]"
    "le_bytes 4 (1000 :: u32) = [0xE8, 3, 0, 0]"
    by code_simp+
  have "nl_send_ok (event_calls ok_env 0) 20" by (simp add: ok_env_def nl_send_ok_def)
  moreover have "nl_sent (ipc agent_start) = []" by (simp add: agent_start_def)
  moreover have "length (replicate 20 (0xFF :: u8)) = 20" by simp
  note port_notifications [OF this, of ok_env "[?d]" agent_start]
  ultimately show ?thesis by (auto simp: bytes simp del: le_bytes.simps)
qed

end
