(* ===== verification/Saiagent_Loop.thy ===== *)
theory Saiagent_Loop
  imports Saiagent_Switch
begin

text \<open>
  The request loop \<open>saiagent_ipc_enter_loop\<close> with the callbacks it calls, and the agent as a
  transition system in which requests, port notifications and keepalive pulses come in any
  order.  The callbacks keep the contract \<open>ipc_callbacks\<close> of \<open>Saiagent_Ipc\<close>, from which the
  form of every reply follows.
\<close>

section \<open>Calling through a callback pointer\<close>

fun run_cb :: "sai_lib \<Rightarrow> env \<Rightarrow> saiagent_cb \<Rightarrow> saiagent_msg \<Rightarrow> saiagent_msg \<Rightarrow> agent \<Rightarrow> (saiagent_msg \<times> agent) outcome" where
  "run_cb sai e Process_switch_init = saiagent_ipc_process_switch_init sai e"
| "run_cb sai e Process_switch_reset = saiagent_ipc_process_switch_reset sai e"
| "run_cb sai e Process_switch_attr_set = saiagent_ipc_process_switch_attr_set"
| "run_cb sai e Process_keepalive_init = saiagent_ipc_process_keepalive_init e"
| "run_cb sai e Process_port_info_get = saiagent_ipc_process_port_info_get"
| "run_cb sai e Process_port_attr_set = saiagent_ipc_process_port_attr_set sai"
| "run_cb sai e Process_port_attr_get = saiagent_ipc_process_port_attr_get"
| "run_cb sai e Process_vlan_create = saiagent_ipc_process_vlan_create"
| "run_cb sai e Process_vlan_delete = saiagent_ipc_process_vlan_delete"
| "run_cb sai e Process_vlan_port_set = saiagent_ipc_process_vlan_port_set sai e"
| "run_cb sai e Process_vlan_pvid_set = saiagent_ipc_process_vlan_pvid_set sai"
| "run_cb sai e Process_stp_port_set = saiagent_ipc_process_stp_port_set"
| "run_cb sai e Process_fdb_flush_port = saiagent_ipc_process_fdb_flush_port"
| "run_cb sai e Process_router_vr_create = saiagent_ipc_process_router_vr_create"
| "run_cb sai e Process_router_vr_del = saiagent_ipc_process_router_vr_del"
| "run_cb sai e Process_router_mp_hash_set = saiagent_ipc_process_router_mp_hash_set"
| "run_cb sai e Process_router_lpm_add = saiagent_ipc_process_router_lpm_add"
| "run_cb sai e Process_router_lpm_del = saiagent_ipc_process_router_lpm_del"

lemma handler_ok_run_cb: "handler_ok (run_cb sai e cb)"
  by (cases cb) (simp_all add: wf_intros)

interpretation agent_cbs: ipc_callbacks "run_cb sai e" agent_ok for sai e
  by unfold_locales (metis handler_ok_def handler_ok_run_cb)

section \<open>The loop\<close>

text \<open>
  The two receive structures of \<open>saiagent_ipc_enter_loop\<close> with the agent's state; an input is
  what one turn of the loop meets: the result and the messages of \<open>nl_recvmsgs\<close>, the
  environment of the handler, and the netlink calls that send the reply.
\<close>

record loop_state =
  in_msg :: saiagent_nl_recv_msg
  out_msg :: saiagent_nl_recv_msg
  agent_of :: agent

record loop_input =
  rx_rc :: int
  rx_msgs :: "nl_in list"
  cb_env :: env
  reply_calls :: nl_env

definition ipc_turn :: "sai_lib \<Rightarrow> loop_input \<Rightarrow> loop_state \<Rightarrow> loop_state outcome" where
  "ipc_turn sai i s =
     bind_o (saiagent_ipc_recv (rx_rc i) (rx_msgs i) (in_msg s)) (\<lambda>(status, m).
       let s = s\<lparr>in_msg := m\<rparr> in
       if status \<noteq> RC_STATUS_OK then Inr s
       else
         bind_o (saiagent_ipc_process_req (run_cb sai (cb_env i)) (ipc_cb_list (ipc (agent_of s)))
                   (buf m) (recv_payload_size m) (buf (out_msg s)) (recv_size (out_msg s)) (agent_of s)) (\<lambda>(status, b, n, a).
           let s = s\<lparr>out_msg := (out_msg s)\<lparr>buf := b, recv_payload_size := n\<rparr>, agent_of := a\<rparr> in
           if status \<noteq> RC_STATUS_OK then Inr s
           else
             bind_o (saiagent_ipc_send (reply_calls i) (ipc a) (buf (out_msg s)) (recv_payload_size (out_msg s))
                       SAIAGENT_NL_TYPE_REPLY (pid m) (seq m)) (\<lambda>(status, ctx).
               Inr (s\<lparr>agent_of := a\<lparr>ipc := ctx\<rparr>\<rparr>))))"

text \<open>The loop over the inputs that arrive: it returns, or it waits for the next one.\<close>

datatype loop_result = Loop_Exit loop_state | Loop_Waits loop_state

fun ipc_loop :: "sai_lib \<Rightarrow> loop_input list \<Rightarrow> loop_state \<Rightarrow> loop_result outcome" where
  "ipc_loop sai [] s = Inr (if running (ipc (agent_of s)) = 0 then Loop_Exit s else Loop_Waits s)"
| "ipc_loop sai (i # is) s =
     (if running (ipc (agent_of s)) = 0 then Inr (Loop_Exit s) else bind_o (ipc_turn sai i s) (ipc_loop sai is))"

text \<open>
  The structures are locals: only \<open>size\<close> and \<open>buf\<close> are assigned before the loop.  \<open>m\<close> and
  \<open>m'\<close> hold what they contained, and \<open>mem\<close>, \<open>mem'\<close> what \<open>malloc\<close> returned.
\<close>

definition loop_entry :: "saiagent_nl_recv_msg \<Rightarrow> saiagent_nl_recv_msg \<Rightarrow> u8 list option \<Rightarrow> u8 list option \<Rightarrow> agent \<Rightarrow> loop_state" where
  "loop_entry m m' mem mem' a =
     \<lparr>in_msg = m\<lparr>recv_size := of_nat SAIAGENT_MSG_MAX_SIZE, buf := mem\<rparr>,
      out_msg = m'\<lparr>recv_size := of_nat SAIAGENT_MSG_MAX_SIZE, buf := mem'\<rparr>,
      agent_of = a\<lparr>ipc := (ipc a)\<lparr>running := 1\<rparr>\<rparr>\<rparr>"

definition saiagent_ipc_enter_loop ::
    "sai_lib \<Rightarrow> loop_input list \<Rightarrow> saiagent_nl_recv_msg \<Rightarrow> saiagent_nl_recv_msg \<Rightarrow> u8 list option \<Rightarrow> u8 list option \<Rightarrow> agent \<Rightarrow>
     loop_result outcome" where
  "saiagent_ipc_enter_loop sai is m m' mem mem' a = ipc_loop sai is (loop_entry m m' mem mem' a)"

section \<open>The agent as a transition system\<close>

text \<open>
  A turn of the loop, a port notification from a thread of the library, or a pulse of the
  keepalive thread.  The last two touch nothing but the socket, so they are steps between
  the turns.
\<close>

inductive agent_step :: "sai_lib \<Rightarrow> loop_state \<Rightarrow> loop_state \<Rightarrow> bool" for sai where
  turn: "running (ipc (agent_of s)) \<noteq> 0 \<Longrightarrow> ipc_turn sai i s = Inr s' \<Longrightarrow> agent_step sai s s'"
| notify: "length evt = 20 \<Longrightarrow> sai_on_port_state_change_notify e evt data (agent_of s) = Inr a' \<Longrightarrow>
    agent_step sai s (s\<lparr>agent_of := a'\<rparr>)"
| pulse: "keepalive_routine nl (agent_of s) = Inr a' \<Longrightarrow> agent_step sai s (s\<lparr>agent_of := a'\<rparr>)"

inductive_cases agent_stepE: "agent_step sai s s'"

text \<open>
  The states that can come up once \<open>main\<close> has set the channel up and entered the loop with
  both buffers allocated; the calls in the log are those of \<open>main\<close>.
\<close>

inductive reachable :: "sai_lib \<Rightarrow> loop_state \<Rightarrow> bool" for sai where
  entry: "saiagent_ipc_init nl (ipc agent_start) = Some (RC_STATUS_OK, ctx, freed) \<Longrightarrow>
    saiagent_switch_ipc_init (agent_start\<lparr>ipc := ctx, sai_log := l\<rparr>) = (RC_STATUS_OK, a) \<Longrightarrow>
    saiagent_ipc_drv_init ne rc ms (ipc a) = Inr (RC_STATUS_OK, ctx') \<Longrightarrow>
    length mem = SAIAGENT_MSG_MAX_SIZE \<Longrightarrow> length mem' = SAIAGENT_MSG_MAX_SIZE \<Longrightarrow>
    fst ` set l \<subseteq> {Sai_api_initialize, Sai_log_set SAI_API_SWITCH SAI_LOG_LEVEL_INFO} \<Longrightarrow>
    reachable sai (loop_entry m m' (Some mem) (Some mem') (a\<lparr>ipc := ctx'\<rparr>))"
| step: "reachable sai s \<Longrightarrow> agent_step sai s s' \<Longrightarrow> reachable sai s'"

section \<open>The invariant\<close>

definition recv_1500 :: "saiagent_nl_recv_msg \<Rightarrow> bool" where
  "recv_1500 m \<longleftrightarrow> recv_size m = of_nat SAIAGENT_MSG_MAX_SIZE \<and> (\<exists>b. buf m = Some b \<and> length b = SAIAGENT_MSG_MAX_SIZE)"

definition replies_ok :: "nl_out list \<Rightarrow> bool" where
  "replies_ok l \<longleftrightarrow> (\<forall>m \<in> set l. out_type m = SAIAGENT_NL_TYPE_REPLY \<longrightarrow> (\<exists>bs. out_tlv m = Some bs \<and> good_reply bs))"

definition loop_ok :: "loop_state \<Rightarrow> bool" where
  "loop_ok s \<longleftrightarrow> recv_1500 (in_msg s) \<and> recv_1500 (out_msg s) \<and> agent_ok (agent_of s) \<and>
     replies_ok (nl_sent (ipc (agent_of s)))"

text \<open>The part of the channel no handler touches.\<close>

definition channel :: "agent \<Rightarrow> int \<times> nat option \<times> nl_out list" where
  "channel a = (family (ipc a), sock (ipc a), nl_sent (ipc a))"

lemma channel_cb_set [simp]: "channel (snd (agent_cb_set t cb r)) = channel (snd r)"
  by (cases r) (simp add: agent_cb_set_def saiagent_ipc_cb_set_def channel_def Let_def)

lemma channel_cb_list [simp]: "channel (a\<lparr>ipc := (ipc a)\<lparr>ipc_cb_list := f\<rparr>\<rparr>) = channel a"
  by (simp add: channel_def)

lemma channel_vlan_run: "vlan_run P a b \<Longrightarrow> channel b = channel a"
  by (simp add: channel_def vlan_run_fields)

lemma channel_only_log: "only_log a b \<Longrightarrow> channel b = channel a"
  by (auto simp: channel_def only_log_def)

lemma channel_switch_frame: "switch_frame a b \<Longrightarrow> channel b = channel a"
  by (simp add: channel_def switch_frame_def)

lemma channel_sai_status [simp]: "channel (a\<lparr>sai_log := l\<rparr>) = channel a"
  by (simp add: channel_def)

lemma channel_port_handlers:
  "saiagent_ipc_process_port_info_get q r a = Inr (m, a') \<Longrightarrow> channel a' = channel a"
  "saiagent_ipc_process_port_attr_get q r a = Inr (m, a') \<Longrightarrow> channel a' = channel a"
  "saiagent_ipc_process_port_attr_set sai q r a = Inr (m, a') \<Longrightarrow> channel a' = channel a"
proof -
  show "saiagent_ipc_process_port_info_get q r a = Inr (m, a') \<Longrightarrow> channel a' = channel a"
    by (auto simp: saiagent_ipc_process_port_info_get_def Let_def dest!: reply_data_state)
  show "saiagent_ipc_process_port_attr_get q r a = Inr (m, a') \<Longrightarrow> channel a' = channel a"
    by (auto simp: saiagent_ipc_process_port_attr_get_def Let_def dest!: reply_data_state split: if_splits)
  show "saiagent_ipc_process_port_attr_set sai q r a = Inr (m, a') \<Longrightarrow> channel a' = channel a"
    by (auto simp: saiagent_ipc_process_port_attr_set_def split: if_splits
        dest!: reply_ack_state admin_state_set_only_log channel_only_log)
qed

lemma channel_ack_handlers:
  "saiagent_ipc_process_vlan_create q r a = Inr (m, a') \<Longrightarrow> channel a' = channel a"
  "saiagent_ipc_process_vlan_delete q r a = Inr (m, a') \<Longrightarrow> channel a' = channel a"
  "saiagent_ipc_process_stp_port_set q r a = Inr (m, a') \<Longrightarrow> channel a' = channel a"
  "saiagent_ipc_process_fdb_flush_port q r a = Inr (m, a') \<Longrightarrow> channel a' = channel a"
  "saiagent_ipc_process_router_vr_create q r a = Inr (m, a') \<Longrightarrow> channel a' = channel a"
  "saiagent_ipc_process_router_vr_del q r a = Inr (m, a') \<Longrightarrow> channel a' = channel a"
  "saiagent_ipc_process_router_mp_hash_set q r a = Inr (m, a') \<Longrightarrow> channel a' = channel a"
  "saiagent_ipc_process_router_lpm_add q r a = Inr (m, a') \<Longrightarrow> channel a' = channel a"
  "saiagent_ipc_process_router_lpm_del q r a = Inr (m, a') \<Longrightarrow> channel a' = channel a"
  "saiagent_ipc_process_switch_attr_set q r a = Inr (m, a') \<Longrightarrow> channel a' = channel a"
  by (auto simp: saiagent_ipc_process_vlan_create_def saiagent_ipc_process_vlan_delete_def
      saiagent_ipc_process_stp_port_set_def saiagent_ipc_process_fdb_flush_port_def
      saiagent_ipc_process_router_vr_create_def saiagent_ipc_process_router_vr_del_def
      saiagent_ipc_process_router_mp_hash_set_def saiagent_ipc_process_router_lpm_add_def
      saiagent_ipc_process_router_lpm_del_def saiagent_ipc_process_switch_attr_set_def Let_def split: if_splits
      dest!: reply_ack_state reply_data_state)

lemma channel_vlan_handlers:
  "saiagent_ipc_process_vlan_port_set sai e q r a = Inr (m, a') \<Longrightarrow> channel a' = channel a"
  "saiagent_ipc_process_vlan_pvid_set sai q r a = Inr (m, a') \<Longrightarrow> channel a' = channel a"
  by (auto simp: saiagent_ipc_process_vlan_port_set_def saiagent_ipc_process_vlan_pvid_set_def split: if_splits
      dest!: reply_ack_state add_port_member_run channel_vlan_run pvid_set_only_log channel_only_log)

lemma channel_keepalive_reset:
  "saiagent_ipc_process_keepalive_init e q r a = Inr (m, a') \<Longrightarrow> channel a' = channel a"
  "saiagent_ipc_process_switch_reset sai e q r a = Inr (m, a') \<Longrightarrow> channel a' = channel a"
  by (auto simp: saiagent_ipc_process_keepalive_init_def saiagent_ipc_process_switch_reset_def Let_def channel_def
      saiagent_ipc_loop_stop_def sai_status_eq split: if_splits option.splits prod.splits dest!: reply_ack_state)

lemma channel_vlan_init: "saiagent_vlan_init sai e a = Inr (rc, a') \<Longrightarrow> channel a' = channel a"
  unfolding vlan_init_eq sai_status_eq
  by (auto split: if_splits dest!: vlan_default_init_run channel_vlan_run)

lemma channel_switch_init:
  assumes "saiagent_ipc_process_switch_init sai e q r a = Inr (m, a')"
  shows "channel a' = channel a"
proof -
  obtain rc b where b: "saiagent_switch_init sai e a = Inr (rc, b)"
    using assms by (auto simp: process_switch_init_eq)
  then obtain st c where "sai_switch_init sai e a = Inr (st, c)"
    and "b = c \<or> b = snd (agent_cb_set PRESTERA_CMD_TYPE_KEEPALIVE_INIT Process_keepalive_init
               (agent_cb_set PRESTERA_CMD_TYPE_SWITCH_ATTR_SET Process_switch_attr_set
                 (agent_cb_set PRESTERA_CMD_TYPE_SWITCH_RESET Process_switch_reset
                   (uninit_status e Switch_Init, c))))"
    unfolding saiagent_switch_init_def by (auto split: if_splits)
  then have cb: "channel b = channel a"
    using channel_switch_frame [OF switch_init_frame] by auto
  have ports: "channel (snd (saiagent_fdb_init e (snd (saiagent_port_init e b)))) = channel b"
    by (simp add: fdb_init_eq port_init_eq channel_def)
  have router: "channel (snd (saiagent_router_init e c)) = channel c" for c
    by (simp add: router_init_eq channel_def)
  show ?thesis
    using assms cb
    by (auto simp: process_switch_init_eq b init_components_def ports router split: if_splits
        dest!: reply_ack_state reply_data_state channel_vlan_init)
qed

lemma channel_run_cb:
  assumes "run_cb sai e cb q r a = Inr (m, a')"
  shows "channel a' = channel a"
  using assms
  by (cases cb) (auto dest: channel_port_handlers channel_ack_handlers channel_vlan_handlers
      channel_keepalive_reset channel_switch_init)

section \<open>Every turn keeps the invariant\<close>

lemma recv_1500_ok: "recv_1500 m \<longleftrightarrow> recv_ok m \<and> recv_size m = of_nat SAIAGENT_MSG_MAX_SIZE"
  by (auto simp: recv_1500_def recv_ok_def)

lemma recv_returns:
  assumes "recv_1500 m"
  shows "\<exists>st m'. saiagent_ipc_recv rc ms m = Inr (st, m') \<and> recv_1500 m' \<and> st \<in> {RC_STATUS_OK, RC_STATUS_ERR}"
  using recvmsgs_ok [of m ms] assms by (fastforce simp: saiagent_ipc_recv_def recv_1500_ok split: if_splits)

text \<open>
  The anatomy of a turn: either the receive failed and only \<open>in_msg\<close> changes, or the request in
  the buffer is processed and a well-formed reply goes to its sender, unless sending fails.
\<close>

lemma turn_result:
  assumes s: "loop_ok s" and t: "ipc_turn sai i s = Inr s'"
  obtains (no_request) m where "saiagent_ipc_recv (rx_rc i) (rx_msgs i) (in_msg s) = Inr (RC_STATUS_ERR, m)"
      "s' = s\<lparr>in_msg := m\<rparr>" "recv_1500 m"
  | (request) m b a ctx where "saiagent_ipc_recv (rx_rc i) (rx_msgs i) (in_msg s) = Inr (RC_STATUS_OK, m)"
      "recv_1500 m" "agent_ok a" "channel a = channel (agent_of s)" "good_reply (take (unat (recv_payload_size (out_msg s'))) b)"
      "in_msg s' = m" "buf (out_msg s') = Some b" "recv_1500 (out_msg s')" "agent_of s' = a\<lparr>ipc := ctx\<rparr>"
      "ctx = (if nl_send_ok (reply_calls i) (recv_payload_size (out_msg s'))
         then (ipc a)\<lparr>nl_sent := nl_sent (ipc a) @
           [nl_message (ipc a) (take (unat (recv_payload_size (out_msg s'))) b) SAIAGENT_NL_TYPE_REPLY (pid m) (seq m)]\<rparr>
         else ipc a)"
proof -
  have m1: "recv_1500 (in_msg s)" and o1: "recv_1500 (out_msg s)" and a1: "agent_ok (agent_of s)"
    using s by (simp_all add: loop_ok_def)
  obtain st m where r: "saiagent_ipc_recv (rx_rc i) (rx_msgs i) (in_msg s) = Inr (st, m)" and m: "recv_1500 m"
    and st: "st \<in> {RC_STATUS_OK, RC_STATUS_ERR}"
    using recv_returns [OF m1] by blast
  show ?thesis
  proof (cases "st = RC_STATUS_OK")
    case False
    with st r t m no_request show ?thesis by (auto simp: ipc_turn_def)
  next
    case True
    obtain rb where rb: "buf m = Some rb" "length rb = SAIAGENT_MSG_MAX_SIZE" using m by (auto simp: recv_1500_def)
    obtain ob where ob: "buf (out_msg s) = Some ob" "length ob = SAIAGENT_MSG_MAX_SIZE"
      and osz: "recv_size (out_msg s) = of_nat SAIAGENT_MSG_MAX_SIZE" using o1 by (auto simp: recv_1500_def)
    from t True r obtain rc b n a where
      p: "saiagent_ipc_process_req (run_cb sai (cb_env i)) (ipc_cb_list (ipc (agent_of s))) (Some rb) (recv_payload_size m)
            (Some ob) (of_nat SAIAGENT_MSG_MAX_SIZE) (agent_of s) = Inr (rc, b, n, a)"
      and rest: "(let s = s\<lparr>in_msg := m, out_msg := (out_msg s)\<lparr>buf := b, recv_payload_size := n\<rparr>, agent_of := a\<rparr> in
           if rc \<noteq> RC_STATUS_OK then Inr s
           else bind_o (saiagent_ipc_send (reply_calls i) (ipc a) b n SAIAGENT_NL_TYPE_REPLY (pid m) (seq m))
             (\<lambda>(status, ctx). Inr (s\<lparr>agent_of := a\<lparr>ipc := ctx\<rparr>\<rparr>))) = Inr s'"
      by (auto simp: ipc_turn_def Let_def rb(1) ob(1) osz simp del: of_nat_numeral cong: if_cong)
    from agent_cbs.process_req_reply [OF a1 rb(2) ob(2) p] obtain bs where
      bs: "rc = RC_STATUS_OK" "agent_ok a" "b = Some bs" "length bs = SAIAGENT_MSG_MAX_SIZE"
        "unat n \<le> SAIAGENT_MSG_MAX_SIZE" "good_reply (take (unat n) bs)"
      by auto
    have ch: "channel a = channel (agent_of s)"
      using p unfolding process_req_eq [OF rb(2) ob(2)]
      by (auto split: if_splits option.splits dest!: channel_run_cb)
    have out: "recv_1500 ((out_msg s)\<lparr>buf := Some bs, recv_payload_size := n\<rparr>)"
      using bs(4) osz by (simp add: recv_1500_def)
    have len: "unat n \<le> length bs" using bs(4,5) by simp
    show ?thesis
      by (rule request [of m a bs "(if nl_send_ok (reply_calls i) n
         then (ipc a)\<lparr>nl_sent := nl_sent (ipc a) @
           [nl_message (ipc a) (take (unat n) bs) SAIAGENT_NL_TYPE_REPLY (pid m) (seq m)]\<rparr>
         else ipc a)"])
        (use r True m bs ch out rest in \<open>auto simp: ipc_send_eq [OF len] Let_def split: if_splits\<close>)
  qed
qed

lemma replies_ok_append [simp]: "replies_ok (l @ l') \<longleftrightarrow> replies_ok l \<and> replies_ok l'"
  by (auto simp: replies_ok_def)

lemma replies_ok_Nil [simp]: "replies_ok []"
  by (simp add: replies_ok_def)

lemma replies_ok_message:
  "replies_ok [nl_message ctx bs type p q] \<longleftrightarrow> (type = SAIAGENT_NL_TYPE_REPLY \<longrightarrow> bs \<noteq> [] \<and> good_reply bs)"
  by (auto simp: replies_ok_def nl_message_def)

lemma good_reply_not_Nil [simp]: "good_reply bs \<Longrightarrow> bs \<noteq> []"
  by (auto simp: good_reply_def)

lemma loop_ok_turn [wf_intros]:
  assumes "loop_ok s" "ipc_turn sai i s = Inr s'"
  shows "loop_ok s'"
  using assms(1,2)
proof (cases rule: turn_result)
  case (no_request m)
  with assms(1) show ?thesis by (simp add: loop_ok_def)
next
  case (request m b a ctx)
  have "replies_ok (nl_sent (ipc a))" using request(4) assms(1) by (simp add: channel_def loop_ok_def)
  with request(5) good_reply_not_Nil [OF request(5)] have "replies_ok (nl_sent ctx)"
    by (auto simp: request(10) replies_ok_message)
  moreover have "agent_ok (a\<lparr>ipc := ctx\<rparr>)" using request(3) by (intro agent_ok_ipc) (simp_all add: request(10))
  ultimately show ?thesis using request by (simp add: loop_ok_def)
qed

lemma loop_ok_sent:
  assumes "loop_ok s" "replies_ok sent"
  shows "loop_ok (s\<lparr>agent_of := (agent_of s)\<lparr>ipc := (ipc (agent_of s))\<lparr>nl_sent := nl_sent (ipc (agent_of s)) @ sent\<rparr>\<rparr>\<rparr>)"
  using assms by (simp add: loop_ok_def agent_ok_def)

lemma loop_ok_step [wf_intros]:
  assumes "agent_step sai s s'" "loop_ok s"
  shows "loop_ok s'"
  using assms
proof (cases rule: agent_step.cases)
  case (turn i)
  with assms(2) show ?thesis by (auto intro: loop_ok_turn)
next
  case (notify evt e data a')
  let ?sent = "map (\<lambda>d. nl_message (ipc (agent_of s)) (port_event_bytes d) SAIAGENT_NL_TYPE_EVENT NL_AUTO_PID NL_AUTO_SEQ)
      (map snd (filter (\<lambda>(k, d). nl_send_ok (event_calls e k) 20) (zip [0..<0 + length data] data)))"
  have "a' = (agent_of s)\<lparr>ipc := (ipc (agent_of s))\<lparr>nl_sent := nl_sent (ipc (agent_of s)) @ ?sent\<rparr>\<rparr>"
    using port_events_eq [OF notify(2), of e 0 data "agent_of s"] notify(3)
    by (auto simp: sai_on_port_state_change_notify_def)
  moreover have "replies_ok ?sent" by (auto simp: replies_ok_def nl_message_def)
  ultimately show ?thesis using notify(1) loop_ok_sent [OF assms(2)] by simp
next
  case (pulse nl a')
  then show ?thesis
    using assms(2) loop_ok_sent [OF assms(2), of "[nl_message (ipc (agent_of s)) pulse_event SAIAGENT_NL_TYPE_EVENT NL_AUTO_PID NL_AUTO_SEQ]"]
    by (auto simp: keepalive_eq replies_ok_message split: if_splits)
qed

lemma ipc_init_keeps:
  "saiagent_ipc_init nl ctx = Some (rc, ctx', freed) \<Longrightarrow> ipc_cb_list ctx' = ipc_cb_list ctx \<and> nl_sent ctx' = nl_sent ctx"
  by (auto simp: saiagent_ipc_init_def split: option.splits if_splits)

lemma drv_init_keeps:
  assumes "saiagent_ipc_drv_init ne rc ms ctx = Inr (st, ctx')"
  shows "ipc_cb_list ctx' = ipc_cb_list ctx \<and>
    (nl_sent ctx' = nl_sent ctx \<or> (\<exists>m. out_type m = SAIAGENT_NL_TYPE_DRV_INIT \<and> nl_sent ctx' = nl_sent ctx @ [m]))"
  using assms by (auto simp: saiagent_ipc_drv_init_def saiagent_ipc_send_def Let_def split: if_splits)

lemma loop_ok_entry:
  assumes "agent_ok a" "replies_ok (nl_sent (ipc a))" "length mem = SAIAGENT_MSG_MAX_SIZE" "length mem' = SAIAGENT_MSG_MAX_SIZE"
  shows "loop_ok (loop_entry m m' (Some mem) (Some mem') a)"
  using assms by (simp add: loop_entry_def loop_ok_def recv_1500_def agent_ok_def)

lemma reachable_loop_ok:
  assumes "reachable sai s"
  shows "loop_ok s"
  using assms
proof (induction rule: reachable.induct)
  case (entry nl ctx freed l a ne rc ms ctx' mem mem' m m')
  have c: "ipc_cb_list ctx = (\<lambda>c. None)" "nl_sent ctx = []"
    using ipc_init_keeps [OF entry(1)] by (simp_all add: agent_start_def)
  have a: "a = agent_start\<lparr>ipc := ctx\<lparr>ipc_cb_list := (ipc_cb_list ctx)(PRESTERA_CMD_TYPE_SWITCH_INIT := Some Process_switch_init)\<rparr>,
      sai_log := l\<rparr>"
    using entry(2) by (auto simp: saiagent_switch_ipc_init_def saiagent_ipc_cb_set_def word_le_nat_alt)
  have "agent_ok (a\<lparr>ipc := ctx'\<rparr>)"
    using drv_init_keeps [OF entry(3)] by (auto simp: a c agent_ok_def agent_start_def split: if_splits)
  moreover have "replies_ok (nl_sent ctx')"
    using drv_init_keeps [OF entry(3)] by (auto simp: a c replies_ok_def)
  ultimately show ?case using entry by (intro loop_ok_entry) simp_all
qed (rule loop_ok_step)

section \<open>Requests that do not get stuck\<close>

text \<open>
  What a request asks of the state and of the library: a port number inside the arrays, and
  for a reset a keepalive context that was created, was not destroyed and whose thread ends
  with a value that can be freed.
\<close>

definition keepalive_live :: "agent \<Rightarrow> bool" where
  "keepalive_live a \<longleftrightarrow> returns (thread_deref (keepalive_ctx (sw_info a)) (threads a))"

fun cb_safe :: "sai_lib \<Rightarrow> env \<Rightarrow> agent \<Rightarrow> saiagent_msg \<Rightarrow> saiagent_cb \<Rightarrow> bool" where
  "cb_safe sai e a q Process_switch_init = malloc_hw_type_ok e"
| "cb_safe sai e a q Process_switch_reset =
     (switch_oid (sw_info a) = SAI_NULL_OBJECT_ID \<or>
      keepalive_live a \<and> ret_status (sai (sai_log a) (Sai_api_query SAI_API_SWITCH)) = SAI_STATUS_SUCCESS \<and>
      pthread_join_rc (thread_calls e) \<noteq> None \<and>
      loop_value (thread_calls e) \<noteq> Other_Value \<and> routine_value (thread_calls e) \<noteq> Other_Value)"
| "cb_safe sai e a q Process_port_attr_set =
     ((req_word 4 4 q :: u32) = PRESTERA_CMD_PORT_ATTR_PHY_MODE \<longrightarrow> unat (req_word 8 4 q :: u32) < OBJ_LIST_LEN)"
| "cb_safe sai e a q Process_vlan_port_set = (unat (req_word 4 4 q :: u32) < OBJ_LIST_LEN)"
| "cb_safe sai e a q Process_vlan_pvid_set = (unat (req_word 4 4 q :: u32) < OBJ_LIST_LEN)"
| "cb_safe sai e a q cb = True"

lemma returns_reply_ack: "reply_ok reply \<Longrightarrow> returns (reply_ack reply st a)"
  using reply_ack_ok [of reply st a] by auto

lemma returns_reset:
  assumes "reply_ok reply" "cb_safe sai e a q Process_switch_reset"
  shows "returns (saiagent_ipc_process_switch_reset sai e request reply a)"
proof (cases "switch_oid (sw_info a) = SAI_NULL_OBJECT_ID")
  case True
  with assms(1) show ?thesis by (simp add: saiagent_ipc_process_switch_reset_def returns_reply_ack)
next
  case False
  with assms(2) obtain p c n where p: "keepalive_ctx (sw_info a) = Some p" "p < length (threads a)" "threads a ! p = Some c"
    and "ret_status (sai (sai_log a) (Sai_api_query SAI_API_SWITCH)) = SAI_STATUS_SUCCESS"
      "pthread_join_rc (thread_calls e) = Some n"
      "loop_value (thread_calls e) \<noteq> Other_Value" "routine_value (thread_calls e) \<noteq> Other_Value"
    by (auto simp: keepalive_live_def thread_deref_def split: option.splits if_splits)
  with False assms(1) show ?thesis
    by (auto simp: saiagent_ipc_process_switch_reset_def saiagent_thread_stop_def saiagent_thread_destroy_def
        thread_deref_def sai_status_eq Let_def saiagent_ipc_loop_stop_def thread_result_def returns_reply_ack
        split: saiagent_thread_type_t.splits)
qed

lemma run_cb_returns:
  assumes lib: "sai_conforms sai" "sai_fits sai" "env_ok e" and a: "agent_ok a" and q: "request_ok q" and r: "reply_ok reply"
    and safe: "cb_safe sai e a q cb"
  shows "returns (run_cb sai e cb q reply a)"
proof -
  note acks = returns_reply_ack [OF r]
  note datas = reply_data_ok [OF r]
  show ?thesis
  proof (cases cb)
    case Process_switch_init
    with safe process_switch_init_result [OF lib(1,2) a _ r, of e q] show ?thesis by auto
  next
    case Process_switch_reset
    with safe returns_reset [OF r] show ?thesis by auto
  next
    case Process_port_info_get
    have "length (port_info_bytes p) = 20" for p by (simp add: port_info_bytes_def)
    with datas [of "port_info_bytes (req_word 4 4 q)" a] Process_port_info_get show ?thesis
      by (auto simp: port_info_get_eq [OF q])
  next
    case Process_port_attr_get
    have "length port_attr_bytes = 136" by (simp add: port_attr_bytes_def)
    with datas [of port_attr_bytes a] Process_port_attr_get show ?thesis by (auto simp: port_attr_get_eq [OF q])
  next
    case Process_port_attr_set
    with safe admin_state_set_returns [OF a, of "req_word 8 4 q" sai "req_word 28 1 q"] acks show ?thesis
      by (auto simp: port_attr_set_eq [OF q])
  next
    case Process_vlan_port_set
    with safe have "unat (req_word 4 4 q :: u32) < OBJ_LIST_LEN" by simp
    then obtain st b where "sai_vlan_add_port_member sai e (req_word 12 2 q) (req_word 4 4 q)
        ((req_word 15 1 q :: u8) \<noteq> 0) a = Inr (st, b)"
      using add_port_member_returns [OF lib a] by blast
    with Process_vlan_port_set acks show ?thesis by (simp add: vlan_port_set_eq [OF q])
  next
    case Process_vlan_pvid_set
    with safe have "unat (req_word 4 4 q :: u32) < OBJ_LIST_LEN" by simp
    then obtain rc b where "saiagent_port_pvid_set sai (req_word 4 4 q) (req_word 12 2 q) a = Inr (rc, b)"
      using pvid_set_returns [OF a] by blast
    with Process_vlan_pvid_set acks show ?thesis by (simp add: vlan_pvid_set_eq [OF q])
  next
    case Process_router_vr_create
    with vr_create_eq [OF r, of q a] show ?thesis by auto
  qed (simp_all add: acks q router_acks vlan_acks fdb_flush_port_eq switch_attr_set_eq keepalive_init_eq)
qed

section \<open>Lemmas: a turn on a batch of messages\<close>

text \<open>A message the receive callback accepts, with the bytes it carries.\<close>

definition carries :: "nl_in \<Rightarrow> u8 list \<Rightarrow> bool" where
  "carries x bs \<longleftrightarrow> length bs < SAIAGENT_MSG_MAX_SIZE \<and> (\<exists>attrs. nl_parsed x = Some attrs \<and> tlv attrs = Some bs)"

text \<open>The reply to \<open>x\<close>.\<close>

definition reply_to :: "agent \<Rightarrow> nl_in \<Rightarrow> u8 list \<Rightarrow> nl_out" where
  "reply_to a x bs = \<lparr>out_family = family (ipc a), out_type = SAIAGENT_NL_TYPE_REPLY, out_pid = nlmsg_pid x,
     out_seq = nlmsg_seq x, out_tlv = Some bs\<rparr>"

lemma recv_last:
  assumes "recv_1500 m" "carries x bs"
  shows "\<exists>m' b. saiagent_ipc_recv 0 (ms @ [x]) m = Inr (RC_STATUS_OK, m') \<and> buf m' = Some (bs @ drop (length bs) b) \<and>
    length b = SAIAGENT_MSG_MAX_SIZE \<and> recv_payload_size m' = of_nat (length bs) \<and> pid m' = nlmsg_pid x \<and>
    seq m' = nlmsg_seq x \<and> recv_1500 m' \<and> (ms = [] \<longrightarrow> buf m = Some b)"
proof -
  have m: "recv_ok m" "recv_size m = of_nat SAIAGENT_MSG_MAX_SIZE" using assms(1) by (simp_all add: recv_1500_ok)
  obtain r where r: "nl_recvmsgs nl_ipc_handle_recv_msg_cb ms m = Inr r" "recv_ok r" "recv_size r = of_nat SAIAGENT_MSG_MAX_SIZE"
    using recvmsgs_ok [OF m(1), of ms] m(2) by auto
  obtain attrs where x: "nl_parsed x = Some attrs" "tlv attrs = Some bs" "length bs < unat (recv_size r)"
    using assms(2) r(3) by (auto simp: carries_def)
  obtain b where b: "buf r = Some b" and h: "nl_ipc_handle_recv_msg_cb x r = Inr (r\<lparr>buf := Some (bs @ drop (length bs) b),
        recv_payload_size := of_nat (length bs), pid := nlmsg_pid x, seq := nlmsg_seq x, err := RC_STATUS_OK\<rparr>)"
    using handle_recv_valid [OF r(2) x] by blast
  have len: "length b = SAIAGENT_MSG_MAX_SIZE" using r(2,3) b by (simp add: recv_ok_def)
  have "ms = [] \<Longrightarrow> r = m" using r(1) by simp
  with b len h r x(3) show ?thesis
    by (auto simp: saiagent_ipc_recv_def recvmsgs_append recv_1500_def)
qed

lemma turn_batch:
  assumes s: "loop_ok s" and i: "rx_rc i = 0" "rx_msgs i = ms @ [x]" "carries x bs" and t: "ipc_turn sai i s = Inr s'"
  shows "nl_sent (ipc (agent_of s')) = nl_sent (ipc (agent_of s)) \<or>
    (\<exists>r. good_reply r \<and> nl_sent (ipc (agent_of s')) = nl_sent (ipc (agent_of s)) @ [reply_to (agent_of s) x r])"
    and "(\<And>n. nl_send_ok (reply_calls i) n) \<Longrightarrow>
    \<exists>r. good_reply r \<and> nl_sent (ipc (agent_of s')) = nl_sent (ipc (agent_of s)) @ [reply_to (agent_of s) x r]"
proof -
  have in_ok: "recv_1500 (in_msg s)" using s by (simp add: loop_ok_def)
  obtain m' where m': "saiagent_ipc_recv (rx_rc i) (rx_msgs i) (in_msg s) = Inr (RC_STATUS_OK, m')"
      "pid m' = nlmsg_pid x" "seq m' = nlmsg_seq x"
    using recv_last [OF in_ok i(3), of ms] i(1,2) by auto
  have "\<exists>r. good_reply r \<and> (\<exists>n. nl_sent (ipc (agent_of s')) = nl_sent (ipc (agent_of s)) @
      (if nl_send_ok (reply_calls i) n then [reply_to (agent_of s) x r] else []))"
    using s t
  proof (cases rule: turn_result)
    case (no_request m)
    with m' show ?thesis by simp
  next
    case (request m b a ctx)
    have c: "nl_sent (ipc a) = nl_sent (ipc (agent_of s))" "family (ipc a) = family (ipc (agent_of s))"
      using request(4) by (simp_all add: channel_def)
    let ?r = "take (unat (recv_payload_size (out_msg s'))) b"
    have "nl_message (ipc a) ?r SAIAGENT_NL_TYPE_REPLY (pid m) (seq m) = reply_to (agent_of s) x ?r"
      using request(1) m' good_reply_not_Nil [OF request(5)] by (simp add: nl_message_def reply_to_def c)
    with request(5,9,10) c show ?thesis by (intro exI [of _ ?r]) auto
  qed
  then show "nl_sent (ipc (agent_of s')) = nl_sent (ipc (agent_of s)) \<or>
    (\<exists>r. good_reply r \<and> nl_sent (ipc (agent_of s')) = nl_sent (ipc (agent_of s)) @ [reply_to (agent_of s) x r])"
    and "(\<And>n. nl_send_ok (reply_calls i) n) \<Longrightarrow>
    \<exists>r. good_reply r \<and> nl_sent (ipc (agent_of s')) = nl_sent (ipc (agent_of s)) @ [reply_to (agent_of s) x r]"
    by (auto split: if_splits)
qed

text \<open>A turn returns when the request it meets does not get stuck.\<close>

definition request_safe :: "sai_lib \<Rightarrow> env \<Rightarrow> agent \<Rightarrow> u8 list \<Rightarrow> size_t \<Rightarrow> bool" where
  "request_safe sai e a b n \<longleftrightarrow> n < 4 \<or> \<not> request_cmd b < PRESTERA_CMD_TYPE_MAX \<or>
     (case ipc_cb_list (ipc a) (request_cmd b) of None \<Rightarrow> True | Some cb \<Rightarrow> cb_safe sai e a (request_msg b n) cb)"

lemma turn_returns:
  assumes s: "loop_ok s" and lib: "sai_conforms sai" "sai_fits sai" "env_ok (cb_env i)"
    and r: "saiagent_ipc_recv (rx_rc i) (rx_msgs i) (in_msg s) = Inr (RC_STATUS_OK, m)"
    and b: "buf m = Some b" "length b = SAIAGENT_MSG_MAX_SIZE"
    and safe: "request_safe sai (cb_env i) (agent_of s) b (recv_payload_size m)"
  shows "\<exists>s'. ipc_turn sai i s = Inr s'"
proof -
  have a: "agent_ok (agent_of s)" using s by (simp add: loop_ok_def)
  obtain ob where ob: "buf (out_msg s) = Some ob" "length ob = SAIAGENT_MSG_MAX_SIZE"
    and osz: "recv_size (out_msg s) = of_nat SAIAGENT_MSG_MAX_SIZE" using s by (auto simp: loop_ok_def recv_1500_def)
  have "\<exists>x. saiagent_ipc_put_reply_ack (reply_msg ob) c = Inr x" for c
    using put_reply_ack_ok [OF reply_ok_reply_msg [OF ob(2)]] by blast
  then obtain ack where ack: "saiagent_ipc_put_reply_ack (reply_msg ob) c = Inr (ack c)" for c by metis
  have call: "\<exists>x y. run_cb sai (cb_env i) cb (request_msg b n) (reply_msg ob) (agent_of s) = Inr (x, y)"
    if "cb_safe sai (cb_env i) (agent_of s) (request_msg b n) cb" for cb n
    using run_cb_returns [OF lib a request_ok_request_msg [OF b(2)] reply_ok_reply_msg [OF ob(2)] that]
    by (auto simp: returns_iff)
  have "returns (saiagent_ipc_process_req (run_cb sai (cb_env i)) (ipc_cb_list (ipc (agent_of s))) (Some b)
      (recv_payload_size m) (Some ob) (of_nat SAIAGENT_MSG_MAX_SIZE) (agent_of s))"
    using safe
    unfolding process_req_eq [OF b(2) ob(2)] request_safe_def
    by (auto simp: ack split: option.splits dest!: call)
  then obtain rc rb n a' where p: "saiagent_ipc_process_req (run_cb sai (cb_env i)) (ipc_cb_list (ipc (agent_of s))) (Some b)
      (recv_payload_size m) (Some ob) (of_nat SAIAGENT_MSG_MAX_SIZE) (agent_of s) = Inr (rc, rb, n, a')"
    unfolding returns_iff by (metis prod_cases4)
  from agent_cbs.process_req_reply [OF a b(2) ob(2) p] obtain bs where
    bs: "rb = Some bs" "unat n \<le> length bs" by auto
  show ?thesis
    by (auto simp: ipc_turn_def Let_def r b(1) ob(1) osz p [simplified] bs(1) ipc_send_eq [OF bs(2)])
qed


text \<open>The handler that ran in a turn.\<close>

lemma ipc_send_keeps:
  "saiagent_ipc_send nl ctx msg n t p q = Inr (rc, ctx') \<Longrightarrow> running ctx' = running ctx \<and> ipc_cb_list ctx' = ipc_cb_list ctx"
  by (auto simp: saiagent_ipc_send_def Let_def split: if_splits)

lemma turn_ran:
  assumes s: "loop_ok s" and t: "ipc_turn sai i s = Inr s'"
    and r: "saiagent_ipc_recv (rx_rc i) (rx_msgs i) (in_msg s) = Inr (RC_STATUS_OK, m)"
    and b: "buf m = Some b" "length b = SAIAGENT_MSG_MAX_SIZE" "\<not> recv_payload_size m < 4"
    and cb: "request_cmd b < PRESTERA_CMD_TYPE_MAX" "ipc_cb_list (ipc (agent_of s)) (request_cmd b) = Some cb"
  shows "\<exists>reply reply' a'. reply_ok reply \<and>
    run_cb sai (cb_env i) cb (request_msg b (recv_payload_size m)) reply (agent_of s) = Inr (reply', a') \<and>
    (\<exists>ctx. agent_of s' = a'\<lparr>ipc := ctx\<rparr> \<and> running ctx = running (ipc a') \<and> ipc_cb_list ctx = ipc_cb_list (ipc a'))"
proof -
  obtain ob where ob: "buf (out_msg s) = Some ob" "length ob = SAIAGENT_MSG_MAX_SIZE"
    and osz: "recv_size (out_msg s) = of_nat SAIAGENT_MSG_MAX_SIZE" using s by (auto simp: loop_ok_def recv_1500_def)
  from t obtain reply' a' where c: "run_cb sai (cb_env i) cb (request_msg b (recv_payload_size m)) (reply_msg ob) (agent_of s) =
        Inr (reply', a')"
    and k: "\<exists>rc ctx. saiagent_ipc_send (reply_calls i) (ipc a') (buff reply') (payload_size reply')
       SAIAGENT_NL_TYPE_REPLY (pid m) (seq m) = Inr (rc, ctx) \<and> agent_of s' = a'\<lparr>ipc := ctx\<rparr>"
    unfolding ipc_turn_def r
    by (auto simp: b(1) ob(1) osz Let_def process_req_eq [OF b(2) ob(2), simplified] b(3) cb)
  from k ipc_send_keeps have "\<exists>ctx. agent_of s' = a'\<lparr>ipc := ctx\<rparr> \<and> running ctx = running (ipc a') \<and> ipc_cb_list ctx = ipc_cb_list (ipc a')"
    by metis
  with c reply_ok_reply_msg [OF ob(2)] show ?thesis by blast
qed

lemma reset_stops:
  "saiagent_ipc_process_switch_reset sai e q reply a = Inr (m, a') \<Longrightarrow> switch_oid (sw_info a) \<noteq> SAI_NULL_OBJECT_ID \<Longrightarrow>
   running (ipc a') = 0"
  by (auto simp: saiagent_ipc_process_switch_reset_def saiagent_ipc_loop_stop_def Let_def split: prod.splits if_splits
      dest!: reply_ack_state)

text \<open>No handler looks at the size of its request.\<close>

lemma req_field_request_msg: "req_field t p (request_msg b n) = rd_field t p b"
  by (simp add: req_field_def request_msg_def)

lemma run_cb_size:
  "run_cb sai e cb (request_msg b n) = run_cb sai e cb (request_msg b n')"
  by (intro ext, cases cb)
    (simp_all add: req_field_request_msg saiagent_ipc_process_switch_init_def saiagent_ipc_process_switch_reset_def
      saiagent_ipc_process_switch_attr_set_def saiagent_ipc_process_keepalive_init_def saiagent_ipc_process_port_info_get_def
      saiagent_ipc_process_port_attr_set_def saiagent_ipc_process_port_attr_get_def saiagent_ipc_process_vlan_create_def
      saiagent_ipc_process_vlan_delete_def saiagent_ipc_process_vlan_port_set_def saiagent_ipc_process_vlan_pvid_set_def
      saiagent_ipc_process_stp_port_set_def saiagent_ipc_process_fdb_flush_port_def saiagent_ipc_process_router_vr_create_def
      saiagent_ipc_process_router_vr_del_def saiagent_ipc_process_router_mp_hash_set_def
      saiagent_ipc_process_router_lpm_add_def saiagent_ipc_process_router_lpm_del_def cong: if_cong)

text \<open>A run of the loop over turns that each answer.\<close>

lemma running_loop_answers:
  assumes "loop_ok s" "ipc_loop sai is s = Inr r"
    "\<forall>i \<in> set is. rx_rc i = 0 \<and> (\<exists>x bs. rx_msgs i = [x] \<and> carries x bs) \<and> (\<forall>n. nl_send_ok (reply_calls i) n)"
  shows "\<exists>n s' l. r = (if running (ipc (agent_of s')) = 0 then Loop_Exit s' else Loop_Waits s') \<and> loop_ok s' \<and>
    n \<le> length is \<and> (running (ipc (agent_of s')) \<noteq> 0 \<longrightarrow> n = length is) \<and>
    nl_sent (ipc (agent_of s')) = nl_sent (ipc (agent_of s)) @ l \<and>
    map (\<lambda>m. (out_type m, out_pid m, out_seq m)) l =
      map (\<lambda>i. (SAIAGENT_NL_TYPE_REPLY, nlmsg_pid (hd (rx_msgs i)), nlmsg_seq (hd (rx_msgs i)))) (take n is)"
  using assms
proof (induction "is" arbitrary: s)
  case Nil
  then show ?case by (intro exI [of _ 0] exI [of _ s]) auto
next
  case (Cons i "is")
  show ?case
  proof (cases "running (ipc (agent_of s)) = 0")
    case True
    with Cons.prems show ?thesis by (intro exI [of _ 0] exI [of _ s]) auto
  next
    case False
    with Cons.prems(2) obtain t where t: "ipc_turn sai i s = Inr t" and rest: "ipc_loop sai is t = Inr r" by auto
    have ok: "loop_ok t" by (rule loop_ok_turn [OF Cons.prems(1) t])
    obtain x bs where x: "rx_rc i = 0" "rx_msgs i = [x]" "carries x bs" "\<forall>n. nl_send_ok (reply_calls i) n"
      using Cons.prems(3) by auto
    obtain q where q: "nl_sent (ipc (agent_of t)) = nl_sent (ipc (agent_of s)) @ [reply_to (agent_of s) x q]"
      using turn_batch(2) [OF Cons.prems(1) x(1) _ x(3) t, where ms = "[]"] x(2,4) by auto
    obtain n s' l where IH: "r = (if running (ipc (agent_of s')) = 0 then Loop_Exit s' else Loop_Waits s')" "loop_ok s'"
      "n \<le> length is" "running (ipc (agent_of s')) \<noteq> 0 \<longrightarrow> n = length is"
      "nl_sent (ipc (agent_of s')) = nl_sent (ipc (agent_of t)) @ l"
      "map (\<lambda>m. (out_type m, out_pid m, out_seq m)) l =
        map (\<lambda>i. (SAIAGENT_NL_TYPE_REPLY, nlmsg_pid (hd (rx_msgs i)), nlmsg_seq (hd (rx_msgs i)))) (take n is)"
      using Cons.IH [OF ok rest] Cons.prems(3) by auto
    show ?thesis
      by (rule exI [of _ "Suc n"], rule exI [of _ s'], rule exI [of _ "reply_to (agent_of s) x q # l"])
        (use IH q x in \<open>auto simp: reply_to_def\<close>)
  qed
qed

section \<open>Properties\<close>


text \<open>
  C1. In every state the agent can reach, whatever requests, notifications and pulses came
  in whatever order, every reply handed to the socket is well formed: it carries 8 to 136
  bytes, a whole number of words, that start with the acknowledgement type and a status.
  The receive buffers keep their 1500 bytes and a command is bound to its own handler.
\<close>

theorem reachable_replies_ok:
  assumes "reachable sai s"
  shows "(\<forall>m \<in> set (nl_sent (ipc (agent_of s))). out_type m = SAIAGENT_NL_TYPE_REPLY \<longrightarrow>
      (\<exists>bs. out_tlv m = Some bs \<and> 8 \<le> length bs \<and> length bs \<le> 136 \<and> 4 dvd length bs \<and>
        reply_type bs = PRESTERA_CMD_TYPE_ACK \<and> reply_status bs \<in> {PRESTERA_CMD_ACK_OK, PRESTERA_CMD_ACK_FAILED})) \<and>
    (\<exists>b. buf (in_msg s) = Some b \<and> length b = SAIAGENT_MSG_MAX_SIZE) \<and>
    (\<exists>b. buf (out_msg s) = Some b \<and> length b = SAIAGENT_MSG_MAX_SIZE) \<and>
    (\<forall>c cb. ipc_cb_list (ipc (agent_of s)) c = Some cb \<longrightarrow> cb_command cb = c)"
  using reachable_loop_ok [OF assms]
  by (fastforce simp: loop_ok_def replies_ok_def good_reply_def recv_1500_def agent_ok_def)

text \<open>
  C2. A valid request is answered once.  If a single request arrives that fits the buffer
  and its handler does not get stuck, the library keeps to its contract and reports no list of
  more than 64 elements, and the reply can be sent, then the turn returns and exactly one
  message has been sent: a well-formed reply, to the sender and with the sequence number of
  the request.
\<close>

theorem turn_answers:
  assumes "loop_ok s" "sai_conforms sai" "sai_fits sai" "env_ok (cb_env i)" "rx_rc i = 0" "rx_msgs i = [x]" "carries x bs"
    "\<And>n. nl_send_ok (reply_calls i) n"
    "\<And>b. buf (in_msg s) = Some b \<Longrightarrow>
      request_safe sai (cb_env i) (agent_of s) (bs @ drop (length bs) b) (of_nat (length bs))"
  shows "\<exists>s' r. ipc_turn sai i s = Inr s' \<and> good_reply r \<and>
    nl_sent (ipc (agent_of s')) = nl_sent (ipc (agent_of s)) @ [reply_to (agent_of s) x r]"
proof -
  have "recv_1500 (in_msg s)" using assms(1) by (simp add: loop_ok_def)
  from recv_last [OF this assms(7), of "[]"] obtain m' b where
    m: "saiagent_ipc_recv (rx_rc i) (rx_msgs i) (in_msg s) = Inr (RC_STATUS_OK, m')" "buf m' = Some (bs @ drop (length bs) b)"
      "length b = SAIAGENT_MSG_MAX_SIZE" "recv_payload_size m' = of_nat (length bs)" "buf (in_msg s) = Some b"
    using assms(5,6) by auto
  have len: "length (bs @ drop (length bs) b) = SAIAGENT_MSG_MAX_SIZE" using m(3) assms(7) by (simp add: carries_def)
  obtain s' where t: "ipc_turn sai i s = Inr s'"
    using turn_returns [OF assms(1-4) m(1,2) len] assms(9) [OF m(5)] m(4) by auto
  then show ?thesis
    using turn_batch(2) [OF assms(1,5), of "[]" x bs sai s'] assms(6-8) by auto
qed

text \<open>A start of the agent: the socket is 5, the family 28, and the driver acknowledges.\<close>

definition nl_good :: nl_env where
  "nl_good = \<lparr>nlmsg_alloc_ok = True, genlmsg_put_ok = True, nla_put_rc = 0, nl_send_auto_rc = 0\<rparr>"

definition nl_setup_good :: nl_setup where
  "nl_setup_good = \<lparr>nl_socket_alloc = Some 5, genl_connect = 0, genl_ctrl_resolve = (\<lambda>n. 28),
     nl_socket_set_buffer_size = 0, genl_ctrl_resolve_grp = 3, nl_socket_add_membership = 0\<rparr>"

definition started :: agent where
  "started = agent_start\<lparr>ipc := \<lparr>family = 28, sock = Some 5,
     ipc_cb_list = (\<lambda>c. None)(PRESTERA_CMD_TYPE_SWITCH_INIT := Some Process_switch_init), running = 0,
     nl_sent = [\<lparr>out_family = 28, out_type = SAIAGENT_NL_TYPE_DRV_INIT, out_pid = NL_AUTO_PID, out_seq = NL_AUTO_SEQ,
       out_tlv = None\<rparr>]\<rparr>\<rparr>"

definition waiting :: loop_state where
  "waiting = loop_entry (empty_recv_msg 0) (empty_recv_msg 0) (Some (replicate SAIAGENT_MSG_MAX_SIZE 0))
     (Some (replicate SAIAGENT_MSG_MAX_SIZE 0)) started"

definition request_from :: "u32 \<Rightarrow> u32 \<Rightarrow> u8 list \<Rightarrow> nl_in" where
  "request_from p q bs = \<lparr>nlmsg_pid = p, nlmsg_seq = q, nl_parsed = Some \<lparr>drv_init_ack = False, tlv = Some bs\<rparr>\<rparr>"

definition request_input :: "u32 \<Rightarrow> u32 \<Rightarrow> u8 list \<Rightarrow> loop_input" where
  "request_input p q bs = \<lparr>rx_rc = 0, rx_msgs = [request_from p q bs], cb_env = ok_env, reply_calls = nl_good\<rparr>"

lemma setup_good: "saiagent_ipc_init nl_setup_good ctx = Some (RC_STATUS_OK, ctx\<lparr>family := 28, sock := Some 5\<rparr>, [])"
  by (simp add: saiagent_ipc_init_def nl_setup_good_def resolve_family.simps)

lemma drv_init_good:
  "saiagent_ipc_drv_init nl_good 0 [\<lparr>nlmsg_pid = 0, nlmsg_seq = 0, nl_parsed = Some \<lparr>drv_init_ack = True, tlv = None\<rparr>\<rparr>] ctx =
    Inr (RC_STATUS_OK, ctx\<lparr>nl_sent := nl_sent ctx @ [\<lparr>out_family = family ctx, out_type = SAIAGENT_NL_TYPE_DRV_INIT,
      out_pid = NL_AUTO_PID, out_seq = NL_AUTO_SEQ, out_tlv = None\<rparr>]\<rparr>)"
  by (simp add: saiagent_ipc_drv_init_def saiagent_ipc_send_def nl_good_def nl_ipc_drv_init_reply_msg_cb_def)

lemma reachable_waiting: "reachable sai waiting"
proof -
  let ?ctx = "(ipc agent_start)\<lparr>family := 28, sock := Some 5\<rparr>"
  let ?a = "agent_start\<lparr>ipc := ?ctx\<lparr>ipc_cb_list := (ipc_cb_list ?ctx)(PRESTERA_CMD_TYPE_SWITCH_INIT := Some Process_switch_init)\<rparr>\<rparr>"
  have sw: "saiagent_switch_ipc_init (agent_start\<lparr>ipc := ?ctx, sai_log := []\<rparr>) = (RC_STATUS_OK, ?a)"
    by (simp add: saiagent_switch_ipc_init_def saiagent_ipc_cb_set_def agent_start_def word_le_nat_alt)
  have len: "length (replicate SAIAGENT_MSG_MAX_SIZE (0 :: u8)) = SAIAGENT_MSG_MAX_SIZE" by (rule length_replicate)
  have w: "waiting = loop_entry (empty_recv_msg 0) (empty_recv_msg 0) (Some (replicate SAIAGENT_MSG_MAX_SIZE 0))
     (Some (replicate SAIAGENT_MSG_MAX_SIZE 0)) (?a\<lparr>ipc := (ipc ?a)\<lparr>nl_sent := nl_sent (ipc ?a) @
       [\<lparr>out_family = family (ipc ?a), out_type = SAIAGENT_NL_TYPE_DRV_INIT, out_pid = NL_AUTO_PID, out_seq = NL_AUTO_SEQ,
         out_tlv = None\<rparr>]\<rparr>\<rparr>)"
    by (simp add: waiting_def started_def agent_start_def)
  show ?thesis
    unfolding w by (rule reachable.entry [OF setup_good sw drv_init_good len len]) simp
qed

lemma waiting_ok: "loop_ok waiting"
  by (rule reachable_loop_ok [OF reachable_waiting])

lemma carries_request_from: "length bs < SAIAGENT_MSG_MAX_SIZE \<Longrightarrow> carries (request_from p q bs) bs"
  by (simp add: carries_def request_from_def)

lemma nl_good_ok: "nl_send_ok nl_good n"
  by (simp add: nl_send_ok_def nl_good_def)

text \<open>Turns of the waiting agent that end with a \<open>VLAN_CREATE\<close>, a command nobody has registered yet.\<close>

definition waiting_input :: "nl_in list \<Rightarrow> loop_input" where
  "waiting_input ms = \<lparr>rx_rc = 0, rx_msgs = ms @ [request_from 7 9 [0, 2, 0, 0]], cb_env = ok_env, reply_calls = nl_good\<rparr>"

lemma waiting_input_simps [simp]:
  "rx_rc (waiting_input ms) = 0" "rx_msgs (waiting_input ms) = ms @ [request_from 7 9 [0, 2, 0, 0]]"
  "cb_env (waiting_input ms) = ok_env" "reply_calls (waiting_input ms) = nl_good"
  by (simp_all add: waiting_input_def)

lemma carries_vlan_create: "carries (request_from p q [0, 2, 0, 0]) [0, 2, 0, 0]"
  by (rule carries_request_from) simp

lemma vlan_create_safe:
  "request_safe ok_lib ok_env (agent_of waiting) ([0, 2, 0, 0] @ drop (length [0, 2, 0, 0 :: u8]) b) n"
  by (simp add: request_safe_def request_cmd_def waiting_def loop_entry_def started_def)

lemma waiting_recv:
  "\<exists>m b. saiagent_ipc_recv 0 (ms @ [request_from 7 9 [0, 2, 0, 0]]) (in_msg waiting) = Inr (RC_STATUS_OK, m) \<and>
    buf m = Some ([0, 2, 0, 0] @ drop (length [0, 2, 0, 0 :: u8]) b) \<and> length b = SAIAGENT_MSG_MAX_SIZE"
  using recv_last [OF _ carries_vlan_create, of "in_msg waiting" ms] waiting_ok by (fastforce simp: loop_ok_def)

lemma waiting_turn: "\<exists>s'. ipc_turn ok_lib (waiting_input ms) waiting = Inr s'"
proof -
  obtain m b where m: "saiagent_ipc_recv (rx_rc (waiting_input ms)) (rx_msgs (waiting_input ms)) (in_msg waiting) =
      Inr (RC_STATUS_OK, m)"
    "buf m = Some ([0, 2, 0, 0] @ drop (length [0, 2, 0, 0 :: u8]) b)" "length b = SAIAGENT_MSG_MAX_SIZE"
    using waiting_recv [of ms] by auto
  have "length ([0, 2, 0, 0] @ drop (length [0, 2, 0, 0 :: u8]) b) = SAIAGENT_MSG_MAX_SIZE" using m(3) by simp
  from turn_returns [OF waiting_ok ok_lib_conforms ok_lib_fits _ m(1,2) this] vlan_create_safe ok_env_ok show ?thesis by simp
qed

lemma waiting_running: "running (ipc (agent_of waiting)) \<noteq> 0"
  by (simp add: waiting_def loop_entry_def)

lemma reachable_answered:
  "\<exists>s r. reachable ok_lib s \<and> \<lparr>out_family = 28, out_type = SAIAGENT_NL_TYPE_REPLY,
      out_pid = 7, out_seq = 9, out_tlv = Some r\<rparr> \<in> set (nl_sent (ipc (agent_of s)))"
proof -
  obtain s' where t: "ipc_turn ok_lib (waiting_input []) waiting = Inr s'" using waiting_turn by blast
  have "reachable ok_lib s'" using reachable.step [OF reachable_waiting agent_step.turn [OF waiting_running t]] .
  moreover obtain r where "nl_sent (ipc (agent_of s')) = nl_sent (ipc (agent_of waiting)) @
      [reply_to (agent_of waiting) (request_from 7 9 [0, 2, 0, 0]) r]"
    using turn_batch(2) [OF waiting_ok _ _ carries_vlan_create [of 7 9] t, where ms = "[]"] nl_good_ok by auto
  ultimately show ?thesis
    by (intro exI [of _ s'] exI [of _ r]) (simp add: reply_to_def request_from_def waiting_def loop_entry_def started_def)
qed

theorem turn_answers_witness:
  "\<exists>s' r. ipc_turn ok_lib (waiting_input []) waiting = Inr s' \<and> good_reply r \<and>
    nl_sent (ipc (agent_of s')) = nl_sent (ipc started) @ [\<lparr>out_family = 28, out_type = SAIAGENT_NL_TYPE_REPLY,
      out_pid = 7, out_seq = 9, out_tlv = Some r\<rparr>]"
proof -
  have "env_ok (cb_env (waiting_input []))" "rx_rc (waiting_input []) = 0"
    "rx_msgs (waiting_input []) = [request_from 7 9 [0, 2, 0, 0]]" by (simp_all add: ok_env_ok)
  from turn_answers [OF waiting_ok ok_lib_conforms ok_lib_fits this carries_vlan_create] nl_good_ok vlan_create_safe
  show ?thesis by (simp add: reply_to_def) (simp add: request_from_def waiting_def loop_entry_def started_def)
qed

theorem reachable_replies_ok_witness:
  "\<exists>s r. reachable ok_lib s \<and> \<lparr>out_family = 28, out_type = SAIAGENT_NL_TYPE_REPLY,
      out_pid = 7, out_seq = 9, out_tlv = Some r\<rparr> \<in> set (nl_sent (ipc (agent_of s))) \<and> reply_type r = PRESTERA_CMD_TYPE_ACK"
  using reachable_answered reachable_replies_ok by fastforce

text \<open>
  C3. The loop is a server that answers in order.  If each receive delivers exactly one request
  that fits the buffer and every reply can be sent, then a run that does not get stuck has answered a prefix
  of the requests, one reply each, in their order and with their senders and sequence
  numbers: all of them if the loop is still waiting.
\<close>

theorem loop_answers_in_order:
  assumes "loop_ok s" "ipc_loop sai is s = Inr r"
    "\<forall>i \<in> set is. rx_rc i = 0 \<and> (\<exists>x bs. rx_msgs i = [x] \<and> carries x bs) \<and> (\<forall>n. nl_send_ok (reply_calls i) n)"
  shows "\<exists>n s' l. (r = Loop_Waits s' \<and> n = length is \<or> r = Loop_Exit s' \<and> running (ipc (agent_of s')) = 0) \<and>
    nl_sent (ipc (agent_of s')) = nl_sent (ipc (agent_of s)) @ l \<and>
    map (\<lambda>m. (out_type m, out_pid m, out_seq m)) l =
      map (\<lambda>i. (SAIAGENT_NL_TYPE_REPLY, nlmsg_pid (hd (rx_msgs i)), nlmsg_seq (hd (rx_msgs i)))) (take n is)"
  using running_loop_answers [OF assms] by (metis (mono_tags, lifting))

theorem loop_answers_in_order_witness:
  "\<exists>r n s' l. ipc_loop ok_lib [waiting_input []] waiting = Inr r \<and>
    (r = Loop_Waits s' \<and> n = 1 \<or> r = Loop_Exit s' \<and> running (ipc (agent_of s')) = 0) \<and>
    nl_sent (ipc (agent_of s')) = nl_sent (ipc (agent_of waiting)) @ l \<and>
    map (\<lambda>m. (out_type m, out_pid m, out_seq m)) l = take n [(SAIAGENT_NL_TYPE_REPLY, 7, 9)]"
proof -
  obtain s' where "ipc_turn ok_lib (waiting_input []) waiting = Inr s'" using waiting_turn by blast
  then obtain r where r: "ipc_loop ok_lib [waiting_input []] waiting = Inr r" using waiting_running by auto
  have "\<forall>i \<in> set [waiting_input []]. rx_rc i = 0 \<and> (\<exists>x bs. rx_msgs i = [x] \<and> carries x bs) \<and> (\<forall>n. nl_send_ok (reply_calls i) n)"
    using carries_vlan_create nl_good_ok by auto
  from loop_answers_in_order [OF waiting_ok r this] r show ?thesis
    by (fastforce simp: request_from_def take_map [symmetric] simp del: take_map)
qed

text \<open>
  C30. A batch is answered once.  When one call of \<open>nl_recvmsgs\<close> delivers several valid
  requests, each overwrites the one before in the receive buffer: at most one reply is
  sent, to the last request, and the others are never answered.
\<close>

theorem batch_loses_requests:
  assumes "loop_ok s" "rx_rc i = 0" "rx_msgs i = ms @ [x]" "carries x bs" "ipc_turn sai i s = Inr s'"
  shows "nl_sent (ipc (agent_of s')) = nl_sent (ipc (agent_of s)) \<or>
    (\<exists>r. nl_sent (ipc (agent_of s')) = nl_sent (ipc (agent_of s)) @ [reply_to (agent_of s) x r])"
  using turn_batch(1) [OF assms] by blast

theorem batch_loses_requests_witness:
  "\<exists>s'. ipc_turn ok_lib (waiting_input [request_from 7 8 [0, 2, 0, 0]]) waiting = Inr s' \<and>
    length (nl_sent (ipc (agent_of s'))) \<le> Suc (length (nl_sent (ipc (agent_of waiting))))"
proof -
  obtain s' where t: "ipc_turn ok_lib (waiting_input [request_from 7 8 [0, 2, 0, 0]]) waiting = Inr s'"
    using waiting_turn by blast
  from batch_loses_requests [OF waiting_ok _ _ carries_vlan_create [of 7 9] t, where ms = "[request_from 7 8 [0, 2, 0, 0]]"] t
  show ?thesis by auto
qed

text \<open>
  C28. A receive that delivers nothing replays.  The receive structure is not reset between
  turns, so if \<open>nl_recvmsgs\<close> returns 0 without calling back after a turn that received \<open>x\<close>,
  the turn is exactly the turn of receiving \<open>x\<close> again: its request is processed and answered
  once more.
\<close>

theorem empty_receive_replays:
  assumes "recv_1500 m" "carries x bs" "saiagent_ipc_recv 0 [x] m = Inr (RC_STATUS_OK, in_msg s)"
  shows "ipc_turn sai (i\<lparr>rx_rc := 0, rx_msgs := []\<rparr>) s = ipc_turn sai (i\<lparr>rx_rc := 0, rx_msgs := [x]\<rparr>) s"
proof -
  obtain b where b: "buf (in_msg s) = Some (bs @ drop (length bs) b)" "recv_payload_size (in_msg s) = of_nat (length bs)"
      "pid (in_msg s) = nlmsg_pid x" "seq (in_msg s) = nlmsg_seq x" "recv_1500 (in_msg s)"
    using recv_last [OF assms(1,2), of "[]"] assms(3) by auto
  have "err (in_msg s) = RC_STATUS_OK" using assms(3) by (auto simp: saiagent_ipc_recv_def split: if_splits)
  then have e: "saiagent_ipc_recv 0 [] (in_msg s) = Inr (RC_STATUS_OK, in_msg s)" by (simp add: saiagent_ipc_recv_def)
  obtain attrs where x: "nl_parsed x = Some attrs" "tlv attrs = Some bs" "length bs < unat (recv_size (in_msg s))"
    using assms(2) b(5) by (auto simp: carries_def recv_1500_ok)
  have ok: "recv_ok (in_msg s)" using b(5) by (simp add: recv_1500_ok)
  have "saiagent_ipc_recv 0 [x] (in_msg s) = Inr (RC_STATUS_OK, in_msg s)"
    using handle_recv_valid [OF ok x] b \<open>err (in_msg s) = RC_STATUS_OK\<close> by (auto simp: saiagent_ipc_recv_def)
  with e show ?thesis by (simp add: ipc_turn_def Let_def cong: if_cong)
qed

theorem empty_receive_replays_witness:
  "\<exists>s. loop_ok s \<and> ipc_turn ok_lib ((waiting_input [])\<lparr>rx_rc := 0, rx_msgs := []\<rparr>) s =
    ipc_turn ok_lib ((waiting_input [])\<lparr>rx_rc := 0, rx_msgs := [request_from 7 9 [0, 2, 0, 0]]\<rparr>) s"
proof -
  obtain s where t: "ipc_turn ok_lib (waiting_input []) waiting = Inr s" using waiting_turn by blast
  obtain m b where m: "saiagent_ipc_recv 0 [request_from 7 9 [0, 2, 0, 0]] (in_msg waiting) = Inr (RC_STATUS_OK, m)"
    using waiting_recv [of "[]"] by auto
  have w: "recv_1500 (in_msg waiting)" using waiting_ok by (simp add: loop_ok_def)
  have "in_msg s = m" using waiting_ok t
  proof (cases rule: turn_result)
    case (request m' b a ctx)
    with m show ?thesis by simp
  qed (use m in simp)
  with m empty_receive_replays [OF w carries_vlan_create [of 7 9], where s = s] loop_ok_turn [OF waiting_ok t] show ?thesis by blast
qed

text \<open>
  C29. The size of a request is not checked beyond its type word.  A request of 4 bytes runs
  the same handler with the same effect as a complete one: the fields are taken from what
  the receive buffer holds behind the type word, the bytes of an earlier request.
\<close>

theorem request_size_ignored:
  assumes "length b = SAIAGENT_MSG_MAX_SIZE" "length rb = SAIAGENT_MSG_MAX_SIZE" "4 \<le> n"
  shows "saiagent_ipc_process_req (run_cb sai e) cbs (Some b) n (Some rb) (of_nat SAIAGENT_MSG_MAX_SIZE) a =
    saiagent_ipc_process_req (run_cb sai e) cbs (Some b) 4 (Some rb) (of_nat SAIAGENT_MSG_MAX_SIZE) a"
proof -
  have "\<not> n < 4" using assms(3) by simp
  then show ?thesis
    unfolding process_req_eq [OF assms(1,2)] by (cases "cbs (request_cmd b)") (simp_all add: run_cb_size [where n = n and n' = 4])
qed


theorem request_size_ignored_witness:
  "saiagent_ipc_process_req (run_cb ok_lib ok_env) (\<lambda>c. Some Process_vlan_port_set) (Some (replicate 1500 0)) 28
      (Some (replicate 1500 0)) (of_nat 1500) two_ports =
   saiagent_ipc_process_req (run_cb ok_lib ok_env) (\<lambda>c. Some Process_vlan_port_set) (Some (replicate 1500 0)) 4
      (Some (replicate 1500 0)) (of_nat 1500) two_ports"
  by (rule request_size_ignored) (rule length_replicate, rule length_replicate, simp)



text \<open>
  C6. A reset ends the loop.  If the turn that receives a \<open>SWITCH_RESET\<close> of at least a type word,
  for a switch that exists, returns, then the loop exits after that turn, whatever would
  have arrived next.
\<close>

theorem reset_ends_loop:
  assumes "loop_ok s" "running (ipc (agent_of s)) \<noteq> 0" "switch_oid (sw_info (agent_of s)) \<noteq> SAI_NULL_OBJECT_ID"
    "ipc_cb_list (ipc (agent_of s)) PRESTERA_CMD_TYPE_SWITCH_RESET = Some Process_switch_reset"
    "rx_rc i = 0" "rx_msgs i = [x]" "carries x (le_bytes 4 PRESTERA_CMD_TYPE_SWITCH_RESET @ bs)" "ipc_turn sai i s = Inr s'"
  shows "ipc_loop sai (i # is) s = Inr (Loop_Exit s')"
proof -
  let ?bs = "le_bytes 4 PRESTERA_CMD_TYPE_SWITCH_RESET @ bs"
  have in_ok: "recv_1500 (in_msg s)" using assms(1) by (simp add: loop_ok_def)
  have len: "length ?bs < SAIAGENT_MSG_MAX_SIZE" using assms(7) by (simp add: carries_def)
  obtain m b where m: "saiagent_ipc_recv (rx_rc i) (rx_msgs i) (in_msg s) = Inr (RC_STATUS_OK, m)"
      "buf m = Some (?bs @ drop (length ?bs) b)" "length b = SAIAGENT_MSG_MAX_SIZE" "recv_payload_size m = of_nat (length ?bs)"
    using recv_last [OF in_ok assms(7), of "[]"] assms(5,6) by auto
  have bl: "length (?bs @ drop (length ?bs) b) = SAIAGENT_MSG_MAX_SIZE" using m(3) len by simp
  have "unat (of_nat k :: size_t) = k" if "k < SAIAGENT_MSG_MAX_SIZE" for k using that by (simp add: unat_of_nat)
  from this [OF len] have sz: "\<not> recv_payload_size m < 4" unfolding m(4) word_less_nat_alt by simp
  have cmd: "request_cmd (?bs @ drop (length ?bs) b) = PRESTERA_CMD_TYPE_SWITCH_RESET"
    by (simp add: request_cmd_def del: le_bytes.simps)
  have "request_cmd (?bs @ drop (length ?bs) b) < PRESTERA_CMD_TYPE_MAX"
    "ipc_cb_list (ipc (agent_of s)) (request_cmd (?bs @ drop (length ?bs) b)) = Some Process_switch_reset"
    using assms(4) unfolding cmd by simp_all
  from turn_ran [OF assms(1,8) m(1,2) bl sz this] reset_stops assms(3) have stop: "running (ipc (agent_of s')) = 0"
    by fastforce
  have "ipc_loop sai is s' = Inr (Loop_Exit s')" using stop by (cases "is") simp_all
  with assms(2,8) show ?thesis by simp
qed


text \<open>The waiting loop of an agent with a switch and a keepalive thread.\<close>

definition with_switch :: loop_state where
  "with_switch = loop_entry (empty_recv_msg 0) (empty_recv_msg 0) (Some (replicate SAIAGENT_MSG_MAX_SIZE 0))
     (Some (replicate SAIAGENT_MSG_MAX_SIZE 0)) (with_keepalive\<lparr>ipc := (ipc with_keepalive)\<lparr>ipc_cb_list :=
       (\<lambda>c. None)(PRESTERA_CMD_TYPE_SWITCH_RESET := Some Process_switch_reset)\<rparr>\<rparr>)"

lemma with_switch_ok: "loop_ok with_switch"
  unfolding with_switch_def
  by (rule loop_ok_entry) (simp_all add: agent_ok_def with_keepalive_def two_ports_def agent_start_def)

theorem reset_ends_loop_witness:
  "\<exists>s'. ipc_loop ok_lib [request_input 7 9 [4, 0, 0, 0], waiting_input []] with_switch = Inr (Loop_Exit s')"
proof -
  let ?i = "request_input 7 9 [4, 0, 0, 0]"
  have i: "rx_rc ?i = 0" "rx_msgs ?i = [request_from 7 9 [4, 0, 0, 0]]" "cb_env ?i = ok_env"
    by (simp_all add: request_input_def)
  have bytes: "[4, 0, 0, 0] = le_bytes 4 PRESTERA_CMD_TYPE_SWITCH_RESET @ []" by code_simp
  have c: "carries (request_from 7 9 [4, 0, 0, 0]) [4, 0, 0, 0]" by (rule carries_request_from) simp
  have in_ok: "recv_1500 (in_msg with_switch)" using with_switch_ok by (simp add: loop_ok_def)
  have st: "running (ipc (agent_of with_switch)) \<noteq> 0" "switch_oid (sw_info (agent_of with_switch)) \<noteq> SAI_NULL_OBJECT_ID"
    "ipc_cb_list (ipc (agent_of with_switch)) PRESTERA_CMD_TYPE_SWITCH_RESET = Some Process_switch_reset"
    by (simp_all add: with_switch_def loop_entry_def with_keepalive_def two_ports_def)
  obtain m b where m: "saiagent_ipc_recv (rx_rc ?i) (rx_msgs ?i) (in_msg with_switch) = Inr (RC_STATUS_OK, m)"
      "buf m = Some ([4, 0, 0, 0] @ drop (length [4, 0, 0, 0 :: u8]) b)" "length b = SAIAGENT_MSG_MAX_SIZE"
    using recv_last [OF in_ok c, of "[]"] i(1,2) by auto
  have len: "length ([4, 0, 0, 0] @ drop (length [4, 0, 0, 0 :: u8]) b) = SAIAGENT_MSG_MAX_SIZE" using m(3) by simp
  have "request_safe ok_lib (cb_env ?i) (agent_of with_switch) ([4, 0, 0, 0] @ drop (length [4, 0, 0, 0 :: u8]) b) n" for n
    unfolding i(3)
    by (simp add: request_safe_def request_cmd_def with_switch_def loop_entry_def keepalive_live_def thread_deref_def
        with_keepalive_def two_ports_def ok_lib_def ok_env_def)
  with turn_returns [OF with_switch_ok ok_lib_conforms ok_lib_fits _ m(1,2) len] ok_env_ok i(3)
  obtain s' where "ipc_turn ok_lib ?i with_switch = Inr s'" by auto
  from reset_ends_loop [OF with_switch_ok st i(1,2) subst [where P = "carries (request_from 7 9 [4, 0, 0, 0])", OF bytes c] this]
  show ?thesis by (rule exI)
qed

end
