(* ===== verification/Saiagent_Main.thy ===== *)
theory Saiagent_Main
  imports Saiagent_Loop
begin

text \<open>
  \<open>saiagent.c\<close>: the profile file, the two services that read it, the command line, and
  \<open>main\<close>.  Files are strings, \<open>getopt_long\<close> is the list of options it returns, and the end
  of \<open>main\<close> is a value, so a run that waits for the driver or for a request is told apart
  from one that exits.
\<close>

section \<open>The profile file\<close>

abbreviation (input) PARAM_NAME_LEN :: nat where "PARAM_NAME_LEN \<equiv> 128"
abbreviation (input) PARAM_VALUE_LEN :: nat where "PARAM_VALUE_LEN \<equiv> 256"

text \<open>The macro has no parentheses: \<open>PARAM_MAX_LINE_SIZE - 1\<close> is 128 + 256 + 16 - 1.\<close>

abbreviation (input) PARAM_MAX_LINE_SIZE :: nat where "PARAM_MAX_LINE_SIZE \<equiv> 128 + 256 + 16"

record param =
  param_name :: string
  param_value :: string

text \<open>\<open>fgets\<close> into a buffer of \<open>n\<close> bytes: at most \<open>n - 1\<close> characters, up to and with a newline.\<close>

fun fgets_line :: "nat \<Rightarrow> string \<Rightarrow> string \<times> string" where
  "fgets_line 0 s = ([], s)"
| "fgets_line (Suc n) [] = ([], [])"
| "fgets_line (Suc n) (c # s) =
     (if c = CHR 0x0A then ([c], s) else let (l, r) = fgets_line n s in (c # l, r))"

definition c_string :: "string \<Rightarrow> string" where
  "c_string s = takeWhile (\<lambda>c. c \<noteq> CHR 0x00) s"

text \<open>\<open>[a-z_A-Z0-9]\<close> and \<open>[^#\n\r]\<close>.\<close>

definition name_char :: "char \<Rightarrow> bool" where
  "name_char c \<longleftrightarrow> (let n = (of_char c :: nat) in
     97 \<le> n \<and> n \<le> 122 \<or> n = 95 \<or> 65 \<le> n \<and> n \<le> 90 \<or> 48 \<le> n \<and> n \<le> 57)"

definition value_char :: "char \<Rightarrow> bool" where
  "value_char c \<longleftrightarrow> c \<noteq> CHR ''#'' \<and> c \<noteq> CHR 0x0A \<and> c \<noteq> CHR 0x0D"

text \<open>
  \<open>sscanf (line, "%[a-z_A-Z0-9]=%[^#\n\r]", name, value)\<close>: \<open>None\<close> when fewer than two
  conversions are made.  A conversion stores its characters and a null byte, with no limit
  on their number.
\<close>

definition sscanf_param :: "string \<Rightarrow> param option outcome" where
  "sscanf_param line =
     (let s = c_string line; name = takeWhile name_char s; rest = dropWhile name_char s in
      if name = [] then Inr None
      else if length name + 1 > PARAM_NAME_LEN then Inl Out_Of_Bounds
      else
        (case rest of
           [] \<Rightarrow> Inr None
         | c # rest \<Rightarrow>
             if c \<noteq> CHR ''='' then Inr None
             else
               let val = takeWhile value_char rest in
               if val = [] then Inr None
               else if length val + 1 > PARAM_VALUE_LEN then Inl Out_Of_Bounds
               else Inr (Some \<lparr>param_name = name, param_value = val\<rparr>)))"

lemma fgets_line_length: "length (snd (fgets_line n s)) \<le> length s"
  by (induction n s rule: fgets_line.induct) (auto split: prod.splits)

lemma fgets_line_consumes: "s \<noteq> [] \<Longrightarrow> length (snd (fgets_line (Suc n) s)) < length s"
  using fgets_line_length [of n] by (cases s) (simp_all add: case_prod_unfold Let_def less_Suc_eq_le)

text \<open>
  The loop of \<open>sai_profile_parse\<close> on what is left of the file; \<open>k\<close> numbers the calls of
  \<open>calloc\<close>.  \<open>None\<close> is the exit from inside the loop, which leaves \<open>*params\<close> alone.
\<close>

function profile_lines :: "(nat \<Rightarrow> bool) \<Rightarrow> nat \<Rightarrow> string \<Rightarrow> param list \<Rightarrow> param list option outcome" where
  "profile_lines calloc_ok k s param_last =
     (if s = [] then Inr (Some param_last)
      else
        let (line, rest) = fgets_line (PARAM_MAX_LINE_SIZE - 1 - 1) s in
        if \<not> calloc_ok k then Inr None
        else
          bind_o (sscanf_param line) (\<lambda>p.
            case p of
              None \<Rightarrow> Inr None
            | Some new_param \<Rightarrow> profile_lines calloc_ok (Suc k) rest (new_param # param_last)))"
  by pat_completeness auto
termination
proof (relation "measure (\<lambda>(f, k, s, p). length s)", goal_cases)
  case (2 f k s p l line rest)
  then have "fgets_line 398 s = (line, rest)" by simp
  then have "rest = snd (fgets_line 398 s)" by simp
  with 2(1) show ?case using fgets_line_consumes [of s 397] by simp
qed simp

declare profile_lines.simps [simp del]

text \<open>The file's content is \<open>None\<close> when \<open>fopen\<close> fails; \<open>params\<close> is \<open>*params\<close>.\<close>

definition sai_profile_parse :: "(nat \<Rightarrow> bool) \<Rightarrow> string option \<Rightarrow> param list \<Rightarrow> (saiagent_rc_t \<times> param list) outcome" where
  "sai_profile_parse calloc_ok f params =
     (case f of
        None \<Rightarrow> Inr (RC_STATUS_ERR, params)
      | Some s \<Rightarrow>
          bind_o (profile_lines calloc_ok 0 s []) (\<lambda>r.
            Inr (RC_STATUS_OK, case r of None \<Rightarrow> params | Some l \<Rightarrow> l)))"

section \<open>The profile services\<close>

text \<open>\<open>g_profile_params\<close> and \<open>g_iter\<close>; a pointer to a node is the list from that node on.\<close>

record profile =
  g_profile_params :: "param list"
  g_iter :: "param list"

fun profile_find :: "param list \<Rightarrow> string option \<Rightarrow> string option" where
  "profile_find [] variable = None"
| "profile_find (p # ps) variable =
     (if variable \<noteq> None \<and> param_name p = the variable then Some (param_value p) else profile_find ps variable)"

definition sai_profile_get_value :: "profile \<Rightarrow> string option \<Rightarrow> string option" where
  "sai_profile_get_value st variable = profile_find (g_profile_params st) variable"

text \<open>\<open>variable\<close> tells whether the pointer given is not null; the pair is what is stored.\<close>

definition sai_profile_get_next_value :: "profile \<Rightarrow> bool \<Rightarrow> int \<times> (string \<times> string) option \<times> profile" where
  "sai_profile_get_next_value st variable =
     (if \<not> variable then (-1, None, st\<lparr>g_iter := g_profile_params st\<rparr>)
      else
        (case g_iter st of
           [] \<Rightarrow> (-1, None, st\<lparr>g_iter := g_profile_params st\<rparr>)
         | p # ps \<Rightarrow> (0, Some (param_name p, param_value p), st\<lparr>g_iter := ps\<rparr>)))"

section \<open>The command line\<close>

datatype option_found = Opt_profile string | Opt_portmap string | Opt_unknown

record cmd_opts =
  port_map_file :: "string option"
  profile_params :: "param list"

fun cmd_line_process :: "(nat \<Rightarrow> bool) \<Rightarrow> (string \<Rightarrow> string option) \<Rightarrow> option_found list \<Rightarrow> cmd_opts \<Rightarrow>
    (saiagent_rc_t \<times> cmd_opts) outcome" where
  "cmd_line_process calloc_ok fs [] opts = Inr (RC_STATUS_OK, opts)"
| "cmd_line_process calloc_ok fs (Opt_profile optarg # os) opts =
     bind_o (sai_profile_parse calloc_ok (fs optarg) (profile_params opts)) (\<lambda>(rc, params).
       let opts = opts\<lparr>profile_params := params\<rparr> in
       if rc \<noteq> RC_STATUS_OK then Inr (RC_STATUS_ERR, opts) else cmd_line_process calloc_ok fs os opts)"
| "cmd_line_process calloc_ok fs (Opt_portmap optarg # os) opts =
     (case fs optarg of
        None \<Rightarrow> Inr (RC_STATUS_ERR, opts)
      | Some s \<Rightarrow> cmd_line_process calloc_ok fs os (opts\<lparr>port_map_file := Some optarg\<rparr>))"
| "cmd_line_process calloc_ok fs (Opt_unknown # os) opts = Inr (RC_STATUS_ERR, opts)"

section \<open>\<open>main\<close>\<close>

abbreviation (input) EXIT_SUCCESS :: int where "EXIT_SUCCESS \<equiv> 0"
abbreviation (input) EXIT_FAILURE :: int where "EXIT_FAILURE \<equiv> 1"

text \<open>
  What \<open>main\<close> meets: the files, the options, the netlink calls of the set-up and of the
  driver's handshake, and what the loop meets.
\<close>

record world =
  files :: "string \<Rightarrow> string option"
  options :: "option_found list"
  calloc_params :: "nat \<Rightarrow> bool"
  nl_calls :: nl_setup
  drv_calls :: nl_env
  drv_rc :: int
  drv_msgs :: "nl_in list"
  inputs :: "loop_input list"
  in_junk :: saiagent_nl_recv_msg
  out_junk :: saiagent_nl_recv_msg
  in_mem :: "u8 list option"
  out_mem :: "u8 list option"

text \<open>\<open>Exits code a l\<close>: the exit code, the agent's state, and the sockets freed by \<open>saiagent_ipc_deinit\<close>.\<close>

datatype main_result = Exits int agent "nat list" | Waits_For_Driver | Waits_For_Request loop_state

definition main_exit :: "agent \<Rightarrow> main_result outcome" where
  "main_exit a = Inr (Exits EXIT_SUCCESS a (saiagent_ipc_deinit (ipc a)))"

definition main_ipc :: "sai_lib \<Rightarrow> world \<Rightarrow> agent \<Rightarrow> main_result outcome" where
  "main_ipc sai w a =
     (case saiagent_ipc_init (nl_calls w) (ipc a) of
        None \<Rightarrow> Inr Waits_For_Driver
      | Some (status, ctx, freed) \<Rightarrow>
          let a = a\<lparr>ipc := ctx\<rparr> in
          if status \<noteq> RC_STATUS_OK then main_exit a
          else
            let (status, a) = saiagent_switch_ipc_init a in
            if status \<noteq> RC_STATUS_OK then main_exit a
            else
              bind_o (saiagent_ipc_drv_init (drv_calls w) (drv_rc w) (drv_msgs w) (ipc a)) (\<lambda>(status, ctx).
                let a = a\<lparr>ipc := ctx\<rparr> in
                if status \<noteq> RC_STATUS_OK then main_exit a
                else
                  bind_o (saiagent_ipc_enter_loop sai (inputs w) (in_junk w) (out_junk w) (in_mem w) (out_mem w) a) (\<lambda>r.
                    case r of
                      Loop_Waits s \<Rightarrow> Inr (Waits_For_Request s)
                    | Loop_Exit s \<Rightarrow> main_exit (snd (sai_status sai Sai_api_uninitialize (agent_of s))))))"

definition main :: "sai_lib \<Rightarrow> world \<Rightarrow> main_result outcome" where
  "main sai w =
     bind_o (cmd_line_process (calloc_params w) (files w) (options w) \<lparr>port_map_file = None, profile_params = []\<rparr>) (\<lambda>(rc, opts).
       if rc \<noteq> RC_STATUS_OK then Inr (Exits EXIT_FAILURE agent_start [])
       else if profile_params opts = [] then Inr (Exits EXIT_FAILURE agent_start [])
       else
         let (st, a) = sai_status sai Sai_api_initialize agent_start in
         if st \<noteq> SAI_STATUS_SUCCESS then Inr (Exits EXIT_FAILURE a [])
         else
           let (st, a) = sai_status sai (Sai_log_set SAI_API_SWITCH SAI_LOG_LEVEL_INFO) a in
           if st \<noteq> SAI_STATUS_SUCCESS then Inr (Exits EXIT_FAILURE a []) else main_ipc sai w a)"

section \<open>Lemmas: reading a profile\<close>

text \<open>The text of a definition, and the definitions that fit the two arrays.\<close>

definition render_param :: "param \<Rightarrow> string" where
  "render_param p = param_name p @ [CHR ''=''] @ param_value p @ [CHR 0x0A]"

definition param_ok :: "param \<Rightarrow> bool" where
  "param_ok p \<longleftrightarrow> param_name p \<noteq> [] \<and> length (param_name p) < PARAM_NAME_LEN \<and> list_all name_char (param_name p) \<and>
     param_value p \<noteq> [] \<and> length (param_value p) < PARAM_VALUE_LEN \<and>
     list_all (\<lambda>c. value_char c \<and> c \<noteq> CHR 0x00) (param_value p)"

lemma fgets_line_whole:
  assumes "CHR 0x0A \<notin> set l" "length l < n"
  shows "fgets_line n (l @ CHR 0x0A # s) = (l @ [CHR 0x0A], s)"
  using assms
proof (induction l arbitrary: n)
  case Nil
  then show ?case by (cases n) simp_all
next
  case (Cons c l)
  then show ?case by (cases n) auto
qed

lemma name_char_facts:
  "\<not> name_char (CHR 0x00)" "\<not> name_char (CHR 0x0A)" "\<not> name_char (CHR ''='')"
  by (simp_all add: name_char_def Let_def)

lemma sscanf_render:
  assumes "param_ok p"
  shows "sscanf_param (render_param p) = Inr (Some p)"
proof -
  have n: "list_all name_char (param_name p)" and v: "list_all (\<lambda>c. value_char c \<and> c \<noteq> CHR 0x00) (param_value p)"
    using assms by (simp_all add: param_ok_def)
  have nz: "CHR 0x00 \<notin> set (param_name p)" "CHR 0x00 \<notin> set (param_value p)"
    using n v name_char_facts(1) by (auto simp: list_all_iff)
  have c: "c_string (render_param p) = render_param p"
    unfolding c_string_def takeWhile_eq_all_conv using nz by (auto simp: render_param_def)
  have tn: "takeWhile name_char (render_param p) = param_name p"
    "dropWhile name_char (render_param p) = CHR ''='' # param_value p @ [CHR 0x0A]"
    using n name_char_facts(3) by (simp_all add: render_param_def list_all_iff takeWhile_append2 dropWhile_append2)
  have tv: "takeWhile value_char (param_value p @ [CHR 0x0A]) = param_value p"
    using v by (simp add: list_all_iff takeWhile_append2 value_char_def)
  show ?thesis
    using assms by (simp add: sscanf_param_def Let_def c tn tv param_ok_def)
qed

lemma profile_lines_render:
  assumes "\<And>k. calloc_ok k" "list_all param_ok ps"
  shows "profile_lines calloc_ok k (concat (map render_param ps) @ s) acc =
    profile_lines calloc_ok (k + length ps) s (rev ps @ acc)"
  using assms(2)
proof (induction ps arbitrary: k acc)
  case (Cons p ps)
  then have p: "param_ok p" by simp
  have "CHR 0x0A \<notin> set (param_name p @ [CHR ''=''] @ param_value p)"
    using p name_char_facts(2) by (auto simp: param_ok_def list_all_iff value_char_def)
  moreover have "length (param_name p @ [CHR ''=''] @ param_value p) < 398"
    using p by (simp add: param_ok_def)
  ultimately have f: "fgets_line 398 (render_param p @ t) = (render_param p, t)" for t
    using fgets_line_whole [of "param_name p @ [CHR ''=''] @ param_value p" 398 t] by (simp add: render_param_def)
  have ne: "render_param p \<noteq> []" by (simp add: render_param_def)
  have "list_all param_ok ps" using Cons.prems by simp
  note IH = Cons.IH [OF this]
  have all: "calloc_ok = (\<lambda>k. True)" using assms(1) by auto
  show ?case
    by (subst profile_lines.simps) (simp add: ne f sscanf_render [OF p] IH [unfolded all] all)
qed simp

lemma profile_lines_end: "profile_lines calloc_ok k [] acc = Inr (Some acc)"
  by (simp add: profile_lines.simps)

lemma profile_find_map_of:
  "profile_find ps (Some x) = map_of (map (\<lambda>p. (param_name p, param_value p)) ps) x"
  by (induction ps) simp_all

text \<open>Enumeration: \<open>n\<close> calls with a variable pointer.\<close>

fun profile_enum :: "nat \<Rightarrow> profile \<Rightarrow> (string \<times> string) option list \<times> profile" where
  "profile_enum 0 st = ([], st)"
| "profile_enum (Suc n) st =
     (let (rc, r, st) = sai_profile_get_next_value st True; (rs, st) = profile_enum n st in (r # rs, st))"

lemma profile_enum_append:
  "profile_enum (m + n) st =
    (let (rs, st) = profile_enum m st; (rs', st) = profile_enum n st in (rs @ rs', st))"
  by (induction m arbitrary: st) (simp_all add: case_prod_unfold Let_def)

lemma profile_enum_rest:
  "g_iter st = ps \<Longrightarrow> profile_enum (length ps) st =
     (map (\<lambda>p. Some (param_name p, param_value p)) ps, st\<lparr>g_iter := []\<rparr>)"
  by (induction ps arbitrary: st) (simp_all add: sai_profile_get_next_value_def)

section \<open>Lemmas: lines that do not parse\<close>

lemma fgets_line_prefix:
  assumes "CHR 0x0A \<notin> set l"
  shows "\<exists>r. fst (fgets_line n (l @ s)) = take n l @ r \<and> (n \<le> length l \<longrightarrow> r = [])"
  using assms
proof (induction l arbitrary: n)
  case Nil
  then show ?case by (cases n) auto
next
  case (Cons c l)
  show ?case
  proof (cases n)
    case (Suc k)
    with Cons.IH [of k] Cons.prems show ?thesis by (auto simp: case_prod_unfold Let_def)
  qed simp
qed

lemma name_chars_run:
  assumes "list_all name_char l" "CHR 0x00 \<notin> set l"
  shows "length l \<le> length (takeWhile name_char (c_string (l @ r)))"
proof -
  have "\<forall>c \<in> set l. c \<noteq> CHR 0x00" using assms(2) by auto
  then have "c_string (l @ r) = l @ c_string r" by (simp add: c_string_def takeWhile_append2)
  with assms(1) show ?thesis by (simp add: list_all_iff takeWhile_append2)
qed

text \<open>The loop only ever adds reachable states.\<close>

lemma ipc_loop_reachable:
  assumes "reachable sai s" "ipc_loop sai is s = Inr r"
  shows "\<exists>s'. reachable sai s' \<and> (r = Loop_Waits s' \<or> r = Loop_Exit s' \<and> running (ipc (agent_of s')) = 0)"
  using assms
proof (induction "is" arbitrary: s)
  case (Cons i "is")
  show ?case
  proof (cases "running (ipc (agent_of s)) = 0")
    case False
    with Cons.prems(2) obtain t where t: "ipc_turn sai i s = Inr t" "ipc_loop sai is t = Inr r" by auto
    have "reachable sai t" by (rule reachable.step [OF Cons.prems(1) agent_step.turn [OF False t(1)]])
    from Cons.IH [OF this t(2)] show ?thesis .
  qed (use Cons.prems in auto)
qed auto

lemma main_ipc_waits:
  assumes "main_ipc sai w (agent_start\<lparr>sai_log := l\<rparr>) = Inr (Waits_For_Request s)" "in_mem w = Some mem" "out_mem w = Some mem'"
    "length mem = SAIAGENT_MSG_MAX_SIZE" "length mem' = SAIAGENT_MSG_MAX_SIZE"
    "fst ` set l \<subseteq> {Sai_api_initialize, Sai_log_set SAI_API_SWITCH SAI_LOG_LEVEL_INFO}"
  shows "reachable sai s"
proof -
  have ipc: "ipc (agent_start\<lparr>sai_log := l\<rparr>) = ipc agent_start" by simp
  have upd: "agent_start\<lparr>sai_log := l, ipc := ctx\<rparr> = agent_start\<lparr>ipc := ctx, sai_log := l\<rparr>" for ctx by simp
  from assms(1) obtain ctx freed a ctx' where i: "saiagent_ipc_init (nl_calls w) (ipc agent_start) = Some (RC_STATUS_OK, ctx, freed)"
    and sw: "saiagent_switch_ipc_init (agent_start\<lparr>ipc := ctx, sai_log := l\<rparr>) = (RC_STATUS_OK, a)"
    and d: "saiagent_ipc_drv_init (drv_calls w) (drv_rc w) (drv_msgs w) (ipc a) = Inr (RC_STATUS_OK, ctx')"
    and e: "saiagent_ipc_enter_loop sai (inputs w) (in_junk w) (out_junk w) (in_mem w) (out_mem w) (a\<lparr>ipc := ctx'\<rparr>) =
        Inr (Loop_Waits s)"
    unfolding main_ipc_def ipc
    by (auto simp: Let_def main_exit_def upd split: option.splits if_splits prod.splits loop_result.splits)
  have "reachable sai (loop_entry (in_junk w) (out_junk w) (Some mem) (Some mem') (a\<lparr>ipc := ctx'\<rparr>))"
    by (rule reachable.entry [OF i sw d assms(4-6)])
  from ipc_loop_reachable [OF this] e show ?thesis
    by (fastforce simp: saiagent_ipc_enter_loop_def assms(2,3))
qed

text \<open>A run of \<open>main\<close> ends before the channel is set up, or goes on with two calls in the log.\<close>

lemma main_runs:
  assumes "main sai w = Inr r"
  obtains (refused) a where "r = Exits EXIT_FAILURE a []" "ipc a = ipc agent_start"
  | (channel) l where "main_ipc sai w (agent_start\<lparr>sai_log := l\<rparr>) = Inr r"
    "fst ` set l \<subseteq> {Sai_api_initialize, Sai_log_set SAI_API_SWITCH SAI_LOG_LEVEL_INFO}"
proof -
  let ?a = "snd (sai_status sai (Sai_log_set SAI_API_SWITCH SAI_LOG_LEVEL_INFO) (snd (sai_status sai Sai_api_initialize agent_start)))"
  have "\<exists>l. ?a = agent_start\<lparr>sai_log := l\<rparr> \<and> fst ` set l \<subseteq> {Sai_api_initialize, Sai_log_set SAI_API_SWITCH SAI_LOG_LEVEL_INFO}"
    by (simp add: sai_status_eq agent_start_def)
  then obtain l where l: "?a = agent_start\<lparr>sai_log := l\<rparr>"
    "fst ` set l \<subseteq> {Sai_api_initialize, Sai_log_set SAI_API_SWITCH SAI_LOG_LEVEL_INFO}"
    by blast
  from assms consider "main_ipc sai w ?a = Inr r" | a where "r = Exits EXIT_FAILURE a []" "ipc a = ipc agent_start"
    unfolding main_def sai_status_eq by (auto simp: Let_def split: if_splits)
  then show thesis using refused channel l by cases auto
qed

text \<open>If \<open>main\<close> is waiting for a request, the state it waits in is reachable.\<close>

lemma main_waits_reachable:
  assumes "main sai w = Inr (Waits_For_Request s)" "in_mem w = Some mem" "out_mem w = Some mem'"
    "length mem = SAIAGENT_MSG_MAX_SIZE" "length mem' = SAIAGENT_MSG_MAX_SIZE"
  shows "reachable sai s"
proof -
  show ?thesis
    by (rule main_runs [OF assms(1)]) (simp, rule main_ipc_waits [OF _ assms(2-5)])
qed

section \<open>Properties\<close>

text \<open>
  C34. A profile is read back.  The text of any list of definitions that fit the two arrays
  parses, and then each name has the value of its last definition, and a name that is not
  defined has none.
\<close>

theorem profile_roundtrip:
  assumes "\<And>k. calloc_ok k" "list_all param_ok ps"
  shows "\<exists>params. sai_profile_parse calloc_ok (Some (concat (map render_param ps))) old = Inr (RC_STATUS_OK, params) \<and>
    (\<forall>x. sai_profile_get_value \<lparr>g_profile_params = params, g_iter = params\<rparr> (Some x) =
      map_of (rev (map (\<lambda>p. (param_name p, param_value p)) ps)) x)"
  using profile_lines_render [where calloc_ok = calloc_ok and k = 0 and s = "[]" and acc = "[]", OF assms]
  by (simp add: sai_profile_parse_def profile_lines_end sai_profile_get_value_def profile_find_map_of rev_map)

theorem profile_roundtrip_witness:
  "\<exists>params. sai_profile_parse (\<lambda>k. True) (Some ''a=1
b=2
a=3
'') [] = Inr (RC_STATUS_OK, params) \<and>
    sai_profile_get_value \<lparr>g_profile_params = params, g_iter = params\<rparr> (Some ''a'') = Some ''3''"
proof -
  let ?ps = "[\<lparr>param_name = ''a'', param_value = ''1''\<rparr>, \<lparr>param_name = ''b'', param_value = ''2''\<rparr>,
    \<lparr>param_name = ''a'', param_value = ''3''\<rparr>]"
  have "list_all param_ok ?ps" by (simp add: param_ok_def name_char_def value_char_def Let_def)
  from profile_roundtrip [where calloc_ok = "\<lambda>k. True" and old = "[]", OF _ this] show ?thesis by (fastforce simp: render_param_def)
qed

text \<open>
  Enumeration gives every definition once, the last one first, then reports the end,
  and is back at the beginning.
\<close>

theorem profile_enumeration:
  "profile_enum (Suc (length ps)) \<lparr>g_profile_params = ps, g_iter = ps\<rparr> =
     (map (\<lambda>p. Some (param_name p, param_value p)) ps @ [None], \<lparr>g_profile_params = ps, g_iter = ps\<rparr>)"
  using profile_enum_append [of "length ps" 1 "\<lparr>g_profile_params = ps, g_iter = ps\<rparr>"]
    profile_enum_rest [of "\<lparr>g_profile_params = ps, g_iter = ps\<rparr>" ps]
  by (simp add: sai_profile_get_next_value_def)

text \<open>
  C35. One line that does not parse discards the whole profile, and the caller is told that
  all is well: after any definitions, a line without \<open>name=value\<close>, a comment or an empty
  line for instance, makes \<open>sai_profile_parse\<close> return \<open>OK\<close> with the parameters it was given.
\<close>

theorem malformed_line_drops_profile:
  assumes "\<And>k. calloc_ok k" "list_all param_ok ps" "t \<noteq> []" "sscanf_param (fst (fgets_line 398 t)) = Inr None"
  shows "sai_profile_parse calloc_ok (Some (concat (map render_param ps) @ t)) old = Inr (RC_STATUS_OK, old)"
proof -
  have "profile_lines calloc_ok k t acc = Inr None" for k acc
    using assms(1,3,4) by (subst profile_lines.simps) (auto simp: case_prod_unfold Let_def)
  with profile_lines_render [where calloc_ok = calloc_ok and k = 0 and s = t and acc = "[]", OF assms(1,2)] show ?thesis by (simp add: sai_profile_parse_def)
qed

theorem malformed_line_drops_profile_witness:
  "sai_profile_parse (\<lambda>k. True) (Some ''a=1
# comment
b=2
'') [] = Inr (RC_STATUS_OK, [])"
proof -
  let ?p = "\<lparr>param_name = ''a'', param_value = ''1''\<rparr>"
  have p: "list_all param_ok [?p]" by (simp add: param_ok_def name_char_def value_char_def Let_def)
  have l: "fgets_line 398 (''# comment'' @ CHR 0x0A # ''b=2
'') = (''# comment'' @ [CHR 0x0A], ''b=2
'')"
    by (rule fgets_line_whole) simp_all
  then have "sscanf_param (fst (fgets_line 398 ''# comment
b=2
'')) = Inr None"
    by (simp add: sscanf_param_def c_string_def name_char_def Let_def)
  from malformed_line_drops_profile [where calloc_ok = "\<lambda>k. True" and old = "[]", OF _ p _ this] show ?thesis by (simp add: render_param_def)
qed

text \<open>
  C36. The profile parser does not limit what it copies: a name of 128 characters or more
  overflows the 128-byte array of the new definition.
\<close>

theorem profile_name_overflow:
  assumes "calloc_ok 0" "list_all name_char name" "128 \<le> length name"
  shows "sai_profile_parse calloc_ok (Some (name @ s)) old = Inl Out_Of_Bounds"
proof -
  have nl: "CHR 0x0A \<notin> set name" and nz: "CHR 0x00 \<notin> set name"
    using assms(2) name_char_facts by (auto simp: list_all_iff)
  obtain r where r: "fst (fgets_line 398 (name @ s)) = take 398 name @ r" using fgets_line_prefix [OF nl] by blast
  have n: "128 \<le> length (takeWhile name_char (c_string (take 398 name @ r)))"
  proof (rule order_trans)
    show "128 \<le> length (take 398 name)" using assms(3) by simp
    have "list_all name_char (take 398 name)" "CHR 0x00 \<notin> set (take 398 name)"
      using assms(2) nz by (auto simp: list_all_iff dest: in_set_takeD)
    then show "length (take 398 name) \<le> length (takeWhile name_char (c_string (take 398 name @ r)))"
      by (rule name_chars_run)
  qed
  then have "takeWhile name_char (c_string (take 398 name @ r)) \<noteq> []" by auto
  with n have "sscanf_param (take 398 name @ r) = Inl Out_Of_Bounds"
    by (simp add: sscanf_param_def Let_def)
  moreover have "name @ s \<noteq> []" using assms(3) by auto
  ultimately show ?thesis
    using assms(1) r by (subst sai_profile_parse_def, subst profile_lines.simps) (simp add: case_prod_unfold Let_def)
qed

theorem profile_name_overflow_witness:
  "sai_profile_parse (\<lambda>k. True) (Some (replicate 128 CHR ''a'' @ ''=1'')) [] = Inl Out_Of_Bounds"
  by (rule profile_name_overflow) (simp_all add: name_char_def Let_def list_all_iff)

text \<open>A run of the program: a profile of one line, and a loop that waits for its first request.\<close>

definition quiet_world :: world where
  "quiet_world = \<lparr>files = (\<lambda>f. Some ''a=1
''), options = [Opt_profile ''p''], calloc_params = (\<lambda>k. True), nl_calls = nl_setup_good, drv_calls = nl_good,
     drv_rc = 0, drv_msgs = [\<lparr>nlmsg_pid = 0, nlmsg_seq = 0, nl_parsed = Some \<lparr>drv_init_ack = True, tlv = None\<rparr>\<rparr>],
     inputs = [], in_junk = empty_recv_msg 0, out_junk = empty_recv_msg 0,
     in_mem = Some (replicate SAIAGENT_MSG_MAX_SIZE 0), out_mem = Some (replicate SAIAGENT_MSG_MAX_SIZE 0)\<rparr>"

lemma quiet_options:
  "cmd_line_process (calloc_params quiet_world) (files quiet_world) (options quiet_world)
     \<lparr>port_map_file = None, profile_params = []\<rparr> =
   Inr (RC_STATUS_OK, \<lparr>port_map_file = None, profile_params = [\<lparr>param_name = ''a'', param_value = ''1''\<rparr>]\<rparr>)"
proof -
  let ?p = "\<lparr>param_name = ''a'', param_value = ''1''\<rparr>"
  have "list_all param_ok [?p]" by (simp add: param_ok_def name_char_def value_char_def Let_def)
  from profile_lines_render [where calloc_ok = "\<lambda>k. True" and k = 0 and s = "[]" and acc = "[]", OF _ this]
  show ?thesis by (simp add: quiet_world_def sai_profile_parse_def render_param_def profile_lines_end)
qed

lemma quiet_main:
  "\<exists>s. main ok_lib quiet_world = Inr (Waits_For_Request s)"
proof -
  have n: "nl_calls quiet_world = nl_setup_good" "drv_calls quiet_world = nl_good" "drv_rc quiet_world = 0"
    "drv_msgs quiet_world = [\<lparr>nlmsg_pid = 0, nlmsg_seq = 0, nl_parsed = Some \<lparr>drv_init_ack = True, tlv = None\<rparr>\<rparr>]"
    "inputs quiet_world = []"
    by (simp_all add: quiet_world_def)
  have ok: "ret_status (ok_lib h c) = SAI_STATUS_SUCCESS" for h c by (simp add: ok_lib_def)
  show ?thesis
    by (simp add: main_def quiet_options main_ipc_def setup_good n sai_status_eq ok drv_init_good saiagent_switch_ipc_init_def
        saiagent_ipc_cb_set_def word_le_nat_alt saiagent_ipc_enter_loop_def loop_entry_def)
qed

text \<open>
  C37. The exit code.  The program fails exactly when the options or the profile are refused or
  the SAI cannot be initialised; once it is, the exit code is 0 however setting up the
  channel, the driver's handshake or the loop ends.
\<close>

theorem main_exit_code:
  assumes "main sai w = Inr (Exits code a freed)"
  shows "code =
    (if (\<exists>opts. cmd_line_process (calloc_params w) (files w) (options w) \<lparr>port_map_file = None, profile_params = []\<rparr> =
           Inr (RC_STATUS_OK, opts) \<and> profile_params opts \<noteq> []) \<and>
        ret_status (sai [] Sai_api_initialize) = SAI_STATUS_SUCCESS \<and>
        ret_status (sai [(Sai_api_initialize, sai [] Sai_api_initialize)] (Sai_log_set SAI_API_SWITCH SAI_LOG_LEVEL_INFO)) =
          SAI_STATUS_SUCCESS
     then EXIT_SUCCESS else EXIT_FAILURE)"
proof -
  have log: "sai_log agent_start = []" by (simp add: agent_start_def)
  have exits: "c = EXIT_SUCCESS" if "main_ipc sai w b = Inr (Exits c a freed)" for b c
    using that unfolding main_ipc_def
    by (auto simp: Let_def main_exit_def split: option.splits if_splits prod.splits loop_result.splits)
  show ?thesis
    using assms exits unfolding main_def sai_status_eq
    by (auto simp: Let_def log split: if_splits)
qed

theorem main_exit_code_witness:
  "\<not> ((\<exists>opts. cmd_line_process (\<lambda>k. True) (files quiet_world) [Opt_unknown] \<lparr>port_map_file = None, profile_params = []\<rparr> =
           Inr (RC_STATUS_OK, opts) \<and> profile_params opts \<noteq> []) \<and>
        ret_status (ok_lib [] Sai_api_initialize) = SAI_STATUS_SUCCESS \<and>
        ret_status (ok_lib [(Sai_api_initialize, ok_lib [] Sai_api_initialize)] (Sai_log_set SAI_API_SWITCH SAI_LOG_LEVEL_INFO)) =
          SAI_STATUS_SUCCESS)"
proof -
  let ?w = "quiet_world\<lparr>options := [Opt_unknown], calloc_params := (\<lambda>k. True)\<rparr>"
  have "main ok_lib ?w = Inr (Exits 1 agent_start [])" by (simp add: main_def quiet_world_def)
  from main_exit_code [OF this] show ?thesis by (simp split: if_splits)
qed

text \<open>
  When the channel cannot be set up the program exits with code 0 and leaves the SAI
  initialised: the only calls it has made are the initialisation and the log level, and
  \<open>sai_api_uninitialize\<close>, which stands before the label, is skipped.
\<close>

theorem setup_failure_exits_success:
  assumes "cmd_line_process (calloc_params w) (files w) (options w) \<lparr>port_map_file = None, profile_params = []\<rparr> =
      Inr (RC_STATUS_OK, opts)" "profile_params opts \<noteq> []"
    "\<And>h c. ret_status (sai h c) = SAI_STATUS_SUCCESS"
    "nl_socket_alloc (nl_calls w) = None \<or> (\<exists>sk. nl_socket_alloc (nl_calls w) = Some sk \<and> genl_connect (nl_calls w) \<noteq> 0)"
  shows "\<exists>a. main sai w = Inr (Exits EXIT_SUCCESS a []) \<and>
    map fst (sai_log a) = [Sai_api_initialize, Sai_log_set SAI_API_SWITCH SAI_LOG_LEVEL_INFO]"
  using assms(2,4)
  by (auto simp: main_def assms(1,3) main_ipc_def sai_status_eq saiagent_ipc_init_def main_exit_def
      saiagent_ipc_deinit_def agent_start_def)

theorem setup_failure_exits_success_witness:
  "\<exists>a. main ok_lib (quiet_world\<lparr>nl_calls := nl_setup_good\<lparr>nl_socket_alloc := None\<rparr>\<rparr>) = Inr (Exits EXIT_SUCCESS a [])"
proof -
  let ?w = "quiet_world\<lparr>nl_calls := nl_setup_good\<lparr>nl_socket_alloc := None\<rparr>\<rparr>"
  have "cmd_line_process (calloc_params ?w) (files ?w) (options ?w) \<lparr>port_map_file = None, profile_params = []\<rparr> =
      Inr (RC_STATUS_OK, \<lparr>port_map_file = None, profile_params = [\<lparr>param_name = ''a'', param_value = ''1''\<rparr>]\<rparr>)"
    using quiet_options by simp
  moreover have "ret_status (ok_lib h c) = SAI_STATUS_SUCCESS" for h c by (simp add: ok_lib_def)
  ultimately show ?thesis using setup_failure_exits_success [where sai = ok_lib and w = ?w] by fastforce
qed

end
