(* ===== verification/Saiagent_Vlan_Spec.thy ===== *)
theory Saiagent_Vlan_Spec
  imports Saiagent_Vlan
begin

text \<open>
  What \<open>saiagent_vlan.c\<close> promises, without lists, buffers and calls: a map from VLAN
  identifiers to VLANs, and the bridge ports that were attached to them.  \<open>vlan_abs\<close> reads
  this state off the agent's cache and the calls it has made.  The code refines the
  specification: each \<open>VLAN_PORT_SET\<close> request is one of its steps, whatever fails, and the
  reply tells which.
\<close>

section \<open>The specification\<close>

text \<open>A request: the VLAN, the bridge port, and whether frames are tagged.\<close>

type_synonym vlan_req = "u16 \<times> sai_object_id_t \<times> bool"

record vlan_spec =
  vlans :: "u16 \<Rightarrow> sai_object_id_t option"
  members :: "(sai_object_id_t \<times> sai_object_id_t \<times> bool) list"

definition spec_create :: "u16 \<Rightarrow> sai_object_id_t \<Rightarrow> vlan_spec \<Rightarrow> vlan_spec" where
  "spec_create vid oid S = (if vlans S vid = None then S\<lparr>vlans := (vlans S)(vid \<mapsto> oid)\<rparr> else S)"

definition spec_attach :: "u16 \<Rightarrow> sai_object_id_t \<Rightarrow> bool \<Rightarrow> vlan_spec \<Rightarrow> vlan_spec" where
  "spec_attach vid br tag S =
     (case vlans S vid of None \<Rightarrow> S | Some oid \<Rightarrow> S\<lparr>members := members S @ [(oid, br, tag)]\<rparr>)"

text \<open>
  A step: the request, the answer, and the states.  A request that is refused may have
  changed nothing, provided the VLAN, or even attached the port to it.
\<close>

inductive spec_step :: "vlan_req \<Rightarrow> bool \<Rightarrow> vlan_spec \<Rightarrow> vlan_spec \<Rightarrow> bool" where
  refused [simp]: "spec_step q False S S"
| provided: "spec_step (vid, br, tag) False S (spec_create vid oid S)"
| attached: "spec_step (vid, br, tag) ok S (spec_attach vid br tag (spec_create vid oid S))"

inductive_cases spec_stepE: "spec_step (vid, br, tag) ok S S'"

inductive spec_run :: "(vlan_req \<times> bool) list \<Rightarrow> vlan_spec \<Rightarrow> vlan_spec \<Rightarrow> bool" where
  none: "spec_run [] S S"
| more: "spec_step q ok S S' \<Longrightarrow> spec_run qs S' S'' \<Longrightarrow> spec_run ((q, ok) # qs) S S''"

inductive_simps spec_run_Nil [simp]: "spec_run [] S S'"
inductive_cases spec_run_ConsE: "spec_run (q # qs) S S'"

text \<open>Every attached port is attached to a VLAN of the map.\<close>

definition spec_ok :: "vlan_spec \<Rightarrow> bool" where
  "spec_ok S \<longleftrightarrow> (\<forall>(oid, br, tag) \<in> set (members S). oid \<in> ran (vlans S))"

lemma ran_spec_create: "ran (vlans S) \<subseteq> ran (vlans (spec_create vid oid S))"
  by (simp add: spec_create_def ran_map_upd) blast

lemma members_spec_create [simp]: "members (spec_create vid oid S) = members S"
  by (simp add: spec_create_def)

lemma vlans_spec_attach [simp]: "vlans (spec_attach vid br tag S) = vlans S"
  by (simp add: spec_attach_def split: option.split)

lemma spec_ok_create: "spec_ok S \<Longrightarrow> spec_ok (spec_create vid oid S)"
  using ran_spec_create [of S vid oid] by (fastforce simp: spec_ok_def)

lemma spec_ok_attach: "spec_ok S \<Longrightarrow> spec_ok (spec_attach vid br tag S)"
  by (auto simp: spec_ok_def spec_attach_def ran_def split: option.split)

lemma spec_ok_step: "spec_step q ok S S' \<Longrightarrow> spec_ok S \<Longrightarrow> spec_ok S'"
  by (induction rule: spec_step.induct) (auto intro: spec_ok_create spec_ok_attach)

text \<open>What is in the state stays there, and a request that is granted is in it.\<close>

definition spec_le :: "vlan_spec \<Rightarrow> vlan_spec \<Rightarrow> bool" where
  "spec_le S S' \<longleftrightarrow> vlans S \<subseteq>\<^sub>m vlans S' \<and> set (members S) \<subseteq> set (members S')"

lemma spec_le_refl [simp]: "spec_le S S"
  by (simp add: spec_le_def)

lemma spec_le_trans: "spec_le S S' \<Longrightarrow> spec_le S' S'' \<Longrightarrow> spec_le S S''"
  by (auto simp: spec_le_def intro: map_le_trans)

lemma spec_le_create [simp]: "spec_le S (spec_create vid oid S)"
  by (auto simp: spec_le_def spec_create_def map_le_def)

lemma spec_le_attach [simp]: "spec_le S (spec_attach vid br tag S)"
  by (auto simp: spec_le_def spec_attach_def split: option.split)

lemma spec_step_le: "spec_step q ok S S' \<Longrightarrow> spec_le S S'"
  by (induction rule: spec_step.induct) (auto intro: spec_le_trans [OF spec_le_create spec_le_attach])

definition granted :: "vlan_req \<Rightarrow> vlan_spec \<Rightarrow> bool" where
  "granted q S = (case q of (vid, br, tag) \<Rightarrow> \<exists>oid. vlans S vid = Some oid \<and> (oid, br, tag) \<in> set (members S))"

lemma spec_step_granted: "spec_step q True S S' \<Longrightarrow> granted q S'"
  by (cases q) (auto elim!: spec_stepE simp: granted_def spec_attach_def spec_create_def split: option.splits)

lemma granted_le: "granted q S \<Longrightarrow> spec_le S S' \<Longrightarrow> granted q S'"
  by (cases q) (force simp: granted_def spec_le_def map_le_def dom_def)

lemma spec_run_keeps: "spec_run qs S S' \<Longrightarrow> spec_le S S' \<and> (spec_ok S \<longrightarrow> spec_ok S')"
  by (induction rule: spec_run.induct) (auto intro: spec_le_trans spec_step_le spec_ok_step)

lemma spec_run_granted: "spec_run qs S S' \<Longrightarrow> (q, True) \<in> set qs \<Longrightarrow> granted q S'"
  by (induction rule: spec_run.induct) (auto intro: granted_le [OF spec_step_granted] dest: spec_run_keeps)

section \<open>Reading the state off the agent\<close>

text \<open>The attachment a call makes if it succeeds.\<close>

definition member_of :: "sai_call \<Rightarrow> (sai_object_id_t \<times> sai_object_id_t \<times> bool) option" where
  "member_of c =
     (case c of
        Create_vlan_member sw attrs \<Rightarrow>
          (case map snd attrs of
             [Oid oid, Oid br, S32 mode] \<Rightarrow> Some (oid, br, mode = SAI_VLAN_TAGGING_MODE_TAGGED)
           | _ \<Rightarrow> None)
      | _ \<Rightarrow> None)"

definition logged_members :: "sai_log \<Rightarrow> (sai_object_id_t \<times> sai_object_id_t \<times> bool) list" where
  "logged_members l = List.map_filter (\<lambda>(c, r). if ret_status r = SAI_STATUS_SUCCESS then member_of c else None) l"

definition vlan_abs :: "agent \<Rightarrow> vlan_spec" where
  "vlan_abs a = \<lparr>vlans = vlan_find (vlan_list a), members = logged_members (sai_log a)\<rparr>"

lemma member_of_create_member: "member_of (create_member sw oid br tag) = Some (oid, br, tag)"
  by (simp add: member_of_def create_member_def)

lemma member_of_other [simp]: "(\<forall>sw attrs. c \<noteq> Create_vlan_member sw attrs) \<Longrightarrow> member_of c = None"
  by (simp add: member_of_def split: sai_call.split)

lemma logged_members_append [simp]: "logged_members (l @ l') = logged_members l @ logged_members l'"
  by (simp add: logged_members_def List.map_filter_def)

lemma logged_members_simps [simp]:
  "logged_members [] = []"
  "logged_members ((c, r) # l) =
    (if ret_status r = SAI_STATUS_SUCCESS then (case member_of c of None \<Rightarrow> [] | Some m \<Rightarrow> [m]) else []) @ logged_members l"
  by (auto simp: logged_members_def List.map_filter_def split: option.split)

text \<open>A call that attaches nothing.\<close>

lemma vlan_abs_log [simp]:
  "member_of c = None \<Longrightarrow> vlan_abs (a\<lparr>sai_log := sai_log a @ [(c, r)]\<rparr>) = vlan_abs a"
  by (simp add: vlan_abs_def)

lemma vlan_abs_queries [simp]:
  "vlan_abs (a\<lparr>sai_log := sai_log a @ [(Sai_api_query x, r), (Sai_api_query y, r')]\<rparr>) = vlan_abs a"
  by (simp add: vlan_abs_def)

lemma vlan_abs_get:
  assumes "sai_get sai c attrs a = Inr (st, attrs', a')" "member_of (c attrs) = None"
  shows "vlan_abs a' = vlan_abs a"
  using assms by (auto simp: sai_get_eq)

lemma vlan_abs_member_loop:
  "vlan_member_loop sai oid br ms is a = Inr (st, m, a') \<Longrightarrow> vlan_abs a' = vlan_abs a"
  by (induction "is" arbitrary: a) (fastforce simp: sai_get_one Let_def split: if_splits)+

section \<open>The code refines the specification\<close>

lemma vlan_find_Cons:
  "vlan_find (\<lparr>vlan_id = vid, vlan_oid = oid\<rparr> # l) = (vlan_find l)(vid \<mapsto> oid)"
  by (rule ext) (simp add: vlan_find_def)

lemma find_or_create_refines:
  assumes "vlan_find_or_create sai e vid a = (st, oid, a')"
  shows "vlan_abs a' = vlan_abs a \<or> vlan_abs a' = spec_create vid oid (vlan_abs a)"
    and "st = SAI_STATUS_SUCCESS \<Longrightarrow> vlan_abs a' = spec_create vid oid (vlan_abs a) \<and> vlans (vlan_abs a') vid = Some oid"
  using assms
  by (auto simp: vlan_find_or_create_def saiagent_vlan_add_new_def sai_create_eq Let_def vlan_abs_def
      spec_create_def vlan_find_Cons vlan_find_def split: option.splits if_splits)

text \<open>The three parts of the operation, from the last one back.\<close>

lemma vlan_abs_enable: "enable_bridge_port_and_exit sai br a = Inr (st, a') \<Longrightarrow> vlan_abs a' = vlan_abs a"
  unfolding enable_bridge_port_and_exit_def
  by (auto elim!: SAI_RET_ERR_E simp: status_expr_eq vlan_abs_def)

lemma join_port_refines:
  assumes "vlan_join_port sai oid br tag attr a = Inr (st, a')" "br \<noteq> SAI_NULL_OBJECT_ID" "vlans (vlan_abs a) vid = Some oid"
  shows "vlan_abs a' = vlan_abs a \<and> st \<noteq> SAI_STATUS_SUCCESS \<or> vlan_abs a' = spec_attach vid br tag (vlan_abs a)"
proof -
  obtain st1 m c where l: "vlan_member_loop sai oid br (value_list (snd (attr ! 0)))
      [0..<unat (value_count (snd (attr ! 0)))] a = Inr (st1, m, c)"
    using assms(1) unfolding vlan_join_port_def by auto
  have c: "vlan_abs c = vlan_abs a" and m: "m = SAI_NULL_OBJECT_ID"
    using vlan_abs_member_loop [OF l] member_loop_run [OF l assms(2)] by simp_all
  let ?m = "create_member (switch_oid (sw_info c)) oid br tag"
  have create: "vlan_abs (c\<lparr>sai_log := sai_log c @ [(?m, r)]\<rparr>) =
      (if ret_status r = SAI_STATUS_SUCCESS then spec_attach vid br tag (vlan_abs a) else vlan_abs a)" for r
    using assms(3) unfolding c [symmetric] by (simp add: vlan_abs_def spec_attach_def member_of_create_member)
  show ?thesis
  proof (cases "st1 = SAI_STATUS_SUCCESS")
    case False
    with assms(1) c show ?thesis unfolding vlan_join_port_def l by auto
  next
    case True
    with assms(1) show ?thesis
      unfolding vlan_join_port_def l
      by (auto simp: m create sai_create_eq Let_def saiagent_switch_get_oid_def simp flip: create_member_def
          split: if_splits dest!: vlan_abs_enable)
  qed
qed

lemma attach_port_refines:
  assumes "vlan_attach_port sai e oid br tag a = Inr (st, a')" "br \<noteq> SAI_NULL_OBJECT_ID"
    "vlans (vlan_abs a) vid = Some oid"
  shows "vlan_abs a' = vlan_abs a \<and> \<not> (st = SAI_STATUS_SUCCESS \<and> clean a a') \<or>
    vlan_abs a' = spec_attach vid br tag (vlan_abs a)"
  using assms(1) unfolding vlan_attach_port_def
proof (rule SAI_RET_ERR_E)
  fix st1 s1 s2
  assume f: "get_expr sai (Get_vlan_attribute oid)
      ([(SAI_VLAN_ATTR_MEMBER_LIST, Objlist OBJ_LIST_COUNT (member_list_junk e))], a) = Inr (st1, s1)"
    "st1 \<noteq> SAI_STATUS_SUCCESS" "get_expr sai (Get_vlan_attribute oid) s1 = Inr (st, s2)" "a' = snd s2"
  then have "vlan_abs a' = vlan_abs a \<and> \<not> clean a a'"
    by (auto simp: get_expr_def sai_get_eq clean_def vlan_abs_def)
  then show ?thesis by blast
next
  fix s1
  assume f: "get_expr sai (Get_vlan_attribute oid)
      ([(SAI_VLAN_ATTR_MEMBER_LIST, Objlist OBJ_LIST_COUNT (member_list_junk e))], a) = Inr (SAI_STATUS_SUCCESS, s1)"
    and k: "(case s1 of (attr, a) \<Rightarrow> vlan_join_port sai oid br tag attr a) = Inr (st, a')"
  obtain attrs b where s1: "s1 = (attrs, b)" by (cases s1)
  have b: "vlan_abs b = vlan_abs a" using f by (auto simp: s1 get_expr_eq dest: vlan_abs_get)
  from k have "vlan_join_port sai oid br tag attrs b = Inr (st, a')" by (simp add: s1)
  from join_port_refines [OF this assms(2), of vid] assms(3) b show ?thesis by auto
qed

text \<open>A call that failed on the way shows in the log of the whole run.\<close>

lemma clean_suffix:
  assumes "vlan_run P a b" "vlan_run Q b c" "clean a c"
  shows "clean b c"
proof -
  obtain l l' where "sai_log b = sai_log a @ l" "sai_log c = sai_log b @ l'"
    using assms(1,2) unfolding vlan_run_def by fastforce
  with assms(3) show ?thesis by (simp add: clean_def)
qed

text \<open>
  One operation is one step, and the answer of that step is that the operation returned
  success and none of its calls failed.
\<close>

lemma add_port_member_refines:
  assumes "sai_vlan_add_port_member sai e vid port tag a = Inr (st, a')"
  shows "spec_step (vid, br_port_list (sw_info a) ! unat port, tag) (st = SAI_STATUS_SUCCESS \<and> clean a a') (vlan_abs a) (vlan_abs a')"
  using assms
proof (cases rule: add_port_member_E)
  case (not_queried l)
  have "logged_members l = []"
    using not_queried(2) by (induction l) (auto simp: is_query_def)
  with not_queried(1,3) show ?thesis by (auto simp: vlan_abs_def clean_def)
next
  case no_port
  then show ?thesis using queried_log [of sai a] by auto
next
  case (no_vlan oid)
  have q: "vlan_abs (queried sai a) = vlan_abs a" using queried_log [of sai a] by auto
  from find_or_create_refines(1) [OF no_vlan(2), unfolded q] no_vlan(3) show ?thesis by (auto intro: provided)
next
  case (vlan br oid b)
  have q: "vlan_abs (queried sai a) = vlan_abs a" using queried_log [of sai a] by auto
  from find_or_create_refines(2) [OF vlan(4), unfolded q]
  have b: "vlan_abs b = spec_create vid oid (vlan_abs a)" "vlans (vlan_abs b) vid = Some oid" by blast+
  have "only_vlan a b"
    by (rule vlan_run_trans [OF vlan_run_queried vlan_run_mono [OF find_or_create_run [OF vlan(4)]]]) simp_all
  then have cl: "clean a a' \<Longrightarrow> clean b a'" using clean_suffix attach_port_run [OF vlan(5,3)] by blast
  have br: "br = br_port_list (sw_info a) ! unat port"
    using vlan(2) by (simp add: saiagent_switch_bridge_port_find_def split: if_splits)
  from attach_port_refines [OF vlan(5,3) b(2)] cl show ?thesis
    unfolding b(1) br by (cases "st = SAI_STATUS_SUCCESS \<and> clean a a'") (auto intro: provided attached)
qed

text \<open>The request a message carries, and the answer a reply carries.\<close>

definition request_of :: "agent \<Rightarrow> saiagent_msg \<Rightarrow> vlan_req" where
  "request_of a q = (req_word 12 2 q, br_port_list (sw_info a) ! unat (req_word 4 4 q :: u32), (req_word 15 1 q :: u8) \<noteq> 0)"

definition answered_ok :: "saiagent_msg \<Rightarrow> bool" where
  "answered_ok m \<longleftrightarrow> written m = le_bytes 4 PRESTERA_CMD_TYPE_ACK @ le_bytes 4 PRESTERA_CMD_ACK_OK"

lemma answered_ok_ack: "written m = ack_response st \<Longrightarrow> answered_ok m \<longleftrightarrow> st = RC_STATUS_OK"
proof -
  have "le_bytes 4 PRESTERA_CMD_ACK_FAILED \<noteq> le_bytes 4 PRESTERA_CMD_ACK_OK" by (simp add: numeral_eq_Suc)
  then show "written m = ack_response st \<Longrightarrow> answered_ok m \<longleftrightarrow> st = RC_STATUS_OK"
    by (simp add: answered_ok_def ack_response_bytes)
qed

lemma add_port_member_clean:
  assumes "sai_vlan_add_port_member sai e vid port tag a = Inr (SAI_STATUS_SUCCESS, a')"
  shows "clean a a' \<or> retried a a'"
  using add_port_member_success [OF assms] by (auto simp: made_calls_def clean_def)

text \<open>
  A request that was granted: the answer is \<open>OK\<close>, and no call failed between the state before
  and the state after.
\<close>

definition granted_now :: "saiagent_msg \<times> agent \<times> agent \<Rightarrow> bool" where
  "granted_now x = (case x of (m, a, a') \<Rightarrow> answered_ok m \<and> clean a a')"

lemma port_set_refines:
  assumes "saiagent_ipc_process_vlan_port_set sai e q r a = Inr (m, a')" "request_ok q" "reply_ok r"
  shows "spec_step (request_of a q) (granted_now (m, a, a')) (vlan_abs a) (vlan_abs a') \<and> sw_info a' = sw_info a \<and>
    (answered_ok m \<longrightarrow> clean a a' \<or> retried a a')"
proof -
  from assms(1) obtain st where
    run: "sai_vlan_add_port_member sai e (req_word 12 2 q) (req_word 4 4 q) ((req_word 15 1 q :: u8) \<noteq> 0) a = Inr (st, a')"
    and m: "written m = ack_response (if st \<noteq> SAI_STATUS_SUCCESS then RC_STATUS_ERR else RC_STATUS_OK)"
    by (auto simp: vlan_port_set_eq [OF assms(2)] dest!: reply_ackD [OF _ assms(3)])
  from m have "answered_ok m \<longleftrightarrow> st = SAI_STATUS_SUCCESS"
    by (simp add: answered_ok_ack)
  moreover have "st = SAI_STATUS_SUCCESS \<Longrightarrow> clean a a' \<or> retried a a'" using add_port_member_clean run by blast
  ultimately show ?thesis
    using add_port_member_refines [OF run] vlan_run_fields [OF add_port_member_run [OF run]]
    by (auto simp: request_of_def granted_now_def)
qed

text \<open>
  Requests one after the other, each with an environment and a reply buffer of its own: the
  replies, each with the states before and after.
\<close>

fun port_set_requests :: "sai_lib \<Rightarrow> (env \<times> saiagent_msg \<times> saiagent_msg) list \<Rightarrow> agent \<Rightarrow>
    ((saiagent_msg \<times> agent \<times> agent) list \<times> agent) outcome" where
  "port_set_requests sai [] a = Inr ([], a)"
| "port_set_requests sai ((e, q, r) # rs) a =
     bind_o (saiagent_ipc_process_vlan_port_set sai e q r a) (\<lambda>(m, b).
     bind_o (port_set_requests sai rs b) (\<lambda>(ms, c). Inr ((m, a, b) # ms, c)))"

abbreviation well_formed_requests :: "(env \<times> saiagent_msg \<times> saiagent_msg) list \<Rightarrow> bool" where
  "well_formed_requests \<equiv> list_all (\<lambda>(e, q, r). request_ok q \<and> reply_ok r)"

lemma port_set_requests_run:
  assumes "port_set_requests sai rs a = Inr (ms, a')" "well_formed_requests rs"
  shows "length ms = length rs \<and>
    spec_run (zip (map (\<lambda>(e, q, r). request_of a q) rs) (map granted_now ms)) (vlan_abs a) (vlan_abs a') \<and>
    (\<forall>(m, b, c) \<in> set ms. answered_ok m \<longrightarrow> clean b c \<or> retried b c)"
  using assms
proof (induction rs arbitrary: a ms)
  case Nil
  then show ?case by simp
next
  case (Cons x rs)
  obtain e q r where x: "x = (e, q, r)" by (cases x)
  with Cons.prems obtain m b ms' where m: "saiagent_ipc_process_vlan_port_set sai e q r a = Inr (m, b)"
    and r: "port_set_requests sai rs b = Inr (ms', a')" and ms: "ms = (m, a, b) # ms'" and ok: "request_ok q" "reply_ok r"
    by auto
  note step = port_set_refines [OF m ok]
  then have "request_of b = request_of a" by (simp add: request_of_def fun_eq_iff)
  moreover have "length ms' = length rs \<and>
      spec_run (zip (map (\<lambda>(e, q, r). request_of b q) rs) (map granted_now ms')) (vlan_abs b) (vlan_abs a') \<and>
      (\<forall>(m, b, c) \<in> set ms'. answered_ok m \<longrightarrow> clean b c \<or> retried b c)"
    using Cons.IH [OF r] Cons.prems(2) by simp
  ultimately show ?case using step by (auto simp: x ms intro: more)
qed

section \<open>When nothing fails\<close>

lemma member_loop_succeeds:
  assumes "vlan_member_loop sai oid br ms is a = Inr (st, m, a')" "\<forall>h c. ret_status (sai h c) = SAI_STATUS_SUCCESS"
  shows "st = SAI_STATUS_SUCCESS"
  using assms(1)
  by (induction "is" arbitrary: a) (auto simp: sai_get_one Let_def assms(2) split: if_splits)

lemma attach_port_succeeds:
  assumes "vlan_attach_port sai e oid br tag a = Inr (st, a')" "\<forall>h c. ret_status (sai h c) = SAI_STATUS_SUCCESS"
    "br \<noteq> SAI_NULL_OBJECT_ID"
  shows "st = SAI_STATUS_SUCCESS \<and> (\<exists>cs. made_calls cs a a')"
proof -
  have enable: "st = SAI_STATUS_SUCCESS \<and> made_calls [enable_bridge_port br] x y" if "enable_bridge_port_and_exit sai br x = Inr (st, y)" for x y
    using that by (auto simp: enable_bridge_port_and_exit_def SAI_RET_ERR_def status_expr_eq assms(2) enable_bridge_port_def made_calls_def)
  have join: "st = SAI_STATUS_SUCCESS \<and> (\<exists>cs. made_calls cs x y)" if j: "vlan_join_port sai oid br tag attr x = Inr (st, y)" for attr x y
  proof -
    from j obtain st1 m z where l: "vlan_member_loop sai oid br (value_list (snd (attr ! 0)))
        [0..<unat (value_count (snd (attr ! 0)))] x = Inr (st1, m, z)"
      unfolding vlan_join_port_def by auto
    have st1: "st1 = SAI_STATUS_SUCCESS" using member_loop_succeeds [OF l assms(2)] .
    note m = member_loop_ran [OF l [unfolded st1] assms(3)]
    let ?c = "create_member (switch_oid (sw_info z)) oid br tag"
    let ?d = "z\<lparr>sai_log := sai_log z @ [(?c, sai (sai_log z) ?c)]\<rparr>"
    have "enable_bridge_port_and_exit sai br ?d = Inr (st, y)"
      using j m unfolding vlan_join_port_def l
      by (simp add: st1 sai_create_eq assms(2) Let_def saiagent_switch_get_oid_def flip: create_member_def)
    from enable [OF this] made_calls_trans [OF conjunct2 [OF m] made_calls_call [of "sai (sai_log z) ?c" ?d z ?c]] assms(2)
    show ?thesis by (auto dest: made_calls_trans)
  qed
  from assms(1) show ?thesis
    unfolding vlan_attach_port_def
  proof (rule SAI_RET_ERR_E)
    fix s1
    assume f: "get_expr sai (Get_vlan_attribute oid)
        ([(SAI_VLAN_ATTR_MEMBER_LIST, Objlist OBJ_LIST_COUNT (member_list_junk e))], a) = Inr (SAI_STATUS_SUCCESS, s1)"
      and k: "(case s1 of (attr, a) \<Rightarrow> vlan_join_port sai oid br tag attr a) = Inr (st, a')"
    have "made_calls [members_query e oid] a (snd s1)"
      using f by (auto simp: get_expr_def members_query_def sai_get_eq made_calls_def)
    moreover have "st = SAI_STATUS_SUCCESS \<and> (\<exists>cs. made_calls cs (snd s1) a')" using k by (cases s1) (auto dest: join)
    ultimately show ?thesis by (blast dest: made_calls_trans)
  qed (auto simp: get_expr_def sai_get_eq assms(2))
qed

lemma find_or_create_succeeds:
  assumes "calloc_vlan_ok e" "\<forall>h c. ret_status (sai h c) = SAI_STATUS_SUCCESS"
  shows "\<exists>oid a'. vlan_find_or_create sai e vid a = (SAI_STATUS_SUCCESS, oid, a')"
  using assms
  by (auto simp: vlan_find_or_create_def saiagent_vlan_add_new_def sai_create_eq Let_def split: option.split)

lemma add_port_member_succeeds:
  assumes "sai_conforms sai" "sai_fits sai" "env_ok e" "agent_ok a" "unat port < OBJ_LIST_LEN"
    "br_port_list (sw_info a) ! unat port \<noteq> SAI_NULL_OBJECT_ID" "calloc_vlan_ok e"
    "\<forall>h c. ret_status (sai h c) = SAI_STATUS_SUCCESS"
  shows "\<exists>a'. sai_vlan_add_port_member sai e vid port tag a = Inr (SAI_STATUS_SUCCESS, a') \<and> clean a a'"
proof -
  let ?br = "br_port_list (sw_info a) ! unat port"
  obtain oid c where f: "vlan_find_or_create sai e vid (queried sai a) = (SAI_STATUS_SUCCESS, oid, c)"
    using find_or_create_succeeds [OF assms(7,8)] by blast
  obtain st a' where att: "vlan_attach_port sai e oid ?br tag c = Inr (st, a')"
    using attach_port_returns [OF assms(1-3)] by blast
  obtain cs where st: "st = SAI_STATUS_SUCCESS" and m: "made_calls cs c a'"
    using attach_port_succeeds [OF att assms(8,6)] by blast
  have "made_calls [Sai_api_query SAI_API_VLAN, Sai_api_query SAI_API_BRIDGE] a (queried sai a)"
    by (simp add: queried_def sai_status_eq made_calls_def assms(8))
  from made_calls_trans [OF made_calls_trans [OF this conjunct1 [OF find_or_create_success [OF f]]] m]
  have "clean a a'" by (auto simp: made_calls_def clean_def)
  moreover have "agent_ok (queried sai a)" using queried_log [of sai a] assms(4) by auto
  ultimately show ?thesis
    using f att st assms(5,6) bridge_port_find_eq [OF _ assms(5), of "queried sai a"]
    by (simp add: sai_vlan_add_port_member_def SAI_RET_ERR_def status_expr_def queried_def case_prod_unfold
        sai_status_eq assms(8))
qed

text \<open>A request to add port 1 to VLAN 10, tagged, as a message.\<close>

definition add_request :: saiagent_msg where
  "add_request = request_bytes [2, 2, 0, 0, 1, 0, 0, 0, 1, 0, 0, 0, 10, 0, 1, 1]"

lemma add_request_ok: "request_ok add_request"
  unfolding add_request_def by (rule request_ok_bytes) simp

lemma request_of_add_request: "request_of two_ports add_request = (10, 22, True)"
  by (simp add: request_of_def add_request_def req_word_def request_bytes_def request_msg_def slice_def two_ports_def)

lemma add_request_answered:
  "\<exists>m a'. port_set_requests ok_lib [(ok_env, add_request, fresh_reply)] two_ports = Inr ([(m, two_ports, a')], a') \<and>
     answered_ok m \<and> clean two_ports a'"
proof -
  obtain b where b: "sai_vlan_add_port_member ok_lib ok_env 10 1 True two_ports = Inr (SAI_STATUS_SUCCESS, b)"
      "clean two_ports b"
    using two_ports_added by blast
  have w: "(req_word 12 2 add_request :: u16) = 10" "(req_word 4 4 add_request :: u32) = 1" "(req_word 15 1 add_request :: u8) = 1"
    by (simp_all add: add_request_def req_word_def request_bytes_def request_msg_def slice_def)
  obtain m where m: "reply_ack fresh_reply RC_STATUS_OK b = Inr (m, b)" "written m = ack_response RC_STATUS_OK"
    using reply_ack_ok [OF reply_ok_fresh, of RC_STATUS_OK b] by blast
  then have "saiagent_ipc_process_vlan_port_set ok_lib ok_env add_request fresh_reply two_ports = Inr (m, b)"
    by (simp add: vlan_port_set_eq [OF add_request_ok] w [unfolded One_nat_def] b(1))
  then have "port_set_requests ok_lib [(ok_env, add_request, fresh_reply)] two_ports = Inr ([(m, two_ports, b)], b)" by simp
  with answered_ok_ack [OF m(2)] b(2) show ?thesis by blast
qed

section \<open>Properties\<close>

text \<open>
  C8. \<open>VLAN_PORT_SET\<close> refines the VLAN specification.  Any number of well-formed requests, with
  any answers of the library, are a run of the specification from the state the agent was
  in to the one it is left in; the answers of that run are \<open>granted_now\<close>: the reply is \<open>OK\<close> and
  no call of the request failed.  A reply that is \<open>OK\<close> although a call failed is one whose last
  two calls are the same one, failing and then succeeding.
\<close>

theorem vlan_requests_refine:
  assumes "port_set_requests sai rs a = Inr (ms, a')" "well_formed_requests rs"
  shows "length ms = length rs \<and>
    spec_run (zip (map (\<lambda>(e, q, r). request_of a q) rs) (map granted_now ms)) (vlan_abs a) (vlan_abs a') \<and>
    (\<forall>(m, b, c) \<in> set ms. answered_ok m \<longrightarrow> clean b c \<or> retried b c)"
  using assms by (rule port_set_requests_run)

theorem vlan_requests_refine_witness:
  "\<exists>m a'. port_set_requests ok_lib [(ok_env, add_request, fresh_reply)] two_ports = Inr ([(m, two_ports, a')], a') \<and>
     spec_run [((10, 22, True), True)] (vlan_abs two_ports) (vlan_abs a')"
proof -
  obtain m a' where r: "port_set_requests ok_lib [(ok_env, add_request, fresh_reply)] two_ports = Inr ([(m, two_ports, a')], a')"
      "answered_ok m" "clean two_ports a'"
    using add_request_answered by blast
  from vlan_requests_refine [OF r(1)] r(2,3)
  have "spec_run [((10, 22, True), True)] (vlan_abs two_ports) (vlan_abs a')"
    by (auto simp: add_request_ok reply_ok_fresh request_of_add_request granted_now_def)
  with r(1) show ?thesis by blast
qed



text \<open>
  C23. Success without effect.  \<open>SAI_RET_ERR\<close> returns the status of a second evaluation of its
  argument.  When a call of \<open>VLAN_PORT_SET\<close> made through it before the port is attached fails
  and the same call succeeds when it is repeated, the operation ends there with success: the
  reply is \<open>OK\<close>, and no VLAN was created and no port attached.  Stated for the query of the
  VLAN API, for every well-formed request, whatever else the library does.
\<close>

theorem failed_call_reported_as_success:
  fixes sai :: sai_lib
  defines "c \<equiv> Sai_api_query SAI_API_VLAN"
  assumes "request_ok q" "reply_ok r"
    "ret_status (sai (sai_log a) c) \<noteq> SAI_STATUS_SUCCESS"
    "ret_status (sai (sai_log a @ [(c, sai (sai_log a) c)]) c) = SAI_STATUS_SUCCESS"
  shows "\<exists>m a'. saiagent_ipc_process_vlan_port_set sai e q r a = Inr (m, a') \<and> answered_ok m \<and>
    vlan_abs a' = vlan_abs a \<and> map fst (sai_log a') = map fst (sai_log a) @ [c, c]"
proof -
  let ?l = "[(c, sai (sai_log a) c), (c, sai (sai_log a @ [(c, sai (sai_log a) c)]) c)]"
  let ?a = "a\<lparr>sai_log := sai_log a @ ?l\<rparr>"
  have run: "sai_vlan_add_port_member sai e vid port tag a = Inr (SAI_STATUS_SUCCESS, ?a)" for vid port tag
    using assms(4,5) by (simp add: sai_vlan_add_port_member_def SAI_RET_ERR_def status_expr_eq c_def)
  obtain m where m: "reply_ack r RC_STATUS_OK ?a = Inr (m, ?a)" "written m = ack_response RC_STATUS_OK"
    using reply_ack_ok [OF assms(3)] by blast
  have "vlan_abs ?a = vlan_abs a" by (simp add: c_def)
  with m answered_ok_ack [OF m(2)] show ?thesis
    by (auto simp: vlan_port_set_eq [OF assms(2)] run)
qed

text \<open>\<open>ok_lib\<close> whose first call fails.\<close>

definition flaky_lib :: sai_lib where
  "flaky_lib h c = (if h = [] then (ok_lib h c)\<lparr>ret_status := SAI_STATUS_FAILURE\<rparr> else ok_lib h c)"

theorem failed_call_reported_as_success_witness:
  "\<exists>m a'. saiagent_ipc_process_vlan_port_set flaky_lib ok_env add_request fresh_reply two_ports = Inr (m, a') \<and>
     answered_ok m \<and> vlan_list a' = [] \<and>
     map fst (sai_log a') = [Sai_api_query SAI_API_VLAN, Sai_api_query SAI_API_VLAN]"
proof -
  have s: "sai_log two_ports = []" "vlan_list two_ports = []" by (simp_all add: two_ports_def agent_start_def)
  have f: "ret_status (flaky_lib (sai_log two_ports) (Sai_api_query SAI_API_VLAN)) \<noteq> SAI_STATUS_SUCCESS"
    and g: "ret_status (flaky_lib (sai_log two_ports @ [(Sai_api_query SAI_API_VLAN,
      flaky_lib (sai_log two_ports) (Sai_api_query SAI_API_VLAN))]) (Sai_api_query SAI_API_VLAN)) = SAI_STATUS_SUCCESS"
    by (simp_all add: s flaky_lib_def ok_lib_def)
  obtain m a' where r: "saiagent_ipc_process_vlan_port_set flaky_lib ok_env add_request fresh_reply two_ports = Inr (m, a')"
      "answered_ok m" "vlan_abs a' = vlan_abs two_ports"
      "map fst (sai_log a') = map fst (sai_log two_ports) @ [Sai_api_query SAI_API_VLAN, Sai_api_query SAI_API_VLAN]"
    using failed_call_reported_as_success [where sai = flaky_lib and a = two_ports and e = ok_env,
        OF add_request_ok reply_ok_fresh f g] by blast
  have "vlan_list a' = []"
  proof (cases "vlan_list a'")
    case (Cons v l)
    then have "vlans (vlan_abs a') (vlan_id v) \<noteq> None" by (simp add: vlan_abs_def vlan_find_def)
    then show ?thesis by (simp add: r(3)) (simp add: vlan_abs_def s vlan_find_def)
  qed
  with r s show ?thesis by auto
qed

end
