(* ===== verification/Saiagent_Members.thy ===== *)
theory Saiagent_Members
  imports Saiagent_Loop Saiagent_Vlan_Spec
begin

text \<open>
  The VLAN component inside the running agent: of the eighteen handlers only \<open>VLAN_PORT_SET\<close>
  attaches ports, the others leave the cache alone or, for \<open>SWITCH_INIT\<close>, put the default VLAN
  into it.  Hence an invariant of all reachable states: every port is attached to a VLAN that
  the cache has.
\<close>

section \<open>Lemmas\<close>

text \<open>A run that attaches nothing and forgets no VLAN.\<close>

definition attaches_nothing :: "agent \<Rightarrow> agent \<Rightarrow> bool" where
  "attaches_nothing a a' \<longleftrightarrow>
     logged_members (sai_log a') = logged_members (sai_log a) \<and> set (vlan_list a) \<subseteq> set (vlan_list a')"

lemma attaches_nothing_refl [simp]: "attaches_nothing a a"
  by (simp add: attaches_nothing_def)

lemma attaches_nothing_trans: "attaches_nothing a b \<Longrightarrow> attaches_nothing b c \<Longrightarrow> attaches_nothing a c"
  by (auto simp: attaches_nothing_def)

lemma attaches_nothing_log [simp]:
  "member_of c = None \<Longrightarrow> attaches_nothing a (b\<lparr>sai_log := sai_log b @ [(c, r)]\<rparr>) = attaches_nothing a b"
  by (simp add: attaches_nothing_def)

lemma attaches_nothing_upd [simp]:
  "attaches_nothing a (b\<lparr>ipc := x\<rparr>) = attaches_nothing a b"
  "attaches_nothing a (b\<lparr>threads := y\<rparr>) = attaches_nothing a b"
  "attaches_nothing a (b\<lparr>sw_info := z\<rparr>) = attaches_nothing a b"
  by (simp_all add: attaches_nothing_def)

lemma attaches_nothing_vlan [simp]:
  "attaches_nothing a b \<Longrightarrow> attaches_nothing a (b\<lparr>vlan_list := v # vlan_list b\<rparr>)"
  by (auto simp: attaches_nothing_def)

text \<open>Through the macro.\<close>

lemma status_expr_attaches_nothing:
  assumes "SAI_RET_ERR (status_expr sai c) id a k = Inr (st, a')" "member_of c = None"
    "\<And>b. k b = Inr (st, a') \<Longrightarrow> sw_info b = sw_info a \<Longrightarrow> attaches_nothing b a'"
  shows "attaches_nothing a a'"
  using assms(1)
proof (rule SAI_RET_ERR_E)
  fix s1
  assume s1: "status_expr sai c a = Inr (SAI_STATUS_SUCCESS, s1)" "k s1 = Inr (st, a')"
  then have "attaches_nothing a s1" "sw_info s1 = sw_info a" using assms(2) by (auto simp: status_expr_eq)
  with assms(3) s1(2) show ?thesis by (blast intro: attaches_nothing_trans)
qed (use assms(2) in \<open>auto simp: status_expr_eq attaches_nothing_def\<close>)

lemma get_exprs_attach_nothing:
  "get_expr sai (Get_vlan_attribute oid) s = Inr (st, s') \<Longrightarrow> attaches_nothing (snd s) (snd s')"
  "switch_get_expr sai s = Inr (st, s') \<Longrightarrow> attaches_nothing (snd s) (snd s')"
  "bridge_get_expr sai s = Inr (st, s') \<Longrightarrow> attaches_nothing (snd s) (snd s')"
  by (auto simp: get_expr_def switch_get_expr_def bridge_get_expr_def sai_get_eq attaches_nothing_def)

lemma get_expr_attaches_nothing:
  assumes "SAI_RET_ERR ex snd (attrs, a) k = Inr (st, a')"
    "\<And>s st s'. ex s = Inr (st, s') \<Longrightarrow> attaches_nothing (snd s) (snd s')"
    "\<And>attrs b. k (attrs, b) = Inr (st, a') \<Longrightarrow> attaches_nothing b a'"
  shows "attaches_nothing a a'"
proof -
  have "attaches_nothing (snd (attrs, a)) a'"
    by (rule SAI_RET_ERR_keeps [where R = attaches_nothing, OF assms(1,2) attaches_nothing_trans])
      (use assms(3) in fastforce)+
  then show ?thesis by simp
qed

lemma attaches_nothing_cb_set [simp]:
  "attaches_nothing a (snd (agent_cb_set t cb r)) = attaches_nothing a (snd r)"
  by (cases r) (simp add: agent_cb_set_def saiagent_ipc_cb_set_def Let_def)

definition members_cached :: "agent \<Rightarrow> bool" where
  "members_cached a \<longleftrightarrow> (\<forall>(oid, br, tag) \<in> set (logged_members (sai_log a)). oid \<in> vlan_oid ` set (vlan_list a))"

lemma members_cached_nothing: "attaches_nothing a a' \<Longrightarrow> members_cached a \<Longrightarrow> members_cached a'"
  by (fastforce simp: attaches_nothing_def members_cached_def)


section \<open>The handlers\<close>

lemma port_handlers_attach_nothing:
  "saiagent_ipc_process_port_info_get q r a = Inr (m, a') \<Longrightarrow> attaches_nothing a a'"
  "saiagent_ipc_process_port_attr_get q r a = Inr (m, a') \<Longrightarrow> attaches_nothing a a'"
  "saiagent_ipc_process_port_attr_set sai q r a = Inr (m, a') \<Longrightarrow> attaches_nothing a a'"
proof -
  show "saiagent_ipc_process_port_info_get q r a = Inr (m, a') \<Longrightarrow> attaches_nothing a a'"
    by (auto simp: saiagent_ipc_process_port_info_get_def Let_def dest!: reply_data_state)
  show "saiagent_ipc_process_port_attr_get q r a = Inr (m, a') \<Longrightarrow> attaches_nothing a a'"
    by (auto simp: saiagent_ipc_process_port_attr_get_def Let_def dest!: reply_data_state split: if_splits)
  have "attaches_nothing a b" if "sai_port_admin_state_set sai port admin a = Inr (st, b)" for port admin st b
    using that unfolding sai_port_admin_state_set_def
    by (auto elim!: SAI_RET_ERR_E simp: status_expr_eq port_find_expr_def sai_status_eq attaches_nothing_def)
  then show "saiagent_ipc_process_port_attr_set sai q r a = Inr (m, a') \<Longrightarrow> attaches_nothing a a'"
    by (auto simp: saiagent_ipc_process_port_attr_set_def split: if_splits dest!: reply_ack_state)
qed

lemma ack_handlers_attach_nothing:
  "saiagent_ipc_process_vlan_create q r a = Inr (m, a') \<Longrightarrow> attaches_nothing a a'"
  "saiagent_ipc_process_vlan_delete q r a = Inr (m, a') \<Longrightarrow> attaches_nothing a a'"
  "saiagent_ipc_process_stp_port_set q r a = Inr (m, a') \<Longrightarrow> attaches_nothing a a'"
  "saiagent_ipc_process_fdb_flush_port q r a = Inr (m, a') \<Longrightarrow> attaches_nothing a a'"
  "saiagent_ipc_process_router_vr_create q r a = Inr (m, a') \<Longrightarrow> attaches_nothing a a'"
  "saiagent_ipc_process_router_vr_del q r a = Inr (m, a') \<Longrightarrow> attaches_nothing a a'"
  "saiagent_ipc_process_router_mp_hash_set q r a = Inr (m, a') \<Longrightarrow> attaches_nothing a a'"
  "saiagent_ipc_process_router_lpm_add q r a = Inr (m, a') \<Longrightarrow> attaches_nothing a a'"
  "saiagent_ipc_process_router_lpm_del q r a = Inr (m, a') \<Longrightarrow> attaches_nothing a a'"
  "saiagent_ipc_process_switch_attr_set q r a = Inr (m, a') \<Longrightarrow> attaches_nothing a a'"
  by (auto simp: saiagent_ipc_process_vlan_create_def saiagent_ipc_process_vlan_delete_def
      saiagent_ipc_process_stp_port_set_def saiagent_ipc_process_fdb_flush_port_def
      saiagent_ipc_process_router_vr_create_def saiagent_ipc_process_router_vr_del_def
      saiagent_ipc_process_router_mp_hash_set_def saiagent_ipc_process_router_lpm_add_def
      saiagent_ipc_process_router_lpm_del_def saiagent_ipc_process_switch_attr_set_def Let_def split: if_splits
      dest!: reply_ack_state reply_data_state)

lemma pvid_set_attaches_nothing:
  assumes "saiagent_ipc_process_vlan_pvid_set sai q r a = Inr (m, a')"
  shows "attaches_nothing a a'"
proof -
  have "attaches_nothing a b" if "saiagent_port_pvid_set sai port vid a = Inr (rc, b)" for port vid rc b
    using that unfolding saiagent_port_pvid_set_def sai_port_pvid_set_def
    by (auto elim!: SAI_RET_ERR_E simp: status_expr_eq port_find_expr_def sai_status_eq attaches_nothing_def)
  with assms show ?thesis
    by (auto simp: saiagent_ipc_process_vlan_pvid_set_def dest!: reply_ack_state)
qed

lemma keepalive_reset_attach_nothing:
  "saiagent_ipc_process_keepalive_init e q r a = Inr (m, a') \<Longrightarrow> attaches_nothing a a'"
  "saiagent_ipc_process_switch_reset sai e q r a = Inr (m, a') \<Longrightarrow> attaches_nothing a a'"
  by (auto simp: saiagent_ipc_process_keepalive_init_def saiagent_ipc_process_switch_reset_def Let_def
      saiagent_ipc_loop_stop_def sai_status_eq attaches_nothing_def split: if_splits option.splits prod.splits
      dest!: reply_ack_state)

lemma ports_part_attaches_nothing: "switch_init_ports sai a = Inr (st, a') \<Longrightarrow> attaches_nothing a a'"
proof -
  have bridge: "attaches_nothing b a'" if "switch_init_bridge sai b = Inr (st, a')" for b
    using that unfolding switch_init_bridge_def
    by (rule get_expr_attaches_nothing [OF _ get_exprs_attach_nothing(3)]) (auto elim!: status_expr_attaches_nothing)
  have upd: "attaches_nothing b a'" if "attaches_nothing (b\<lparr>sw_info := x\<rparr>) a'" for b x
    using that by (simp add: attaches_nothing_def)
  assume "switch_init_ports sai a = Inr (st, a')"
  then show ?thesis unfolding switch_init_ports_def
    by (rule get_expr_attaches_nothing [OF _ get_exprs_attach_nothing(2)]) (auto split: if_splits dest!: bridge intro: upd)
qed

lemma sai_switch_init_attaches_nothing:
  assumes "sai_switch_init sai e a = Inr (st, a')"
  shows "attaches_nothing a a'"
proof -
  have v: "attaches_nothing b a'" if "SAI_RET_ERR (var_expr x) id y (switch_init_ports sai) = Inr (st, a')" "attaches_nothing b y" for x b y
    using that by (cases "x = SAI_STATUS_SUCCESS") (auto dest!: ports_part_attaches_nothing intro: attaches_nothing_trans)
  show ?thesis
    using assms unfolding sai_switch_init_def
    by (elim status_expr_attaches_nothing) (auto simp: sai_create_eq Let_def split: if_splits elim!: v)
qed

lemma vlan_init_attaches_nothing:
  assumes "saiagent_vlan_init sai e a = Inr (rc, a')"
  shows "attaches_nothing a a'"
proof -
  have init: "attaches_nothing b c" if "sai_vlan_default_init sai e b = Inr (st, c)" for st b c
    using that unfolding sai_vlan_default_init_def
    by (elim status_expr_attaches_nothing)
      (auto simp: Let_def saiagent_vlan_add_new_def split: if_splits
        elim!: get_expr_attaches_nothing [OF _ get_exprs_attach_nothing(1)])
  have log: "attaches_nothing a (a\<lparr>sai_log := sai_log a @ [(Sai_log_set x y, r)]\<rparr>)" for x y r by simp
  from assms init attaches_nothing_trans [OF log] show ?thesis
    unfolding vlan_init_eq sai_status_eq by (fastforce split: if_splits)
qed

lemma switch_init_attaches_nothing:
  assumes "saiagent_ipc_process_switch_init sai e q r a = Inr (m, a')"
  shows "attaches_nothing a a'"
proof -
  obtain rc b where b: "saiagent_switch_init sai e a = Inr (rc, b)"
    using assms by (auto simp: process_switch_init_eq)
  then obtain st c where c: "sai_switch_init sai e a = Inr (st, c)"
    and "b = c \<or> b = snd (agent_cb_set PRESTERA_CMD_TYPE_KEEPALIVE_INIT Process_keepalive_init
               (agent_cb_set PRESTERA_CMD_TYPE_SWITCH_ATTR_SET Process_switch_attr_set
                 (agent_cb_set PRESTERA_CMD_TYPE_SWITCH_RESET Process_switch_reset
                   (uninit_status e Switch_Init, c))))"
    unfolding saiagent_switch_init_def by (auto split: if_splits)
  then have ab: "attaches_nothing a b"
    using sai_switch_init_attaches_nothing [OF c] by auto
  have parts: "attaches_nothing a (snd (saiagent_fdb_init e (snd (saiagent_port_init e b))))"
    using ab by (simp add: fdb_init_eq port_init_eq)
  have router: "attaches_nothing c (snd (saiagent_router_init e d)) = attaches_nothing c d" for c d
    by (simp add: router_init_eq)
  have init: "attaches_nothing a c"
    if "saiagent_vlan_init sai e (snd (saiagent_fdb_init e (snd (saiagent_port_init e b)))) = Inr (st, c)" for st c
    using parts vlan_init_attaches_nothing [OF that] by (rule attaches_nothing_trans)
  show ?thesis
    using assms ab
    by (auto simp: process_switch_init_eq b init_components_def router split: if_splits
        dest!: reply_ack_state reply_data_state init)
qed

text \<open>The one handler that attaches ports.\<close>

lemma vlan_find_cached: "vlan_find l vid = Some oid \<Longrightarrow> oid \<in> vlan_oid ` set l"
  by (induction l) (auto simp: vlan_find_def split: if_splits)

lemma port_set_members_cached:
  assumes "saiagent_ipc_process_vlan_port_set sai e q r a = Inr (m, a')" "request_ok q" "reply_ok r" "members_cached a"
  shows "members_cached a'"
proof -
  obtain st where r: "sai_vlan_add_port_member sai e (req_word 12 2 q) (req_word 4 4 q) ((req_word 15 1 q :: u8) \<noteq> 0) a = Inr (st, a')"
    using assms(1) by (auto simp: vlan_port_set_eq [OF assms(2)] dest!: reply_ack_state)
  have "set (vlan_list a) \<subseteq> set (vlan_list a')"
    using add_port_member_run [OF r] by (auto simp: vlan_run_def)
  with assms(4) have old: "\<forall>(oid, br, tag) \<in> set (members (vlan_abs a)). oid \<in> vlan_oid ` set (vlan_list a')"
    by (fastforce simp: members_cached_def vlan_abs_def)
  from port_set_refines [OF assms(1-3)] obtain ok where
    "spec_step (request_of a q) ok (vlan_abs a) (vlan_abs a')" by blast
  then have "\<forall>(oid, br, tag) \<in> set (members (vlan_abs a')). oid \<in> vlan_oid ` set (vlan_list a')"
  proof (cases rule: spec_step.cases)
    case (attached vid br tag oid)
    have "vlans (vlan_abs a') = vlan_find (vlan_list a')" by (simp add: vlan_abs_def)
    with attached old show ?thesis
      by (auto simp: spec_attach_def split: option.splits intro: vlan_find_cached)
  qed (use old in auto)
  then show ?thesis by (simp add: members_cached_def vlan_abs_def)
qed

lemma members_cached_run_cb:
  assumes "run_cb sai e cb q r a = Inr (m, a')" "request_ok q" "reply_ok r" "members_cached a"
  shows "members_cached a'"
proof (cases "cb = Process_vlan_port_set")
  case True
  with assms port_set_members_cached show ?thesis by simp
next
  case False
  with assms(1) have "attaches_nothing a a'"
    by (cases cb) (auto dest: port_handlers_attach_nothing ack_handlers_attach_nothing pvid_set_attaches_nothing
        keepalive_reset_attach_nothing switch_init_attaches_nothing)
  then show ?thesis using assms(4) by (rule members_cached_nothing)
qed


section \<open>The loop\<close>

interpretation member_cbs: ipc_callbacks "run_cb sai e" "\<lambda>a. agent_ok a \<and> members_cached a" for sai e
  by unfold_locales (use agent_cbs.callback members_cached_run_cb in blast)

lemma members_cached_ipc [simp]: "members_cached (a\<lparr>ipc := ctx\<rparr>) = members_cached a"
  by (simp add: members_cached_def)

lemma members_cached_turn:
  assumes "loop_ok s" "members_cached (agent_of s)" "ipc_turn sai i s = Inr s'"
  shows "members_cached (agent_of s')"
proof -
  have m: "recv_1500 (in_msg s)" and o: "recv_1500 (out_msg s)" and a: "agent_ok (agent_of s)"
    using assms(1) by (simp_all add: loop_ok_def)
  obtain st m where r: "saiagent_ipc_recv (rx_rc i) (rx_msgs i) (in_msg s) = Inr (st, m)" "recv_1500 m"
    using recv_returns [OF m] by blast
  obtain rb ob where rb: "buf m = Some rb" "length rb = SAIAGENT_MSG_MAX_SIZE"
    and ob: "buf (out_msg s) = Some ob" "length ob = SAIAGENT_MSG_MAX_SIZE"
    and osz: "recv_size (out_msg s) = of_nat SAIAGENT_MSG_MAX_SIZE"
    using r(2) o by (auto simp: recv_1500_def)
  have "members_cached b"
    if "saiagent_ipc_process_req (run_cb sai (cb_env i)) (ipc_cb_list (ipc (agent_of s))) (Some rb) (recv_payload_size m)
          (Some ob) (of_nat SAIAGENT_MSG_MAX_SIZE) (agent_of s) = Inr (rc, c, n, b)" for rc c n b
    using member_cbs.process_req_reply [OF conjI [OF a assms(2)] rb(2) ob(2) that] by blast
  with assms(2,3) show ?thesis
    by (auto simp: ipc_turn_def r(1) rb(1) ob(1) osz Let_def simp del: of_nat_numeral split: if_splits)
qed

lemma members_cached_step:
  assumes "agent_step sai s s'" "loop_ok s" "members_cached (agent_of s)"
  shows "members_cached (agent_of s')"
  using assms
proof (cases rule: agent_step.cases)
  case (turn i)
  with assms(2,3) show ?thesis by (blast intro: members_cached_turn)
next
  case (notify evt e data a')
  then have "\<exists>x. a' = (agent_of s)\<lparr>ipc := x\<rparr>"
    using port_events_eq [OF notify(2), of e 0 data "agent_of s"] by (auto simp: sai_on_port_state_change_notify_def)
  with notify(1) assms(3) show ?thesis by auto
next
  case (pulse nl a')
  with assms(3) show ?thesis by (auto simp: keepalive_eq)
qed

section \<open>A session: the switch is created, then a port is added to a VLAN\<close>

text \<open>A turn with one well-formed request: the handler that runs, and what it leaves.\<close>

lemma turn_with_request:
  assumes s: "loop_ok s" and lib: "sai_conforms sai" "sai_fits sai" "env_ok (cb_env i)"
    and i: "rx_rc i = 0" "rx_msgs i = [x]" "carries x bs" "4 \<le> length bs"
    and cb: "request_cmd bs < PRESTERA_CMD_TYPE_MAX" "ipc_cb_list (ipc (agent_of s)) (request_cmd bs) = Some cb"
    and safe: "\<And>b n. cb_safe sai (cb_env i) (agent_of s) (request_msg (bs @ b) n) cb"
  shows "\<exists>s' b n reply reply' a' ctx. ipc_turn sai i s = Inr s' \<and> length (bs @ b) = SAIAGENT_MSG_MAX_SIZE \<and> reply_ok reply \<and>
    run_cb sai (cb_env i) cb (request_msg (bs @ b) n) reply (agent_of s) = Inr (reply', a') \<and>
    agent_of s' = a'\<lparr>ipc := ctx\<rparr> \<and> running ctx = running (ipc a') \<and> ipc_cb_list ctx = ipc_cb_list (ipc a')"
proof -
  have len: "length bs < SAIAGENT_MSG_MAX_SIZE" using i(3) by (simp add: carries_def)
  obtain m b where m: "saiagent_ipc_recv (rx_rc i) (rx_msgs i) (in_msg s) = Inr (RC_STATUS_OK, m)"
      "buf m = Some (bs @ drop (length bs) b)" "length b = SAIAGENT_MSG_MAX_SIZE" "recv_payload_size m = of_nat (length bs)"
    using recv_last [of "in_msg s" x bs "[]"] s i(1-3) by (auto simp: loop_ok_def)
  let ?b = "bs @ drop (length bs) b"
  have bl: "length ?b = SAIAGENT_MSG_MAX_SIZE" using m(3) len by simp
  have "unat (of_nat (length bs) :: size_t) = length bs" using len by (simp add: unat_of_nat)
  then have sz: "\<not> recv_payload_size m < 4" using i(4) unfolding m(4) word_less_nat_alt by simp
  have cmd: "request_cmd ?b = request_cmd bs" using i(4) by (simp add: request_cmd_def)
  have "request_safe sai (cb_env i) (agent_of s) ?b (recv_payload_size m)"
    using safe cb by (simp add: request_safe_def cmd)
  then obtain s' where t: "ipc_turn sai i s = Inr s'" using turn_returns [OF s lib m(1,2) bl] by blast
  from turn_ran [OF s t m(1,2) bl sz] cb [folded cmd] t bl show ?thesis by blast
qed

text \<open>\<open>SWITCH_INIT\<close> in the state the agent waits in.\<close>

lemma vlan_init_running:
  assumes "saiagent_vlan_init sai e a = Inr (rc, a')"
  shows "running (ipc a') = running (ipc a)"
proof -
  have "ipc c = ipc b" if "sai_vlan_default_init sai e b = Inr (st, c)" for b c st
    using vlan_run_fields [OF vlan_default_init_run [OF that]] by simp
  with assms show ?thesis unfolding vlan_init_eq sai_status_eq by (fastforce split: if_splits)
qed

lemma session_switch_init:
  assumes "reply_ok reply" "saiagent_ipc_process_switch_init ok_lib ok_env q reply (agent_of waiting) = Inr (m, a')"
  shows "running (ipc a') = 1 \<and> ipc_cb_list (ipc a') PRESTERA_CMD_TYPE_VLAN_PORT_SET = Some Process_vlan_port_set \<and>
    br_port_list (sw_info a') ! 1 = 22"
proof -
  have n: "replicate 64 (0 :: sai_object_id_t) = 0 # 0 # replicate 62 0" by (simp add: numeral_eq_Suc)
  obtain b where b: "saiagent_switch_init ok_lib ok_env (agent_of waiting) = Inr (RC_STATUS_OK, b)" "running (ipc b) = 1"
      "br_port_list (sw_info b) ! 1 = 22" "default_vlan_oid (sw_info b) = 8"
    by (simp add: saiagent_switch_init_def agent_cb_set_eq switch_eval ok_lib_eval waiting_def started_def loop_entry_def
      agent_start_def n)
  let ?d = "snd (saiagent_fdb_init ok_env (snd (saiagent_port_init ok_env b)))"
  have d: "running (ipc ?d) = 1" "sw_info ?d = sw_info b" "default_vlan_oid (sw_info ?d) = 8"
    using b by (simp_all add: fdb_init_eq port_init_eq)
  obtain c l where c: "saiagent_vlan_init ok_lib ok_env ?d = Inr (RC_STATUS_OK, c)" "sai_log c = sai_log ?d @ l" "log_ok l"
    using ok_lib_vlan_init [OF d(3)] by blast
  have cb: "ipc_cb_list (ipc c) = (ipc_cb_list (ipc ?d))
           (PRESTERA_CMD_TYPE_VLAN_CREATE := Some Process_vlan_create,
            PRESTERA_CMD_TYPE_VLAN_DELETE := Some Process_vlan_delete,
            PRESTERA_CMD_TYPE_VLAN_PORT_SET := Some Process_vlan_port_set,
            PRESTERA_CMD_TYPE_VLAN_PVID_SET := Some Process_vlan_pvid_set,
            PRESTERA_CMD_TYPE_STP_PORT_SET := Some Process_stp_port_set)"
    using vlan_init_clean [OF c(1)] c(2,3) d(3) by (simp add: clean_def ok_env_def)
  have "a' = snd (saiagent_router_init ok_env c)"
    using assms(2) by (auto simp: process_switch_init_eq b init_components_def c(1) split: if_splits
        dest!: reply_ack_state reply_data_state)
  then show ?thesis
    using vlan_init_running [OF c(1)] vlan_init_frame [OF c(1)] d b(3) cb by (simp add: router_init_eq)
qed

text \<open>The session: two requests that arrive one after the other.\<close>

abbreviation add_request_bytes :: "u8 list" where
  "add_request_bytes \<equiv> [2, 2, 0, 0, 1, 0, 0, 0, 1, 0, 0, 0, 10, 0, 1, 1]"

lemma session_attaches:
  "\<exists>s. reachable ok_lib s \<and> granted (10, 22, True) (vlan_abs (agent_of s))"
proof -
  let ?init = "request_input 7 1 [1, 0, 0, 0]" and ?add = "request_input 7 2 add_request_bytes"
  have env: "env_ok (cb_env (request_input p q bs))" "cb_env (request_input p q bs) = ok_env"
    "rx_rc (request_input p q bs) = 0" "rx_msgs (request_input p q bs) = [request_from p q bs]" for p q bs
    by (simp_all add: request_input_def ok_env_ok)
  have malloc: "malloc_hw_type_ok (cb_env (request_input p q bs))" for p q bs by (simp add: env(2) ok_env_def)
  have w: "running (ipc (agent_of waiting)) \<noteq> 0"
      "ipc_cb_list (ipc (agent_of waiting)) (request_cmd [1, 0, 0, 0]) = Some Process_switch_init"
    by (simp_all add: waiting_def started_def loop_entry_def request_cmd_def)
  obtain s1 b1 n1 reply1 m1 a1 ctx1 where t1: "ipc_turn ok_lib ?init waiting = Inr s1" "reply_ok reply1"
      "run_cb ok_lib (cb_env ?init) Process_switch_init (request_msg ([1, 0, 0, 0] @ b1) n1) reply1 (agent_of waiting) = Inr (m1, a1)"
      "agent_of s1 = a1\<lparr>ipc := ctx1\<rparr>" "running ctx1 = running (ipc a1)" "ipc_cb_list ctx1 = ipc_cb_list (ipc a1)"
    using turn_with_request [OF waiting_ok ok_lib_conforms ok_lib_fits env(1,3,4) carries_request_from _ _ w(2), of 7 1]
    by (auto simp: malloc request_cmd_def simp del: run_cb.simps)
  have r1: "reachable ok_lib s1" by (rule reachable.step [OF reachable_waiting agent_step.turn [OF w(1) t1(1)]])
  note ok1 = reachable_loop_ok [OF r1]
  have s1: "running (ipc (agent_of s1)) \<noteq> 0"
      "ipc_cb_list (ipc (agent_of s1)) (request_cmd add_request_bytes) = Some Process_vlan_port_set"
      "br_port_list (sw_info (agent_of s1)) ! 1 = 22"
    using session_switch_init [OF t1(2)] t1(3-6) by (auto simp: env(2) request_cmd_def)
  have words: "(req_word 4 4 (request_msg (add_request_bytes @ b) n) :: u32) = 1"
      "(req_word 12 2 (request_msg (add_request_bytes @ b) n) :: u16) = 10"
      "(req_word 15 1 (request_msg (add_request_bytes @ b) n) :: u8) = 1" for b n
    by (simp_all add: req_word_def request_msg_def slice_def)
  have safe: "cb_safe ok_lib e a (request_msg (add_request_bytes @ b) n) Process_vlan_port_set" for e a b n
    unfolding cb_safe.simps words by simp
  obtain s2 b2 n2 reply2 m2 a2 ctx2 where t2: "ipc_turn ok_lib ?add s1 = Inr s2"
      "length (add_request_bytes @ b2) = SAIAGENT_MSG_MAX_SIZE" "reply_ok reply2"
      "run_cb ok_lib (cb_env ?add) Process_vlan_port_set (request_msg (add_request_bytes @ b2) n2) reply2 (agent_of s1) = Inr (m2, a2)"
      "agent_of s2 = a2\<lparr>ipc := ctx2\<rparr>"
    using turn_with_request [OF ok1 ok_lib_conforms ok_lib_fits env(1,3,4) carries_request_from _ _ s1(2) safe, of 7 2]
    by (auto simp: request_cmd_def)
  let ?q = "request_msg (add_request_bytes @ b2) n2"
  have q: "request_ok ?q" using t2(2) by (rule request_ok_request_msg)
  have "agent_ok (agent_of s1)" using ok1 by (simp add: loop_ok_def)
  then obtain c where c: "sai_vlan_add_port_member ok_lib ok_env 10 1 True (agent_of s1) = Inr (SAI_STATUS_SUCCESS, c)"
      "clean (agent_of s1) c"
    using add_port_member_succeeds [OF ok_lib_conforms ok_lib_fits ok_env_ok, of "agent_of s1" 1 10 True] s1(3)
    by (auto simp: ok_lib_def ok_env_def)
  have "bind_o (sai_vlan_add_port_member ok_lib ok_env 10 1 ((1 :: u8) \<noteq> 0) (agent_of s1)) (\<lambda>(st, a).
      reply_ack reply2 (if st \<noteq> SAI_STATUS_SUCCESS then RC_STATUS_ERR else RC_STATUS_OK) a) = Inr (m2, a2)"
    using t2(4) unfolding run_cb.simps env(2) vlan_port_set_eq [OF q] words .
  then have "a2 = c" by (auto simp: c(1) dest!: reply_ack_state)
  moreover have "spec_step (10, 22, True) True (vlan_abs (agent_of s1)) (vlan_abs c)"
    using add_port_member_refines [OF c(1)] c(2) s1(3) by simp
  ultimately have "granted (10, 22, True) (vlan_abs a2)" using spec_step_granted by simp
  moreover have "vlan_abs (agent_of s2) = vlan_abs a2" by (simp add: t2(5) vlan_abs_def)
  moreover have "reachable ok_lib s2" by (rule reachable.step [OF r1 agent_step.turn [OF s1(1) t2(1)]])
  ultimately show ?thesis by metis
qed

section \<open>Properties\<close>

text \<open>
  C10. In every reachable state of the agent, over any interleaving of requests, notifications
  and pulses and whatever the library answers, each port that was attached was attached to a
  VLAN the cache has: no member is left of a VLAN the agent has forgotten.
\<close>

theorem reachable_members_cached:
  assumes "reachable sai s"
  shows "\<forall>(oid, br, tag) \<in> set (logged_members (sai_log (agent_of s))). oid \<in> vlan_oid ` set (vlan_list (agent_of s))"
proof -
  from assms have "members_cached (agent_of s)"
  proof (induction rule: reachable.induct)
    case (entry nl ctx freed l a ne rc ms ctx' mem mem' m m')
    have "sai_log a = l" using entry(2) by (auto simp: saiagent_switch_ipc_init_def Let_def split: prod.splits)
    moreover have "logged_members l = []"
      using entry(6) by (induction l) (auto split: option.split)
    ultimately show ?case by (simp add: loop_entry_def members_cached_def)
  next
    case (step s s')
    then show ?case using members_cached_step reachable_loop_ok by blast
  qed
  then show ?thesis by (simp add: members_cached_def)
qed

theorem reachable_members_cached_witness:
  "\<exists>s oid. reachable ok_lib s \<and> (oid, 22, True) \<in> set (logged_members (sai_log (agent_of s))) \<and>
    oid \<in> vlan_oid ` set (vlan_list (agent_of s))"
proof -
  obtain s oid where s: "reachable ok_lib s" "(oid, 22, True) \<in> set (logged_members (sai_log (agent_of s)))"
    using session_attaches by (auto simp: granted_def vlan_abs_def)
  with reachable_members_cached [OF s(1)] show ?thesis by fast
qed

end
