(* ===== verification/Spec2Isabelle.thy ===== *)
theory Spec2Isabelle
  imports Saiagent_Main Saiagent_Members
begin

text \<open>
  A verification development for the SAI agent: the daemon that receives the switch driver's
  commands over a generic netlink channel and carries them out through the Switch
  Abstraction Interface (SAI).

  \<^bold>\<open>The program and its parts.\<close>  \<open>main\<close> (\<open>src/saiagent.c\<close>) reads the command line and the profile,
  initialises the SAI library, sets the channel up (\<open>src/saiagent_ipc.c\<close>), registers the one
  handler a driver needs first, shakes hands with the driver and enters the request loop.
  A turn of the loop receives a message, reads its command word, calls the handler the
  callback table has for it, and sends the handler's reply back with the sender's port and
  sequence number.  Handlers belong to the switch, port, VLAN, FDB and router components;
  they read a packed structure of \<open>linux/prestera/prestera_hw_cmd.h\<close> from the request buffer and write
  one into the reply buffer with the message operations of \<open>src/saiagent_msg.c\<close>.
  \<open>SWITCH_INIT\<close> creates the switch and registers the other handlers, \<open>KEEPALIVE_INIT\<close> starts
  a thread (\<open>src/saiagent_thread.c\<close>) that sends a pulse event at an interval, the library calls back with
  port notifications, which are sent as events, and \<open>SWITCH_RESET\<close> stops the thread, removes
  the switch and ends the loop.

  \<^bold>\<open>The theories.\<close>
  \<^item> \<open>Prelude\<close>: machine integers, outcomes (a value, or the way a C program gets stuck),
    byte images of words, slices and patches of byte arrays, return codes.
  \<^item> \<open>C_Layout\<close>: descriptions of C types, their sizes, offsets and member paths.
  \<^item> \<open>Prestera_Hw_Cmd\<close>: the enumerations and structures of \<open>prestera_hw_cmd.h\<close>, \<open>prestera_event.h\<close>
    and the size test \<open>tests/check_saiagent.c\<close>, one definition per C declaration.
  \<^item> \<open>Saiagent_Msg\<close>: \<open>struct saiagent_msg\<close> and all its operations on 32-bit words.
  \<^item> \<open>Saiagent_Ipc\<close>: the channel: set-up, send, receive callback, callback table, dispatch,
    acknowledgement replies; the locale \<open>ipc_callbacks\<close> is what it asks of a handler.
  \<^item> \<open>Saiagent_Sai\<close>: the calls made to the SAI library and what they return.
  \<^item> \<open>Saiagent_Thread\<close>: thread contexts on a heap, and the looping thread with its owner as
    the step relation \<open>thread_step\<close>.
  \<^item> \<open>Saiagent_Agent\<close>: the static state of all components in one record \<open>agent\<close>, the environment
    record \<open>env\<close>, \<open>SAI_RET_ERR\<close> on the expressions it repeats, the accessors of \<open>saiagent_switch.h\<close>, the invariant \<open>agent_ok\<close>.
  \<^item> \<open>Saiagent_Port\<close>, \<open>Saiagent_Vlan\<close>, \<open>Saiagent_Fdb\<close>, \<open>Saiagent_Router\<close>, \<open>Saiagent_Switch\<close>: the
    handlers of the files of the same names; the locale \<open>vid_cache\<close> of \<open>Saiagent_Vlan\<close> states
    the laws of the VLAN cache.
  \<^item> \<open>Saiagent_Loop\<close>: \<open>run_cb\<close>, the call through a callback pointer, which interprets
    \<open>ipc_callbacks\<close>; the loop \<open>ipc_loop\<close>; the agent as the transition system \<open>agent_step\<close> with
    its \<open>reachable\<close> states.
  \<^item> \<open>Saiagent_Vlan_Spec\<close>: an abstract VLAN service, its state a map and a list of attached
    ports, its requests the steps of \<open>spec_step\<close>; the abstraction \<open>vlan_abs\<close> from the agent's
    cache and log, and the refinement.
  \<^item> \<open>Saiagent_Members\<close>: that component inside the running agent: a second interpretation of
    \<open>ipc_callbacks\<close>, whose invariant relates the members created to the cache.
  \<^item> \<open>Saiagent_Main\<close>: the profile parser and its services, the command line, \<open>main\<close>.

  A definition has the name of the C function, type or macro it translates.  State is passed
  explicitly; every early return, error code and undefined behaviour is a branch.  An
  out-of-bounds access, a null, dangling or unset pointer, a bad \<open>free\<close>, a signed overflow and a
  wait that never ends are the values of the type \<open>stuck\<close>.

  \<^bold>\<open>The macro \<open>SAI_RET_ERR\<close>.\<close>  It has its argument \<open>status\<close> twice, in the test and in
  \<open>return status\<close>, so a SAI call that fails is made a second time and the second status is
  what the operation returns.  The model has the argument as a function of the state, and
  evaluates it again in the state the failed call left: the log then has both calls, and a
  query is repeated with the count and the array the first one stored into (\<open>get_expr\<close>,
  \<open>switch_get_expr\<close>, \<open>bridge_get_expr\<close>).  An operation can therefore return success because
  a repetition succeeded; \<open>retried\<close> describes these runs, \<open>clean\<close> those of which no call
  failed, and the theorems on successful runs say which they are about.

  \<^bold>\<open>What the lemmas show.\<close>  The message operations append exactly what they are given or refuse and
  change nothing, words written are read back, and every structure member lies inside its
  structure.  Receiving stays inside the buffer.  Every handler keeps \<open>agent_ok\<close> and leaves a
  well-formed acknowledgement, hence in every reachable state every reply sent is one, over
  any interleaving of turns, notifications and pulses; a request that does not get stuck is
  answered once, requests are answered in order, and a reset ends the loop.  For the
  operations on the switch and on VLANs the exact sequence of library calls of a successful
  run that is not \<open>retried\<close> is given; the VLAN cache is a finite map and a VLAN is created once.  The VLAN requests
  refine an abstract service in which what is granted, with no call failing, stays, and every member ever created
  is of a VLAN in the cache.  The thread's
  relation has a bound on the steps after a stop, and the states from which a join can return
  are characterised.  Where the code does not do what it
  should, the theorem states what it does instead: a failed call that is repeated and reported
  as success, a list that is written past its end by the repetition, port numbers that are
  not checked, members created twice, a join that never returns, a reply decided by an unassigned local, a receive that
  replays the last request, a batch of which only the last request is answered.

  \<^bold>\<open>Parameters of the model.\<close>  The SAI library is a function from the calls made so far and the present
  call to its result (\<open>sai_lib\<close>), so it may answer from any internal state; the contract
  \<open>sai_conforms\<close> is the documented one on object lists: no more elements are stored than the
  count passed, and after a success the count is the number stored.  \<open>sai_fits\<close> says that no
  list needs more than the 64 elements of the agent's arrays; the theorems that an operation
  returns have both hypotheses, and \<open>member_list_overrun\<close> shows what happens without the second.  The libnl calls (\<open>nl_setup\<close>, \<open>nl_env\<close>,
  \<open>nl_in\<close>) and pthread calls (\<open>thread_env\<close>) are records of what they return.  The content of locals
  that are read without having been assigned (\<open>uninit_status\<close>, \<open>member_list_junk\<close>, the receive
  structures at entry) and of the one padding byte of a reply are parameters as well, so a
  theorem holds for every content.  Structures with an initialiser start as zeros.

  \<^bold>\<open>Bounds.\<close>  The arrays of object identifiers have 64 elements and the loop's buffers 1500 bytes, as
  in the code.  Loops over finite data recurse on it; \<open>resolve_family\<close>, which waits for the driver
  to appear, is a \<open>partial_function\<close> whose value is \<open>None\<close> when it never does; \<open>profile_lines\<close>
  terminates because each line consumes a character; \<open>ipc_loop\<close> recurses on the inputs that
  arrive, and its result says whether it exited or waits for the next one.  No fuel is used.

  \<^bold>\<open>Atomicity.\<close>  A turn of the loop, a notification call and a pulse are steps of their own:
  notifications and pulses touch nothing but the socket, whose own locking is libnl's.  The
  thread's \<open>running\<close> flag, which is shared without a lock, is modelled access by access in
  \<open>thread_step\<close>.

  \<^bold>\<open>Not modelled.\<close>  The logging macros of \<open>saiagent_log.h\<close>, which only print; the build files; the
  \<open>FILE\<close> pointer that the option \<open>-f\<close> stores after closing the file, of which only the file's
  name is kept, since nothing reads it; the interior of the SAI, libnl, libc and pthread
  libraries.
\<close>

section \<open>The program as a whole\<close>

text \<open>The agent's state when \<open>main\<close> has come to an end or waits.\<close>

definition agent_at :: "main_result \<Rightarrow> agent option" where
  "agent_at r = (case r of Exits code a freed \<Rightarrow> Some a | Waits_For_Driver \<Rightarrow> None | Waits_For_Request s \<Rightarrow> Some (agent_of s))"

lemma loop_result_replies:
  assumes "reachable sai s" "ipc_loop sai is s = Inr q" "q = Loop_Waits s' \<or> q = Loop_Exit s'"
  shows "replies_ok (nl_sent (ipc (agent_of s')))"
  using ipc_loop_reachable [OF assms(1,2)] assms(3) by (auto dest: reachable_loop_ok simp: loop_ok_def)

text \<open>Nothing has been sent when the channel is set up, and only the handshake before the loop.\<close>

lemma setup_unsent:
  assumes "saiagent_ipc_init nl (ipc agent_start) = Some (rc, ctx, freed)"
  shows "nl_sent ctx = []"
  using ipc_init_keeps [OF assms] by (simp add: agent_start_def)

lemma handler_unsent:
  assumes "saiagent_switch_ipc_init a = (rc, b)"
  shows "nl_sent (ipc b) = nl_sent (ipc a)"
  using assms by (auto simp: saiagent_switch_ipc_init_def saiagent_ipc_cb_set_def split: if_splits)

lemma handshake_replies:
  assumes "saiagent_ipc_drv_init ne rc ms ctx = Inr (st, ctx')" "nl_sent ctx = []"
  shows "replies_ok (nl_sent ctx')"
  using drv_init_keeps [OF assms(1)] assms(2) by (auto simp: replies_ok_def)

lemma main_ipc_replies:
  assumes "main_ipc sai w (agent_start\<lparr>sai_log := l\<rparr>) = Inr r" "in_mem w = Some mem" "out_mem w = Some mem'"
    "length mem = SAIAGENT_MSG_MAX_SIZE" "length mem' = SAIAGENT_MSG_MAX_SIZE" "agent_at r = Some a"
    "fst ` set l \<subseteq> {Sai_api_initialize, Sai_log_set SAI_API_SWITCH SAI_LOG_LEVEL_INFO}"
  shows "replies_ok (nl_sent (ipc a))"
proof -
  have ipc: "ipc (agent_start\<lparr>sai_log := l\<rparr>) = ipc agent_start" by simp
  have upd: "agent_start\<lparr>sai_log := l, ipc := ctx\<rparr> = agent_start\<lparr>ipc := ctx, sai_log := l\<rparr>" for ctx by simp
  show ?thesis
  proof (cases "saiagent_ipc_init (nl_calls w) (ipc agent_start)")
    case None
    with assms(1,6) show ?thesis by (auto simp: main_ipc_def ipc agent_at_def)
  next
    case (Some i)
    obtain rc ctx freed where i: "saiagent_ipc_init (nl_calls w) (ipc agent_start) = Some (rc, ctx, freed)"
      using Some by (cases i) simp
    obtain rc' b where b: "saiagent_switch_ipc_init (agent_start\<lparr>ipc := ctx, sai_log := l\<rparr>) = (rc', b)" by fastforce
    show ?thesis
    proof (cases "rc = RC_STATUS_OK \<and> rc' = RC_STATUS_OK")
      case False
      with assms(1,6) i b setup_unsent [OF i] handler_unsent [OF b] show ?thesis
        by (auto simp: main_ipc_def ipc Let_def upd main_exit_def agent_at_def replies_ok_def split: if_splits)
    next
      case True
      with assms(1) i b obtain st ctx' where d: "saiagent_ipc_drv_init (drv_calls w) (drv_rc w) (drv_msgs w) (ipc b) = Inr (st, ctx')"
        and rest: "st \<noteq> RC_STATUS_OK \<and> r = Exits EXIT_SUCCESS (b\<lparr>ipc := ctx'\<rparr>) (saiagent_ipc_deinit ctx') \<or>
          st = RC_STATUS_OK \<and> (\<exists>q. saiagent_ipc_enter_loop sai (inputs w) (in_junk w) (out_junk w) (in_mem w) (out_mem w)
            (b\<lparr>ipc := ctx'\<rparr>) = Inr q \<and> (case q of Loop_Waits s \<Rightarrow> r = Waits_For_Request s
            | Loop_Exit s \<Rightarrow> main_exit (snd (sai_status sai Sai_api_uninitialize (agent_of s))) = Inr r))"
        by (auto simp: main_ipc_def ipc Let_def upd main_exit_def split: if_splits loop_result.splits)
      have "nl_sent (ipc b) = []" using handler_unsent [OF b] setup_unsent [OF i] by simp
      note sent = handshake_replies [OF d this]
      from rest show ?thesis
      proof (elim disjE conjE exE)
        assume "r = Exits EXIT_SUCCESS (b\<lparr>ipc := ctx'\<rparr>) (saiagent_ipc_deinit ctx')"
        with assms(6) sent show ?thesis by (auto simp: agent_at_def)
      next
        fix q
        assume st: "st = RC_STATUS_OK" and q: "saiagent_ipc_enter_loop sai (inputs w) (in_junk w) (out_junk w) (in_mem w)
            (out_mem w) (b\<lparr>ipc := ctx'\<rparr>) = Inr q"
          and r: "case q of Loop_Waits s \<Rightarrow> r = Waits_For_Request s
            | Loop_Exit s \<Rightarrow> main_exit (snd (sai_status sai Sai_api_uninitialize (agent_of s))) = Inr r"
        have "reachable sai (loop_entry (in_junk w) (out_junk w) (Some mem) (Some mem') (b\<lparr>ipc := ctx'\<rparr>))"
          using reachable.entry [of "nl_calls w" ctx freed l b "drv_calls w" "drv_rc w" "drv_msgs w" ctx' mem mem' sai
              "in_junk w" "out_junk w"] i b True d st assms(4,5,7)
          by simp
        from loop_result_replies [OF this, of "inputs w" q] q r assms(6) show ?thesis
          by (auto simp: saiagent_ipc_enter_loop_def assms(2,3) agent_at_def main_exit_def sai_status_eq split: loop_result.splits)
      qed
    qed
  qed
qed

text \<open>
  C5. The program as a whole, when the loop's two buffers of 1500 bytes are allocated: however a
  run of \<open>main\<close> ends, or when it waits for a request, every reply it has sent is a well-formed
  acknowledgement, and a state it waits in is one of the reachable states of the
  transition system.
\<close>

theorem main_replies_ok:
  assumes "main sai w = Inr r" "in_mem w = Some mem" "out_mem w = Some mem'"
    "length mem = SAIAGENT_MSG_MAX_SIZE" "length mem' = SAIAGENT_MSG_MAX_SIZE"
  shows "(\<forall>s. r = Waits_For_Request s \<longrightarrow> reachable sai s) \<and>
    (\<forall>a. agent_at r = Some a \<longrightarrow>
      (\<forall>m \<in> set (nl_sent (ipc a)). out_type m = SAIAGENT_NL_TYPE_REPLY \<longrightarrow> (\<exists>bs. out_tlv m = Some bs \<and> good_reply bs)))"
proof (intro conjI allI impI)
  show "reachable sai s" if "r = Waits_For_Request s" for s
    by (rule main_waits_reachable [OF _ assms(2-5)]) (use assms(1) that in simp)
  fix a
  assume a: "agent_at r = Some a"
  have "replies_ok (nl_sent (ipc a))"
  proof (cases "nl_sent (ipc a) = []")
    case False
    have "nl_sent (ipc agent_start) = []" by (simp add: agent_start_def)
    from assms(1) show ?thesis
    proof (rule main_runs)
      fix b
      assume "r = Exits EXIT_FAILURE b []" "ipc b = ipc agent_start"
      with \<open>nl_sent (ipc agent_start) = []\<close> a False show ?thesis by (simp add: agent_at_def)
    qed (rule main_ipc_replies [OF _ assms(2-5) a])
  qed simp
  then show "\<forall>m \<in> set (nl_sent (ipc a)). out_type m = SAIAGENT_NL_TYPE_REPLY \<longrightarrow> (\<exists>bs. out_tlv m = Some bs \<and> good_reply bs)"
    by (simp add: replies_ok_def)
qed

theorem main_replies_ok_witness:
  "\<exists>s. main ok_lib quiet_world = Inr (Waits_For_Request s) \<and> reachable ok_lib s"
proof -
  obtain s where s: "main ok_lib quiet_world = Inr (Waits_For_Request s)" using quiet_main by blast
  have "in_mem quiet_world = Some (replicate SAIAGENT_MSG_MAX_SIZE 0)"
    "out_mem quiet_world = Some (replicate SAIAGENT_MSG_MAX_SIZE 0)" by (simp_all add: quiet_world_def)
  from main_replies_ok [OF s this length_replicate length_replicate] s show ?thesis by blast
qed

end
